(* ===== verification/Calendar_Prelude.thy ===== *)
theory Calendar_Prelude
  imports Complex_Main "HOL-Library.Monad_Syntax"
begin

text \<open>
  Shared vocabulary of the development: instants as JavaScript time values
  (milliseconds since the epoch, UTC), JavaScript numbers that may be \<open>NaN\<close> or
  \<open>undefined\<close>, the \<open>Date\<close> getters and setters the availability code calls
  (\<open>getUTCHours\<close>, \<open>getUTCMinutes\<close>, \<open>setUTCHours\<close>, \<open>setUTCMinutes\<close>,
  \<open>toLocaleDateString(..., {weekday: 'long'})\<close>), and the arithmetic facts about
  them that the component theories share.  These are runtime-library semantics, not
  code of the repository; the server's local time zone is taken to be UTC.
\<close>

named_theorems date_simps "evaluation of the Date getters on instants given as day + minutes"

type_synonym instant = int

text \<open>A JavaScript number read from a string or a record field: \<open>None\<close> is \<open>NaN\<close>
  or \<open>undefined\<close>, which compare false with everything.\<close>

type_synonym js_num = "int option"

text \<open>A \<open>Date\<close> object: \<open>None\<close> is an Invalid Date (time value \<open>NaN\<close>).\<close>

type_synonym js_date = "instant option"

abbreviation ms_per_minute :: int where "ms_per_minute \<equiv> 60000"
abbreviation ms_per_hour :: int where "ms_per_hour \<equiv> 3600000"
abbreviation ms_per_day :: int where "ms_per_day \<equiv> 86400000"
abbreviation minutes_per_day :: int where "minutes_per_day \<equiv> 1440"

subsection \<open>JavaScript comparisons on possibly-NaN numbers\<close>

fun js_less :: "js_num \<Rightarrow> js_num \<Rightarrow> bool" where
  "js_less (Some a) (Some b) = (a < b)"
| "js_less _ _ = False"

fun js_less_eq :: "js_num \<Rightarrow> js_num \<Rightarrow> bool" where
  "js_less_eq (Some a) (Some b) = (a \<le> b)"
| "js_less_eq _ _ = False"

fun js_strict_eq :: "js_num \<Rightarrow> js_num \<Rightarrow> bool" where
  "js_strict_eq (Some a) (Some b) = (a = b)"
| "js_strict_eq _ _ = False"

text \<open>Truthiness of an optional string field: \<open>undefined\<close>, \<open>null\<close> and the empty
  string are falsy.\<close>

definition js_truthy_str :: "string option \<Rightarrow> bool" where
  "js_truthy_str s \<longleftrightarrow> (case s of Some x \<Rightarrow> x \<noteq> [] | None \<Rightarrow> False)"

subsection \<open>Date getters and setters (UTC)\<close>

definition utc_day_start :: "instant \<Rightarrow> instant" where
  "utc_day_start t = t - t mod ms_per_day"

definition utc_hours :: "js_date \<Rightarrow> js_num" where
  "utc_hours d = map_option (\<lambda>t. (t mod ms_per_day) div ms_per_hour) d"

definition utc_minutes :: "js_date \<Rightarrow> js_num" where
  "utc_minutes d = map_option (\<lambda>t. (t mod ms_per_hour) div ms_per_minute) d"

text \<open>\<open>d.setUTCHours(h, m, 0, 0)\<close>: the time of day is replaced; any \<open>NaN\<close>
  argument makes the date invalid.\<close>

definition set_utc_hours :: "instant \<Rightarrow> js_num \<Rightarrow> js_num \<Rightarrow> js_date" where
  "set_utc_hours t h m =
     (case (h, m) of
        (Some hh, Some mm) \<Rightarrow> Some (utc_day_start t + hh * ms_per_hour + mm * ms_per_minute)
      | _ \<Rightarrow> None)"

text \<open>\<open>d.setUTCMinutes(d.getUTCMinutes() + n)\<close> on a date whose seconds and
  milliseconds are zero moves it by \<open>n\<close> minutes.\<close>

definition add_utc_minutes :: "instant \<Rightarrow> int \<Rightarrow> instant" where
  "add_utc_minutes t n = t + n * ms_per_minute"

definition weekday_names :: "string list" where
  "weekday_names = [''Sunday'', ''Monday'', ''Tuesday'', ''Wednesday'', ''Thursday'',
                    ''Friday'', ''Saturday'']"

text \<open>\<open>toLocaleDateString('en-US', {weekday: 'long'})\<close>; day 0 of the epoch,
  1970-01-01, was a Thursday.\<close>

definition weekday_name :: "instant \<Rightarrow> string" where
  "weekday_name t = weekday_names ! nat ((t div ms_per_day + 4) mod 7)"

subsection \<open>Shared arithmetic on day-aligned instants\<close>

definition day_aligned :: "instant \<Rightarrow> bool" where
  "day_aligned t \<longleftrightarrow> t mod ms_per_day = 0"

lemma day_aligned_day_start [simp]: "day_aligned (utc_day_start t)"
  by (simp add: day_aligned_def utc_day_start_def)

lemma day_aligned_mod_hour:
  assumes "day_aligned D"
  shows "D mod ms_per_hour = 0"
proof -
  from assms obtain q where "D = ms_per_day * q"
    by (auto simp: day_aligned_def elim!: dvdE simp flip: dvd_eq_mod_eq_0)
  then show ?thesis by simp
qed

lemma mod_day_minutes:
  assumes "day_aligned D"
  shows "(D + x * ms_per_minute) mod ms_per_day = (x mod minutes_per_day) * ms_per_minute"
proof -
  have "(D + x * ms_per_minute) mod ms_per_day = (x * ms_per_minute) mod ms_per_day"
    using assms by (simp add: day_aligned_def mod_add_left_eq [symmetric])
  also have "\<dots> = (x mod minutes_per_day) * ms_per_minute"
    using mult_mod_left [of x minutes_per_day ms_per_minute] by simp
  finally show ?thesis .
qed

lemma utc_hours_minutes_at [date_simps]:
  assumes "day_aligned D"
  shows "utc_hours (Some (D + x * ms_per_minute)) = Some ((x mod minutes_per_day) div 60)"
proof -
  have "(x mod minutes_per_day) * ms_per_minute div ms_per_hour = (x mod minutes_per_day) div 60"
    using div_mult_mult2 [of ms_per_minute "x mod minutes_per_day" 60] by simp
  with mod_day_minutes [OF assms] show ?thesis by (simp add: utc_hours_def)
qed

lemma utc_minutes_minutes_at [date_simps]:
  assumes "day_aligned D"
  shows "utc_minutes (Some (D + x * ms_per_minute)) = Some (x mod 60)"
proof -
  have "(D + x * ms_per_minute) mod ms_per_hour = (x * ms_per_minute) mod ms_per_hour"
    using day_aligned_mod_hour [OF assms] by (simp add: mod_add_left_eq [symmetric])
  also have "\<dots> = (x mod 60) * ms_per_minute"
    using mult_mod_left [of x 60 ms_per_minute] by simp
  finally show ?thesis by (simp add: utc_minutes_def)
qed

text \<open>The two-field comparison \<open>h < H \<or> (h = H \<and> m < M)\<close> of the slot loop is a
  comparison of minutes of the day when the minute field \<open>M\<close> is at most 60
  (strict form) or below 60 (non-strict form).\<close>

lemma hm_less_iff:
  fixes y E eh em :: int
  assumes "0 \<le> y" "0 \<le> em" "em \<le> 60"
  shows "(y div 60 < eh \<or> (y div 60 = eh \<and> y mod 60 < em)) \<longleftrightarrow> y < 60 * eh + em"
proof -
  have "y = 60 * (y div 60) + y mod 60" "0 \<le> y mod 60" "y mod 60 < 60"
    by simp_all
  with assms show ?thesis by linarith
qed

lemma hm_less_eq_iff:
  fixes y E eh em :: int
  assumes "0 \<le> y" "0 \<le> em" "em < 60"
  shows "(y div 60 < eh \<or> (y div 60 = eh \<and> y mod 60 \<le> em)) \<longleftrightarrow> y \<le> 60 * eh + em"
proof -
  have "y = 60 * (y div 60) + y mod 60" "0 \<le> y mod 60" "y mod 60 < 60"
    by simp_all
  with assms show ?thesis by linarith
qed

lemma mod_mod_60_1440 [simp]: "(x mod minutes_per_day) mod 60 = (x :: int) mod 60"
  by (simp add: mod_mod_cancel)

end
