(* ===== verification/Geo.thy ===== *)
theory Geo
  imports Calendar_Prelude
begin

text \<open>
  The geographic helpers of src/booking-backend-main/src/utils/geospatial.ts:
  \<open>toRad\<close>, \<open>calculateDistance\<close> (Haversine formula, Earth radius 6371 km),
  \<open>getDistrictCoordinates\<close> over the table of Vienna's 23 district centres, and
  \<open>geocodeAddress\<close> against the external geocoding service.  JavaScript numbers are
  modelled as reals (no rounding, no \<open>NaN\<close>); \<open>Math.atan2\<close> is the ECMAScript
  function on reals (signed zeros ignored).
\<close>

subsection \<open>Distance\<close>

definition earth_radius_km :: real where
  "earth_radius_km = 6371"

definition to_rad :: "real \<Rightarrow> real" where
  "to_rad v = v * pi / 180"

definition js_atan2 :: "real \<Rightarrow> real \<Rightarrow> real" where
  "js_atan2 y x =
     (if 0 < x then arctan (y / x)
      else if x < 0 then (if 0 \<le> y then arctan (y / x) + pi else arctan (y / x) - pi)
      else if 0 < y then pi / 2 else if y < 0 then - (pi / 2) else 0)"

definition haversine_a :: "real \<Rightarrow> real \<Rightarrow> real \<Rightarrow> real \<Rightarrow> real" where
  "haversine_a lat1 lng1 lat2 lng2 =
     (let dLat = to_rad (lat2 - lat1); dLon = to_rad (lng2 - lng1)
      in sin (dLat / 2) * sin (dLat / 2) +
         cos (to_rad lat1) * cos (to_rad lat2) * sin (dLon / 2) * sin (dLon / 2))"

definition calculate_distance :: "real \<Rightarrow> real \<Rightarrow> real \<Rightarrow> real \<Rightarrow> real" where
  "calculate_distance lat1 lng1 lat2 lng2 =
     (let a = haversine_a lat1 lng1 lat2 lng2;
          c = 2 * js_atan2 (sqrt a) (sqrt (1 - a))
      in earth_radius_km * c)"

subsection \<open>District centres\<close>

definition vienna_district_coordinates :: "(int \<times> real \<times> real) list" where
  "vienna_district_coordinates =
     [(1, 48.2085, 16.3731), (2, 48.2167, 16.4000), (3, 48.1944, 16.3944),
      (4, 48.1917, 16.3667), (5, 48.1833, 16.3500), (6, 48.1983, 16.3550),
      (7, 48.2033, 16.3467), (8, 48.2100, 16.3500), (9, 48.2200, 16.3500),
      (10, 48.1667, 16.3667), (11, 48.1667, 16.4333), (12, 48.1750, 16.3167),
      (13, 48.1833, 16.2833), (14, 48.2000, 16.2833), (15, 48.1983, 16.3250),
      (16, 48.2167, 16.3167), (17, 48.2333, 16.3167), (18, 48.2333, 16.3333),
      (19, 48.2500, 16.3500), (20, 48.2333, 16.3833), (21, 48.2667, 16.4000),
      (22, 48.2167, 16.4667), (23, 48.1333, 16.3000)]"

definition get_district_coordinates :: "int \<Rightarrow> (real \<times> real) option" where
  "get_district_coordinates d =
     (if 1 \<le> d \<and> d \<le> 23 then map_of vienna_district_coordinates d else None)"

subsection \<open>Geocoding\<close>

text \<open>The response of the geocoding HTTP call: its \<open>status\<close> and the locations of its
  \<open>results\<close>.  \<open>fetch\<close> is the external service: \<open>None\<close> is a failed request
  (the \<open>catch\<close> branch).\<close>

record geocode_response =
  gr_status :: string
  gr_results :: "(real \<times> real) list"

definition full_address :: "string \<Rightarrow> string" where
  "full_address a = a @ '', Vienna, Austria''"

definition geocode_address ::
  "string option \<Rightarrow> (string \<Rightarrow> geocode_response option) \<Rightarrow> string \<Rightarrow> (real \<times> real) option" where
  "geocode_address api_key fetch a =
     (if \<not> js_truthy_str api_key then None
      else (case fetch (full_address a) of
              None \<Rightarrow> None
            | Some r \<Rightarrow> if gr_status r = ''OK'' \<and> gr_results r \<noteq> [] then Some (hd (gr_results r)) else None))"

subsection \<open>Properties of the distance\<close>

lemma sin_half_neg_sq: "sin (to_rad (a - b) / 2) * sin (to_rad (a - b) / 2) = sin (to_rad (b - a) / 2) * sin (to_rad (b - a) / 2)"
proof -
  have "to_rad (a - b) / 2 = - (to_rad (b - a) / 2)" by (simp add: to_rad_def field_simps)
  then show ?thesis by simp
qed

lemma haversine_a_sym: "haversine_a lat1 lng1 lat2 lng2 = haversine_a lat2 lng2 lat1 lng1"
  by (simp add: haversine_a_def Let_def sin_half_neg_sq [of lat2 lat1] sin_half_neg_sq [of lng2 lng1] mult_ac)

text \<open>C15. Spec property 4, first half: the distance is symmetric.\<close>

theorem distance_sym: "calculate_distance lat1 lng1 lat2 lng2 = calculate_distance lat2 lng2 lat1 lng1"
  by (simp add: calculate_distance_def haversine_a_sym)

text \<open>Spec property 4, second half: the distance from a point to itself is 0.\<close>

theorem distance_self: "calculate_distance lat lng lat lng = 0"
  by (simp add: calculate_distance_def haversine_a_def js_atan2_def to_rad_def)

lemma cos_prod_identity:
  fixes u v :: real
  shows "cos (u - v) * cos (u + v) = (cos u)\<^sup>2 - (sin v)\<^sup>2"
proof -
  have d: "cos (u - v) = cos u * cos v + sin u * sin v" by (rule cos_diff)
  have a: "cos (u + v) = cos u * cos v - sin u * sin v" by (rule cos_add)
  have "cos (u - v) * cos (u + v) = (cos u * cos v)\<^sup>2 - (sin u * sin v)\<^sup>2"
    unfolding d a by (simp add: power2_eq_square algebra_simps)
  also have "\<dots> = (cos u)\<^sup>2 * (1 - (sin v)\<^sup>2) - (1 - (cos u)\<^sup>2) * (sin v)\<^sup>2"
    by (simp add: power_mult_distrib cos_squared_eq [of v] sin_squared_eq [of u])
  also have "\<dots> = (cos u)\<^sup>2 - (sin v)\<^sup>2" by (simp add: algebra_simps)
  finally show ?thesis .
qed

lemma haversine_a_convex:
  "haversine_a lat1 lng1 lat2 lng2 =
     (sin (to_rad (lat2 - lat1) / 2))\<^sup>2 * (1 - (sin (to_rad (lng2 - lng1) / 2))\<^sup>2) +
     (cos ((to_rad lat1 + to_rad lat2) / 2))\<^sup>2 * (sin (to_rad (lng2 - lng1) / 2))\<^sup>2"
proof -
  let ?u = "(to_rad lat1 + to_rad lat2) / 2" and ?v = "to_rad (lat2 - lat1) / 2"
  have e1: "?u - ?v = to_rad lat1" and e2: "?u + ?v = to_rad lat2"
    by (simp_all add: to_rad_def field_simps)
  have cp: "cos (to_rad lat1) * cos (to_rad lat2) = (cos ?u)\<^sup>2 - (sin ?v)\<^sup>2"
    using cos_prod_identity [of ?u ?v] unfolding e1 e2 .
  have h: "haversine_a lat1 lng1 lat2 lng2 =
      (sin ?v)\<^sup>2 + (cos (to_rad lat1) * cos (to_rad lat2)) * (sin (to_rad (lng2 - lng1) / 2))\<^sup>2"
    by (simp add: haversine_a_def Let_def power2_eq_square mult.assoc)
  show ?thesis
    unfolding h cp by (simp add: algebra_simps)
qed

lemma haversine_a_bounds: "0 \<le> haversine_a lat1 lng1 lat2 lng2 \<and> haversine_a lat1 lng1 lat2 lng2 \<le> 1"
proof -
  define s where "s = (sin (to_rad (lat2 - lat1) / 2))\<^sup>2"
  define t where "t = (sin (to_rad (lng2 - lng1) / 2))\<^sup>2"
  define c where "c = (cos ((to_rad lat1 + to_rad lat2) / 2))\<^sup>2"
  have b: "0 \<le> s" "s \<le> 1" "0 \<le> t" "t \<le> 1" "0 \<le> c" "c \<le> 1"
    by (simp_all add: s_def t_def c_def abs_square_le_1)
  have a: "haversine_a lat1 lng1 lat2 lng2 = s * (1 - t) + c * t"
    by (simp add: haversine_a_convex s_def t_def c_def)
  have "0 \<le> s * (1 - t) + c * t" using b by simp
  moreover have "s * (1 - t) + c * t \<le> 1 * (1 - t) + 1 * t"
    using b by (intro add_mono mult_right_mono) auto
  ultimately show ?thesis using a by simp
qed

lemma js_atan2_haversine_bounds:
  assumes "0 \<le> a" "a \<le> 1"
  shows "0 \<le> js_atan2 (sqrt a) (sqrt (1 - a)) \<and> js_atan2 (sqrt a) (sqrt (1 - a)) \<le> pi / 2"
proof (cases "a = 1")
  case True
  then show ?thesis by (simp add: js_atan2_def)
next
  case False
  with assms have pos: "0 < sqrt (1 - a)" by simp
  have "0 \<le> arctan (sqrt a / sqrt (1 - a))"
    using assms pos by (simp add: zero_le_arctan_iff)
  moreover have "arctan (sqrt a / sqrt (1 - a)) < pi / 2" by (rule arctan_ubound)
  ultimately show ?thesis using pos by (simp add: js_atan2_def)
qed

text \<open>Bounds over the reals: the Haversine term stays in [0, 1], so both square
  roots are defined and every distance lies between 0 and half the Earth's
  circumference, \<open>pi * 6371\<close> km.  This is a fact of the real-valued model only: in
  double precision the term can round to 1.0000000000000002 for points close to
  antipodal (48.2, 0) and (-48.2, 180), and then \<open>Math.sqrt(1 - a)\<close> is \<open>NaN\<close>.\<close>

lemma distance_bounds:
  "0 \<le> calculate_distance lat1 lng1 lat2 lng2 \<and> calculate_distance lat1 lng1 lat2 lng2 \<le> pi * earth_radius_km"
  using js_atan2_haversine_bounds [of "haversine_a lat1 lng1 lat2 lng2"] haversine_a_bounds [of lat1 lng1 lat2 lng2]
  by (simp add: calculate_distance_def Let_def earth_radius_km_def)

lemma equator_arc:
  assumes "\<bar>x\<bar> < 180"
  shows "calculate_distance 0 0 0 x = earth_radius_km * \<bar>x\<bar> * pi / 180"
proof -
  define t where "t = to_rad x / 2"
  have t_abs: "\<bar>t\<bar> < pi / 2"
    using assms pi_gt_zero by (simp add: t_def to_rad_def abs_mult abs_divide field_simps)
  have cos_pos: "0 < cos t"
    using t_abs by (intro cos_gt_zero_pi) auto
  have a: "haversine_a 0 0 0 x = (sin t)\<^sup>2"
    by (simp add: haversine_a_def Let_def t_def to_rad_def power2_eq_square)
  have sin_nonneg: "0 \<le> sin \<bar>t\<bar>"
    using t_abs by (intro sin_ge_zero) auto
  have abs_sin: "\<bar>sin t\<bar> = sin \<bar>t\<bar>"
  proof (cases "0 \<le> t")
    case True
    with sin_nonneg show ?thesis by simp
  next
    case False
    with sin_nonneg show ?thesis by simp
  qed
  then have s1: "sqrt ((sin t)\<^sup>2) = sin \<bar>t\<bar>" by simp
  have s2: "sqrt (1 - (sin t)\<^sup>2) = cos \<bar>t\<bar>"
    using cos_pos by (simp add: cos_squared_eq [symmetric] abs_if)
  have "js_atan2 (sin \<bar>t\<bar>) (cos \<bar>t\<bar>) = arctan (tan \<bar>t\<bar>)"
    using cos_pos by (simp add: js_atan2_def tan_def abs_if)
  also have "\<dots> = \<bar>t\<bar>"
    using t_abs pi_gt_zero by (intro arctan_tan) auto
  finally have "js_atan2 (sqrt (haversine_a 0 0 0 x)) (sqrt (1 - haversine_a 0 0 0 x)) = \<bar>t\<bar>"
    by (simp add: a s1 s2 abs_sin)
  then show ?thesis
    unfolding calculate_distance_def Let_def
    by (simp add: t_def to_rad_def abs_mult abs_divide)
qed

text \<open>Along the equator the computed distance is the arc length: from
  \<open>(0, 0)\<close> to \<open>(0, x)\<close> with \<open>|x| < 180\<close> it is \<open>6371 * |x| * pi / 180\<close> km.\<close>

theorem distance_along_equator:
  assumes "\<bar>x\<bar> < 180"
  shows "calculate_distance 0 0 0 x = earth_radius_km * \<bar>x\<bar> * pi / 180"
  using assms by (rule equator_arc)

theorem distance_along_equator_witness:
  "calculate_distance 0 0 0 1 = earth_radius_km * pi / 180"
  using distance_along_equator [of 1] by simp

end
