(* ===== verification/Time_Parse.thy ===== *)
theory Time_Parse
  imports Calendar_Prelude
begin

text \<open>
  The wall-clock strings of a working-hours rule (\<open>time_from\<close>, \<open>time_to\<close>) and
  their parser \<open>AppointmentsService.parseTime\<close>
  (src/booking-backend-main/src/server/app/appointment/AppointmentsService.ts).
  The parser splits at the first space, splits the clock part at colons, converts
  each field with \<open>Number\<close>, and remaps the hour by an am/pm suffix.  The string
  helpers model \<open>String.prototype.split\<close> with a one-character separator,
  \<open>Number\<close> on decimal-digit strings, and \<open>toLowerCase\<close> on ASCII.
\<close>

subsection \<open>String helpers of the JavaScript runtime\<close>

text \<open>\<open>s.split(c)\<close> for a one-character separator: never empty, and empty fields
  between adjacent separators are kept.\<close>

fun split_on :: "char \<Rightarrow> string \<Rightarrow> string list" where
  "split_on c [] = [[]]"
| "split_on c (x # xs) =
     (if x = c then [] # split_on c xs
      else (case split_on c xs of w # ws \<Rightarrow> (x # w) # ws | [] \<Rightarrow> [[x]]))"

definition is_digit :: "char \<Rightarrow> bool" where
  "is_digit c \<longleftrightarrow> (48 :: nat) \<le> of_char c \<and> (of_char c :: nat) \<le> 57"

definition digit_value :: "char \<Rightarrow> int" where
  "digit_value c = int (of_char c) - 48"

definition digits_value :: "string \<Rightarrow> int" where
  "digits_value s = foldl (\<lambda>acc c. 10 * acc + digit_value c) 0 s"

definition is_js_space :: "char \<Rightarrow> bool" where
  "is_js_space c \<longleftrightarrow> c \<in> set [CHR '' '', CHR 0x09, CHR 0x0A, CHR 0x0D]"

definition js_trim :: "string \<Rightarrow> string" where
  "js_trim s = rev (dropWhile is_js_space (rev (dropWhile is_js_space s)))"

text \<open>\<open>Number(s)\<close>: the empty (or blank) string is 0, a string of decimal digits
  is its value; every other string is \<open>NaN\<close> here (signs, decimals, exponents and
  hexadecimal literals are outside the model, see the root theory).\<close>

definition js_number :: "string \<Rightarrow> js_num" where
  "js_number s =
     (let t = js_trim s in
      if t = [] then Some 0
      else if list_all is_digit t then Some (digits_value t)
      else None)"

definition ascii_lower :: "char \<Rightarrow> char" where
  "ascii_lower c = (if 65 \<le> (of_char c :: nat) \<and> (of_char c :: nat) \<le> 90
                    then char_of (of_char c + (32 :: nat)) else c)"

definition js_to_lower :: "string \<Rightarrow> string" where
  "js_to_lower s = map ascii_lower s"

text \<open>Array destructuring \<open>let [a, b] = xs\<close>: a missing element is \<open>undefined\<close>.\<close>

fun nth_field :: "js_num list \<Rightarrow> nat \<Rightarrow> js_num" where
  "nth_field [] n = None"
| "nth_field (x # xs) 0 = x"
| "nth_field (x # xs) (Suc n) = nth_field xs n"

subsection \<open>parseTime\<close>

definition parse_time :: "string \<Rightarrow> js_num \<times> js_num" where
  "parse_time time =
     (let parts = split_on (CHR '' '') time;
          fields = map js_number (split_on (CHR '':'') (hd parts));
          hours = nth_field fields 0;
          minutes = nth_field fields 1;
          is_pm = (case parts of _ # p # _ \<Rightarrow> p \<noteq> [] \<and> js_to_lower p = ''pm'' | _ \<Rightarrow> False);
          hours' = (if is_pm \<and> \<not> js_strict_eq hours (Some 12) then map_option (\<lambda>h. h + 12) hours
                    else if \<not> is_pm \<and> js_strict_eq hours (Some 12) then Some 0
                    else hours)
      in (hours', minutes))"

text \<open>The definitions that evaluate \<open>parse_time\<close> on a literal by simplification.\<close>

text \<open>\<open>parseInt(s, 10)\<close>: leading white space, an optional sign, then the longest run
  of decimal digits; \<open>NaN\<close> when there is none.\<close>

definition js_parse_int :: "string \<Rightarrow> js_num" where
  "js_parse_int s =
     (let t = dropWhile is_js_space s;
          (sign, r) = (case t of
                         c # rest \<Rightarrow> if c = CHR ''-'' then (-1, rest)
                                     else if c = CHR ''+'' then (1, rest) else (1, t)
                       | [] \<Rightarrow> (1, []));
          ds = takeWhile is_digit r
      in if ds = [] then None else Some (sign * digits_value ds))"

subsection \<open>Properties of split\<close>

text \<open>Splitting at a separator that occurs once gives the two sides.\<close>

lemma split_on_no_sep: "c \<notin> set xs \<Longrightarrow> split_on c xs = [xs]"
  by (induction xs) auto

lemma split_on_sep: "c \<notin> set xs \<Longrightarrow> split_on c (xs @ c # ys) = xs # split_on c ys"
  by (induction xs) auto

lemmas js_parse_int_eval = js_parse_int_def is_js_space_def is_digit_def digits_value_def digit_value_def

lemmas parse_time_eval = parse_time_def js_number_def js_trim_def is_js_space_def
  digits_value_def digit_value_def is_digit_def js_to_lower_def ascii_lower_def

end
