(* ===== verification/Slot_Generator.thy ===== *)
theory Slot_Generator
  imports Time_Parse
begin

text \<open>
  The slot generator \<open>AppointmentsService.calculateTimeSlots\<close>
  (src/booking-backend-main/src/server/app/appointment/AppointmentsService.ts, lines
  257--363).  A working-hours rule (\<open>ExtendedSchedule\<close>) is turned into fixed-length
  candidate slots by a \<open>while\<close> loop over a \<open>Date\<close> that compares only the UTC
  hour and minute of the current instant with the rule's end.  The loop is modelled by
  \<^theory_text>\<open>partial_function (option)\<close>: \<open>None\<close> is a loop that never exits.
\<close>

subsection \<open>Data\<close>

text \<open>The fields of \<open>ExtendedSchedule\<close> the engine reads; \<open>date_from\<close> and
  \<open>date_to\<close> are optional because the schedule query does not select them.\<close>

record ext_schedule =
  sched_id :: string
  calendar_id :: string
  time_from :: string
  time_to :: string
  working_hours_type :: string
  restricted_to_services :: "string list option"
  weekday :: "string option"
  employee_name :: string
  assignments_services :: "string list"
  date_from :: "instant option"
  date_to :: "instant option"

text \<open>A candidate slot \<open>{start, end, calendar_id, employee_name}\<close>; the code stores
  \<open>start\<close> and \<open>end\<close> as ISO strings of the instants and parses them back with
  \<open>new Date\<close>, which is the identity on these instants.\<close>

record time_slot =
  slot_start :: instant
  slot_end :: instant
  slot_calendar_id :: string
  slot_employee_name :: string

definition mk_slot :: "string \<Rightarrow> string \<Rightarrow> instant \<Rightarrow> instant \<Rightarrow> time_slot" where
  "mk_slot cal emp s e =
     \<lparr>slot_start = s, slot_end = e, slot_calendar_id = cal, slot_employee_name = emp\<rparr>"

subsection \<open>The generation loop\<close>

text \<open>Loop guard: \<open>cur.getUTCHours() < endTime.hours || (cur.getUTCHours() ===
  endTime.hours && cur.getUTCMinutes() < endTime.minutes)\<close>.\<close>

definition before_end :: "js_num \<Rightarrow> js_num \<Rightarrow> js_date \<Rightarrow> bool" where
  "before_end eh em d \<longleftrightarrow>
     js_less (utc_hours d) eh \<or> (js_strict_eq (utc_hours d) eh \<and> js_less (utc_minutes d) em)"

text \<open>Push test: the same comparison with \<open><=\<close> on the minutes of the slot's end.\<close>

definition ends_by :: "js_num \<Rightarrow> js_num \<Rightarrow> js_date \<Rightarrow> bool" where
  "ends_by eh em d \<longleftrightarrow>
     js_less (utc_hours d) eh \<or> (js_strict_eq (utc_hours d) eh \<and> js_less_eq (utc_minutes d) em)"

partial_function (option) slot_loop ::
  "int \<Rightarrow> js_num \<Rightarrow> js_num \<Rightarrow> string \<Rightarrow> string \<Rightarrow> instant \<Rightarrow> time_slot list option"
where
  "slot_loop dur eh em cal emp cur =
     (if before_end eh em (Some cur) then
        (let e = add_utc_minutes cur dur in
         do {
           rest \<leftarrow> slot_loop dur eh em cal emp (add_utc_minutes cur dur);
           Some (if ends_by eh em (Some e) then mk_slot cal emp cur e # rest else rest)
         })
      else Some [])"

text \<open>One rule: parse both times, set the start on the selected date, run the loop.
  An invalid start date (a \<open>NaN\<close> field) makes the guard false at once.\<close>

definition rule_slots :: "instant \<Rightarrow> int \<Rightarrow> ext_schedule \<Rightarrow> time_slot list option" where
  "rule_slots date dur s =
     (case parse_time (time_from s) of (sh, sm) \<Rightarrow>
      case parse_time (time_to s) of (eh, em) \<Rightarrow>
      case set_utc_hours date sh sm of
        None \<Rightarrow> Some []
      | Some cur \<Rightarrow> slot_loop dur eh em (calendar_id s) (employee_name s) cur)"

text \<open>The \<open>for\<close> loops over the selected rules, in order.\<close>

fun slots_of_rules :: "instant \<Rightarrow> int \<Rightarrow> ext_schedule list \<Rightarrow> time_slot list option" where
  "slots_of_rules date dur [] = Some []"
| "slots_of_rules date dur (s # ss) =
     do { xs \<leftarrow> rule_slots date dur s; ys \<leftarrow> slots_of_rules date dur ss; Some (xs @ ys) }"

definition is_weekly_on :: "string \<Rightarrow> ext_schedule \<Rightarrow> bool" where
  "is_weekly_on day s \<longleftrightarrow> working_hours_type s = ''weekly'' \<and> weekday s = Some day"

definition is_certain_on :: "instant \<Rightarrow> ext_schedule \<Rightarrow> bool" where
  "is_certain_on date s \<longleftrightarrow>
     working_hours_type s = ''certain'' \<and>
     (case (date_from s, date_to s) of
        (Some f, Some t) \<Rightarrow> f \<le> date \<and> date \<le> t
      | _ \<Rightarrow> False)"

definition calculate_time_slots :: "ext_schedule list \<Rightarrow> instant \<Rightarrow> int \<Rightarrow> time_slot list option" where
  "calculate_time_slots schedules date dur =
     (let day = weekday_name date;
          weekly = filter (is_weekly_on day) schedules;
          certain = filter (is_certain_on date) schedules
      in do {
           a \<leftarrow> slots_of_rules date dur weekly;
           b \<leftarrow> slots_of_rules date dur certain;
           Some (a @ b)
         })"

subsection \<open>Abstract specification of one rule's slots\<close>

text \<open>\<open>n\<close> back-to-back windows of \<open>dur\<close> minutes from \<open>t\<close>: what the spec (section
  4.2) asks of one rule.\<close>

primrec fixed_windows :: "instant \<Rightarrow> int \<Rightarrow> nat \<Rightarrow> (instant \<times> instant) list" where
  "fixed_windows t dur 0 = []"
| "fixed_windows t dur (Suc n) = (t, add_utc_minutes t dur) # fixed_windows (add_utc_minutes t dur) dur n"

text \<open>The first minute of the day reached by the loop at or after the end \<open>E\<close>,
  counting from start minute \<open>x\<close> in steps of \<open>dur\<close>.\<close>

definition stop_minute :: "int \<Rightarrow> int \<Rightarrow> int \<Rightarrow> int" where
  "stop_minute x E dur = (if x < E then x + ((E - x + dur - 1) div dur) * dur else x)"

text \<open>The condition under which one rule's loop provably stops at its end: both times
  parse to numbers, the start minute is not negative, the end's minute field is below
  60 and the first step at or after the end is before midnight.\<close>

definition rule_no_wrap :: "int \<Rightarrow> string \<Rightarrow> string \<Rightarrow> bool" where
  "rule_no_wrap dur tf tt \<longleftrightarrow>
     (case (parse_time tf, parse_time tt) of
        ((Some sh, Some sm), (Some eh, Some em)) \<Rightarrow>
          0 \<le> 60 * sh + sm \<and> 0 \<le> em \<and> em < 60 \<and>
          stop_minute (60 * sh + sm) (60 * eh + em) dur < minutes_per_day
      | _ \<Rightarrow> False)"

text \<open>Example data: a weekly Monday rule of calendar 1 (employee Anna).\<close>

abbreviation monday_rule :: "string \<Rightarrow> string \<Rightarrow> ext_schedule" where
  "monday_rule tf tt \<equiv>
     \<lparr>sched_id = ''1'', calendar_id = ''1'', time_from = tf, time_to = tt,
      working_hours_type = ''weekly'', restricted_to_services = None, weekday = Some ''Monday'',
      employee_name = ''Anna'', assignments_services = [], date_from = None, date_to = None\<rparr>"

subsection \<open>Guards of the loop on instants given as day + minutes\<close>

lemma add_utc_minutes_at [simp]:
  "add_utc_minutes (D + x * ms_per_minute) n = D + (x + n) * ms_per_minute"
  by (simp add: add_utc_minutes_def algebra_simps)

lemma before_end_at:
  assumes "day_aligned D" "0 \<le> em" "em \<le> 60"
  shows "before_end (Some eh) (Some em) (Some (D + x * ms_per_minute)) \<longleftrightarrow>
         x mod minutes_per_day < 60 * eh + em"
proof -
  have "0 \<le> x mod minutes_per_day" by simp
  with assms show ?thesis
    using hm_less_iff [of "x mod minutes_per_day" em eh]
    by (simp add: before_end_def date_simps)
qed

lemma ends_by_at:
  assumes "day_aligned D" "0 \<le> em" "em < 60"
  shows "ends_by (Some eh) (Some em) (Some (D + x * ms_per_minute)) \<longleftrightarrow>
         x mod minutes_per_day \<le> 60 * eh + em"
proof -
  have "0 \<le> x mod minutes_per_day" by simp
  with assms show ?thesis
    using hm_less_eq_iff [of "x mod minutes_per_day" em eh]
    by (simp add: ends_by_def date_simps)
qed

lemma stop_minute_step:
  assumes "0 < dur" "x < E"
  shows "stop_minute (x + dur) E dur = stop_minute x E dur"
proof (cases "x + dur < E")
  case True
  have "E - x + dur - 1 = (E - x - 1) + dur" by simp
  then have "(E - x + dur - 1) div dur = (E - x - 1) div dur + 1"
    using assms by (simp only: div_add_self2)
  with True assms show ?thesis by (simp add: stop_minute_def algebra_simps)
next
  case False
  then have "(E - x + dur - 1) div dur = 1"
    using assms by (intro div_pos_geq [THEN trans]) auto
  with False assms show ?thesis by (simp add: stop_minute_def)
qed

lemma stop_minute_ge:
  assumes "0 < dur" "x < E"
  shows "x + dur \<le> stop_minute x E dur"
proof -
  have "dur div dur \<le> (E - x + dur - 1) div dur"
    using assms by (intro zdiv_mono1) auto
  then have "1 \<le> (E - x + dur - 1) div dur"
    using assms by simp
  then have "dur \<le> ((E - x + dur - 1) div dur) * dur"
    using assms by (metis mult_1 mult_right_mono less_imp_le)
  with assms show ?thesis by (simp add: stop_minute_def)
qed

lemma fixed_windows_Suc_at:
  "fixed_windows (D + x * ms_per_minute) dur (Suc n) =
     (D + x * ms_per_minute, D + (x + dur) * ms_per_minute) #
     fixed_windows (D + (x + dur) * ms_per_minute) dur n"
  by simp

lemma slot_loop_fixed_windows:
  assumes D: "day_aligned D" and dur: "0 < dur" and em: "0 \<le> em" "em < 60"
    and x: "0 \<le> x" and stop: "stop_minute x (60 * eh + em) dur < minutes_per_day"
  shows "slot_loop dur (Some eh) (Some em) cal emp (D + x * ms_per_minute) =
         Some (map (\<lambda>(s, e). mk_slot cal emp s e)
                 (fixed_windows (D + x * ms_per_minute) dur (nat ((60 * eh + em - x) div dur))))"
  using x stop
proof (induction "nat (60 * eh + em - x)" arbitrary: x rule: less_induct)
  case less
  define E where "E = 60 * eh + em"
  show ?case
  proof (cases "x < E")
    case False
    then have "x mod minutes_per_day = x" and "(E - x) div dur \<le> 0"
      using less.prems dur by (auto simp: stop_minute_def E_def intro: div_nonpos_pos_le0)
    with False D em show ?thesis
      by (subst slot_loop.simps) (simp add: before_end_at E_def [symmetric])
  next
    case True
    have le: "x + dur \<le> stop_minute x E dur"
      using stop_minute_ge [OF dur True] .
    have lt: "x < minutes_per_day" "x + dur < minutes_per_day"
      using le less.prems dur by (simp_all add: E_def)
    have IH: "slot_loop dur (Some eh) (Some em) cal emp (D + (x + dur) * ms_per_minute) =
         Some (map (\<lambda>(s, e). mk_slot cal emp s e)
                 (fixed_windows (D + (x + dur) * ms_per_minute) dur (nat ((E - (x + dur)) div dur))))"
      using less.hyps [of "x + dur"] less.prems dur True stop_minute_step [OF dur True]
      by (simp add: E_def)
    have guard: "before_end (Some eh) (Some em) (Some (D + x * ms_per_minute))"
      using True lt less.prems D em by (simp add: before_end_at E_def)
    have push: "ends_by (Some eh) (Some em) (Some (D + (x + dur) * ms_per_minute)) \<longleftrightarrow> x + dur \<le> E"
    proof -
      have "(x + dur) mod minutes_per_day = x + dur"
        using lt less.prems dur by simp
      then show ?thesis
        using ends_by_at [OF D em, of eh "x + dur"] by (simp add: E_def)
    qed
    show ?thesis
    proof (cases "x + dur \<le> E")
      case True
      have "E - x = (E - (x + dur)) + dur" by simp
      then have q: "(E - x) div dur = (E - (x + dur)) div dur + 1"
        using dur by (simp only: div_add_self2)
      have "0 \<le> (E - (x + dur)) div dur"
        using True dur by (simp add: pos_imp_zdiv_nonneg_iff)
      with q have n: "nat ((E - x) div dur) = Suc (nat ((E - (x + dur)) div dur))"
        by simp
      show ?thesis
        using guard push True IH
        by (subst slot_loop.simps) (simp add: E_def [symmetric] n Let_def)
    next
      case False
      then have "(E - (x + dur)) div dur \<le> 0" "(E - x) div dur = 0"
        using dur \<open>x < E\<close> by (auto intro: div_nonpos_pos_le0 div_pos_pos_trivial)
      then show ?thesis
        using guard push False IH
        by (subst slot_loop.simps) (simp add: E_def [symmetric] Let_def)
    qed
  qed
qed

subsection \<open>Non-termination when the loop wraps past midnight\<close>

lemma mod_day_bound_by_residue:
  fixes y dur :: int
  assumes dur: "0 < dur" "minutes_per_day mod dur = 0"
  shows "y mod minutes_per_day \<le> minutes_per_day - dur + y mod dur"
proof -
  from dur(2) have dvd: "dur dvd minutes_per_day" by (simp add: dvd_eq_mod_eq_0)
  then obtain m where m: "minutes_per_day = dur * m" by (rule dvdE)
  define z where "z = y mod minutes_per_day"
  have z: "0 \<le> z" "z < minutes_per_day" by (simp_all add: z_def)
  have zr: "z mod dur = y mod dur"
    using dvd by (simp add: z_def mod_mod_cancel)
  have "z = dur * (z div dur) + z mod dur" by simp
  moreover have "0 \<le> z mod dur" "z mod dur < dur" using dur by simp_all
  moreover have "z div dur < m"
  proof (rule ccontr)
    assume "\<not> z div dur < m"
    then have "dur * m \<le> dur * (z div dur)" using dur by simp
    with \<open>z = dur * (z div dur) + z mod dur\<close> \<open>0 \<le> z mod dur\<close> z m show False by linarith
  qed
  then have "dur * (z div dur) \<le> dur * (m - 1)" using dur by simp
  ultimately show ?thesis
    using m zr by (simp add: z_def [symmetric] algebra_simps)
qed

lemma slot_loop_diverges:
  assumes D: "day_aligned D" and dur: "0 < dur" "minutes_per_day mod dur = 0"
    and em: "0 \<le> em" "em \<le> 60"
    and wrap: "minutes_per_day - dur + x mod dur < 60 * eh + em"
  shows "slot_loop dur (Some eh) (Some em) cal emp (D + x * ms_per_minute) = None"
proof -
  define orbit where "orbit cur \<longleftrightarrow> (\<exists>y. cur = D + y * ms_per_minute \<and> y mod dur = x mod dur)"
    for cur
  have guard: "before_end (Some eh) (Some em) (Some (D + y * ms_per_minute))"
    if "y mod dur = x mod dur" for y
    using before_end_at [OF D em] mod_day_bound_by_residue [OF dur, of y] wrap that by simp
  have no_result: "dur' = dur \<longrightarrow> eh' = Some eh \<longrightarrow> em' = Some em \<longrightarrow> \<not> orbit cur"
    if "slot_loop dur' eh' em' cal' emp' cur = Some r" for dur' eh' em' cal' emp' cur r
    using that
    apply (rule slot_loop.raw_induct [where P = "\<lambda>dur' eh' em' cal' emp' cur r.
             dur' = dur \<longrightarrow> eh' = Some eh \<longrightarrow> em' = Some em \<longrightarrow> \<not> orbit cur", rotated])
    subgoal premises prems for f dur' eh' em' cal' emp' cur r
    proof (intro impI notI)
      assume eqs: "dur' = dur" "eh' = Some eh" "em' = Some em" and "orbit cur"
      then obtain y where y: "cur = D + y * ms_per_minute" "y mod dur = x mod dur"
        by (auto simp: orbit_def)
      have next_orbit: "orbit (add_utc_minutes cur dur)"
        unfolding orbit_def using y by (intro exI [of _ "y + dur"]) simp
      from prems(2) guard [OF y(2)] y eqs obtain r0 where
        "f dur (Some eh) (Some em) cal' emp' (add_utc_minutes cur dur) = Some r0"
        by (auto simp: Let_def split: Option.bind_splits if_splits)
      with prems(1) eqs next_orbit show False by blast
    qed
    done
  have "orbit (D + x * ms_per_minute)" by (auto simp: orbit_def)
  then have "slot_loop dur (Some eh) (Some em) cal emp (D + x * ms_per_minute) \<noteq> Some r" for r
    using no_result by blast
  then show ?thesis
    by (cases "slot_loop dur (Some eh) (Some em) cal emp (D + x * ms_per_minute)") auto
qed

subsection \<open>Properties of the abstract windows\<close>

lemma set_utc_hours_Some:
  "set_utc_hours date (Some sh) (Some sm) = Some (utc_day_start date + (60 * sh + sm) * ms_per_minute)"
  by (simp add: set_utc_hours_def algebra_simps)

lemma fixed_windows_length [simp]: "length (fixed_windows t dur n) = n"
  by (induction n arbitrary: t) auto

lemma fixed_windows_shape:
  assumes "0 \<le> dur" "(a, b) \<in> set (fixed_windows t dur n)"
  shows "b = a + dur * ms_per_minute \<and> t \<le> a \<and> b \<le> t + int n * dur * ms_per_minute"
  using assms(2)
proof (induction n arbitrary: t)
  case 0
  then show ?case by simp
next
  case (Suc n)
  have step: "0 \<le> dur * ms_per_minute" using assms(1) by simp
  from Suc.prems consider "(a, b) = (t, add_utc_minutes t dur)"
    | "(a, b) \<in> set (fixed_windows (add_utc_minutes t dur) dur n)"
    by auto
  then show ?case
  proof cases
    case 1
    with step show ?thesis by (simp add: add_utc_minutes_def algebra_simps)
  next
    case 2
    from Suc.IH [OF 2] step show ?thesis by (simp add: add_utc_minutes_def algebra_simps)
  qed
qed

lemma fixed_windows_sorted:
  assumes "0 < dur"
  shows "sorted_wrt (<) (map fst (fixed_windows t dur n))"
proof (induction n arbitrary: t)
  case 0
  then show ?case by simp
next
  case (Suc n)
  have "t < a" if "(a, b) \<in> set (fixed_windows (add_utc_minutes t dur) dur n)" for a b
    using fixed_windows_shape [OF _ that] assms by (simp add: add_utc_minutes_def)
  with Suc.IH show ?case by auto
qed

lemma slots_of_rules_None:
  "s \<in> set ss \<Longrightarrow> rule_slots date dur s = None \<Longrightarrow> slots_of_rules date dur ss = None"
  by (induction ss) (auto split: Option.bind_splits)

lemma fixed_windows_within:
  assumes "0 < dur" "(a, b) \<in> set (fixed_windows (D + S * ms_per_minute) dur (nat ((E - S) div dur)))"
  shows "b = a + dur * ms_per_minute \<and> D + S * ms_per_minute \<le> a \<and> b \<le> D + E * ms_per_minute"
proof -
  let ?n = "nat ((E - S) div dur)"
  have shape: "b = a + dur * ms_per_minute \<and> D + S * ms_per_minute \<le> a \<and>
      b \<le> D + S * ms_per_minute + int ?n * dur * ms_per_minute"
    using fixed_windows_shape [OF _ assms(2)] assms(1) by simp
  have "S \<le> E"
  proof (rule ccontr)
    assume "\<not> S \<le> E"
    then have "?n = 0" using assms(1) by (simp add: div_neg_pos_less0 less_imp_le)
    with assms(2) show False by simp
  qed
  then have q: "0 \<le> (E - S) div dur"
    using assms(1) by (simp add: pos_imp_zdiv_nonneg_iff)
  have "(E - S) div dur * dur \<le> E - S"
    using div_mult_mod_eq [of "E - S" dur] pos_mod_sign [of dur "E - S"] assms(1) by linarith
  then have "int ?n * dur \<le> E - S"
    using q by simp
  then have "int ?n * dur * ms_per_minute \<le> (E - S) * ms_per_minute" by simp
  with shape show ?thesis by (simp add: algebra_simps)
qed

subsection \<open>Partial correctness of generation on every input\<close>

lemma slot_loop_result:
  assumes "slot_loop dur eh em cal emp cur = Some r"
  shows "\<forall>sl \<in> set r. slot_end sl = slot_start sl + dur * ms_per_minute \<and>
           slot_calendar_id sl = cal \<and> slot_employee_name sl = emp"
  using assms
proof (rule slot_loop.raw_induct [where P = "\<lambda>dur eh em cal emp cur r.
    \<forall>sl \<in> set r. slot_end sl = slot_start sl + dur * ms_per_minute \<and>
           slot_calendar_id sl = cal \<and> slot_employee_name sl = emp", rotated])
  fix f dur eh em cal emp cur r
  assume IH: "\<And>dur eh em cal emp cur r. f dur eh em cal emp cur = Some r \<Longrightarrow>
      \<forall>sl \<in> set r. slot_end sl = slot_start sl + dur * ms_per_minute \<and>
           slot_calendar_id sl = cal \<and> slot_employee_name sl = emp"
    and eq: "(if before_end eh em (Some cur)
      then let e = add_utc_minutes cur dur
           in f dur eh em cal emp (add_utc_minutes cur dur) \<bind>
              (\<lambda>rest. Some (if ends_by eh em (Some e) then mk_slot cal emp cur e # rest else rest))
      else Some []) = Some r"
  show "\<forall>sl \<in> set r. slot_end sl = slot_start sl + dur * ms_per_minute \<and>
           slot_calendar_id sl = cal \<and> slot_employee_name sl = emp"
    using eq IH by (auto simp: Let_def mk_slot_def add_utc_minutes_def split: if_splits Option.bind_splits)
qed

lemma rule_slots_result:
  assumes "rule_slots date dur s = Some r" "sl \<in> set r"
  shows "slot_end sl = slot_start sl + dur * ms_per_minute \<and> slot_calendar_id sl = calendar_id s"
  using assms slot_loop_result
  by (fastforce simp: rule_slots_def split: prod.splits option.splits)

lemma slots_of_rules_result:
  assumes "slots_of_rules date dur ss = Some r" "sl \<in> set r"
  shows "\<exists>s \<in> set ss. slot_end sl = slot_start sl + dur * ms_per_minute \<and> slot_calendar_id sl = calendar_id s"
  using assms
proof (induction ss arbitrary: r)
  case Nil
  then show ?case by simp
next
  case (Cons s ss)
  then obtain xs ys where "rule_slots date dur s = Some xs" "slots_of_rules date dur ss = Some ys"
    "r = xs @ ys"
    by (auto split: Option.bind_splits)
  with Cons.prems(2) Cons.IH rule_slots_result show ?case by fastforce
qed

lemma calculate_time_slots_result:
  assumes "calculate_time_slots rules date dur = Some r" "sl \<in> set r"
  shows "\<exists>s \<in> set rules. (is_weekly_on (weekday_name date) s \<or> is_certain_on date s) \<and>
           slot_end sl = slot_start sl + dur * ms_per_minute \<and> slot_calendar_id sl = calendar_id s"
  using assms slots_of_rules_result
  by (fastforce simp: calculate_time_slots_def Let_def split: Option.bind_splits)

lemma slots_of_rules_Some:
  "\<forall>s \<in> set ss. rule_slots date dur s \<noteq> None \<Longrightarrow> \<exists>r. slots_of_rules date dur ss = Some r"
  by (induction ss) auto

text \<open>A rule whose times parse to numbers, whose start minute is not negative, whose
  end's minute field is below 60 and whose loop stops before midnight.\<close>

lemma rule_no_wrap_returns:
  assumes "0 < dur" "rule_no_wrap dur (time_from s) (time_to s)"
  shows "rule_slots date dur s \<noteq> None"
proof -
  obtain a b c e where ab: "parse_time (time_from s) = (a, b)" and ce: "parse_time (time_to s) = (c, e)"
    by fastforce
  with assms(2) obtain sh sm eh em where "a = Some sh" "b = Some sm" "c = Some eh" "e = Some em"
    and c: "0 \<le> 60 * sh + sm" "0 \<le> em" "em < 60"
      "stop_minute (60 * sh + sm) (60 * eh + em) dur < minutes_per_day"
    by (cases a; cases b; cases c; cases e) (auto simp: rule_no_wrap_def)
  with ab ce have p: "parse_time (time_from s) = (Some sh, Some sm)"
    "parse_time (time_to s) = (Some eh, Some em)"
    by simp_all
  have "slot_loop dur (Some eh) (Some em) (calendar_id s) (employee_name s)
      (utc_day_start date + (60 * sh + sm) * ms_per_minute) \<noteq> None"
    using slot_loop_fixed_windows [of "utc_day_start date" dur em "60 * sh + sm" eh] assms(1) c by simp
  with p show ?thesis by (simp add: rule_slots_def set_utc_hours_Some)
qed

subsection \<open>Correctness of one rule's slots\<close>

text \<open>C1. Refinement: when the start minute is not negative, the end's minute field is
  below 60, the duration is positive, and the loop reaches the end before midnight
  (\<open>stop_minute\<close>), the loop of \<open>calculateTimeSlots\<close> returns exactly the
  abstract windows: \<open>(E - S) div dur\<close> back-to-back windows of \<open>dur\<close> minutes from the
  rule's start on the selected day.\<close>

theorem rule_slots_refines:
  assumes "parse_time (time_from s) = (Some sh, Some sm)" "parse_time (time_to s) = (Some eh, Some em)"
    and "0 < dur" "0 \<le> 60 * sh + sm" "0 \<le> em" "em < 60"
    and "stop_minute (60 * sh + sm) (60 * eh + em) dur < minutes_per_day"
  shows "rule_slots date dur s =
           Some (map (\<lambda>(a, b). mk_slot (calendar_id s) (employee_name s) a b)
             (fixed_windows (utc_day_start date + (60 * sh + sm) * ms_per_minute) dur
               (nat ((60 * eh + em - (60 * sh + sm)) div dur))))"
proof -
  have loop: "slot_loop dur (Some eh) (Some em) (calendar_id s) (employee_name s)
      (utc_day_start date + (60 * sh + sm) * ms_per_minute) =
    Some (map (\<lambda>(a, b). mk_slot (calendar_id s) (employee_name s) a b)
             (fixed_windows (utc_day_start date + (60 * sh + sm) * ms_per_minute) dur
               (nat ((60 * eh + em - (60 * sh + sm)) div dur))))"
    using assms by (intro slot_loop_fixed_windows) simp_all
  show ?thesis
    using assms(1,2) loop by (simp only: rule_slots_def set_utc_hours_Some prod.case option.case)
qed

theorem rule_slots_refines_witness:
  "parse_time ''08:00'' = (Some 8, Some 0) \<and> parse_time ''17:00'' = (Some 17, Some 0) \<and>
   stop_minute 480 1020 60 < minutes_per_day \<and>
   rule_slots 1704067200000 60 (monday_rule ''08:00'' ''17:00'') =
     Some (map (\<lambda>(a, b). mk_slot ''1'' ''Anna'' a b)
             (fixed_windows (1704067200000 + 480 * ms_per_minute) 60 9))"
proof -
  have p: "parse_time ''08:00'' = (Some 8, Some 0)" "parse_time ''17:00'' = (Some 17, Some 0)"
    by (simp_all add: parse_time_eval)
  have stop: "stop_minute 480 1020 60 < minutes_per_day"
    by (simp add: stop_minute_def)
  show ?thesis
    using p stop rule_slots_refines [of "monday_rule ''08:00'' ''17:00''" 8 0 17 0 60 1704067200000]
    by (simp add: utc_day_start_def)
qed

text \<open>C2. Under the same conditions the generator returns, every slot lasts exactly the
  requested duration (spec property 1), lies between the rule's start and end on the
  selected day (spec property 2), carries the rule's calendar and employee, there are
  \<open>(E - S) div dur\<close> of them, and they are strictly ordered by start.\<close>

theorem rule_slots_correct:
  assumes "parse_time (time_from s) = (Some sh, Some sm)" "parse_time (time_to s) = (Some eh, Some em)"
    and "0 < dur" "0 \<le> 60 * sh + sm" "0 \<le> em" "em < 60"
    and "stop_minute (60 * sh + sm) (60 * eh + em) dur < minutes_per_day"
  shows "\<exists>slots. rule_slots date dur s = Some slots \<and>
           length slots = nat ((60 * eh + em - (60 * sh + sm)) div dur) \<and>
           sorted_wrt (<) (map slot_start slots) \<and>
           (\<forall>sl \<in> set slots.
              slot_end sl = slot_start sl + dur * ms_per_minute \<and>
              utc_day_start date + (60 * sh + sm) * ms_per_minute \<le> slot_start sl \<and>
              slot_end sl \<le> utc_day_start date + (60 * eh + em) * ms_per_minute \<and>
              slot_calendar_id sl = calendar_id s \<and> slot_employee_name sl = employee_name s)"
proof -
  let ?t = "utc_day_start date + (60 * sh + sm) * ms_per_minute"
  let ?ws = "fixed_windows ?t dur (nat ((60 * eh + em - (60 * sh + sm)) div dur))"
  let ?slots = "map (\<lambda>(a, b). mk_slot (calendar_id s) (employee_name s) a b) ?ws"
  have loop: "slot_loop dur (Some eh) (Some em) (calendar_id s) (employee_name s) ?t = Some ?slots"
    using assms by (intro slot_loop_fixed_windows) simp_all
  then have ret: "rule_slots date dur s = Some ?slots"
    using assms(1,2) by (simp only: rule_slots_def set_utc_hours_Some prod.case option.case)
  have starts: "map slot_start ?slots = map fst ?ws"
    by (auto simp: mk_slot_def)
  have "sorted_wrt (<) (map slot_start ?slots)"
    unfolding starts using fixed_windows_sorted [OF assms(3)] .
  moreover have "\<forall>sl \<in> set ?slots.
      slot_end sl = slot_start sl + dur * ms_per_minute \<and> ?t \<le> slot_start sl \<and>
      slot_end sl \<le> utc_day_start date + (60 * eh + em) * ms_per_minute \<and>
      slot_calendar_id sl = calendar_id s \<and> slot_employee_name sl = employee_name s"
  proof
    fix sl
    assume "sl \<in> set ?slots"
    then obtain a b where ab: "(a, b) \<in> set ?ws"
      and sl: "sl = mk_slot (calendar_id s) (employee_name s) a b"
      by auto
    from fixed_windows_within [OF assms(3) ab] sl
    show "slot_end sl = slot_start sl + dur * ms_per_minute \<and> ?t \<le> slot_start sl \<and>
      slot_end sl \<le> utc_day_start date + (60 * eh + em) * ms_per_minute \<and>
      slot_calendar_id sl = calendar_id s \<and> slot_employee_name sl = employee_name s"
      by (simp add: mk_slot_def)
  qed
  ultimately show ?thesis using ret by auto
qed

theorem rule_slots_correct_witness:
  "parse_time ''08:00'' = (Some 8, Some 0) \<and> parse_time ''17:00'' = (Some 17, Some 0) \<and>
   stop_minute 480 1020 60 < minutes_per_day \<and>
   (\<exists>slots. rule_slots 1704067200000 60 (monday_rule ''08:00'' ''17:00'') = Some slots \<and>
      length slots = 9 \<and>
      (\<forall>sl \<in> set slots. slot_end sl = slot_start sl + 3600000 \<and>
         1704067200000 + 480 * ms_per_minute \<le> slot_start sl \<and>
         slot_end sl \<le> 1704067200000 + 1020 * ms_per_minute))"
proof -
  have p: "parse_time ''08:00'' = (Some 8, Some 0)" "parse_time ''17:00'' = (Some 17, Some 0)"
    by (simp_all add: parse_time_eval)
  have stop: "stop_minute 480 1020 60 < minutes_per_day"
    by (simp add: stop_minute_def)
  from rule_slots_correct [of "monday_rule ''08:00'' ''17:00''" 8 0 17 0 60 1704067200000] p stop
  obtain slots where "rule_slots 1704067200000 60 (monday_rule ''08:00'' ''17:00'') = Some slots"
    "length slots = 9"
    "\<forall>sl \<in> set slots. slot_end sl = slot_start sl + 3600000 \<and>
         1704067200000 + 480 * ms_per_minute \<le> slot_start sl \<and>
         slot_end sl \<le> 1704067200000 + 1020 * ms_per_minute"
    by (auto simp: utc_day_start_def)
  with p stop show ?thesis by blast
qed

text \<open>C3. Non-termination: when the duration divides the day and no minute the loop
  can reach (those congruent to the start modulo the duration) lies between the rule's
  end and midnight, the guard, which reads only the UTC hour and minute, stays true
  forever and \<open>calculateTimeSlots\<close> never returns (the request hangs).  A weekly rule
  09:00--23:30 with hourly services is such a rule.\<close>

theorem rule_slots_never_returns:
  assumes "parse_time (time_from s) = (Some sh, Some sm)" "parse_time (time_to s) = (Some eh, Some em)"
    and "0 < dur" "minutes_per_day mod dur = 0" "0 \<le> em" "em \<le> 60"
    and "minutes_per_day - dur + (60 * sh + sm) mod dur < 60 * eh + em"
  shows "rule_slots date dur s = None"
  using assms slot_loop_diverges [of "utc_day_start date" dur em "60 * sh + sm" eh]
  by (simp add: rule_slots_def set_utc_hours_Some)

theorem rule_slots_never_returns_witness:
  "parse_time ''09:00'' = (Some 9, Some 0) \<and> parse_time ''23:30'' = (Some 23, Some 30) \<and>
   rule_slots 1704067200000 60
     \<lparr>sched_id = ''1'', calendar_id = ''1'', time_from = ''09:00'', time_to = ''23:30'',
      working_hours_type = ''weekly'', restricted_to_services = None, weekday = Some ''Monday'',
      employee_name = ''Anna'', assignments_services = [], date_from = None, date_to = None\<rparr> = None"
proof -
  have p: "parse_time ''09:00'' = (Some 9, Some 0)" "parse_time ''23:30'' = (Some 23, Some 30)"
    by (simp_all add: parse_time_eval)
  show ?thesis
    using p rule_slots_never_returns [of
      "\<lparr>sched_id = ''1'', calendar_id = ''1'', time_from = ''09:00'', time_to = ''23:30'',
        working_hours_type = ''weekly'', restricted_to_services = None, weekday = Some ''Monday'',
        employee_name = ''Anna'', assignments_services = [], date_from = None, date_to = None\<rparr>"
      9 0 23 30 60 1704067200000]
    by simp
qed

text \<open>The push test also reads only the hour and minute, so a slot that ends after
  midnight passes it: for a rule 21:00--23:00 and a 200-minute service the generator
  returns seven slots, the first from 21:00 to 00:20 of the next day and the rest on
  the next day, none of them inside the rule's window except for its start.\<close>

theorem late_rule_overruns:
  "rule_slots 1704067200000 200
     \<lparr>sched_id = ''1'', calendar_id = ''1'', time_from = ''21:00'', time_to = ''23:00'',
      working_hours_type = ''weekly'', restricted_to_services = None, weekday = Some ''Monday'',
      employee_name = ''Anna'', assignments_services = [], date_from = None, date_to = None\<rparr> =
   Some (map (\<lambda>k. mk_slot ''1'' ''Anna'' (1704067200000 + (1260 + 200 * int k) * 60000)
                                       (1704067200000 + (1460 + 200 * int k) * 60000)) [0..<7])"
  by (simp add: rule_slots_def parse_time_eval set_utc_hours_def utc_day_start_def slot_loop.simps
      before_end_def ends_by_def utc_hours_def utc_minutes_def add_utc_minutes_def upt_rec)

text \<open>Spec example 6: a weekly Monday rule 08:00--17:00 with a 60-minute service
  gives the nine slots 08:00--09:00, \<dots>, 16:00--17:00 on Monday 2024-01-01.\<close>

theorem monday_rule_example:
  "calculate_time_slots [monday_rule ''08:00'' ''17:00''] 1704067200000 60 =
     Some (map (\<lambda>k. mk_slot ''1'' ''Anna'' (1704067200000 + (8 + int k) * 3600000)
                                        (1704067200000 + (9 + int k) * 3600000)) [0..<9])"
  by (simp add: calculate_time_slots_def is_weekly_on_def is_certain_on_def weekday_name_def
      weekday_names_def rule_slots_def parse_time_eval set_utc_hours_def utc_day_start_def
      slot_loop.simps before_end_def ends_by_def utc_hours_def utc_minutes_def add_utc_minutes_def
      upt_rec)

text \<open>Spec example 7: a rule 09:00--13:00 with a 45-minute service gives the five
  slots 09:00--09:45, \<dots>, 12:00--12:45; 12:45--13:30 is not emitted.\<close>

theorem short_rule_example:
  "calculate_time_slots [monday_rule ''09:00'' ''13:00''] 1704067200000 45 =
     Some (map (\<lambda>k. mk_slot ''1'' ''Anna'' (1704067200000 + (540 + 45 * int k) * 60000)
                                        (1704067200000 + (585 + 45 * int k) * 60000)) [0..<5])"
  by (simp add: calculate_time_slots_def is_weekly_on_def is_certain_on_def weekday_name_def
      weekday_names_def rule_slots_def parse_time_eval set_utc_hours_def utc_day_start_def
      slot_loop.simps before_end_def ends_by_def utc_hours_def utc_minutes_def add_utc_minutes_def
      upt_rec)

end
