(* ===== verification/Appointment_Model.thy ===== *)
theory Appointment_Model
  imports Calendar_Prelude
begin

text \<open>
  The appointment and contact data the availability engine reads, as the MySQL data
  access objects return them.  \<open>AppointmentDaoMySql.mapAppointmentWithContact\<close>
  (src/booking-backend-main/src/database-client/src/Appointment/AppointmentDaoMySql.ts)
  builds each appointment's \<open>contact\<close> from the joined contact columns; the
  \<open>district\<close>, \<open>lat\<close> and \<open>lng\<close> columns of \<open>contacts\<close> are not among them, so
  these fields of an appointment's contact are always undefined.
  \<open>ContactDaoMySql.mapContactRow\<close> (src/booking-backend-main/src/database-client/src/Contact/ContactDaoMySql.ts)
  does copy them.
\<close>

subsection \<open>Data\<close>

text \<open>The location fields of \<open>Contact\<close>: an optional address, an optional district
  number and optional coordinates (\<open>None\<close> is SQL \<open>NULL\<close> or a missing field).\<close>

record contact =
  contact_key :: string
  address :: "string option"
  district :: "int option"
  lat :: "real option"
  lng :: "real option"

text \<open>The fields of \<open>Appointment\<close> the engine reads.  \<open>appointment_status\<close> is the
  status column's string; the code compares it with \<open>AppointmentStatus.Confirmed\<close>,
  whose value is \<open>''Confirmed''\<close> (the value the seed script stores).\<close>

record appointment =
  appt_id :: string
  appt_calendar_id :: string
  appt_contact_id :: string
  start_date :: instant
  end_date :: instant
  appointment_status :: string
  appt_contact :: "contact option"

definition status_confirmed :: string where
  "status_confirmed = ''Confirmed''"

subsection \<open>The database tables\<close>

text \<open>A row of \<open>contacts\<close> and a row of \<open>appointments\<close>, with the columns the
  queries of the engine touch.\<close>

record contact_row =
  c_id :: string
  c_address :: "string option"
  c_district :: "int option"
  c_lat :: "real option"
  c_lng :: "real option"

record appointment_row =
  a_id :: string
  a_calendar_id :: string
  a_contact_id :: string
  a_start_date :: instant
  a_end_date :: instant
  a_status :: string

text \<open>\<open>mapContactRow\<close>: every location column is copied.\<close>

definition map_contact_row :: "contact_row \<Rightarrow> contact" where
  "map_contact_row r =
     \<lparr>contact_key = c_id r, address = c_address r, district = c_district r,
      lat = c_lat r, lng = c_lng r\<rparr>"

text \<open>\<open>mapAppointmentWithContact\<close>: the embedded contact has the joined address but
  no district and no coordinates, since the query selects neither.\<close>

definition map_appointment_with_contact :: "appointment_row \<Rightarrow> contact_row \<Rightarrow> appointment" where
  "map_appointment_with_contact a c =
     \<lparr>appt_id = a_id a, appt_calendar_id = a_calendar_id a, appt_contact_id = c_id c,
      start_date = a_start_date a, end_date = a_end_date a, appointment_status = a_status a,
      appt_contact = Some \<lparr>contact_key = c_id c, address = c_address c,
                            district = None, lat = None, lng = None\<rparr>\<rparr>"

text \<open>The \<open>INNER JOIN contacts c ON a.contact_id = c.id\<close> of the appointment queries,
  filtered by a \<open>WHERE\<close> predicate on the appointment row and in \<open>ORDER BY
  a.start_date\<close> order (ties keep table order, one of the orders SQL allows).\<close>

definition join_contacts ::
  "(appointment_row \<Rightarrow> bool) \<Rightarrow> appointment_row list \<Rightarrow> contact_row list \<Rightarrow> appointment list" where
  "join_contacts P appts contacts =
     map (\<lambda>(a, c). map_appointment_with_contact a c)
       (sort_key (\<lambda>(a, c). a_start_date a)
          [(a, c). a \<leftarrow> appts, c \<leftarrow> contacts, P a \<and> a_contact_id a = c_id c])"

text \<open>\<open>getAppointments(start, end)\<close>: \<open>WHERE a.start_date >= ? AND a.end_date <= ?\<close>.\<close>

definition get_appointments ::
  "appointment_row list \<Rightarrow> contact_row list \<Rightarrow> instant \<Rightarrow> instant \<Rightarrow> appointment list" where
  "get_appointments appts contacts s e =
     join_contacts (\<lambda>a. s \<le> a_start_date a \<and> a_end_date a \<le> e) appts contacts"

text \<open>\<open>getAppointmentsByDateCalendarIdId(calendar_id, start, end)\<close>.\<close>

definition get_appointments_by_date_calendar ::
  "appointment_row list \<Rightarrow> contact_row list \<Rightarrow> string \<Rightarrow> instant \<Rightarrow> instant \<Rightarrow> appointment list" where
  "get_appointments_by_date_calendar appts contacts cal s e =
     join_contacts (\<lambda>a. a_calendar_id a = cal \<and> s \<le> a_start_date a \<and> a_end_date a \<le> e)
       appts contacts"

subsection \<open>Facts about the queries\<close>

lemma set_join_contacts:
  "set (join_contacts P appts contacts) =
     {map_appointment_with_contact a c | a c. a \<in> set appts \<and> c \<in> set contacts \<and>
        P a \<and> a_contact_id a = c_id c}"
  by (auto simp: join_contacts_def)

lemma join_contacts_no_location:
  assumes "b \<in> set (join_contacts P appts contacts)"
  shows "\<exists>c. appt_contact b = Some c \<and> district c = None \<and> lat c = None \<and> lng c = None"
  using assms by (auto simp: set_join_contacts map_appointment_with_contact_def)

end
