(* ===== verification/Booking_Filter.thy ===== *)
theory Booking_Filter
  imports Slot_Generator Appointment_Model
begin

text \<open>
  The conflict filter \<open>AppointmentsService.filterBookedAppointments\<close> and the
  past-time filter of \<open>AppointmentsService.getTimeSlots\<close>
  (src/booking-backend-main/src/server/app/appointment/AppointmentsService.ts, lines
  380--412 and 243--249).  A slot is dropped when some appointment with status
  Confirmed overlaps it as an open interval; the code does not compare the slot's
  calendar with the appointment's.
\<close>

subsection \<open>Conflict filter\<close>

text \<open>The test of the inner loop's \<open>if\<close>.\<close>

definition blocks :: "appointment \<Rightarrow> time_slot \<Rightarrow> bool" where
  "blocks a sl \<longleftrightarrow>
     appointment_status a = status_confirmed \<and> slot_start sl < end_date a \<and> start_date a < slot_end sl"

text \<open>The inner loop: \<open>isBooked\<close> becomes true at the first blocking appointment
  and the loop \<open>break\<close>s.\<close>

fun is_booked :: "time_slot \<Rightarrow> appointment list \<Rightarrow> bool" where
  "is_booked sl [] = False"
| "is_booked sl (a # as) = (if blocks a sl then True else is_booked sl as)"

text \<open>The outer loop: slots not booked are pushed in order.\<close>

fun filter_booked_appointments :: "time_slot list \<Rightarrow> appointment list \<Rightarrow> time_slot list" where
  "filter_booked_appointments [] appts = []"
| "filter_booked_appointments (sl # sls) appts =
     (if \<not> is_booked sl appts then sl # filter_booked_appointments sls appts
      else filter_booked_appointments sls appts)"

subsection \<open>Past-time filter\<close>

text \<open>\<open>minAllowedTime = now - 5 * 60000\<close>; a slot is kept iff its start is not
  before it.\<close>

definition past_tolerance_ms :: int where
  "past_tolerance_ms = 5 * ms_per_minute"

definition filter_future :: "instant \<Rightarrow> time_slot list \<Rightarrow> time_slot list" where
  "filter_future now sls = filter (\<lambda>sl. now - past_tolerance_ms \<le> slot_start sl) sls"

subsection \<open>Functional behaviour\<close>

lemma is_booked_iff: "is_booked sl appts \<longleftrightarrow> (\<exists>a \<in> set appts. blocks a sl)"
  by (induction appts) auto

lemma filter_booked_eq_filter:
  "filter_booked_appointments sls appts = filter (\<lambda>sl. \<not> (\<exists>a \<in> set appts. blocks a sl)) sls"
  by (induction sls) (auto simp: is_booked_iff)

lemma filter_booked_subset: "set (filter_booked_appointments sls appts) \<subseteq> set sls"
  by (auto simp: filter_booked_eq_filter)

lemma filter_booked_mem_iff:
  "sl \<in> set (filter_booked_appointments sls appts) \<longleftrightarrow>
     sl \<in> set sls \<and> \<not> (\<exists>a \<in> set appts. blocks a sl)"
  by (simp add: filter_booked_eq_filter)

text \<open>C5. Spec property 3: a slot that survives the conflict filter does not overlap
  any Confirmed appointment passed to it: it ends no later than the appointment starts
  or starts no earlier than it ends.\<close>

theorem filter_booked_no_overlap:
  assumes "sl \<in> set (filter_booked_appointments sls appts)" "a \<in> set appts"
    and "appointment_status a = status_confirmed"
  shows "slot_end sl \<le> start_date a \<or> end_date a \<le> slot_start sl"
  using assms by (auto simp: filter_booked_mem_iff blocks_def)

theorem filter_booked_no_overlap_witness:
  "mk_slot ''1'' ''Anna'' 0 3600000 \<in> set (filter_booked_appointments [mk_slot ''1'' ''Anna'' 0 3600000]
      [\<lparr>appt_id = ''7'', appt_calendar_id = ''1'', appt_contact_id = ''3'', start_date = 3600000,
        end_date = 7200000, appointment_status = ''Confirmed'', appt_contact = None\<rparr>]) \<and>
   \<lparr>appt_id = ''7'', appt_calendar_id = ''1'', appt_contact_id = ''3'', start_date = 3600000,
        end_date = 7200000, appointment_status = ''Confirmed'', appt_contact = None\<rparr> \<in>
     set [\<lparr>appt_id = ''7'', appt_calendar_id = ''1'', appt_contact_id = ''3'', start_date = 3600000,
        end_date = 7200000, appointment_status = ''Confirmed'', appt_contact = None\<rparr>] \<and>
   (3600000 :: int) \<le> 3600000"
proof -
  let ?a = "\<lparr>appt_id = ''7'', appt_calendar_id = ''1'', appt_contact_id = ''3'', start_date = 3600000,
        end_date = 7200000, appointment_status = ''Confirmed'', appt_contact = None\<rparr>"
  have kept: "mk_slot ''1'' ''Anna'' 0 3600000 \<in> set (filter_booked_appointments [mk_slot ''1'' ''Anna'' 0 3600000] [?a])"
    by (simp add: blocks_def mk_slot_def status_confirmed_def)
  have "slot_end (mk_slot ''1'' ''Anna'' 0 3600000) \<le> start_date ?a \<or>
        end_date ?a \<le> slot_start (mk_slot ''1'' ''Anna'' 0 3600000)"
    using filter_booked_no_overlap [OF kept, of ?a] by (simp add: status_confirmed_def)
  with kept show ?thesis by (simp add: mk_slot_def)
qed

text \<open>C6. The conflict filter removes nothing else: every slot of the input that
  no Confirmed appointment overlaps as an open interval is kept, whatever the other
  appointments are; a slot that merely touches an appointment (ends when it starts,
  or starts when it ends) is kept too.\<close>

theorem filter_booked_keeps_free:
  assumes "sl \<in> set sls"
    and "\<forall>a \<in> set appts. appointment_status a = status_confirmed \<longrightarrow>
           slot_end sl \<le> start_date a \<or> end_date a \<le> slot_start sl"
  shows "sl \<in> set (filter_booked_appointments sls appts)"
  using assms by (auto simp: filter_booked_mem_iff blocks_def)

theorem filter_booked_keeps_free_witness:
  "mk_slot ''1'' ''Anna'' 0 3600000 \<in> set (filter_booked_appointments [mk_slot ''1'' ''Anna'' 0 3600000]
      [\<lparr>appt_id = ''7'', appt_calendar_id = ''1'', appt_contact_id = ''3'', start_date = 3600000,
        end_date = 7200000, appointment_status = ''Confirmed'', appt_contact = None\<rparr>])"
  by (rule filter_booked_keeps_free) (simp_all add: mk_slot_def status_confirmed_def)

text \<open>C7. Only Confirmed appointments block: when no appointment passed to the filter is
  Confirmed (all cancelled, or any other status), every slot is kept, in order.\<close>

theorem filter_booked_unconfirmed_never_block:
  assumes "\<forall>a \<in> set appts. appointment_status a \<noteq> status_confirmed"
  shows "filter_booked_appointments sls appts = sls"
  using assms by (simp add: filter_booked_eq_filter blocks_def)

theorem filter_booked_unconfirmed_never_block_witness:
  "filter_booked_appointments [mk_slot ''1'' ''Anna'' 0 3600000]
     [\<lparr>appt_id = ''7'', appt_calendar_id = ''1'', appt_contact_id = ''3'', start_date = 0,
        end_date = 3600000, appointment_status = ''Cancelled'', appt_contact = None\<rparr>] =
   [mk_slot ''1'' ''Anna'' 0 3600000]"
proof -
  have h: "\<forall>a \<in> set [\<lparr>appt_id = ''7'', appt_calendar_id = ''1'', appt_contact_id = ''3'', start_date = 0,
        end_date = 3600000, appointment_status = ''Cancelled'', appt_contact = None\<rparr>].
      appointment_status a \<noteq> status_confirmed"
    by (simp add: status_confirmed_def)
  show ?thesis using filter_booked_unconfirmed_never_block [OF h] .
qed

text \<open>Spec example 10: with a tolerance of five minutes, a slot that started ten
  minutes ago is removed and one that started two minutes ago is kept, whatever the
  current instant.\<close>

theorem filter_future_example:
  "filter_future now [mk_slot c e (now - 10 * ms_per_minute) (now + 50 * ms_per_minute),
                      mk_slot c e (now - 2 * ms_per_minute) (now + 58 * ms_per_minute)] =
   [mk_slot c e (now - 2 * ms_per_minute) (now + 58 * ms_per_minute)]"
  by (simp add: filter_future_def past_tolerance_ms_def mk_slot_def)

end
