(* ===== verification/Sql_Table.thy ===== *)
theory Sql_Table
  imports Time_Parse "HOL-Library.Sublist"
begin

text \<open>
  The MySQL tables behind the data access objects
  (src/booking-backend-main/src/database-client/src/*/*DaoMySql.ts), shared by every
  DAO theory: a table is its rows in insertion order and its \<open>AUTO_INCREMENT\<close>
  counter.  Every DAO reads a row by its key with \<open>SELECT * ... WHERE id = ? LIMIT 1\<close>,
  changes it with \<open>UPDATE ... WHERE id = ?\<close>, removes it with
  \<open>DELETE ... WHERE id = ?\<close> and creates it with \<open>INSERT\<close>, returning
  \<open>result.insertId\<close>, which the mappers turn into the string \<open>_id\<close> with
  \<open>toString()\<close>.  The operations are generic in the row type and take the key
  projection as a parameter; their lemmas (find after insert, update and delete, and
  preservation of key uniqueness) are what the DAO theories instantiate.
\<close>

subsection \<open>Decimal ids\<close>

text \<open>\<open>Number.prototype.toString()\<close> on a non-negative integer id.\<close>

fun nat_str :: "nat \<Rightarrow> string" where
  "nat_str n = (if n < 10 then [char_of (48 + n)] else nat_str (n div 10) @ [char_of (48 + n mod 10)])"

declare nat_str.simps [simp del]

text \<open>\<open>toString()\<close> on an integer id (a negative id keeps its sign).\<close>

definition int_str :: "int \<Rightarrow> string" where
  "int_str i = (if i < 0 then CHR ''-'' # nat_str (nat (- i)) else nat_str (nat i))"

subsection \<open>Errors and JavaScript defaults\<close>

text \<open>The failures a DAO call can end in: \<open>mysql2\<close> refuses an \<open>undefined\<close> bind
  parameter (a required field missing from the request), MySQL refuses a negative
  \<open>LIMIT\<close> or \<open>OFFSET\<close>, and a row whose foreign key names no parent row;
  mapping \<open>rows[0]\<close> of an empty result raises a \<open>TypeError\<close> (\<open>Missing_Row\<close>).\<close>

datatype dao_error =
    Undefined_Bind_Parameter | Negative_Limit_Or_Offset | Foreign_Key_Violation
  | Missing_Row

text \<open>\<open>x || null\<close> on an optional string (the empty string is falsy), \<open>x || false\<close> on an
  optional flag, \<open>x !== undefined ? x : d\<close>, and the assignment of a field of an
  update that is not \<open>undefined\<close>.\<close>

definition or_null :: "string option \<Rightarrow> string option" where
  "or_null x = (if js_truthy_str x then x else None)"

definition or_false :: "bool option \<Rightarrow> bool" where
  "or_false x = (x = Some True)"

definition defined_or :: "'a option \<Rightarrow> 'a \<Rightarrow> 'a" where
  "defined_or x d = (case x of Some v \<Rightarrow> v | None \<Rightarrow> d)"

text \<open>\<open>x || d\<close> on an optional string with a string default.\<close>

definition or_default :: "string option \<Rightarrow> string \<Rightarrow> string" where
  "or_default x d = (if js_truthy_str x then the x else d)"

text \<open>A nullable column assigned by an update when the field is not \<open>undefined\<close>.\<close>

definition set_defined :: "'a option \<Rightarrow> 'a option \<Rightarrow> 'a option" where
  "set_defined x old = (case x of Some v \<Rightarrow> Some v | None \<Rightarrow> old)"

subsection \<open>Tables\<close>

record 'r table =
  tbl_rows :: "'r list"
  tbl_auto_inc :: nat

text \<open>\<open>INSERT\<close>: the row is built from the fresh id, appended, and the counter moves
  on; the result is the row read back by \<open>SELECT * ... WHERE id = insertId\<close>.\<close>

definition tbl_insert :: "(string \<Rightarrow> 'r) \<Rightarrow> 'r table \<Rightarrow> 'r \<times> 'r table" where
  "tbl_insert mk t =
     (let r = mk (nat_str (tbl_auto_inc t))
      in (r, t\<lparr>tbl_rows := tbl_rows t @ [r], tbl_auto_inc := Suc (tbl_auto_inc t)\<rparr>))"

text \<open>\<open>SELECT * ... WHERE id = ? LIMIT 1\<close>: the first row with the key, or \<open>null\<close>.\<close>

definition tbl_find :: "('r \<Rightarrow> string) \<Rightarrow> string \<Rightarrow> 'r table \<Rightarrow> 'r option" where
  "tbl_find key k t = find (\<lambda>r. key r = k) (tbl_rows t)"

definition tbl_update :: "('r \<Rightarrow> string) \<Rightarrow> string \<Rightarrow> ('r \<Rightarrow> 'r) \<Rightarrow> 'r table \<Rightarrow> 'r table" where
  "tbl_update key k f t = t\<lparr>tbl_rows := map (\<lambda>r. if key r = k then f r else r) (tbl_rows t)\<rparr>"

definition tbl_delete :: "('r \<Rightarrow> string) \<Rightarrow> string \<Rightarrow> 'r table \<Rightarrow> 'r table" where
  "tbl_delete key k t = t\<lparr>tbl_rows := filter (\<lambda>r. key r \<noteq> k) (tbl_rows t)\<rparr>"

text \<open>\<open>SELECT * ... WHERE P\<close> in table order, and \<open>ORDER BY created_at DESC\<close>: the
  creation time grows with the insertion order, so the newest row comes first (rows
  created within the same second may come in either order; the model takes the
  reverse insertion order).\<close>

definition tbl_where :: "('r \<Rightarrow> bool) \<Rightarrow> 'r table \<Rightarrow> 'r list" where
  "tbl_where P t = filter P (tbl_rows t)"

definition newest_first :: "'r list \<Rightarrow> 'r list" where
  "newest_first rs = rev rs"

text \<open>\<open>LIMIT ? OFFSET ?\<close> with \<open>offset = limit * (page - 1)\<close>: a negative limit or
  offset is a SQL error.\<close>

definition sql_page :: "int \<Rightarrow> int \<Rightarrow> 'r list \<Rightarrow> dao_error + 'r list" where
  "sql_page page limit rs =
     (let offset = limit * (page - 1)
      in if limit < 0 \<or> offset < 0 then Inl Negative_Limit_Or_Offset
         else Inr (take (nat limit) (drop (nat offset) rs)))"

text \<open>\<open>value LIKE pattern\<close> under the default case-insensitive collation: \<open>%\<close>
  matches any run of characters, \<open>_\<close> any one character, every other character
  itself up to ASCII case (backslash escapes are not modelled).  A \<open>NULL\<close> value
  matches nothing.\<close>

fun like_match :: "string \<Rightarrow> string \<Rightarrow> bool" where
  "like_match [] s \<longleftrightarrow> s = []"
| "like_match (p # ps) s \<longleftrightarrow>
     (if p = CHR ''%'' then like_match ps s \<or> (case s of [] \<Rightarrow> False | c # cs \<Rightarrow> like_match (p # ps) cs)
      else (case s of [] \<Rightarrow> False
            | c # cs \<Rightarrow> (p = CHR ''_'' \<or> ascii_lower p = ascii_lower c) \<and> like_match ps cs))"

definition sql_like :: "string option \<Rightarrow> string \<Rightarrow> bool" where
  "sql_like v pat \<longleftrightarrow> (case v of Some x \<Rightarrow> like_match pat x | None \<Rightarrow> False)"

text \<open>\<open>column = ?\<close> on a string column under the same collation.\<close>

definition sql_str_eq :: "string option \<Rightarrow> string \<Rightarrow> bool" where
  "sql_str_eq v x \<longleftrightarrow> (case v of Some y \<Rightarrow> map ascii_lower y = map ascii_lower x | None \<Rightarrow> False)"

text \<open>The pattern \<open>%${search}%\<close> of the search queries.\<close>

definition contains_pattern :: "string \<Rightarrow> string" where
  "contains_pattern q = CHR ''%'' # q @ [CHR ''%'']"

text \<open>The \<open>if (search)\<close> guard of the search queries and their
  \<open>WHERE (col LIKE ? OR ...)\<close> over the searched columns.\<close>

definition search_matches :: "string option \<Rightarrow> string option list \<Rightarrow> bool" where
  "search_matches search vs \<longleftrightarrow>
     (if js_truthy_str search then list_ex (\<lambda>v. sql_like v (contains_pattern (the search))) vs else True)"

text \<open>A search term with no wildcard character.\<close>

definition no_wildcards :: "string \<Rightarrow> bool" where
  "no_wildcards q \<longleftrightarrow> CHR ''%'' \<notin> set q \<and> CHR ''_'' \<notin> set q"

text \<open>The table invariant: keys are distinct and each is the decimal string of an
  id the counter has already handed out.\<close>

definition tbl_wf :: "('r \<Rightarrow> string) \<Rightarrow> 'r table \<Rightarrow> bool" where
  "tbl_wf key t \<longleftrightarrow>
     distinct (map key (tbl_rows t)) \<and> (\<forall>r \<in> set (tbl_rows t). \<exists>n < tbl_auto_inc t. key r = nat_str n)"

definition empty_table :: "'r table" where
  "empty_table = \<lparr>tbl_rows = [], tbl_auto_inc = 1\<rparr>"

subsection \<open>Decimal ids are distinct\<close>

lemma nat_str_nonempty [simp]: "nat_str n \<noteq> []"
  by (subst nat_str.simps) simp

lemma nat_str_digits: "list_all is_digit (nat_str n)"
proof (induction n rule: nat_str.induct)
  case (1 n)
  have d: "is_digit (char_of (48 + m))" if "m < 10" for m :: nat
    using that by (simp add: is_digit_def of_char_of)
  show ?case
    using 1 d [of n] d [of "n mod 10"] by (subst nat_str.simps) simp
qed

lemma digits_value_snoc: "digits_value (s @ [c]) = 10 * digits_value s + digit_value c"
  by (simp add: digits_value_def)

text \<open>Reading the decimal string back gives the id: the round trip of
  \<open>toString\<close> and the digit parser of \<open>Time_Parse\<close>.\<close>

lemma digits_value_nat_str: "digits_value (nat_str n) = int n"
proof (induction n rule: nat_str.induct)
  case (1 n)
  have dv: "digit_value (char_of (48 + m)) = int m" if "m < 10" for m :: nat
    using that by (simp add: digit_value_def of_char_of)
  show ?case
  proof (cases "n < 10")
    case True
    then show ?thesis by (subst nat_str.simps) (simp add: digits_value_def dv)
  next
    case False
    then have "digits_value (nat_str n) = 10 * int (n div 10) + int (n mod 10)"
      using 1 dv [of "n mod 10"] by (subst nat_str.simps) (simp add: digits_value_snoc)
    also have "\<dots> = int n"
      using div_mult_mod_eq [of n 10] by (metis of_nat_add of_nat_mult of_nat_numeral mult.commute)
    finally show ?thesis .
  qed
qed

lemmas nat_str_eval = nat_str.simps char_of_def bit_0

lemma nat_str_inj [simp]: "nat_str m = nat_str n \<longleftrightarrow> m = n"
  by (metis digits_value_nat_str of_nat_eq_iff)

subsection \<open>Find after insert, update and delete\<close>

named_theorems table_simps "the generic table operations evaluated by their effect on one key"

lemma find_key_snoc:
  "find (\<lambda>r. key r = k) (rs @ [x]) =
     (case find (\<lambda>r. key r = k) rs of None \<Rightarrow> (if key x = k then Some x else None) | Some y \<Rightarrow> Some y)"
  by (induction rs) auto

lemma find_key_map_upd:
  assumes "\<And>r. key (f r) = key r"
  shows "find (\<lambda>r. key r = k') (map (\<lambda>r. if key r = k then f r else r) rs) =
           (if k' = k then map_option f (find (\<lambda>r. key r = k') rs) else find (\<lambda>r. key r = k') rs)"
  by (induction rs) (auto simp: assms)

lemma find_key_filter_neq:
  "find (\<lambda>r. key r = k') (filter (\<lambda>r. key r \<noteq> k) rs) =
     (if k' = k then None else find (\<lambda>r. key r = k') rs)"
  by (induction rs) auto

lemma tbl_find_Some:
  "tbl_find key k t = Some r \<Longrightarrow> r \<in> set (tbl_rows t) \<and> key r = k"
  by (auto simp: tbl_find_def find_Some_iff)

lemma tbl_find_None:
  "tbl_find key k t = None \<longleftrightarrow> (\<forall>r \<in> set (tbl_rows t). key r \<noteq> k)"
  by (auto simp: tbl_find_def find_None_iff)

lemma tbl_wf_fresh:
  assumes "tbl_wf key t" "r \<in> set (tbl_rows t)"
  shows "key r \<noteq> nat_str (tbl_auto_inc t)"
  using assms by (auto simp: tbl_wf_def)

lemma tbl_insert_fst [simp]: "fst (tbl_insert mk t) = mk (nat_str (tbl_auto_inc t))"
  by (simp add: tbl_insert_def Let_def)

lemma tbl_insert_rows [simp]:
  "tbl_rows (snd (tbl_insert mk t)) = tbl_rows t @ [mk (nat_str (tbl_auto_inc t))]"
  by (simp add: tbl_insert_def Let_def)

lemma tbl_insert_auto_inc [simp]: "tbl_auto_inc (snd (tbl_insert mk t)) = Suc (tbl_auto_inc t)"
  by (simp add: tbl_insert_def Let_def)

lemma tbl_find_insert [table_simps]:
  assumes "tbl_wf key t" "key (mk (nat_str (tbl_auto_inc t))) = nat_str (tbl_auto_inc t)"
  shows "tbl_find key k (snd (tbl_insert mk t)) =
           (if k = nat_str (tbl_auto_inc t) then Some (mk (nat_str (tbl_auto_inc t))) else tbl_find key k t)"
proof -
  have "find (\<lambda>r. key r = nat_str (tbl_auto_inc t)) (tbl_rows t) = None"
    using tbl_wf_fresh [OF assms(1)] by (auto simp: find_None_iff)
  then show ?thesis
    using assms(2) by (auto simp: tbl_find_def find_key_snoc split: option.split)
qed

lemma tbl_find_update [table_simps]:
  assumes "\<And>r. key (f r) = key r"
  shows "tbl_find key k' (tbl_update key k f t) =
           (if k' = k then map_option f (tbl_find key k' t) else tbl_find key k' t)"
  using find_key_map_upd [of key f, OF assms] by (simp add: tbl_find_def tbl_update_def)

lemma tbl_find_delete [table_simps]:
  "tbl_find key k' (tbl_delete key k t) = (if k' = k then None else tbl_find key k' t)"
  by (simp add: tbl_find_def tbl_delete_def find_key_filter_neq)

subsection \<open>The table invariant\<close>

lemma empty_table_wf: "tbl_wf key empty_table"
  by (simp add: tbl_wf_def empty_table_def)

lemma tbl_insert_wf:
  assumes "tbl_wf key t" "key (mk (nat_str (tbl_auto_inc t))) = nat_str (tbl_auto_inc t)"
  shows "tbl_wf key (snd (tbl_insert mk t))"
proof -
  have "nat_str (tbl_auto_inc t) \<notin> key ` set (tbl_rows t)"
    using tbl_wf_fresh [OF assms(1)] by fastforce
  moreover have "\<exists>n < Suc (tbl_auto_inc t). key r = nat_str n" if "r \<in> set (tbl_rows t)" for r
    using assms(1) that by (auto simp: tbl_wf_def less_Suc_eq)
  ultimately show ?thesis
    using assms by (auto simp: tbl_wf_def)
qed

lemma tbl_update_wf:
  assumes "tbl_wf key t" "\<And>r. key (f r) = key r"
  shows "tbl_wf key (tbl_update key k f t)"
proof -
  have "map key (map (\<lambda>r. if key r = k then f r else r) (tbl_rows t)) = map key (tbl_rows t)"
    by (simp add: assms(2))
  moreover have "set (map (\<lambda>r. if key r = k then f r else r) (tbl_rows t)) \<subseteq> f ` set (tbl_rows t) \<union> set (tbl_rows t)"
    by auto
  ultimately show ?thesis
    using assms(1) by (auto simp: tbl_wf_def tbl_update_def assms(2) simp del: map_map)
qed

lemma tbl_delete_wf:
  assumes "tbl_wf key t"
  shows "tbl_wf key (tbl_delete key k t)"
  using assms by (auto simp: tbl_wf_def tbl_delete_def distinct_map_filter)

subsection \<open>LIKE patterns\<close>

text \<open>\<open>%q%\<close> with a wildcard-free \<open>q\<close> matches exactly the values that contain
  \<open>q\<close> up to ASCII case.\<close>


lemma like_match_percent_Cons:
  "like_match (CHR ''%'' # ps) s \<longleftrightarrow> (\<exists>s1 s2. s = s1 @ s2 \<and> like_match ps s2)"
proof (induction s)
  case Nil
  then show ?case by simp
next
  case (Cons c s)
  have "like_match (CHR ''%'' # ps) (c # s) \<longleftrightarrow> like_match ps (c # s) \<or> like_match (CHR ''%'' # ps) s"
    by simp
  also have "\<dots> \<longleftrightarrow> (\<exists>s1 s2. c # s = s1 @ s2 \<and> like_match ps s2)"
    unfolding Cons by (auto simp: Cons_eq_append_conv)
  finally show ?case .
qed

lemma like_match_literal_append:
  assumes "no_wildcards q"
  shows "like_match (q @ ps) s \<longleftrightarrow>
           (\<exists>s1 s2. s = s1 @ s2 \<and> map ascii_lower s1 = map ascii_lower q \<and> like_match ps s2)"
  using assms
proof (induction q arbitrary: s)
  case Nil
  then show ?case by simp
next
  case (Cons p q)
  then have p: "p \<noteq> CHR ''%''" "p \<noteq> CHR ''_''" and nw: "no_wildcards q"
    by (auto simp: no_wildcards_def)
  show ?case
  proof (cases s)
    case Nil
    then show ?thesis using p by simp
  next
    case (Cons c s')
    have "like_match ((p # q) @ ps) s \<longleftrightarrow> ascii_lower p = ascii_lower c \<and> like_match (q @ ps) s'"
      using p Cons by simp
    also have "\<dots> \<longleftrightarrow> (\<exists>s1 s2. s = s1 @ s2 \<and> map ascii_lower s1 = map ascii_lower (p # q) \<and> like_match ps s2)"
      unfolding Cons.IH [OF nw] using Cons
      by (auto simp: Cons_eq_append_conv map_eq_Cons_conv) metis+
    finally show ?thesis .
  qed
qed

lemma like_match_percent: "like_match [CHR ''%''] s"
  unfolding like_match_percent_Cons by simp

lemma like_match_underscores:
  "like_match (replicate n CHR ''_'' @ ps) s \<longleftrightarrow> n \<le> length s \<and> like_match ps (drop n s)"
proof (induction n arbitrary: s)
  case 0
  then show ?case by simp
next
  case (Suc n)
  then show ?case by (cases s) simp_all
qed

text \<open>An unescaped term of \<open>n\<close> underscores is a pattern of \<open>n\<close> single-character
  wildcards: \<open>%__%\<close> matches every value of at least two characters.\<close>

lemma contains_underscores_iff:
  "like_match (contains_pattern (replicate n CHR ''_'')) v \<longleftrightarrow> n \<le> length v"
proof -
  have "like_match (contains_pattern (replicate n CHR ''_'')) v \<longleftrightarrow>
        (\<exists>v1 v2. v = v1 @ v2 \<and> n \<le> length v2)"
    unfolding contains_pattern_def like_match_percent_Cons like_match_underscores
    by (simp add: like_match_percent)
  also have "\<dots> \<longleftrightarrow> n \<le> length v"
    by (auto intro: exI [of _ "[]"])
  finally show ?thesis .
qed

lemma contains_pattern_iff:
  assumes "no_wildcards q"
  shows "like_match (contains_pattern q) v \<longleftrightarrow> sublist (map ascii_lower q) (map ascii_lower v)"
proof -
  have "like_match (contains_pattern q) v \<longleftrightarrow>
        (\<exists>v1 v2 w1 w2. v = v1 @ v2 \<and> v2 = w1 @ w2 \<and> map ascii_lower w1 = map ascii_lower q)"
    unfolding contains_pattern_def like_match_percent_Cons like_match_literal_append [OF assms]
    by (simp add: like_match_percent)
  also have "\<dots> \<longleftrightarrow> sublist (map ascii_lower q) (map ascii_lower v)"
  proof
    assume "\<exists>v1 v2 w1 w2. v = v1 @ v2 \<and> v2 = w1 @ w2 \<and> map ascii_lower w1 = map ascii_lower q"
    then obtain v1 w1 w2 where "v = v1 @ w1 @ w2" "map ascii_lower w1 = map ascii_lower q" by blast
    then have "map ascii_lower v = map ascii_lower v1 @ map ascii_lower q @ map ascii_lower w2" by simp
    then show "sublist (map ascii_lower q) (map ascii_lower v)" unfolding sublist_def by blast
  next
    assume "sublist (map ascii_lower q) (map ascii_lower v)"
    then obtain a b where h: "map ascii_lower v = a @ map ascii_lower q @ b" unfolding sublist_def by blast
    from map_eq_append_conv [THEN iffD1, OF h] obtain v1 r
      where r: "v = v1 @ r" "map ascii_lower q @ b = map ascii_lower r" by blast
    from map_eq_append_conv [THEN iffD1, OF r(2) [symmetric]] obtain w1 w2
      where "r = w1 @ w2" "map ascii_lower q = map ascii_lower w1" by blast
    with r(1) have "v = v1 @ r" "r = w1 @ w2" "map ascii_lower w1 = map ascii_lower q" by simp_all
    then show "\<exists>v1 v2 w1 w2. v = v1 @ v2 \<and> v2 = w1 @ w2 \<and> map ascii_lower w1 = map ascii_lower q"
      by blast
  qed
  finally show ?thesis .
qed

lemma tbl_wf_delete_other: "tbl_wf key t \<Longrightarrow> tbl_wf key (tbl_delete key' k t)"
  by (auto simp: tbl_wf_def tbl_delete_def distinct_map_filter)

lemma tbl_delete_auto_inc [simp]: "tbl_auto_inc (tbl_delete key k t) = tbl_auto_inc t"
  by (simp add: tbl_delete_def)

subsection \<open>Ids read back by parseInt\<close>

lemma digit_not_space: "is_digit c \<Longrightarrow> \<not> is_js_space c"
  by (auto simp: is_digit_def is_js_space_def)

lemma digit_not_sign: "is_digit c \<Longrightarrow> c \<noteq> CHR ''-'' \<and> c \<noteq> CHR ''+''"
  by (auto simp: is_digit_def)

lemma js_parse_int_nat_str: "js_parse_int (nat_str n) = Some (int n)"
proof -
  obtain c cs where cs: "nat_str n = c # cs" by (cases "nat_str n") auto
  have all: "list_all is_digit (c # cs)" using nat_str_digits [of n] cs by simp
  then have dw: "dropWhile is_js_space (c # cs) = c # cs" and tw: "takeWhile is_digit (c # cs) = c # cs"
    by (simp_all add: digit_not_space list_all_iff takeWhile_eq_all_conv)
  have "c \<noteq> CHR ''-'' \<and> c \<noteq> CHR ''+''" using all digit_not_sign [of c] by simp
  then show ?thesis
    unfolding js_parse_int_def cs dw Let_def using tw digits_value_nat_str [of n] cs by simp
qed

lemma int_str_nat: "int_str (int n) = nat_str n"
  by (simp add: int_str_def)

lemma tbl_wf_key_nat_str: "tbl_wf key t \<Longrightarrow> r \<in> set (tbl_rows t) \<Longrightarrow> \<exists>n. key r = nat_str n"
  by (auto simp: tbl_wf_def)

subsection \<open>Lists with distinct keys\<close>

lemma distinct_key_eq:
  "distinct (map key xs) \<Longrightarrow> r \<in> set xs \<Longrightarrow> r' \<in> set xs \<Longrightarrow> key r = key r' \<Longrightarrow> r = r'"
  by (metis distinct_map inj_onD)

lemma filter_one_key:
  "distinct (map key xs) \<Longrightarrow> c \<in> set xs \<Longrightarrow> key c = k \<Longrightarrow> filter (\<lambda>r. key r = k) xs = [c]"
  by (induction xs) (auto simp: filter_empty_conv image_iff)

lemma concat_map_if_singleton: "concat (map (\<lambda>x. if P x then [f x] else []) xs) = map f (filter P xs)"
  by (induction xs) auto

lemma filter_ids_eq:
  assumes "distinct (map key rs)"
  shows "filter (\<lambda>r. key r \<notin> key ` {r \<in> set rs. P r}) rs = filter (\<lambda>r. \<not> P r) rs"
proof (rule filter_cong [OF refl])
  fix r assume "r \<in> set rs"
  then show "(key r \<notin> key ` {r \<in> set rs. P r}) = (\<not> P r)"
    using assms distinct_key_eq [of key rs] by blast
qed

lemma map_ids_eq:
  assumes "distinct (map key rs)"
  shows "map (\<lambda>r. if key r \<in> key ` {r \<in> set rs. P r} then f r else r) rs = map (\<lambda>r. if P r then f r else r) rs"
proof (rule map_cong [OF refl])
  fix r assume "r \<in> set rs"
  then show "(if key r \<in> key ` {r \<in> set rs. P r} then f r else r) = (if P r then f r else r)"
    using assms distinct_key_eq [of key rs] by auto
qed

end
