(* ===== verification/Schedule_Dao.thy ===== *)
theory Schedule_Dao
  imports Slot_Generator Sql_Table
begin

text \<open>
  The working-hours rules as stored and queried by \<open>ScheduleDaoMySql\<close>
  (src/booking-backend-main/src/database-client/src/Schedule/ScheduleDaoMySql.ts):
  the \<open>schedules\<close> and \<open>calendars\<close> tables and \<open>getScheduleByDate\<close>, which joins
  them, keeps rules of active calendars that are weekly on the date's weekday or
  certain with the date in their range, and maps each row with
  \<open>mapExtendedScheduleRow\<close>.  The query selects neither \<open>date_from\<close> nor
  \<open>date_to\<close>, so the rules it returns never carry a date range.  The CRUD
  operations \<open>addSchedule\<close>, \<open>getScheduleById\<close>, \<open>getSchedules\<close>,
  \<open>getSchedulesCount\<close>, \<open>updateSchedule\<close>, \<open>deleteSchedule\<close> and
  \<open>getSchedulesByCalendarId\<close> act on the \<open>schedules\<close> table of \<open>Sql_Table\<close>.
\<close>

subsection \<open>Tables\<close>

text \<open>A row of \<open>schedules\<close>, which is also the \<open>Schedule\<close> object \<open>mapScheduleRow\<close>
  builds from it (\<open>_id\<close> is \<open>id.toString()\<close>, the JSON column is parsed back;
  \<open>createdAt\<close>/\<open>updatedAt\<close> are not modelled).  \<open>date_from\<close>/\<open>date_to\<close> are
  \<open>DATE\<close> columns, kept as the instant of their UTC midnight; the JSON column is kept
  parsed (\<open>parseJSON(JSON.stringify(xs))\<close> is \<open>xs\<close>).\<close>

record schedule_row =
  sr_id :: string
  sr_calendar_id :: string
  sr_working_hours_type :: string
  sr_weekday :: "string option"
  sr_date_from :: "instant option"
  sr_date_to :: "instant option"
  sr_time_from :: string
  sr_time_to :: string
  sr_restricted_to_services :: "string list option"
  sr_active :: bool
  sr_reason :: "string option"
  sr_deactivate_working_hours :: bool
  sr_one_time_appointment_link :: "string option"
  sr_only_internally :: bool
  sr_possible_appointment :: "string option"

record calendar_row =
  cal_id :: string
  cal_employee_name :: string
  cal_active :: bool
  cal_assignments_services :: "string list option"

text \<open>The values of \<open>ScheduleType.Weekly\<close> and \<open>ScheduleType.Certain\<close> (the schema
  module is not part of the sources; the seed data and \<open>calculateTimeSlots\<close> use
  these strings).\<close>

definition schedule_type_weekly :: string where
  "schedule_type_weekly = ''weekly''"

definition schedule_type_certain :: string where
  "schedule_type_certain = ''certain''"

subsection \<open>getScheduleByDate\<close>

text \<open>\<open>mapExtendedScheduleRow\<close> over the selected columns of the join.\<close>

definition map_extended_schedule_row :: "schedule_row \<Rightarrow> calendar_row \<Rightarrow> ext_schedule" where
  "map_extended_schedule_row s c =
     \<lparr>sched_id = sr_id s, calendar_id = sr_calendar_id s, time_from = sr_time_from s,
      time_to = sr_time_to s, working_hours_type = sr_working_hours_type s,
      restricted_to_services = sr_restricted_to_services s, weekday = sr_weekday s,
      employee_name = cal_employee_name c,
      assignments_services = (case cal_assignments_services c of Some xs \<Rightarrow> xs | None \<Rightarrow> []),
      date_from = None, date_to = None\<rparr>"

text \<open>The \<open>WHERE\<close> clause; \<open>dateStr\<close> is the UTC day of the date, and a \<open>NULL\<close>
  column compares false.\<close>

definition schedule_matches :: "instant \<Rightarrow> schedule_row \<Rightarrow> bool" where
  "schedule_matches date s \<longleftrightarrow>
     (sr_working_hours_type s = schedule_type_weekly \<and> sr_weekday s = Some (weekday_name date)) \<or>
     (sr_working_hours_type s = schedule_type_certain \<and>
      (case (sr_date_from s, sr_date_to s) of
         (Some f, Some t) \<Rightarrow> f \<le> utc_day_start date \<and> utc_day_start date \<le> t
       | _ \<Rightarrow> False))"

text \<open>The join has no \<open>ORDER BY\<close>; the model returns the rows in table order, one of
  the orders the database may choose.\<close>

definition get_schedule_by_date ::
  "schedule_row list \<Rightarrow> calendar_row list \<Rightarrow> instant \<Rightarrow> ext_schedule list" where
  "get_schedule_by_date schedules calendars date =
     [map_extended_schedule_row s c. s \<leftarrow> schedules, c \<leftarrow> calendars,
        sr_calendar_id s = cal_id c \<and> cal_active c \<and> schedule_matches date s]"

subsection \<open>CRUD operations\<close>

text \<open>\<open>Partial<Schedule>\<close>: every field may be \<open>undefined\<close> (\<open>None\<close>).\<close>

record schedule_input =
  si_calendar_id :: "string option"
  si_working_hours_type :: "string option"
  si_weekday :: "string option"
  si_date_from :: "instant option"
  si_date_to :: "instant option"
  si_time_from :: "string option"
  si_time_to :: "string option"
  si_reason :: "string option"
  si_deactivate_working_hours :: "bool option"
  si_one_time_appointment_link :: "string option"
  si_only_internally :: "bool option"
  si_restricted_to_services :: "string list option"
  si_possible_appointment :: "string option"
  si_active :: "bool option"

definition no_schedule_input :: schedule_input where
  "no_schedule_input =
     \<lparr>si_calendar_id = None, si_working_hours_type = None, si_weekday = None, si_date_from = None,
      si_date_to = None, si_time_from = None, si_time_to = None, si_reason = None,
      si_deactivate_working_hours = None, si_one_time_appointment_link = None,
      si_only_internally = None, si_restricted_to_services = None, si_possible_appointment = None,
      si_active = None\<rparr>"

text \<open>A \<open>DATE\<close> column keeps the day of the instant written to it.\<close>

definition sql_date :: "instant option \<Rightarrow> instant option" where
  "sql_date d = map_option utc_day_start d"

text \<open>The values of the \<open>INSERT\<close> of \<open>addSchedule\<close>, with its defaults; the four
  fields passed without a default are required, since \<open>mysql2\<close> rejects an
  \<open>undefined\<close> parameter.\<close>

definition add_schedule :: "schedule_input \<Rightarrow> schedule_row table \<Rightarrow> dao_error + schedule_row \<times> schedule_row table" where
  "add_schedule si t =
     (case (si_calendar_id si, si_working_hours_type si, si_time_from si, si_time_to si) of
        (Some c, Some w, Some tf, Some tt) \<Rightarrow>
          Inr (tbl_insert (\<lambda>i. \<lparr>sr_id = i, sr_calendar_id = c, sr_working_hours_type = w,
                 sr_weekday = or_null (si_weekday si), sr_date_from = sql_date (si_date_from si),
                 sr_date_to = sql_date (si_date_to si), sr_time_from = tf, sr_time_to = tt,
                 sr_restricted_to_services = si_restricted_to_services si,
                 sr_active = defined_or (si_active si) True, sr_reason = or_null (si_reason si),
                 sr_deactivate_working_hours = or_false (si_deactivate_working_hours si),
                 sr_one_time_appointment_link = or_null (si_one_time_appointment_link si),
                 sr_only_internally = or_false (si_only_internally si),
                 sr_possible_appointment = or_null (si_possible_appointment si)\<rparr>) t)
      | _ \<Rightarrow> Inl Undefined_Bind_Parameter)"

definition get_schedule_by_id :: "string \<Rightarrow> schedule_row table \<Rightarrow> schedule_row option" where
  "get_schedule_by_id i t = tbl_find sr_id i t"

text \<open>\<open>SELECT * FROM schedules ORDER BY created_at DESC LIMIT ? OFFSET ?\<close>; the
  \<open>search\<close> argument is ignored.\<close>

definition get_schedules :: "int \<Rightarrow> int \<Rightarrow> schedule_row table \<Rightarrow> dao_error + schedule_row list" where
  "get_schedules page limit t = sql_page page limit (newest_first (tbl_rows t))"

definition get_schedules_count :: "schedule_row table \<Rightarrow> nat" where
  "get_schedules_count t = length (tbl_rows t)"

text \<open>The \<open>SET\<close> list of \<open>updateSchedule\<close>: each field that is not \<open>undefined\<close>
  is written as given.\<close>

definition schedule_input_empty :: "schedule_input \<Rightarrow> bool" where
  "schedule_input_empty si \<longleftrightarrow>
     si_calendar_id si = None \<and> si_working_hours_type si = None \<and> si_weekday si = None \<and>
     si_date_from si = None \<and> si_date_to si = None \<and> si_time_from si = None \<and>
     si_time_to si = None \<and> si_reason si = None \<and> si_deactivate_working_hours si = None \<and>
     si_one_time_appointment_link si = None \<and> si_only_internally si = None \<and>
     si_restricted_to_services si = None \<and> si_possible_appointment si = None \<and> si_active si = None"

definition apply_schedule_input :: "schedule_input \<Rightarrow> schedule_row \<Rightarrow> schedule_row" where
  "apply_schedule_input si r =
     r\<lparr>sr_calendar_id := defined_or (si_calendar_id si) (sr_calendar_id r),
       sr_working_hours_type := defined_or (si_working_hours_type si) (sr_working_hours_type r),
       sr_weekday := set_defined (si_weekday si) (sr_weekday r),
       sr_date_from := (case si_date_from si of Some d \<Rightarrow> sql_date (Some d) | None \<Rightarrow> sr_date_from r),
       sr_date_to := (case si_date_to si of Some d \<Rightarrow> sql_date (Some d) | None \<Rightarrow> sr_date_to r),
       sr_time_from := defined_or (si_time_from si) (sr_time_from r),
       sr_time_to := defined_or (si_time_to si) (sr_time_to r),
       sr_reason := set_defined (si_reason si) (sr_reason r),
       sr_deactivate_working_hours := defined_or (si_deactivate_working_hours si) (sr_deactivate_working_hours r),
       sr_one_time_appointment_link :=
         set_defined (si_one_time_appointment_link si) (sr_one_time_appointment_link r),
       sr_only_internally := defined_or (si_only_internally si) (sr_only_internally r),
       sr_restricted_to_services :=
         set_defined (si_restricted_to_services si) (sr_restricted_to_services r),
       sr_possible_appointment :=
         set_defined (si_possible_appointment si) (sr_possible_appointment r),
       sr_active := defined_or (si_active si) (sr_active r)\<rparr>"

text \<open>With nothing to set the row is read back unchanged; otherwise the \<open>UPDATE\<close> runs
  (touching no row if the id is unknown) and the row is read back, \<open>null\<close> when it
  does not exist.\<close>

definition update_schedule ::
  "string \<Rightarrow> schedule_input \<Rightarrow> schedule_row table \<Rightarrow> schedule_row option \<times> schedule_row table" where
  "update_schedule i si t =
     (if schedule_input_empty si then (get_schedule_by_id i t, t)
      else (let t' = tbl_update sr_id i (apply_schedule_input si) t in (get_schedule_by_id i t', t')))"

definition delete_schedule :: "string \<Rightarrow> schedule_row table \<Rightarrow> schedule_row option \<times> schedule_row table" where
  "delete_schedule i t =
     (case get_schedule_by_id i t of
        None \<Rightarrow> (None, t)
      | Some s \<Rightarrow> (Some s, tbl_delete sr_id i t))"

definition get_schedules_by_calendar_id :: "string \<Rightarrow> schedule_row table \<Rightarrow> schedule_row list" where
  "get_schedules_by_calendar_id c t = newest_first (tbl_where (\<lambda>s. sr_calendar_id s = c) t)"

text \<open>The writes of the DAO as one step function over the table.\<close>

datatype schedule_op =
    Add_Schedule schedule_input
  | Update_Schedule string schedule_input
  | Delete_Schedule string

fun schedule_step :: "schedule_op \<Rightarrow> schedule_row table \<Rightarrow> schedule_row table" where
  "schedule_step (Add_Schedule si) t = (case add_schedule si t of Inr (_, t') \<Rightarrow> t' | Inl _ \<Rightarrow> t)"
| "schedule_step (Update_Schedule i si) t = snd (update_schedule i si t)"
| "schedule_step (Delete_Schedule i) t = snd (delete_schedule i t)"

text \<open>Example request: a weekly Monday rule 08:00--17:00 of calendar 1.\<close>

abbreviation monday_input :: schedule_input where
  "monday_input \<equiv> no_schedule_input\<lparr>si_calendar_id := Some ''1'', si_working_hours_type := Some ''weekly'',
     si_weekday := Some ''Monday'', si_time_from := Some ''08:00'', si_time_to := Some ''17:00''\<rparr>"

subsection \<open>Facts about the query\<close>

lemma set_get_schedule_by_date:
  "set (get_schedule_by_date schedules calendars date) =
     {map_extended_schedule_row s c | s c. s \<in> set schedules \<and> c \<in> set calendars \<and>
        sr_calendar_id s = cal_id c \<and> cal_active c \<and> schedule_matches date s}"
  by (auto simp: get_schedule_by_date_def)

lemma get_schedule_by_date_no_range:
  "r \<in> set (get_schedule_by_date schedules calendars date) \<Longrightarrow> date_from r = None \<and> date_to r = None"
  by (auto simp: set_get_schedule_by_date map_extended_schedule_row_def)

lemma get_schedule_by_date_never_certain:
  "r \<in> set (get_schedule_by_date schedules calendars date) \<Longrightarrow> \<not> is_certain_on d r"
  by (auto simp: is_certain_on_def dest: get_schedule_by_date_no_range)

subsection \<open>Properties of the CRUD operations\<close>


lemma apply_schedule_input_id [simp]: "sr_id (apply_schedule_input si r) = sr_id r"
  by (simp add: apply_schedule_input_def)

lemma apply_schedule_input_empty:
  "schedule_input_empty si \<Longrightarrow> apply_schedule_input si r = r"
  by (simp add: schedule_input_empty_def apply_schedule_input_def defined_or_def set_defined_def)

lemma add_schedule_Inr:
  assumes "add_schedule si t = Inr (s, t')"
  shows "sr_id s = nat_str (tbl_auto_inc t) \<and> (s, t') = tbl_insert (\<lambda>i. s\<lparr>sr_id := i\<rparr>) t"
  using assms
  by (auto simp: add_schedule_def tbl_insert_def Let_def split: option.splits)

lemma add_schedule_wf:
  assumes "tbl_wf sr_id t" "add_schedule si t = Inr (s, t')"
  shows "tbl_wf sr_id t'"
proof -
  from add_schedule_Inr [OF assms(2)] have "t' = snd (tbl_insert (\<lambda>i. s\<lparr>sr_id := i\<rparr>) t)"
    by (metis snd_conv)
  then show ?thesis using tbl_insert_wf [OF assms(1)] by simp
qed

lemma update_schedule_wf:
  "tbl_wf sr_id t \<Longrightarrow> tbl_wf sr_id (snd (update_schedule i si t))"
  by (simp add: update_schedule_def Let_def tbl_update_wf)

lemma delete_schedule_wf:
  "tbl_wf sr_id t \<Longrightarrow> tbl_wf sr_id (snd (delete_schedule i t))"
  by (simp add: delete_schedule_def tbl_delete_wf split: option.split)

lemma schedule_step_wf:
  "tbl_wf sr_id t \<Longrightarrow> tbl_wf sr_id (schedule_step op t)"
  by (cases op) (auto simp: update_schedule_wf delete_schedule_wf add_schedule_wf split: sum.split)

text \<open>C25. Invariant of the schedules table: after any sequence of \<open>addSchedule\<close>,
  \<open>updateSchedule\<close> and \<open>deleteSchedule\<close> calls from an empty table, the ids are
  distinct and each was handed out by \<open>AUTO_INCREMENT\<close>.\<close>
theorem schedules_reachable_wf: "tbl_wf sr_id (fold schedule_step ops empty_table)"
proof -
  have "tbl_wf sr_id (fold schedule_step ops t)" if "tbl_wf sr_id t" for t
    using that by (induction ops arbitrary: t) (simp_all add: schedule_step_wf)
  then show ?thesis using empty_table_wf by blast
qed

text \<open>C23. Round trip of \<open>addSchedule\<close> and \<open>getScheduleById\<close>: the created schedule
  gets the next \<open>AUTO_INCREMENT\<close> id, reading that id back returns it, and every other
  id reads as before.\<close>
theorem add_schedule_get:
  assumes "tbl_wf sr_id t" "add_schedule si t = Inr (s, t')"
  shows "get_schedule_by_id (sr_id s) t' = Some s \<and> sr_id s = nat_str (tbl_auto_inc t) \<and>
         get_schedule_by_id k t' = (if k = sr_id s then Some s else get_schedule_by_id k t)"
proof -
  from add_schedule_Inr [OF assms(2)]
  have id: "sr_id s = nat_str (tbl_auto_inc t)" and ins: "(s, t') = tbl_insert (\<lambda>i. s\<lparr>sr_id := i\<rparr>) t"
    by auto
  have t': "t' = snd (tbl_insert (\<lambda>i. s\<lparr>sr_id := i\<rparr>) t)" using ins by (metis snd_conv)
  have f: "tbl_find sr_id k t' = (if k = sr_id s then Some s else tbl_find sr_id k t)" for k
    unfolding t' using tbl_find_insert [OF assms(1), of "\<lambda>i. s\<lparr>sr_id := i\<rparr>"] id by simp
  show ?thesis using f [of "sr_id s"] f [of k] id by (simp add: get_schedule_by_id_def)
qed

text \<open>\<open>addSchedule\<close> fails exactly when one of the four fields inserted without a
  default (\<open>calendar_id\<close>, \<open>working_hours_type\<close>, \<open>time_from\<close>,
  \<open>time_to\<close>) is \<open>undefined\<close>.\<close>
theorem add_schedule_missing_field:
  "add_schedule si t = Inl Undefined_Bind_Parameter \<longleftrightarrow>
     si_calendar_id si = None \<or> si_working_hours_type si = None \<or> si_time_from si = None \<or> si_time_to si = None"
  by (auto simp: add_schedule_def split: option.split)

text \<open>\<open>updateSchedule\<close> returns the stored row with exactly the fields of the request
  that are not \<open>undefined\<close> replaced, and \<open>null\<close> for an unknown id; an empty request
  returns the row unchanged.\<close>
theorem update_schedule_result:
  "fst (update_schedule i si t) = map_option (apply_schedule_input si) (get_schedule_by_id i t)"
proof (cases "schedule_input_empty si")
  case True
  then have "apply_schedule_input si = id"
    by (simp add: fun_eq_iff apply_schedule_input_empty)
  with True show ?thesis
    by (simp add: update_schedule_def option.map_id)
next
  case False
  then show ?thesis
    by (simp add: update_schedule_def Let_def get_schedule_by_id_def tbl_find_update)
qed

text \<open>\<open>deleteSchedule\<close> returns the row it deletes (\<open>null\<close> for an unknown id),
  after which the id reads as \<open>null\<close> and every other id as before.\<close>
theorem delete_schedule_result:
  "fst (delete_schedule i t) = get_schedule_by_id i t \<and>
   get_schedule_by_id k (snd (delete_schedule i t)) = (if k = i then None else get_schedule_by_id k t)"
  by (cases "get_schedule_by_id i t") (simp_all add: delete_schedule_def get_schedule_by_id_def tbl_find_delete)

text \<open>Pagination of \<open>getSchedules\<close>: with a positive limit the query fails exactly
  when \<open>page\<close> is below 1 (negative \<open>OFFSET\<close>), and otherwise returns at most
  \<open>limit\<close> rows.\<close>
theorem get_schedules_page:
  assumes "0 < limit"
  shows "(get_schedules page limit t = Inl Negative_Limit_Or_Offset \<longleftrightarrow> page < 1) \<and>
         (case get_schedules page limit t of Inr rs \<Rightarrow> length rs \<le> nat limit | Inl _ \<Rightarrow> True)"
  using assms
  by (auto simp: get_schedules_def sql_page_def Let_def mult_less_0_iff)

theorem add_schedule_get_witness:
  "(case add_schedule monday_input empty_table of
      Inr (s, t') \<Rightarrow> get_schedule_by_id ''1'' t' = Some s \<and> sr_weekday s = Some ''Monday'' \<and> sr_active s
    | Inl _ \<Rightarrow> False)"
proof -
  obtain s t' where add: "add_schedule monday_input empty_table = Inr (s, t')"
    and s: "sr_weekday s = Some ''Monday''" "sr_active s"
    by (simp add: add_schedule_def no_schedule_input_def tbl_insert_def or_null_def js_truthy_str_def defined_or_def Let_def)
  note h = add_schedule_get [OF empty_table_wf add]
  have "nat_str (tbl_auto_inc empty_table) = ''1''" by (simp add: empty_table_def nat_str_eval)
  with conjunct1 [OF h] conjunct1 [OF conjunct2 [OF h]] have "get_schedule_by_id ''1'' t' = Some s"
    by metis
  with add s show ?thesis by simp
qed

theorem get_schedules_page_witness:
  "get_schedules 0 10 empty_table = Inl Negative_Limit_Or_Offset"
  using get_schedules_page [of 10 0 empty_table] by simp

end
