(* ===== verification/Category_Dao.thy ===== *)
theory Category_Dao
  imports Sql_Table
begin

text \<open>
  \<open>CategoryDaoMySql\<close>
  (src/booking-backend-main/src/database-client/src/Category/CategoryDaoMySql.ts): the
  \<open>categories\<close> table and the \<open>services\<close> table that refers to it.  First the
  view of the availability engine (\<open>getServiceByCategoryIdAndServiceId\<close> over the
  columns it reads), then the full rows and the operations \<open>addCategory\<close> and
  \<open>updateCategory\<close>, which run in a transaction, \<open>getCategoryById\<close>,
  \<open>getCategories\<close> and \<open>getCategoriesCount\<close> with their search over the
  \<open>LEFT JOIN\<close> of the services, \<open>deleteCategory\<close> with the cascading delete of
  the services, and \<open>getServices\<close>.
\<close>

record service_row =
  sv_id :: string
  sv_category_id :: string
  sv_name :: string
  sv_duration :: "int option"
  sv_price :: real

record service =
  service_id :: string
  service_name :: string
  service_duration :: "int option"
  service_price :: real

definition map_service_row :: "service_row \<Rightarrow> service" where
  "map_service_row r =
     \<lparr>service_id = sv_id r, service_name = sv_name r, service_duration = sv_duration r,
      service_price = sv_price r\<rparr>"

text \<open>\<open>SELECT * FROM services WHERE category_id = ? AND id = ? LIMIT 1\<close>: the first
  matching row, or \<open>null\<close>.\<close>

definition get_service_by_category_and_id ::
  "service_row list \<Rightarrow> string \<Rightarrow> string \<Rightarrow> service option" where
  "get_service_by_category_and_id rows cat sid =
     map_option map_service_row (find (\<lambda>r. sv_category_id r = cat \<and> sv_id r = sid) rows)"


subsection \<open>Full rows and requests\<close>

text \<open>A row of \<open>services\<close>: the engine's columns and the others.  \<open>mapServiceRow\<close>
  returns every column (\<open>price\<close> through \<open>parseFloat\<close>, the JSON \<open>attachment\<close>
  kept parsed, as its text).\<close>

record service_record = service_row +
  sv_description :: string
  sv_abbreviation_id :: int
  sv_attachment :: "string option"

record service_full = service +
  service_description :: string
  service_abbreviation_id :: int
  service_attachment :: "string option"

definition map_service_record :: "service_record \<Rightarrow> service_full" where
  "map_service_record r =
     \<lparr>service_id = sv_id r, service_name = sv_name r, service_duration = sv_duration r,
      service_price = sv_price r, service_description = sv_description r,
      service_abbreviation_id = sv_abbreviation_id r, service_attachment = sv_attachment r\<rparr>"

text \<open>A row of \<open>categories\<close> (the schema module is not part of the sources:
  \<open>choices\<close> is taken as a string and \<open>unique_id\<close> as an integer, which the search
  compares with \<open>Number(search)\<close>).\<close>

record category_row =
  cat_id :: string
  cat_name :: string
  cat_category :: string
  cat_choices :: string
  cat_selection_is_optional :: bool
  cat_show_price :: bool
  cat_show_appointment_duration :: bool
  cat_no_columns_of_services :: int
  cat_full_screen :: bool
  cat_folded :: bool
  cat_online_booking :: bool
  cat_remarks :: string
  cat_unique_id :: int
  cat_display_status :: string
  cat_advanced_settings :: "string option"

text \<open>The \<open>Category\<close> object of \<open>mapCategoryWithServices\<close>.\<close>

record category_full = category_row +
  cat_services :: "service_full list"

text \<open>The two tables; \<open>services.category_id\<close> is a foreign key to \<open>categories\<close>
  with \<open>ON DELETE CASCADE\<close> (as \<open>deleteCategory\<close> relies on).\<close>

record category_db =
  cat_table :: "category_row table"
  svc_table :: "service_record table"

record service_input =
  svi_name :: "string option"
  svi_description :: "string option"
  svi_duration :: "int option"
  svi_price :: "real option"
  svi_abbreviation_id :: "int option"
  svi_attachment :: "string option"

record category_input =
  gi_name :: "string option"
  gi_category :: "string option"
  gi_choices :: "string option"
  gi_selection_is_optional :: "bool option"
  gi_show_price :: "bool option"
  gi_show_appointment_duration :: "bool option"
  gi_no_columns_of_services :: "int option"
  gi_full_screen :: "bool option"
  gi_folded :: "bool option"
  gi_online_booking :: "bool option"
  gi_remarks :: "string option"
  gi_unique_id :: "int option"
  gi_display_status :: "string option"
  gi_advanced_settings :: "string option"
  gi_services :: "service_input list option"

definition no_category_input :: category_input where
  "no_category_input =
     \<lparr>gi_name = None, gi_category = None, gi_choices = None, gi_selection_is_optional = None,
      gi_show_price = None, gi_show_appointment_duration = None, gi_no_columns_of_services = None,
      gi_full_screen = None, gi_folded = None, gi_online_booking = None, gi_remarks = None,
      gi_unique_id = None, gi_display_status = None, gi_advanced_settings = None, gi_services = None\<rparr>"

subsection \<open>Reads\<close>

text \<open>\<open>SELECT * FROM services WHERE category_id = ? ORDER BY id\<close>: rows are appended
  with increasing ids, so table order is id order.\<close>

definition category_services :: "string \<Rightarrow> category_db \<Rightarrow> service_record list" where
  "category_services cid db = tbl_where (\<lambda>s. sv_category_id s = cid) (svc_table db)"

definition map_category :: "category_row \<Rightarrow> service_record list \<Rightarrow> category_full" where
  "map_category c svs = category_row.extend c (category_full.fields (map map_service_record svs))"

definition get_category_by_id :: "string \<Rightarrow> category_db \<Rightarrow> category_full option" where
  "get_category_by_id i db =
     map_option (\<lambda>c. map_category c (category_services i db)) (tbl_find cat_id i (cat_table db))"

text \<open>\<open>isValidNumber\<close> comes from a utility module that is not part of the sources; it
  is taken as \<open>Number(search)\<close> being a number, which \<open>js_number\<close> reads.\<close>

definition is_valid_number :: "string \<Rightarrow> bool" where
  "is_valid_number s \<longleftrightarrow> js_number s \<noteq> None"

definition number_eq :: "string \<Rightarrow> int \<Rightarrow> bool" where
  "number_eq s x \<longleftrightarrow> is_valid_number s \<and> js_number s = Some x"

text \<open>The \<open>WHERE\<close> of \<open>getCategories\<close> over \<open>categories LEFT JOIN services\<close> with
  \<open>DISTINCT\<close>: the category's name or number, or the name, description or
  abbreviation number of one of its services.\<close>

definition category_matches :: "string option \<Rightarrow> category_db \<Rightarrow> category_row \<Rightarrow> bool" where
  "category_matches search db c \<longleftrightarrow>
     (if js_truthy_str search then
        (let q = the search; pat = contains_pattern q
         in sql_like (Some (cat_name c)) pat \<or> number_eq q (cat_unique_id c) \<or>
            list_ex (\<lambda>s. sql_like (Some (sv_name s)) pat \<or> sql_like (Some (sv_description s)) pat \<or>
                         number_eq q (sv_abbreviation_id s))
              (category_services (cat_id c) db))
      else True)"

definition get_categories ::
  "int \<Rightarrow> int \<Rightarrow> string option \<Rightarrow> category_db \<Rightarrow> dao_error + category_full list" where
  "get_categories page limit search db =
     map_sum id (map (\<lambda>c. map_category c (category_services (cat_id c) db)))
       (sql_page page limit (newest_first (tbl_where (category_matches search db) (cat_table db))))"

definition get_categories_count :: "string option \<Rightarrow> category_db \<Rightarrow> nat" where
  "get_categories_count search db = length (tbl_where (category_matches search db) (cat_table db))"

text \<open>\<open>getServices\<close>: every service with its category id, \<open>ORDER BY s.category_id,
  s.id\<close> (numerically; a stable sort by id, then by category).\<close>

record extended_service = service_full +
  es_category_id :: string

definition get_services :: "category_db \<Rightarrow> extended_service list" where
  "get_services db =
     map (\<lambda>s. service_full.extend (map_service_record s) (extended_service.fields (sv_category_id s)))
       (sort_key (\<lambda>s. digits_value (sv_category_id s)) (sort_key (\<lambda>s. digits_value (sv_id s)) (tbl_rows (svc_table db))))"

subsection \<open>Writes\<close>

text \<open>\<open>x || 1\<close> on the number of columns.\<close>

definition or_one :: "int option \<Rightarrow> int" where
  "or_one x = (case x of Some n \<Rightarrow> if n = 0 then 1 else n | None \<Rightarrow> 1)"

definition category_of_input ::
  "category_input \<Rightarrow> string \<Rightarrow> string \<Rightarrow> string \<Rightarrow> int \<Rightarrow> string \<Rightarrow> category_row" where
  "category_of_input gi name cat choices uid i =
     \<lparr>cat_id = i, cat_name = name, cat_category = cat, cat_choices = choices,
      cat_selection_is_optional = or_false (gi_selection_is_optional gi),
      cat_show_price = or_false (gi_show_price gi),
      cat_show_appointment_duration = or_false (gi_show_appointment_duration gi),
      cat_no_columns_of_services = or_one (gi_no_columns_of_services gi),
      cat_full_screen = or_false (gi_full_screen gi), cat_folded = or_false (gi_folded gi),
      cat_online_booking = or_false (gi_online_booking gi), cat_remarks = or_default (gi_remarks gi) '''',
      cat_unique_id = uid, cat_display_status = or_default (gi_display_status gi) ''show'',
      cat_advanced_settings = gi_advanced_settings gi\<rparr>"

text \<open>The values of a service \<open>INSERT\<close>: every field but the attachment is bound
  without a default, so each is required.\<close>

definition service_of_input :: "string \<Rightarrow> service_input \<Rightarrow> (string \<Rightarrow> service_record) option" where
  "service_of_input cid si =
     (case (svi_name si, svi_description si, svi_duration si, svi_price si, svi_abbreviation_id si) of
        (Some n, Some d, Some du, Some p, Some a) \<Rightarrow>
          Some (\<lambda>i. \<lparr>sv_id = i, sv_category_id = cid, sv_name = n, sv_duration = Some du, sv_price = p,
                      sv_description = d, sv_abbreviation_id = a, sv_attachment = svi_attachment si\<rparr>)
      | _ \<Rightarrow> None)"

text \<open>The \<open>for\<close> loop of service inserts.  It stops at the first failure with the
  table as it then is: a request missing a field is refused before it is sent, and a
  row whose category does not exist violates the foreign key.\<close>

fun insert_services ::
  "bool \<Rightarrow> string \<Rightarrow> service_input list \<Rightarrow> service_record table \<Rightarrow>
   (dao_error \<times> service_record table) + service_record table" where
  "insert_services parent cid [] t = Inr t"
| "insert_services parent cid (si # sis) t =
     (case service_of_input cid si of
        None \<Rightarrow> Inl (Undefined_Bind_Parameter, t)
      | Some mk \<Rightarrow> if parent then insert_services parent cid sis (snd (tbl_insert mk t))
                  else Inl (Foreign_Key_Violation, t))"

text \<open>\<open>ROLLBACK\<close> restores the rows; InnoDB does not give back the
  \<open>AUTO_INCREMENT\<close> values the rolled-back inserts took.\<close>

definition rollback :: "'r table \<Rightarrow> 'r table \<Rightarrow> 'r table" where
  "rollback before failed = before\<lparr>tbl_auto_inc := tbl_auto_inc failed\<rparr>"

text \<open>\<open>addCategory\<close>: in one transaction, the category (four fields bound without
  a default are required), then its services when the list is non-empty, then
  \<open>COMMIT\<close> and \<open>getCategoryById\<close>; any failure rolls back and is rethrown.\<close>

definition add_category :: "category_input \<Rightarrow> category_db \<Rightarrow> (dao_error + category_full option) \<times> category_db" where
  "add_category gi db =
     (case (gi_name gi, gi_category gi, gi_choices gi, gi_unique_id gi) of
        (Some n, Some c, Some ch, Some u) \<Rightarrow>
          (let (cr, ct) = tbl_insert (category_of_input gi n c ch u) (cat_table db);
               svcs = defined_or (gi_services gi) []
           in (case (if svcs \<noteq> [] then insert_services True (cat_id cr) svcs (svc_table db) else Inr (svc_table db)) of
                 Inl (e, st) \<Rightarrow>
                   (Inl e, db\<lparr>cat_table := rollback (cat_table db) ct, svc_table := rollback (svc_table db) st\<rparr>)
               | Inr st \<Rightarrow>
                   (let db' = db\<lparr>cat_table := ct, svc_table := st\<rparr> in (Inr (get_category_by_id (cat_id cr) db'), db'))))
      | _ \<Rightarrow> (Inl Undefined_Bind_Parameter, db))"

definition category_fields_empty :: "category_input \<Rightarrow> bool" where
  "category_fields_empty gi \<longleftrightarrow> gi\<lparr>gi_services := None\<rparr> = no_category_input"

definition apply_category_input :: "category_input \<Rightarrow> category_row \<Rightarrow> category_row" where
  "apply_category_input gi c =
     c\<lparr>cat_name := defined_or (gi_name gi) (cat_name c),
       cat_category := defined_or (gi_category gi) (cat_category c),
       cat_choices := defined_or (gi_choices gi) (cat_choices c),
       cat_selection_is_optional := defined_or (gi_selection_is_optional gi) (cat_selection_is_optional c),
       cat_show_price := defined_or (gi_show_price gi) (cat_show_price c),
       cat_show_appointment_duration := defined_or (gi_show_appointment_duration gi) (cat_show_appointment_duration c),
       cat_no_columns_of_services := defined_or (gi_no_columns_of_services gi) (cat_no_columns_of_services c),
       cat_full_screen := defined_or (gi_full_screen gi) (cat_full_screen c),
       cat_folded := defined_or (gi_folded gi) (cat_folded c),
       cat_online_booking := defined_or (gi_online_booking gi) (cat_online_booking c),
       cat_remarks := defined_or (gi_remarks gi) (cat_remarks c),
       cat_unique_id := defined_or (gi_unique_id gi) (cat_unique_id c),
       cat_display_status := defined_or (gi_display_status gi) (cat_display_status c),
       cat_advanced_settings := set_defined (gi_advanced_settings gi) (cat_advanced_settings c)\<rparr>"

text \<open>\<open>updateCategory\<close>: in one transaction, the \<open>UPDATE\<close> when some field is set,
  then, when \<open>services\<close> is given, the delete of the category's services and the
  inserts of the new ones; then \<open>COMMIT\<close> and \<open>getCategoryById\<close> (\<open>null\<close> for an
  unknown id).\<close>

definition update_category ::
  "string \<Rightarrow> category_input \<Rightarrow> category_db \<Rightarrow> (dao_error + category_full option) \<times> category_db" where
  "update_category i gi db =
     (let ct = (if category_fields_empty gi then cat_table db
                else tbl_update cat_id i (apply_category_input gi) (cat_table db));
          parent = (tbl_find cat_id i ct \<noteq> None);
          res = (case gi_services gi of
                   None \<Rightarrow> Inr (svc_table db)
                 | Some svcs \<Rightarrow>
                     (let st = tbl_delete sv_category_id i (svc_table db)
                      in if svcs \<noteq> [] then insert_services parent i svcs st else Inr st))
      in (case res of
            Inl (e, st) \<Rightarrow>
              (Inl e, db\<lparr>cat_table := rollback (cat_table db) ct, svc_table := rollback (svc_table db) st\<rparr>)
          | Inr st \<Rightarrow>
              (let db' = db\<lparr>cat_table := ct, svc_table := st\<rparr> in (Inr (get_category_by_id i db'), db'))))"

text \<open>\<open>deleteCategory\<close>: the category as read before, then its row; the foreign key
  deletes its services.\<close>

definition delete_category :: "string \<Rightarrow> category_db \<Rightarrow> category_full option \<times> category_db" where
  "delete_category i db =
     (case get_category_by_id i db of
        None \<Rightarrow> (None, db)
      | Some c \<Rightarrow> (Some c, db\<lparr>cat_table := tbl_delete cat_id i (cat_table db),
                              svc_table := tbl_delete sv_category_id i (svc_table db)\<rparr>))"

text \<open>The invariant of the catalogue: both tables are well formed and every service
  belongs to an existing category.\<close>

definition category_db_wf :: "category_db \<Rightarrow> bool" where
  "category_db_wf db \<longleftrightarrow>
     tbl_wf cat_id (cat_table db) \<and> tbl_wf sv_id (svc_table db) \<and>
     list_all (\<lambda>s. tbl_find cat_id (sv_category_id s) (cat_table db) \<noteq> None) (tbl_rows (svc_table db))"

subsection \<open>Example data\<close>

abbreviation empty_catalogue :: category_db where
  "empty_catalogue \<equiv> \<lparr>cat_table = empty_table, svc_table = empty_table\<rparr>"

abbreviation maintenance_service :: service_input where
  "maintenance_service \<equiv>
     \<lparr>svi_name = Some ''Wartung'', svi_description = Some ''Jahreswartung'', svi_duration = Some 60,
      svi_price = Some 120, svi_abbreviation_id = Some 7, svi_attachment = None\<rparr>"

abbreviation heating_category :: category_input where
  "heating_category \<equiv> no_category_input\<lparr>gi_name := Some ''Heizung'', gi_category := Some ''Gas'',
     gi_choices := Some ''single'', gi_unique_id := Some 1, gi_services := Some [maintenance_service]\<rparr>"

subsection \<open>Properties of the catalogue\<close>

lemma service_of_input_Some:
  "service_of_input cid si = Some mk \<Longrightarrow>
     sv_id (mk i) = i \<and> sv_category_id (mk i) = cid \<and> sv_name (mk i) = the (svi_name si)"
  by (auto simp: service_of_input_def split: option.splits)

lemma insert_services_Inr:
  "insert_services p cid sis t = Inr t' \<Longrightarrow>
     \<exists>new. tbl_rows t' = tbl_rows t @ new \<and> map sv_name new = map (the \<circ> svi_name) sis \<and>
       list_all (\<lambda>s. sv_category_id s = cid) new \<and> (sis \<noteq> [] \<longrightarrow> p) \<and>
       (tbl_wf sv_id t \<longrightarrow> tbl_wf sv_id t')"
proof (induction sis arbitrary: t)
  case Nil
  then show ?case by simp
next
  case (Cons si sis)
  then obtain mk where mk: "service_of_input cid si = Some mk" and p: p
    and rest: "insert_services p cid sis (snd (tbl_insert mk t)) = Inr t'"
    by (auto split: option.splits if_splits)
  from Cons.IH [OF rest] obtain new where
    new: "tbl_rows t' = tbl_rows (snd (tbl_insert mk t)) @ new" "map sv_name new = map (the \<circ> svi_name) sis"
      "list_all (\<lambda>s. sv_category_id s = cid) new"
      "tbl_wf sv_id (snd (tbl_insert mk t)) \<longrightarrow> tbl_wf sv_id t'"
    by blast
  have "tbl_wf sv_id t \<longrightarrow> tbl_wf sv_id (snd (tbl_insert mk t))"
    using tbl_insert_wf [of sv_id t mk] service_of_input_Some [OF mk] by blast
  then show ?case
    using new p service_of_input_Some [OF mk]
    by (intro exI [of _ "mk (nat_str (tbl_auto_inc t)) # new"]) auto
qed

lemma insert_services_Inl:
  "insert_services p cid sis t = Inl (e, t') \<Longrightarrow> tbl_auto_inc t \<le> tbl_auto_inc t'"
proof (induction sis arbitrary: t)
  case (Cons si sis)
  then show ?case by (fastforce split: option.splits if_splits)
qed simp

lemma rollback_rows [simp]: "tbl_rows (rollback t f) = tbl_rows t"
  by (simp add: rollback_def)

lemma tbl_find_rollback [simp]: "tbl_find key k (rollback t f) = tbl_find key k t"
  by (simp add: tbl_find_def)

lemma rollback_wf:
  "tbl_wf key t \<Longrightarrow> tbl_auto_inc t \<le> tbl_auto_inc f \<Longrightarrow> tbl_wf key (rollback t f)"
  by (fastforce simp: tbl_wf_def rollback_def)

lemma map_category_simps [simp]:
  "cat_id (map_category c svs) = cat_id c"
  "cat_services (map_category c svs) = map map_service_record svs"
  by (simp_all add: map_category_def category_row.defs category_full.defs)

lemma map_service_record_name [simp]: "service_name (map_service_record s) = sv_name s"
  by (simp add: map_service_record_def)

lemma category_of_input_id [simp]: "cat_id (category_of_input gi n c ch u i) = i"
  by (simp add: category_of_input_def)

lemma service_category_fresh:
  assumes "category_db_wf db" "s \<in> set (tbl_rows (svc_table db))"
  shows "sv_category_id s \<noteq> nat_str (tbl_auto_inc (cat_table db))"
proof -
  from assms obtain c where "tbl_find cat_id (sv_category_id s) (cat_table db) = Some c"
    by (auto simp: category_db_wf_def list_all_iff)
  then have "c \<in> set (tbl_rows (cat_table db))" "cat_id c = sv_category_id s"
    by (auto dest: tbl_find_Some)
  then show ?thesis
    using tbl_wf_fresh [of cat_id "cat_table db" c] assms(1) by (auto simp: category_db_wf_def)
qed

lemma commit_new_category:
  fixes db :: category_db
  defines "k \<equiv> nat_str (tbl_auto_inc (cat_table db))"
  assumes wf: "category_db_wf db" and st: "tbl_rows st = tbl_rows (svc_table db) @ new"
    and new: "list_all (\<lambda>s. sv_category_id s = k) new" and swf: "tbl_wf sv_id st"
    and key: "cat_id (mk k) = k"
  shows "get_category_by_id k (db\<lparr>cat_table := snd (tbl_insert mk (cat_table db)), svc_table := st\<rparr>) =
           Some (map_category (mk k) new) \<and>
         category_db_wf (db\<lparr>cat_table := snd (tbl_insert mk (cat_table db)), svc_table := st\<rparr>)"
proof -
  have cwf: "tbl_wf cat_id (cat_table db)" using wf by (simp add: category_db_wf_def)
  have find: "tbl_find cat_id k' (snd (tbl_insert mk (cat_table db))) =
      (if k' = k then Some (mk k) else tbl_find cat_id k' (cat_table db))" for k'
    using tbl_find_insert [OF cwf, of mk] key unfolding k_def by simp
  have old: "filter (\<lambda>s. sv_category_id s = k) (tbl_rows (svc_table db)) = []"
    using service_category_fresh [OF wf] unfolding k_def by (auto simp: filter_empty_conv)
  have "filter (\<lambda>s. sv_category_id s = k) new = new"
    using new by (simp add: list_all_iff)
  then have svcs: "category_services k (db\<lparr>cat_table := snd (tbl_insert mk (cat_table db)), svc_table := st\<rparr>) = new"
    using old st by (simp add: category_services_def tbl_where_def)
  have "list_all (\<lambda>s. tbl_find cat_id (sv_category_id s) (snd (tbl_insert mk (cat_table db))) \<noteq> None) (tbl_rows st)"
    using wf new st by (auto simp: find category_db_wf_def list_all_iff)
  moreover have "tbl_wf cat_id (snd (tbl_insert mk (cat_table db)))"
    using tbl_insert_wf [OF cwf] key unfolding k_def by simp
  ultimately show ?thesis
    using swf svcs by (simp add: get_category_by_id_def find category_db_wf_def)
qed

lemma rollback_category_db:
  assumes "category_db_wf db" "tbl_auto_inc (cat_table db) \<le> tbl_auto_inc ct"
    "tbl_auto_inc (svc_table db) \<le> tbl_auto_inc st"
  shows "category_db_wf (db\<lparr>cat_table := rollback (cat_table db) ct, svc_table := rollback (svc_table db) st\<rparr>)"
  using assms by (simp add: category_db_wf_def rollback_wf)

lemma insert_services_guard [simp]:
  "(if svcs \<noteq> [] then insert_services p k svcs t else Inr t) = insert_services p k svcs t"
  by (cases svcs) auto

lemma delete_category_wf: "category_db_wf db \<Longrightarrow> category_db_wf (snd (delete_category i db))"
  by (auto simp: delete_category_def category_db_wf_def tbl_delete_wf tbl_wf_delete_other list_all_iff
      tbl_find_delete split: option.split) (auto simp: tbl_delete_def)

lemma apply_category_input_id [simp]: "cat_id (apply_category_input gi c) = cat_id c"
  by (simp add: apply_category_input_def)

lemma update_category_wf: "category_db_wf db \<Longrightarrow> category_db_wf (snd (update_category i gi db))"
proof -
  assume wf: "category_db_wf db"
  define ct where "ct = (if category_fields_empty gi then cat_table db
                         else tbl_update cat_id i (apply_category_input gi) (cat_table db))"
  have find: "tbl_find cat_id k ct \<noteq> None \<longleftrightarrow> tbl_find cat_id k (cat_table db) \<noteq> None" for k
    by (simp add: ct_def tbl_find_update)
  have cwf: "tbl_wf cat_id ct" using wf by (simp add: ct_def category_db_wf_def tbl_update_wf)
  have inc: "tbl_auto_inc ct = tbl_auto_inc (cat_table db)" by (simp add: ct_def tbl_update_def)
  define res where "res = (case gi_services gi of
                             None \<Rightarrow> Inr (svc_table db)
                           | Some svcs \<Rightarrow> insert_services (tbl_find cat_id i ct \<noteq> None) i svcs
                                            (tbl_delete sv_category_id i (svc_table db)))"
  have upd: "update_category i gi db =
      (case res of
         Inl (e, st) \<Rightarrow> (Inl e, db\<lparr>cat_table := rollback (cat_table db) ct, svc_table := rollback (svc_table db) st\<rparr>)
       | Inr st \<Rightarrow> (Inr (get_category_by_id i (db\<lparr>cat_table := ct, svc_table := st\<rparr>)),
                    db\<lparr>cat_table := ct, svc_table := st\<rparr>))"
    by (simp add: update_category_def ct_def res_def Let_def cong: sum.case_cong option.case_cong)
  show ?thesis
  proof (cases res)
    case (Inl x)
    then obtain e st where x: "res = Inl (e, st)" by (cases x) auto
    have "tbl_auto_inc (svc_table db) \<le> tbl_auto_inc st"
      using x insert_services_Inl [of _ i _ "tbl_delete sv_category_id i (svc_table db)" e st]
      by (auto simp: res_def split: option.splits)
    then show ?thesis using rollback_category_db [OF wf, of ct st] upd x inc by simp
  next
    case (Inr st)
    have "tbl_wf sv_id st \<and>
          list_all (\<lambda>s. tbl_find cat_id (sv_category_id s) (cat_table db) \<noteq> None) (tbl_rows st)"
    proof (cases "gi_services gi")
      case None
      then show ?thesis using Inr wf by (simp add: res_def category_db_wf_def)
    next
      case (Some svcs)
      let ?st0 = "tbl_delete sv_category_id i (svc_table db)"
      have "insert_services (tbl_find cat_id i ct \<noteq> None) i svcs ?st0 = Inr st"
        using Inr Some by (simp add: res_def)
      from insert_services_Inr [OF this] obtain new where
        new: "tbl_rows st = tbl_rows ?st0 @ new" "list_all (\<lambda>s. sv_category_id s = i) new"
          "svcs \<noteq> [] \<longrightarrow> tbl_find cat_id i ct \<noteq> None" "tbl_wf sv_id ?st0 \<longrightarrow> tbl_wf sv_id st"
        by blast
      have "svcs = [] \<Longrightarrow> new = []"
        using insert_services_Inr [OF \<open>insert_services _ i svcs ?st0 = Inr st\<close>] new(1)
        by (cases svcs) auto
      then show ?thesis
        using wf new find [of i] tbl_wf_delete_other [of sv_id "svc_table db" sv_category_id i]
        by (auto simp: category_db_wf_def list_all_iff tbl_delete_def)
    qed
    then show ?thesis using upd Inr cwf find by (simp add: category_db_wf_def)
  qed
qed

text \<open>C35. \<open>addCategory\<close> is atomic: either it commits, and the category it returns
  is the one \<open>getCategoryById\<close> reads back, with exactly the requested services in
  order, or it fails and the rows of both tables are those before the call; in both
  cases the catalogue stays well formed, every service belonging to an existing
  category.\<close>
theorem add_category_atomic:
  assumes wf: "category_db_wf db"
  shows "(case add_category gi db of
            (Inl e, db') \<Rightarrow> tbl_rows (cat_table db') = tbl_rows (cat_table db) \<and>
                            tbl_rows (svc_table db') = tbl_rows (svc_table db)
          | (Inr r, db') \<Rightarrow> (\<exists>cf. r = Some cf \<and> get_category_by_id (cat_id cf) db' = Some cf \<and>
                map service_name (cat_services cf) = map (the \<circ> svi_name) (defined_or (gi_services gi) []))) \<and>
         category_db_wf (snd (add_category gi db))"
proof (cases "\<exists>n c ch u. (gi_name gi, gi_category gi, gi_choices gi, gi_unique_id gi) = (Some n, Some c, Some ch, Some u)")
  case False
  then have "add_category gi db = (Inl Undefined_Bind_Parameter, db)"
    by (auto simp: add_category_def split: option.split)
  then show ?thesis using wf by simp
next
  case True
  then obtain n c ch u where fields: "gi_name gi = Some n" "gi_category gi = Some c" "gi_choices gi = Some ch"
      "gi_unique_id gi = Some u" by auto
  define k where "k = nat_str (tbl_auto_inc (cat_table db))"
  define mk where "mk = category_of_input gi n c ch u"
  define svcs where "svcs = defined_or (gi_services gi) []"
  define res where "res = insert_services True k svcs (svc_table db)"
  show ?thesis
  proof (cases res)
    case (Inl x)
    then obtain e st where x: "res = Inl (e, st)" by (cases x) auto
    then have add: "add_category gi db =
        (Inl e, db\<lparr>cat_table := rollback (cat_table db) (snd (tbl_insert mk (cat_table db))),
                   svc_table := rollback (svc_table db) st\<rparr>)"
      by (simp add: add_category_def fields tbl_insert_def Let_def k_def mk_def svcs_def res_def)
    have "tbl_auto_inc (svc_table db) \<le> tbl_auto_inc st"
      using insert_services_Inl x unfolding res_def by blast
    then show ?thesis
      using rollback_category_db [OF wf, of "snd (tbl_insert mk (cat_table db))" st] add by simp
  next
    case (Inr st)
    then have add: "add_category gi db =
        (Inr (get_category_by_id k (db\<lparr>cat_table := snd (tbl_insert mk (cat_table db)), svc_table := st\<rparr>)),
         db\<lparr>cat_table := snd (tbl_insert mk (cat_table db)), svc_table := st\<rparr>)"
      by (simp add: add_category_def fields tbl_insert_def Let_def k_def mk_def svcs_def res_def)
    obtain new where new: "tbl_rows st = tbl_rows (svc_table db) @ new"
      "map sv_name new = map (the \<circ> svi_name) svcs" "list_all (\<lambda>s. sv_category_id s = k) new"
      "tbl_wf sv_id st"
      using insert_services_Inr [of True k svcs "svc_table db" st] wf Inr unfolding res_def
      by (auto simp: category_db_wf_def)
    have key: "cat_id (mk k) = k" by (simp add: mk_def)
    from commit_new_category [OF wf new(1) new(3)[unfolded k_def] new(4), of mk, folded k_def, OF key]
    show ?thesis
      using add new(2) key by (simp add: svcs_def comp_def)
  qed
qed

theorem add_category_atomic_witness:
  "(case add_category heating_category empty_catalogue of
      (Inl e, db') \<Rightarrow> tbl_rows (cat_table db') = tbl_rows (cat_table empty_catalogue) \<and>
                      tbl_rows (svc_table db') = tbl_rows (svc_table empty_catalogue)
    | (Inr r, db') \<Rightarrow> (\<exists>cf. r = Some cf \<and> get_category_by_id (cat_id cf) db' = Some cf \<and>
          map service_name (cat_services cf) = map (the \<circ> svi_name) (defined_or (gi_services heating_category) []))) \<and>
   category_db_wf (snd (add_category heating_category empty_catalogue))"
  by (rule add_category_atomic) (simp add: category_db_wf_def tbl_wf_def empty_table_def tbl_find_def)

end
