(* ===== verification/Availability.thy ===== *)
theory Availability
  imports Booking_Filter Schedule_Dao Category_Dao
begin

text \<open>
  The entry point \<open>AppointmentsService.getTimeSlots(date, category_id, service_id)\<close>
  (src/booking-backend-main/src/server/app/appointment/AppointmentsService.ts, lines
  204--255) over an explicit database state: the service duration (60 minutes unless
  the catalogue gives a non-zero one), the day's rules from \<open>getScheduleByDate\<close>,
  the rules allowed for the service, \<open>calculateTimeSlots\<close>, the day's appointments of
  all calendars from \<open>getAppointments\<close>, the conflict filter and the past-time filter.
  The result is \<open>None\<close> when slot generation does not return.
\<close>

record db =
  schedules :: "schedule_row list"
  calendars :: "calendar_row list"
  appointments :: "appointment_row list"
  contacts :: "contact_row list"
  services :: "service_row list"

definition default_service_duration :: int where
  "default_service_duration = 60"

text \<open>\<open>if (servise && servise.duration) serviseDuration = servise.duration\<close>.\<close>

definition service_duration_for :: "service_row list \<Rightarrow> string option \<Rightarrow> string option \<Rightarrow> int" where
  "service_duration_for rows cat sid =
     (if js_truthy_str cat \<and> js_truthy_str sid then
        (case get_service_by_category_and_id rows (the cat) (the sid) of
           Some sv \<Rightarrow> (case service_duration sv of
                         Some d \<Rightarrow> if d \<noteq> 0 then d else default_service_duration
                       | None \<Rightarrow> default_service_duration)
         | None \<Rightarrow> default_service_duration)
      else default_service_duration)"

text \<open>\<open>!schedule.assignments_services?.length || schedule.assignments_services?.includes(service_id)\<close>.\<close>

definition allows_service :: "string \<Rightarrow> ext_schedule \<Rightarrow> bool" where
  "allows_service sid s \<longleftrightarrow> assignments_services s = [] \<or> sid \<in> set (assignments_services s)"

text \<open>The day window: \<open>setHours(0, 0, 0, 0)\<close> and \<open>setHours(23, 59, 59, 999)\<close>.\<close>

definition day_end :: "instant \<Rightarrow> instant" where
  "day_end date = utc_day_start date + ms_per_day - 1"

definition get_time_slots ::
  "db \<Rightarrow> instant \<Rightarrow> string option \<Rightarrow> string option \<Rightarrow> instant \<Rightarrow> time_slot list option" where
  "get_time_slots d date cat sid now =
     (let dur = service_duration_for (services d) cat sid;
          rules = get_schedule_by_date (schedules d) (calendars d) date
      in if rules \<noteq> [] then
           do {
             slots \<leftarrow> calculate_time_slots
                        (if js_truthy_str cat \<and> js_truthy_str sid
                         then filter (allows_service (the sid)) rules else rules) date dur;
             let booked = get_appointments (appointments d) (contacts d) (utc_day_start date) (day_end date);
             Some (filter_future now (filter_booked_appointments slots booked))
           }
         else Some [])"

text \<open>Example data: schedule rows of calendar \<open>1\<close>, and a database with that active
  calendar (employee Anna), one contact at address Ring 1 in district 1, and no
  services.\<close>

abbreviation rule_row :: "string \<Rightarrow> string \<Rightarrow> string \<Rightarrow> string option \<Rightarrow> instant option \<Rightarrow> instant option \<Rightarrow> schedule_row" where
  "rule_row typ tf tt wd f t \<equiv>
     \<lparr>sr_id = ''1'', sr_calendar_id = ''1'', sr_working_hours_type = typ, sr_weekday = wd,
      sr_date_from = f, sr_date_to = t, sr_time_from = tf, sr_time_to = tt,
      sr_restricted_to_services = None, sr_active = True, sr_reason = None,
      sr_deactivate_working_hours = False, sr_one_time_appointment_link = None,
      sr_only_internally = False, sr_possible_appointment = None\<rparr>"

abbreviation example_db :: "schedule_row list \<Rightarrow> appointment_row list \<Rightarrow> db" where
  "example_db rows appts \<equiv>
     \<lparr>schedules = rows,
      calendars = [\<lparr>cal_id = ''1'', cal_employee_name = ''Anna'', cal_active = True, cal_assignments_services = None\<rparr>],
      appointments = appts,
      contacts = [\<lparr>c_id = ''5'', c_address = Some ''Ring 1'', c_district = Some 1, c_lat = None, c_lng = None\<rparr>],
      services = []\<rparr>"

subsection \<open>Facts the end-to-end theorems share\<close>

lemma weekly_rule_of_schedule_query:
  assumes "s' \<in> set (get_schedule_by_date (schedules d) (calendars d) date)"
    and "is_weekly_on (weekday_name date) s' \<or> is_certain_on date s'"
  shows "\<exists>s \<in> set (schedules d). \<exists>c \<in> set (calendars d). cal_active c \<and> sr_calendar_id s = cal_id c \<and>
           sr_working_hours_type s = ''weekly'' \<and> sr_weekday s = Some (weekday_name date) \<and>
           calendar_id s' = sr_calendar_id s"
proof -
  from assms(2) get_schedule_by_date_never_certain [OF assms(1)]
  have w: "is_weekly_on (weekday_name date) s'" by blast
  from assms(1) obtain s c where sc: "s \<in> set (schedules d)" "c \<in> set (calendars d)"
    "sr_calendar_id s = cal_id c" "cal_active c" and s': "s' = map_extended_schedule_row s c"
    by (auto simp: set_get_schedule_by_date)
  from w s' have "sr_working_hours_type s = ''weekly'' \<and> sr_weekday s = Some (weekday_name date) \<and>
      calendar_id s' = sr_calendar_id s"
    by (simp add: is_weekly_on_def map_extended_schedule_row_def)
  with sc show ?thesis by blast
qed

lemma booked_of_day:
  assumes "a \<in> set (appointments d)" "utc_day_start date \<le> a_start_date a" "a_end_date a \<le> day_end date"
    and "c \<in> set (contacts d)" "a_contact_id a = c_id c"
  shows "map_appointment_with_contact a c \<in>
           set (get_appointments (appointments d) (contacts d) (utc_day_start date) (day_end date))"
  using assms by (auto simp: get_appointments_def set_join_contacts)

lemma calculate_on_schedule_query_returns:
  assumes "0 < dur"
    and rows: "\<forall>s \<in> set (schedules d). sr_working_hours_type s = schedule_type_weekly \<and>
        sr_weekday s = Some (weekday_name date) \<longrightarrow> rule_no_wrap dur (sr_time_from s) (sr_time_to s)"
    and sel: "set sel \<subseteq> set (get_schedule_by_date (schedules d) (calendars d) date)"
  shows "\<exists>r. calculate_time_slots sel date dur = Some r"
proof -
  let ?weekly = "filter (is_weekly_on (weekday_name date)) sel"
  let ?certain = "filter (is_certain_on date) sel"
  have "?certain = []"
    using sel get_schedule_by_date_never_certain by (auto simp: filter_empty_conv)
  have "rule_slots date dur s' \<noteq> None" if "s' \<in> set ?weekly" for s'
  proof -
    from that sel obtain s c where "s \<in> set (schedules d)" "s' = map_extended_schedule_row s c"
      and w: "is_weekly_on (weekday_name date) s'"
      by (auto simp: set_get_schedule_by_date)
    with rows have "rule_no_wrap dur (time_from s') (time_to s')"
      by (auto simp: is_weekly_on_def map_extended_schedule_row_def schedule_type_weekly_def)
    with assms(1) show ?thesis by (rule rule_no_wrap_returns)
  qed
  then obtain a where "slots_of_rules date dur ?weekly = Some a"
    using slots_of_rules_Some by blast
  with \<open>?certain = []\<close> show ?thesis by (simp add: calculate_time_slots_def Let_def)
qed

lemma calculate_on_schedule_query_empty:
  assumes rows: "\<forall>s \<in> set (schedules d). sr_working_hours_type s \<noteq> schedule_type_weekly"
    and sel: "set sel \<subseteq> set (get_schedule_by_date (schedules d) (calendars d) date)"
  shows "calculate_time_slots sel date dur = Some []"
proof -
  have "filter (is_certain_on date) sel = []"
    using sel get_schedule_by_date_never_certain by (auto simp: filter_empty_conv)
  moreover have "filter (is_weekly_on (weekday_name date)) sel = []"
    using sel rows
    by (fastforce simp: filter_empty_conv set_get_schedule_by_date is_weekly_on_def
        map_extended_schedule_row_def schedule_type_weekly_def)
  ultimately show ?thesis by (simp add: calculate_time_slots_def Let_def)
qed

text \<open>The definitions that evaluate \<open>get_time_slots\<close> on a concrete database.\<close>

lemmas get_time_slots_eval = get_time_slots_def service_duration_for_def js_truthy_str_def
  default_service_duration_def get_schedule_by_date_def schedule_matches_def
  schedule_type_weekly_def schedule_type_certain_def map_extended_schedule_row_def
  weekday_name_def weekday_names_def utc_day_start_def calculate_time_slots_def is_weekly_on_def
  is_certain_on_def rule_slots_def parse_time_eval set_utc_hours_def slot_loop.simps
  before_end_def ends_by_def utc_hours_def utc_minutes_def add_utc_minutes_def get_appointments_def
  join_contacts_def map_appointment_with_contact_def blocks_def status_confirmed_def
  filter_future_def past_tolerance_ms_def day_end_def mk_slot_def allows_service_def

end
