(* ===== verification/Location_Scoring.thy ===== *)
theory Location_Scoring
  imports Geo Availability
begin

text \<open>
  The location-aware query: \<open>LocationAwareService.resolveCoordinates\<close> and
  \<open>getAvailableSlotsWithLocationScore\<close>
  (src/booking-backend-main/src/server/app/schedule/LocationAwareService.ts) and the
  endpoint \<open>LocationAwareController.getSuggestedLocationTimeSlots\<close>
  (src/booking-backend-main/src/server/app/schedule/LocationAwareController.ts).
  The geocoding collaborator is a parameter \<open>geocode\<close>; with no API key it is
  \<open>\<lambda>_. None\<close> (\<open>Geo.geocode_address\<close>).  The "slots" of this query are the
  day's working-hours rules of the calendar, annotated with one distance per
  calendar and day.
\<close>

subsection \<open>Data\<close>

record location_aware_slot =
  la_schedule :: ext_schedule
  distance_km :: "real option"
  is_optimal :: bool

definition optimal_distance_threshold_km :: real where
  "optimal_distance_threshold_km = 5"

text \<open>The value \<open>1000\<close> the code uses when no existing appointment has a coordinate.\<close>

definition no_reference_km :: real where
  "no_reference_km = 1000"

subsection \<open>Coordinate resolution\<close>

text \<open>Steps 2 and 3 of \<open>resolveCoordinates\<close>: geocode a non-empty address, else the
  centre of a non-zero district (\<open>getDistrictCoordinates\<close> answers \<open>null\<close> outside
  1--23).\<close>

definition resolve_fallback :: "(string \<Rightarrow> (real \<times> real) option) \<Rightarrow> contact \<Rightarrow> (real \<times> real) option" where
  "resolve_fallback geocode c =
     (case (if js_truthy_str (address c) then geocode (the (address c)) else None) of
        Some p \<Rightarrow> Some p
      | None \<Rightarrow> (case district c of
                  Some d \<Rightarrow> if d \<noteq> 0 then get_district_coordinates d else None
                | None \<Rightarrow> None))"

text \<open>Step 1: \<open>if (contact.lat && contact.lng)\<close>; a zero coordinate is falsy.\<close>

definition resolve_coordinates :: "(string \<Rightarrow> (real \<times> real) option) \<Rightarrow> contact \<Rightarrow> (real \<times> real) option" where
  "resolve_coordinates geocode c =
     (case (lat c, lng c) of
        (Some la, Some lo) \<Rightarrow> if la \<noteq> 0 \<and> lo \<noteq> 0 then Some (la, lo) else resolve_fallback geocode c
      | _ \<Rightarrow> resolve_fallback geocode c)"

subsection \<open>Scoring\<close>

text \<open>\<open>parseFloat(x.toFixed(2))\<close>: the nearest multiple of 0.01, halves away from zero.\<close>

definition to_fixed_2 :: "real \<Rightarrow> real" where
  "to_fixed_2 x =
     (if x < 0 then - (of_int \<lfloor>- x * 100 + 1 / 2\<rfloor> / 100) else of_int \<lfloor>x * 100 + 1 / 2\<rfloor> / 100)"

text \<open>The coordinates of the existing appointments whose contact resolves (the
  \<open>for\<close> loop of step 4).\<close>

definition appointment_coords ::
  "(string \<Rightarrow> (real \<times> real) option) \<Rightarrow> appointment list \<Rightarrow> (real \<times> real) list" where
  "appointment_coords geocode appts =
     List.map_filter (\<lambda>a. case appt_contact a of Some c \<Rightarrow> resolve_coordinates geocode c | None \<Rightarrow> None) appts"

text \<open>Step 5: the least distance to any of them, or 1000 when there is none.\<close>

definition min_distance_km :: "real \<times> real \<Rightarrow> (real \<times> real) list \<Rightarrow> real" where
  "min_distance_km p coords =
     (if coords \<noteq> [] then min_list (map (\<lambda>q. calculate_distance (fst p) (snd p) (fst q) (snd q)) coords)
      else no_reference_km)"

text \<open>Step 6: every rule gets the same rounded distance and the same flag, the flag
  being computed from the unrounded distance.\<close>

definition annotate_slots :: "ext_schedule list \<Rightarrow> real \<Rightarrow> location_aware_slot list" where
  "annotate_slots rules m =
     map (\<lambda>s. \<lparr>la_schedule = s,
               distance_km = (if m = no_reference_km then None else Some (to_fixed_2 m)),
               is_optimal = (m \<le> optimal_distance_threshold_km)\<rparr>) rules"

definition unscored_slots :: "ext_schedule list \<Rightarrow> location_aware_slot list" where
  "unscored_slots rules = map (\<lambda>s. \<lparr>la_schedule = s, distance_km = None, is_optimal = False\<rparr>) rules"

definition get_available_slots_with_location_score ::
  "db \<Rightarrow> (string \<Rightarrow> (real \<times> real) option) \<Rightarrow> instant \<Rightarrow> string \<Rightarrow> contact \<Rightarrow> location_aware_slot list" where
  "get_available_slots_with_location_score d geocode date cal customer =
     (let rules = filter (\<lambda>s. calendar_id s = cal) (get_schedule_by_date (schedules d) (calendars d) date)
      in if rules = [] then []
         else
           (let existing = get_appointments_by_date_calendar (appointments d) (contacts d) cal
                             (utc_day_start date) (day_end date)
            in case resolve_coordinates geocode customer of
                 None \<Rightarrow> unscored_slots rules
               | Some p \<Rightarrow> annotate_slots rules (min_distance_km p (appointment_coords geocode existing))))"

subsection \<open>The endpoint\<close>

datatype suggest_response =
    Bad_Request string
  | Ok_Slots "location_aware_slot list"
  | Server_Error string

definition missing_params_message :: string where
  "missing_params_message = ''Missing required query parameters: date, calendarId, customerDistrict''"

definition invalid_district_message :: string where
  "invalid_district_message = ''Invalid customerDistrict. Must be a number between 1 and 23.''"

text \<open>\<open>parse_date\<close> is \<open>new Date(date)\<close> (string parsing is not modelled); an invalid
  date makes \<open>toISOString\<close> throw inside the schedule query, which the handler turns
  into a 500 response.\<close>

definition get_suggested_location_time_slots ::
  "db \<Rightarrow> (string \<Rightarrow> (real \<times> real) option) \<Rightarrow> (string \<Rightarrow> js_date) \<Rightarrow>
   string option \<Rightarrow> string option \<Rightarrow> string option \<Rightarrow> suggest_response" where
  "get_suggested_location_time_slots d geocode parse_date date_q cal_q district_q =
     (if \<not> (js_truthy_str date_q \<and> js_truthy_str cal_q \<and> js_truthy_str district_q)
      then Bad_Request missing_params_message
      else
        (case js_parse_int (the district_q) of
           None \<Rightarrow> Bad_Request invalid_district_message
         | Some n \<Rightarrow>
             if n < 1 \<or> 23 < n then Bad_Request invalid_district_message
             else (case parse_date (the date_q) of
                     None \<Rightarrow> Server_Error ''Internal server error while fetching suggested time slots.''
                   | Some dt \<Rightarrow> Ok_Slots (get_available_slots_with_location_score d geocode dt (the cal_q)
                       \<lparr>contact_key = [], address = None, district = Some n, lat = None, lng = None\<rparr>))))"

subsection \<open>Example data\<close>

text \<open>A geocoder that puts \<open>Ring 1\<close> on the equator 5.004 km east of \<open>Home\<close>,
  the customer at \<open>Home\<close>, and a day with one Confirmed appointment of calendar 1 at
  10:00--11:00 whose contact lives at \<open>Ring 1\<close> (contact 5 of \<open>example_db\<close>).\<close>

abbreviation ring_geocoder :: "string \<Rightarrow> (real \<times> real) option" where
  "ring_geocoder \<equiv> (\<lambda>a. if a = ''Ring 1'' then Some (0, 5004 * 180 / (6371000 * pi))
                      else if a = ''Home'' then Some (0, 0) else None)"

abbreviation ring_db :: db where
  "ring_db \<equiv> example_db [rule_row ''weekly'' ''08:00'' ''17:00'' (Some ''Monday'') None None]
        [\<lparr>a_id = ''9'', a_calendar_id = ''1'', a_contact_id = ''5'', a_start_date = 1704067200000 + 600 * ms_per_minute,
          a_end_date = 1704067200000 + 660 * ms_per_minute, a_status = ''Confirmed''\<rparr>]"

abbreviation ring_rule :: ext_schedule where
  "ring_rule \<equiv> map_extended_schedule_row (rule_row ''weekly'' ''08:00'' ''17:00'' (Some ''Monday'') None None)
        \<lparr>cal_id = ''1'', cal_employee_name = ''Anna'', cal_active = True, cal_assignments_services = None\<rparr>"

abbreviation home_customer :: contact where
  "home_customer \<equiv> \<lparr>contact_key = ''8'', address = Some ''Home'', district = None, lat = None, lng = None\<rparr>"

subsection \<open>Coordinate resolution and the data access layer\<close>

lemma resolve_no_location:
  "district c = None \<Longrightarrow> lat c = None \<Longrightarrow> resolve_coordinates (\<lambda>_. None) c = None"
  by (simp add: resolve_coordinates_def resolve_fallback_def split: if_splits)

text \<open>The contacts the appointment query attaches carry neither a district nor
  coordinates, so without a geocoder none of them resolves.\<close>

lemma appointment_coords_from_dao:
  "appointment_coords (\<lambda>_. None) (get_appointments_by_date_calendar appts cts cal s e) = []"
proof -
  have "resolve_coordinates (\<lambda>_. None) c = None"
    if "b \<in> set (get_appointments_by_date_calendar appts cts cal s e)" "appt_contact b = Some c" for b c
    using join_contacts_no_location [OF that(1) [unfolded get_appointments_by_date_calendar_def]] that(2)
    by (auto intro: resolve_no_location)
  then show ?thesis
    by (auto simp: appointment_coords_def List.map_filter_def filter_empty_conv split: option.splits)
qed

lemma to_fixed_2_5004: "to_fixed_2 (5004 / 1000) = 5"
proof -
  have "\<lfloor>(5004 / 1000 :: real) * 100 + 1 / 2\<rfloor> = 500"
    by (simp add: floor_eq_iff)
  then show ?thesis by (simp add: to_fixed_2_def)
qed

lemma equator_5004: "calculate_distance 0 0 0 (5004 * 180 / (6371000 * pi)) = 5004 / 1000"
proof -
  define x :: real where "x = 5004 * 180 / (6371000 * pi)"
  have pos: "0 < x" by (simp add: x_def)
  have "\<bar>x\<bar> < 180"
    using pi_ge_two by (simp add: x_def abs_divide field_simps)
  then have "calculate_distance 0 0 0 x = earth_radius_km * \<bar>x\<bar> * pi / 180"
    by (rule equator_arc)
  also have "\<dots> = 6371 * x * pi / 180"
    using pos by (simp add: earth_radius_km_def)
  also have "\<dots> = 5004 / 1000"
    by (simp add: x_def field_simps)
  finally show ?thesis unfolding x_def .
qed

lemma ring_rules:
  "filter (\<lambda>s. calendar_id s = ''1'') (get_schedule_by_date (schedules ring_db) (calendars ring_db) 1704067200000) =
     [ring_rule]"
  by (simp add: get_schedule_by_date_def schedule_matches_def schedule_type_weekly_def
      schedule_type_certain_def weekday_name_def weekday_names_def utc_day_start_def
      map_extended_schedule_row_def)

lemma ring_coords:
  "appointment_coords ring_geocoder
      (get_appointments_by_date_calendar (appointments ring_db) (contacts ring_db) ''1''
        (utc_day_start 1704067200000) (day_end 1704067200000)) = [(0, 5004 * 180 / (6371000 * pi))]"
  by (simp add: appointment_coords_def List.map_filter_def get_appointments_by_date_calendar_def
      join_contacts_def map_appointment_with_contact_def resolve_coordinates_def resolve_fallback_def
      js_truthy_str_def utc_day_start_def day_end_def)

lemma ring_customer: "resolve_coordinates ring_geocoder home_customer = Some (0, 0)"
  by (simp add: resolve_coordinates_def resolve_fallback_def js_truthy_str_def)

lemma ring_query:
  "get_available_slots_with_location_score ring_db ring_geocoder 1704067200000 ''1'' home_customer =
     annotate_slots [ring_rule] (min_distance_km (0, 0) [(0, 5004 * 180 / (6371000 * pi))])"
  unfolding get_available_slots_with_location_score_def Let_def ring_rules ring_customer ring_coords
  by (simp only: option.case list.simps if_False)

lemma min_distance_le_iff:
  "min_distance_km p coords \<le> optimal_distance_threshold_km \<longleftrightarrow>
     (\<exists>q \<in> set coords. calculate_distance (fst p) (snd p) (fst q) (snd q) \<le> optimal_distance_threshold_km)"
  by (cases "coords = []")
     (auto simp: min_distance_km_def no_reference_km_def optimal_distance_threshold_km_def min_list_Min
       Min_le_iff)

lemmas location_query_simps = get_available_slots_with_location_score_def Let_def
  unscored_slots_def annotate_slots_def min_distance_km_def optimal_distance_threshold_km_def

subsection \<open>Properties of the location-aware query and endpoint\<close>

text \<open>C18. Spec example 9 expects a score when the customer and the booked contact
  live in the same district; without a geocoder no score is ever given.\<close>

theorem location_scoring_without_geocoder:
  assumes "sl \<in> set (get_available_slots_with_location_score d (\<lambda>_. None) date cal customer)"
  shows "distance_km sl = None \<and> \<not> is_optimal sl"
  using assms appointment_coords_from_dao
  by (auto simp: location_query_simps no_reference_km_def split: if_splits option.splits)

theorem location_scoring_without_geocoder_witness:
  "distance_km (hd (get_available_slots_with_location_score ring_db (\<lambda>_. None) 1704067200000 ''1''
      \<lparr>contact_key = ''8'', address = None, district = Some 1, lat = None, lng = None\<rparr>)) = None"
proof -
  have "get_available_slots_with_location_score ring_db (\<lambda>_. None) 1704067200000 ''1''
      \<lparr>contact_key = ''8'', address = None, district = Some 1, lat = None, lng = None\<rparr> \<noteq> []"
    unfolding get_available_slots_with_location_score_def Let_def ring_rules
    by (simp add: unscored_slots_def annotate_slots_def split: option.split)
  then show ?thesis
    using location_scoring_without_geocoder [OF hd_in_set] by blast
qed

text \<open>C19. When the customer resolves, a slot is flagged optimal exactly when some
  booked appointment of the calendar on that day has a resolvable contact within
  5 km of the customer: the minimum over the reference points is taken correctly, the
  fallback 1000 km never counts as close, and the flag is not affected by rounding.\<close>

theorem location_scoring_optimal:
  assumes "resolve_coordinates geocode customer = Some p"
    and "sl \<in> set (get_available_slots_with_location_score d geocode date cal customer)"
  shows "is_optimal sl \<longleftrightarrow>
           (\<exists>q \<in> set (appointment_coords geocode (get_appointments_by_date_calendar (appointments d)
                        (contacts d) cal (utc_day_start date) (day_end date))).
              calculate_distance (fst p) (snd p) (fst q) (snd q) \<le> optimal_distance_threshold_km)"
proof -
  let ?coords = "appointment_coords geocode (get_appointments_by_date_calendar (appointments d)
                   (contacts d) cal (utc_day_start date) (day_end date))"
  from assms have "is_optimal sl \<longleftrightarrow> min_distance_km p ?coords \<le> optimal_distance_threshold_km"
    by (auto simp: get_available_slots_with_location_score_def Let_def annotate_slots_def split: if_splits)
  then show ?thesis by (simp only: min_distance_le_iff)
qed

theorem location_scoring_optimal_witness:
  "\<not> is_optimal (hd (get_available_slots_with_location_score ring_db ring_geocoder 1704067200000 ''1'' home_customer))"
proof -
  have ne: "get_available_slots_with_location_score ring_db ring_geocoder 1704067200000 ''1'' home_customer \<noteq> []"
    unfolding ring_query by (simp add: annotate_slots_def)
  have far: "\<not> calculate_distance 0 0 0 (5004 * 180 / (6371000 * pi)) \<le> optimal_distance_threshold_km"
    unfolding equator_5004 by (simp add: optimal_distance_threshold_km_def)
  show ?thesis
    using location_scoring_optimal [OF ring_customer hd_in_set [OF ne]] far
    unfolding ring_coords by simp
qed

text \<open>The flag uses the unrounded distance: a reference 5.004 km away is
  reported as 5 km and yet not optimal.\<close>

theorem rounding_scenario:
  "get_available_slots_with_location_score ring_db ring_geocoder 1704067200000 ''1'' home_customer =
     [\<lparr>la_schedule = ring_rule, distance_km = Some 5, is_optimal = False\<rparr>]"
proof -
  have m: "min_distance_km (0, 0) [(0, 5004 * 180 / (6371000 * pi))] = 5004 / 1000"
    using equator_5004 by (simp add: min_distance_km_def)
  show ?thesis
    unfolding ring_query m
    by (simp add: annotate_slots_def no_reference_km_def optimal_distance_threshold_km_def
        to_fixed_2_5004 [simplified])
qed

text \<open>A customer whose coordinates cannot be resolved gets no score.\<close>

theorem location_unresolved_customer:
  assumes "resolve_coordinates geocode customer = None"
    and "sl \<in> set (get_available_slots_with_location_score d geocode date cal customer)"
  shows "distance_km sl = None \<and> \<not> is_optimal sl"
  using assms by (auto simp: location_query_simps split: if_splits)

theorem location_unresolved_customer_witness:
  "\<not> is_optimal (hd (get_available_slots_with_location_score ring_db ring_geocoder 1704067200000 ''1''
      \<lparr>contact_key = ''8'', address = Some ''Nowhere'', district = None, lat = None, lng = None\<rparr>))"
proof -
  have r: "resolve_coordinates ring_geocoder
      \<lparr>contact_key = ''8'', address = Some ''Nowhere'', district = None, lat = None, lng = None\<rparr> = None"
    by (simp add: resolve_coordinates_def resolve_fallback_def js_truthy_str_def)
  have "get_available_slots_with_location_score ring_db ring_geocoder 1704067200000 ''1''
      \<lparr>contact_key = ''8'', address = Some ''Nowhere'', district = None, lat = None, lng = None\<rparr> \<noteq> []"
    unfolding get_available_slots_with_location_score_def Let_def ring_rules r
    by (simp add: unscored_slots_def)
  then show ?thesis
    using location_unresolved_customer [OF r hd_in_set] by blast
qed

text \<open>The endpoint answers 400 when the district parses to a number outside
  1--23, whatever the data and the geocoder.\<close>

theorem suggest_rejects_invalid_district:
  assumes "js_parse_int ds = Some n" "n < 1 \<or> 23 < n" "dq \<noteq> []" "cq \<noteq> []"
  shows "get_suggested_location_time_slots d geocode parse_date (Some dq) (Some cq) (Some ds) =
           Bad_Request invalid_district_message"
proof -
  have "ds \<noteq> []" using assms(1) by (auto simp: js_parse_int_def)
  with assms show ?thesis by (simp add: get_suggested_location_time_slots_def js_truthy_str_def)
qed

theorem suggest_rejects_invalid_district_witness:
  "get_suggested_location_time_slots ring_db ring_geocoder (\<lambda>_. Some 1704067200000)
      (Some ''2024-01-01'') (Some ''1'') (Some ''24'') = Bad_Request invalid_district_message"
proof -
  have "js_parse_int ''24'' = Some 24"
    by (simp add: js_parse_int_def is_js_space_def is_digit_def digits_value_def digit_value_def)
  then show ?thesis
    using suggest_rejects_invalid_district [of "''24''" 24] by simp
qed

text \<open>\<open>parseInt\<close> reads a prefix: the district \<open>7km\<close> is accepted as district 7.\<close>

theorem suggest_accepts_trailing_garbage:
  "get_suggested_location_time_slots d geocode (\<lambda>_. Some 1704067200000) (Some ''2024-01-01'') (Some ''1'') (Some ''7km'') =
     Ok_Slots (get_available_slots_with_location_score d geocode 1704067200000 ''1''
       \<lparr>contact_key = [], address = None, district = Some 7, lat = None, lng = None\<rparr>)"
proof -
  have "js_parse_int ''7km'' = Some 7"
    by (simp add: js_parse_int_def is_js_space_def is_digit_def digits_value_def digit_value_def)
  then show ?thesis by (simp add: get_suggested_location_time_slots_def js_truthy_str_def)
qed

text \<open>A customer known only by a district outside 1--23 (and no address or
  coordinates) is not located.\<close>

theorem resolve_invalid_district:
  assumes "lat c = None" "address c = None" "district c = Some n" "n < 1 \<or> 23 < n"
  shows "resolve_coordinates geocode c = None"
  using assms by (auto simp: resolve_coordinates_def resolve_fallback_def js_truthy_str_def get_district_coordinates_def)

theorem resolve_invalid_district_witness:
  "resolve_coordinates ring_geocoder \<lparr>contact_key = ''8'', address = None, district = Some 24, lat = None, lng = None\<rparr> = None"
  using resolve_invalid_district [of "\<lparr>contact_key = ''8'', address = None, district = Some 24, lat = None, lng = None\<rparr>" 24]
  by simp

end
