(* ===== verification/Contact_Dao.thy ===== *)
theory Contact_Dao
  imports Appointment_Model Sql_Table
begin

text \<open>
  \<open>ContactDaoMySql\<close>
  (src/booking-backend-main/src/database-client/src/Contact/ContactDaoMySql.ts): the
  \<open>contacts\<close> table with all its columns, and \<open>addContact\<close>, \<open>getContactById\<close>,
  \<open>getContactByEmail\<close>, \<open>getContacts\<close> (with its \<open>LIKE\<close> search),
  \<open>getContactsCount\<close>, \<open>updateContact\<close>, \<open>deleteContact\<close> and \<open>mapContactRow\<close>.
  A full row extends the \<open>contact_row\<close> the availability queries read with the
  remaining columns; the mapped \<open>Contact\<close> extends the \<open>contact\<close> of the location
  code in the same way.  \<open>addContact\<close>'s check that the column, placeholder and value
  counts agree compares three constants (23 each) and cannot fail; the debug logging
  is not modelled.
\<close>

subsection \<open>Rows and objects\<close>

record contact_details =
  cd_salutation :: "string option"
  cd_first_name :: "string option"
  cd_last_name :: "string option"
  cd_zip_code :: "string option"
  cd_location :: "string option"
  cd_telephone :: "string option"
  cd_phone_numbber_2 :: "string option"
  cd_phone_numbber_3 :: "string option"
  cd_email :: "string option"
  cd_password :: "string option"
  cd_archived :: bool
  cd_contract_link :: "string option"
  cd_title :: "string option"
  cd_sign_url :: "string option"
  cd_note_on_address :: "string option"
  cd_newsletter :: bool
  cd_categories_permission :: "string list option"
  cd_remarks :: "string option"
  cd_imported :: bool

text \<open>A row of \<open>contacts\<close>: the id and location columns, then the others.\<close>

record contact_record = contact_row +
  cr_details :: contact_details

text \<open>The \<open>Contact\<close> object \<open>mapContactRow\<close> returns.\<close>

record contact_full = contact +
  cf_details :: contact_details

text \<open>\<open>Partial<Contact>\<close>.\<close>

record contact_input =
  ci_salutation :: "string option"
  ci_first_name :: "string option"
  ci_last_name :: "string option"
  ci_address :: "string option"
  ci_zip_code :: "string option"
  ci_location :: "string option"
  ci_telephone :: "string option"
  ci_phone_numbber_2 :: "string option"
  ci_phone_numbber_3 :: "string option"
  ci_email :: "string option"
  ci_password :: "string option"
  ci_archived :: "bool option"
  ci_contract_link :: "string option"
  ci_title :: "string option"
  ci_sign_url :: "string option"
  ci_note_on_address :: "string option"
  ci_newsletter :: "bool option"
  ci_categories_permission :: "string list option"
  ci_remarks :: "string option"
  ci_district :: "int option"
  ci_lat :: "real option"
  ci_lng :: "real option"
  ci_imported :: "bool option"

definition no_contact_input :: contact_input where
  "no_contact_input =
     \<lparr>ci_salutation = None, ci_first_name = None, ci_last_name = None, ci_address = None,
      ci_zip_code = None, ci_location = None, ci_telephone = None, ci_phone_numbber_2 = None,
      ci_phone_numbber_3 = None, ci_email = None, ci_password = None, ci_archived = None,
      ci_contract_link = None, ci_title = None, ci_sign_url = None, ci_note_on_address = None,
      ci_newsletter = None, ci_categories_permission = None, ci_remarks = None, ci_district = None,
      ci_lat = None, ci_lng = None, ci_imported = None\<rparr>"

subsection \<open>mapContactRow\<close>

text \<open>Every column is copied; a \<open>NULL\<close> \<open>categories_permission\<close> becomes \<open>[]\<close>.\<close>

definition map_contact_record :: "contact_record \<Rightarrow> contact_full" where
  "map_contact_record r =
     \<lparr>contact_key = c_id r, address = c_address r, district = c_district r, lat = c_lat r, lng = c_lng r,
      cf_details = (cr_details r)\<lparr>cd_categories_permission :=
        Some (case cd_categories_permission (cr_details r) of Some xs \<Rightarrow> xs | None \<Rightarrow> [])\<rparr>\<rparr>"

subsection \<open>Operations\<close>

text \<open>\<open>addContact\<close>: every value is \<open>x ?? null\<close> or \<open>x ?? false\<close>, and the
  permissions are stored when given (an array is truthy, even when empty).\<close>

definition contact_of_input :: "contact_input \<Rightarrow> string \<Rightarrow> contact_record" where
  "contact_of_input ci i =
     \<lparr>c_id = i, c_address = ci_address ci, c_district = ci_district ci, c_lat = ci_lat ci,
      c_lng = ci_lng ci,
      cr_details = \<lparr>cd_salutation = ci_salutation ci, cd_first_name = ci_first_name ci,
             cd_last_name = ci_last_name ci, cd_zip_code = ci_zip_code ci, cd_location = ci_location ci,
             cd_telephone = ci_telephone ci, cd_phone_numbber_2 = ci_phone_numbber_2 ci,
             cd_phone_numbber_3 = ci_phone_numbber_3 ci, cd_email = ci_email ci,
             cd_password = ci_password ci, cd_archived = defined_or (ci_archived ci) False,
             cd_contract_link = ci_contract_link ci, cd_title = ci_title ci, cd_sign_url = ci_sign_url ci,
             cd_note_on_address = ci_note_on_address ci, cd_newsletter = defined_or (ci_newsletter ci) False,
             cd_categories_permission = ci_categories_permission ci, cd_remarks = ci_remarks ci,
             cd_imported = defined_or (ci_imported ci) False\<rparr>\<rparr>"

definition add_contact :: "contact_input \<Rightarrow> contact_record table \<Rightarrow> contact_full \<times> contact_record table" where
  "add_contact ci t = (let (r, t') = tbl_insert (contact_of_input ci) t in (map_contact_record r, t'))"

definition get_contact_by_id :: "string \<Rightarrow> contact_record table \<Rightarrow> contact_full option" where
  "get_contact_by_id i t = map_option map_contact_record (tbl_find c_id i t)"

text \<open>\<open>getContactByEmail(email)\<close>: an \<open>undefined\<close> email is refused by \<open>mysql2\<close>.\<close>

definition get_contact_by_email :: "string option \<Rightarrow> contact_record table \<Rightarrow> dao_error + contact_full option" where
  "get_contact_by_email e t =
     (case e of
        None \<Rightarrow> Inl Undefined_Bind_Parameter
      | Some x \<Rightarrow> Inr (map_option map_contact_record
                        (find (\<lambda>r. sql_str_eq (cd_email (cr_details r)) x) (tbl_rows t))))"

text \<open>The eight columns the search looks at, and its \<open>WHERE (... LIKE ? OR ...)\<close>.\<close>

definition contact_search_fields :: "contact_record \<Rightarrow> string option list" where
  "contact_search_fields r =
     (let d = cr_details r
      in [cd_first_name d, cd_last_name d, cd_telephone d, cd_phone_numbber_2 d, cd_phone_numbber_3 d,
          cd_email d, cd_note_on_address d, cd_remarks d])"

definition contact_matches :: "string option \<Rightarrow> contact_record \<Rightarrow> bool" where
  "contact_matches search r \<longleftrightarrow>
     (if js_truthy_str search then list_ex (\<lambda>v. sql_like v (contains_pattern (the search))) (contact_search_fields r)
      else True)"

definition get_contacts :: "int \<Rightarrow> int \<Rightarrow> string option \<Rightarrow> contact_record table \<Rightarrow> dao_error + contact_full list" where
  "get_contacts page limit search t =
     map_sum id (map map_contact_record)
       (sql_page page limit (newest_first (tbl_where (contact_matches search) t)))"

definition get_contacts_count :: "string option \<Rightarrow> contact_record table \<Rightarrow> nat" where
  "get_contacts_count search t = length (tbl_where (contact_matches search) t)"

definition contact_input_empty :: "contact_input \<Rightarrow> bool" where
  "contact_input_empty ci \<longleftrightarrow> ci = no_contact_input"

text \<open>The \<open>SET\<close> list of \<open>updateContact\<close>: each field that is not \<open>undefined\<close> is
  written as given (the permissions through \<open>JSON.stringify\<close>).\<close>

definition apply_contact_input :: "contact_input \<Rightarrow> contact_record \<Rightarrow> contact_record" where
  "apply_contact_input ci r =
     (let d = cr_details r
      in r\<lparr>c_address := set_defined (ci_address ci) (c_address r),
           c_district := set_defined (ci_district ci) (c_district r),
           c_lat := set_defined (ci_lat ci) (c_lat r),
           c_lng := set_defined (ci_lng ci) (c_lng r),
           cr_details := d\<lparr>cd_salutation := set_defined (ci_salutation ci) (cd_salutation d),
             cd_first_name := set_defined (ci_first_name ci) (cd_first_name d),
             cd_last_name := set_defined (ci_last_name ci) (cd_last_name d),
             cd_zip_code := set_defined (ci_zip_code ci) (cd_zip_code d),
             cd_location := set_defined (ci_location ci) (cd_location d),
             cd_telephone := set_defined (ci_telephone ci) (cd_telephone d),
             cd_phone_numbber_2 := set_defined (ci_phone_numbber_2 ci) (cd_phone_numbber_2 d),
             cd_phone_numbber_3 := set_defined (ci_phone_numbber_3 ci) (cd_phone_numbber_3 d),
             cd_email := set_defined (ci_email ci) (cd_email d),
             cd_password := set_defined (ci_password ci) (cd_password d),
             cd_archived := defined_or (ci_archived ci) (cd_archived d),
             cd_contract_link := set_defined (ci_contract_link ci) (cd_contract_link d),
             cd_title := set_defined (ci_title ci) (cd_title d),
             cd_sign_url := set_defined (ci_sign_url ci) (cd_sign_url d),
             cd_note_on_address := set_defined (ci_note_on_address ci) (cd_note_on_address d),
             cd_newsletter := defined_or (ci_newsletter ci) (cd_newsletter d),
             cd_categories_permission := set_defined (ci_categories_permission ci) (cd_categories_permission d),
             cd_remarks := set_defined (ci_remarks ci) (cd_remarks d),
             cd_imported := defined_or (ci_imported ci) (cd_imported d)\<rparr>\<rparr>)"

definition update_contact ::
  "string \<Rightarrow> contact_input \<Rightarrow> contact_record table \<Rightarrow> contact_full option \<times> contact_record table" where
  "update_contact i ci t =
     (if contact_input_empty ci then (get_contact_by_id i t, t)
      else (let t' = tbl_update c_id i (apply_contact_input ci) t in (get_contact_by_id i t', t')))"

definition delete_contact :: "string \<Rightarrow> contact_record table \<Rightarrow> contact_full option \<times> contact_record table" where
  "delete_contact i t =
     (case get_contact_by_id i t of
        None \<Rightarrow> (None, t)
      | Some c \<Rightarrow> (Some c, tbl_delete c_id i t))"

subsection \<open>Example data\<close>

abbreviation anna_contact :: contact_record where
  "anna_contact \<equiv> contact_of_input
     (no_contact_input\<lparr>ci_first_name := Some ''Anna'', ci_email := Some ''anna@example.at''\<rparr>) ''1''"

abbreviation anna_table :: "contact_record table" where
  "anna_table \<equiv> \<lparr>tbl_rows = [anna_contact], tbl_auto_inc = 2\<rparr>"

subsection \<open>Properties\<close>


lemma contact_of_input_id [simp]: "c_id (contact_of_input ci i) = i"
  by (simp add: contact_of_input_def)

lemma apply_contact_input_id [simp]: "c_id (apply_contact_input ci r) = c_id r"
  by (simp add: apply_contact_input_def Let_def)

lemma map_contact_record_key [simp]: "contact_key (map_contact_record r) = c_id r"
  by (simp add: map_contact_record_def)

lemma add_contact_eq:
  "add_contact ci t =
     (map_contact_record (contact_of_input ci (nat_str (tbl_auto_inc t))), snd (tbl_insert (contact_of_input ci) t))"
  by (simp add: add_contact_def tbl_insert_def Let_def)

lemma add_contact_get:
  assumes "tbl_wf c_id t"
  shows "get_contact_by_id (contact_key (fst (add_contact ci t))) (snd (add_contact ci t)) = Some (fst (add_contact ci t))"
  using tbl_find_insert [OF assms, of "contact_of_input ci"]
  by (simp add: add_contact_eq get_contact_by_id_def)

lemma add_contact_wf: "tbl_wf c_id t \<Longrightarrow> tbl_wf c_id (snd (add_contact ci t))"
  by (simp add: add_contact_eq tbl_insert_wf)

lemma update_contact_wf: "tbl_wf c_id t \<Longrightarrow> tbl_wf c_id (snd (update_contact i ci t))"
  by (simp add: update_contact_def Let_def tbl_update_wf)

lemma delete_contact_wf: "tbl_wf c_id t \<Longrightarrow> tbl_wf c_id (snd (delete_contact i t))"
  by (simp add: delete_contact_def tbl_delete_wf split: option.split)

lemma update_contact_keeps_row:
  "tbl_find c_id i t \<noteq> None \<Longrightarrow> tbl_find c_id i (snd (update_contact i ci t)) \<noteq> None"
  by (simp add: update_contact_def Let_def tbl_find_update)

lemma update_contact_result:
  "fst (update_contact i ci t) = map_option (map_contact_record \<circ> apply_contact_input ci) (tbl_find c_id i t)"
proof (cases "contact_input_empty ci")
  case True
  then have "apply_contact_input ci = id"
    by (simp add: fun_eq_iff contact_input_empty_def no_contact_input_def apply_contact_input_def
        set_defined_def defined_or_def Let_def)
  with True show ?thesis by (simp add: update_contact_def get_contact_by_id_def)
next
  case False
  then show ?thesis
    by (simp add: update_contact_def Let_def get_contact_by_id_def tbl_find_update option.map_comp)
qed

text \<open>C29. The contact search of \<open>getContacts\<close>/\<open>getContactsCount\<close>: for a
  non-empty search term without \<open>%\<close> or \<open>_\<close>, a contact is counted exactly when
  the term occurs, up to ASCII case, in one of its eight searched columns.\<close>
theorem get_contacts_count_search:
  assumes "no_wildcards q" "q \<noteq> []"
  shows "get_contacts_count (Some q) t =
           length (filter (\<lambda>r. list_ex (\<lambda>v. case v of Some x \<Rightarrow> sublist (map ascii_lower q) (map ascii_lower x)
                                                   | None \<Rightarrow> False) (contact_search_fields r)) (tbl_rows t))"
proof -
  have like: "(\<lambda>v. sql_like v (contains_pattern q)) =
      (\<lambda>v. case v of Some x \<Rightarrow> sublist (map ascii_lower q) (map ascii_lower x) | None \<Rightarrow> False)"
    by (rule ext) (simp add: sql_like_def contains_pattern_iff [OF assms(1)] split: option.split)
  have "contact_matches (Some q) r \<longleftrightarrow>
        list_ex (\<lambda>v. case v of Some x \<Rightarrow> sublist (map ascii_lower q) (map ascii_lower x) | None \<Rightarrow> False)
          (contact_search_fields r)" for r
    using assms(2) unfolding contact_matches_def js_truthy_str_def by (simp add: like)
  then have "contact_matches (Some q) =
      (\<lambda>r. list_ex (\<lambda>v. case v of Some x \<Rightarrow> sublist (map ascii_lower q) (map ascii_lower x) | None \<Rightarrow> False)
          (contact_search_fields r))"
    by (rule ext)
  then show ?thesis by (simp add: get_contacts_count_def tbl_where_def)
qed

theorem get_contacts_count_search_witness: "get_contacts_count (Some ''NN'') anna_table = 1"
proof -
  have "no_wildcards ''NN''" by (simp add: no_wildcards_def)
  from get_contacts_count_search [OF this, of anna_table] show ?thesis
    by (simp add: contact_search_fields_def contact_of_input_def no_contact_input_def ascii_lower_def
        nat_str_eval sublist_Cons_right)
qed

text \<open>C30. The search term is put into the \<open>LIKE\<close> pattern unescaped, so
  \<open>_\<close> acts as a wildcard: a search for \<open>n\<close> underscores counts exactly the
  contacts with a searched column of at least \<open>n\<close> characters, whether or not any
  column contains an underscore.\<close>
theorem contact_search_underscore:
  assumes "0 < n"
  shows "get_contacts_count (Some (replicate n CHR ''_'')) t =
           length (filter (\<lambda>r. list_ex (\<lambda>v. case v of Some x \<Rightarrow> n \<le> length x | None \<Rightarrow> False)
                                  (contact_search_fields r)) (tbl_rows t))"
proof -
  have "contact_matches (Some (replicate n CHR ''_'')) =
        (\<lambda>r. list_ex (\<lambda>v. case v of Some x \<Rightarrow> n \<le> length x | None \<Rightarrow> False) (contact_search_fields r))"
    using assms
    by (intro ext) (simp add: contact_matches_def js_truthy_str_def sql_like_def contains_underscores_iff
        cong: option.case_cong)
  then show ?thesis by (simp add: get_contacts_count_def tbl_where_def)
qed

theorem contact_search_underscore_witness:
  "get_contacts_count (Some ''_'') anna_table = 1 \<and>
   \<not> list_ex (\<lambda>v. case v of Some x \<Rightarrow> CHR ''_'' \<in> set x | None \<Rightarrow> False) (contact_search_fields anna_contact)"
proof -
  have "get_contacts_count (Some (replicate 1 CHR ''_'')) anna_table = 1"
    using contact_search_underscore [of 1 anna_table]
    by (simp add: contact_search_fields_def contact_of_input_def no_contact_input_def nat_str_eval)
  then show ?thesis
    by (simp add: contact_search_fields_def contact_of_input_def no_contact_input_def)
qed

end
