(* ===== verification/Appointment_Dao.thy ===== *)
theory Appointment_Dao
  imports Contact_Dao
begin

text \<open>
  \<open>AppointmentDaoMySql\<close>
  (src/booking-backend-main/src/database-client/src/Appointment/AppointmentDaoMySql.ts)
  over the full \<open>appointments\<close> and \<open>contacts\<close> tables: \<open>addAppointment\<close> with its
  validation, the joined reads \<open>getAppointmentById\<close>, \<open>getAppointments\<close>,
  \<open>getAppointmentsByContactId\<close>, \<open>getAppointmentsByDateCalendarIdId\<close> and
  \<open>getAppointmentsByCalendarIdId\<close>, \<open>updateAppointment\<close>, \<open>deleteAppointment\<close>,
  \<open>getDueReminderAppointments\<close>, and \<open>ContactDaoMySql.getContactsWithAppointments\<close>,
  which joins the same two tables.  A full row extends the \<open>appointment_row\<close> the
  availability queries read; a full \<open>Appointment\<close> extends the \<open>appointment\<close> of
  \<open>Appointment_Model\<close>, so the engine's view is the truncation of the full one.
  The column/placeholder count check of \<open>addAppointment\<close> compares constants (30
  each) and cannot fail; logging is not modelled.
\<close>

subsection \<open>Rows and objects\<close>

record appointment_details =
  ad_new_user :: bool
  ad_brand_of_device :: "string option"
  ad_model :: "string option"
  ad_selected_devices :: "string option"
  ad_exhaust_gas_measurement :: bool
  ad_has_maintenance_agreement :: bool
  ad_has_bgas_before :: bool
  ad_year :: "string option"
  ad_invoice_number :: "int option"
  ad_contract_number :: "int option"
  ad_imported_service_name :: "string option"
  ad_imported_service_duration :: "int option"
  ad_imported_service_price :: "string option"
  ad_archived :: bool
  ad_updated_by :: "string option"
  ad_attachments :: "string list option"
  ad_remarks :: "string option"
  ad_employee_attachments :: "string list option"
  ad_employee_remarks :: "string option"
  ad_company_remarks :: "string option"
  ad_created_by :: "string option"
  ad_ended_at :: "instant option"
  ad_control_points :: "string list option"

text \<open>A row of \<open>appointments\<close>; the id columns hold integers, kept as their decimal
  strings.\<close>

record appointment_record = appointment_row +
  ar_category_id :: string
  ar_service_id :: string
  ar_details :: appointment_details

text \<open>The \<open>Appointment\<close> of \<open>mapAppointmentWithContact\<close>: the joined contact's
  remaining columns are \<open>af_contact_details\<close>.\<close>

record appointment_full = appointment +
  af_category_id :: string
  af_service_id :: string
  af_details :: appointment_details
  af_contact_details :: contact_details

text \<open>\<open>AddAppointmentRequest\<close>, all of whose fields may be \<open>undefined\<close>.\<close>

record appointment_input =
  ai_category_id :: "string option"
  ai_service_id :: "string option"
  ai_calendar_id :: "string option"
  ai_contact_id :: "string option"
  ai_new_user :: "bool option"
  ai_start_date :: "instant option"
  ai_end_date :: "instant option"
  ai_brand_of_device :: "string option"
  ai_model :: "string option"
  ai_selected_devices :: "string option"
  ai_exhaust_gas_measurement :: "bool option"
  ai_has_maintenance_agreement :: "bool option"
  ai_has_bgas_before :: "bool option"
  ai_year :: "string option"
  ai_invoice_number :: "int option"
  ai_contract_number :: "int option"
  ai_imported_service_name :: "string option"
  ai_imported_service_duration :: "int option"
  ai_imported_service_price :: "string option"
  ai_appointment_status :: "string option"
  ai_archived :: "bool option"
  ai_updated_by :: "string option"
  ai_attachments :: "string list option"
  ai_remarks :: "string option"
  ai_employee_attachments :: "string list option"
  ai_employee_remarks :: "string option"
  ai_company_remarks :: "string option"
  ai_created_by :: "string option"
  ai_ended_at :: "instant option"
  ai_control_points :: "string list option"

definition no_appointment_input :: appointment_input where
  "no_appointment_input =
     \<lparr>ai_category_id = None, ai_service_id = None, ai_calendar_id = None, ai_contact_id = None,
      ai_new_user = None, ai_start_date = None, ai_end_date = None, ai_brand_of_device = None,
      ai_model = None, ai_selected_devices = None, ai_exhaust_gas_measurement = None,
      ai_has_maintenance_agreement = None, ai_has_bgas_before = None, ai_year = None,
      ai_invoice_number = None, ai_contract_number = None, ai_imported_service_name = None,
      ai_imported_service_duration = None, ai_imported_service_price = None,
      ai_appointment_status = None, ai_archived = None, ai_updated_by = None, ai_attachments = None,
      ai_remarks = None, ai_employee_attachments = None, ai_employee_remarks = None,
      ai_company_remarks = None, ai_created_by = None, ai_ended_at = None, ai_control_points = None\<rparr>"

text \<open>The errors \<open>addAppointment\<close> throws.\<close>

datatype appointment_error =
    Missing_Required_Fields "string list"
  | Invalid_Id_Format
  | Created_Appointment_Not_Found

subsection \<open>mapAppointmentWithContact and the joined reads\<close>

definition map_appointment_record :: "appointment_record \<Rightarrow> contact_record \<Rightarrow> appointment_full" where
  "map_appointment_record a c =
     \<lparr>appt_id = a_id a, appt_calendar_id = a_calendar_id a, appt_contact_id = c_id c,
      start_date = a_start_date a, end_date = a_end_date a, appointment_status = a_status a,
      appt_contact = Some \<lparr>contact_key = c_id c, address = c_address c, district = None, lat = None, lng = None\<rparr>,
      af_category_id = ar_category_id a, af_service_id = ar_service_id a, af_details = ar_details a,
      af_contact_details = cr_details c\<rparr>"

text \<open>The \<open>INNER JOIN contacts c ON a.contact_id = c.id\<close> with a \<open>WHERE\<close> predicate,
  \<open>ORDER BY a.start_date\<close>.\<close>

definition join_records ::
  "(appointment_record \<Rightarrow> bool) \<Rightarrow> appointment_record table \<Rightarrow> contact_record table \<Rightarrow> appointment_full list" where
  "join_records P ap ct =
     map (\<lambda>(a, c). map_appointment_record a c)
       (sort_key (\<lambda>(a, c). a_start_date a)
          [(a, c). a \<leftarrow> tbl_rows ap, c \<leftarrow> tbl_rows ct, P a \<and> a_contact_id a = c_id c])"

text \<open>\<open>WHERE a.id = ? LIMIT 1\<close>: the appointment with the id, if its contact exists.\<close>

definition get_appointment_by_id ::
  "string \<Rightarrow> appointment_record table \<Rightarrow> contact_record table \<Rightarrow> appointment_full option" where
  "get_appointment_by_id i ap ct =
     (case tbl_find a_id i ap of
        None \<Rightarrow> None
      | Some a \<Rightarrow> map_option (map_appointment_record a) (tbl_find c_id (a_contact_id a) ct))"

definition get_appointments_full ::
  "instant \<Rightarrow> instant \<Rightarrow> appointment_record table \<Rightarrow> contact_record table \<Rightarrow> appointment_full list" where
  "get_appointments_full s e ap ct = join_records (\<lambda>a. s \<le> a_start_date a \<and> a_end_date a \<le> e) ap ct"

definition get_appointments_by_date_calendar_full ::
  "string \<Rightarrow> instant \<Rightarrow> instant \<Rightarrow> appointment_record table \<Rightarrow> contact_record table \<Rightarrow> appointment_full list" where
  "get_appointments_by_date_calendar_full cal s e ap ct =
     join_records (\<lambda>a. a_calendar_id a = cal \<and> s \<le> a_start_date a \<and> a_end_date a \<le> e) ap ct"

text \<open>\<open>ORDER BY a.start_date DESC\<close>.\<close>

definition get_appointments_by_contact_id ::
  "string \<Rightarrow> appointment_record table \<Rightarrow> contact_record table \<Rightarrow> appointment_full list" where
  "get_appointments_by_contact_id cid ap ct = rev (join_records (\<lambda>a. a_contact_id a = cid) ap ct)"

definition get_appointments_by_calendar_id ::
  "string \<Rightarrow> appointment_record table \<Rightarrow> contact_record table \<Rightarrow> appointment_full list" where
  "get_appointments_by_calendar_id cal ap ct = rev (join_records (\<lambda>a. a_calendar_id a = cal) ap ct)"

subsection \<open>addAppointment\<close>

text \<open>The two validation steps: the ids (\<open>!x\<close>: undefined or empty), then the
  dates, each listing the missing fields in order.\<close>

definition missing_id_fields :: "appointment_input \<Rightarrow> string list" where
  "missing_id_fields ai =
     (if js_truthy_str (ai_category_id ai) then [] else [''category_id'']) @
     (if js_truthy_str (ai_service_id ai) then [] else [''service_id'']) @
     (if js_truthy_str (ai_calendar_id ai) then [] else [''calendar_id'']) @
     (if js_truthy_str (ai_contact_id ai) then [] else [''contact_id''])"

definition missing_date_fields :: "appointment_input \<Rightarrow> string list" where
  "missing_date_fields ai =
     (if ai_start_date ai = None then [''start_date''] else []) @
     (if ai_end_date ai = None then [''end_date''] else [])"

text \<open>The inserted row: ids as parsed by \<open>parseInt\<close>, defaults \<open>?? false\<close>,
  \<open>?? null\<close> and \<open>?? 'Confirmed'\<close>, arrays stored when given.\<close>

definition appointment_of_input ::
  "appointment_input \<Rightarrow> int \<Rightarrow> int \<Rightarrow> int \<Rightarrow> int \<Rightarrow> string \<Rightarrow> appointment_record" where
  "appointment_of_input ai cat srv cal con i =
     \<lparr>a_id = i, a_calendar_id = int_str cal, a_contact_id = int_str con,
      a_start_date = the (ai_start_date ai), a_end_date = the (ai_end_date ai),
      a_status = defined_or (ai_appointment_status ai) status_confirmed,
      ar_category_id = int_str cat, ar_service_id = int_str srv,
      ar_details = \<lparr>ad_new_user = defined_or (ai_new_user ai) False,
        ad_brand_of_device = ai_brand_of_device ai, ad_model = ai_model ai,
        ad_selected_devices = ai_selected_devices ai,
        ad_exhaust_gas_measurement = defined_or (ai_exhaust_gas_measurement ai) False,
        ad_has_maintenance_agreement = defined_or (ai_has_maintenance_agreement ai) False,
        ad_has_bgas_before = defined_or (ai_has_bgas_before ai) False,
        ad_year = ai_year ai, ad_invoice_number = ai_invoice_number ai,
        ad_contract_number = ai_contract_number ai, ad_imported_service_name = ai_imported_service_name ai,
        ad_imported_service_duration = ai_imported_service_duration ai,
        ad_imported_service_price = ai_imported_service_price ai,
        ad_archived = defined_or (ai_archived ai) False, ad_updated_by = ai_updated_by ai,
        ad_attachments = ai_attachments ai, ad_remarks = ai_remarks ai,
        ad_employee_attachments = ai_employee_attachments ai, ad_employee_remarks = ai_employee_remarks ai,
        ad_company_remarks = ai_company_remarks ai, ad_created_by = ai_created_by ai,
        ad_ended_at = ai_ended_at ai, ad_control_points = ai_control_points ai\<rparr>\<rparr>"

text \<open>The row is inserted before the created appointment is read back through the
  join, so a missing contact makes the call fail after the insert.\<close>

definition add_appointment ::
  "appointment_input \<Rightarrow> contact_record table \<Rightarrow> appointment_record table \<Rightarrow>
   (appointment_error + appointment_full) \<times> appointment_record table" where
  "add_appointment ai ct ap =
     (if missing_id_fields ai \<noteq> [] then (Inl (Missing_Required_Fields (missing_id_fields ai)), ap)
      else if missing_date_fields ai \<noteq> [] then (Inl (Missing_Required_Fields (missing_date_fields ai)), ap)
      else
        (case (js_parse_int (the (ai_category_id ai)), js_parse_int (the (ai_service_id ai)),
               js_parse_int (the (ai_calendar_id ai)), js_parse_int (the (ai_contact_id ai))) of
           (Some cat, Some srv, Some cal, Some con) \<Rightarrow>
             (let (r, ap') = tbl_insert (appointment_of_input ai cat srv cal con) ap
              in ((case get_appointment_by_id (a_id r) ap' ct of
                     None \<Rightarrow> Inl Created_Appointment_Not_Found
                   | Some f \<Rightarrow> Inr f), ap'))
         | _ \<Rightarrow> (Inl Invalid_Id_Format, ap)))"

subsection \<open>updateAppointment and deleteAppointment\<close>

definition appointment_input_empty :: "appointment_input \<Rightarrow> bool" where
  "appointment_input_empty ai \<longleftrightarrow> ai = no_appointment_input"

text \<open>The \<open>SET\<close> list: each field that is not \<open>undefined\<close> is written as given (the
  ids without \<open>parseInt\<close>).\<close>

definition apply_appointment_input :: "appointment_input \<Rightarrow> appointment_record \<Rightarrow> appointment_record" where
  "apply_appointment_input ai a =
     (let d = ar_details a
      in a\<lparr>ar_category_id := defined_or (ai_category_id ai) (ar_category_id a),
           ar_service_id := defined_or (ai_service_id ai) (ar_service_id a),
           a_calendar_id := defined_or (ai_calendar_id ai) (a_calendar_id a),
           a_contact_id := defined_or (ai_contact_id ai) (a_contact_id a),
           a_start_date := defined_or (ai_start_date ai) (a_start_date a),
           a_end_date := defined_or (ai_end_date ai) (a_end_date a),
           a_status := defined_or (ai_appointment_status ai) (a_status a),
           ar_details := d\<lparr>ad_new_user := defined_or (ai_new_user ai) (ad_new_user d),
             ad_brand_of_device := set_defined (ai_brand_of_device ai) (ad_brand_of_device d),
             ad_model := set_defined (ai_model ai) (ad_model d),
             ad_selected_devices := set_defined (ai_selected_devices ai) (ad_selected_devices d),
             ad_exhaust_gas_measurement := defined_or (ai_exhaust_gas_measurement ai) (ad_exhaust_gas_measurement d),
             ad_has_maintenance_agreement :=
               defined_or (ai_has_maintenance_agreement ai) (ad_has_maintenance_agreement d),
             ad_has_bgas_before := defined_or (ai_has_bgas_before ai) (ad_has_bgas_before d),
             ad_year := set_defined (ai_year ai) (ad_year d),
             ad_invoice_number := set_defined (ai_invoice_number ai) (ad_invoice_number d),
             ad_contract_number := set_defined (ai_contract_number ai) (ad_contract_number d),
             ad_imported_service_name := set_defined (ai_imported_service_name ai) (ad_imported_service_name d),
             ad_imported_service_duration :=
               set_defined (ai_imported_service_duration ai) (ad_imported_service_duration d),
             ad_imported_service_price := set_defined (ai_imported_service_price ai) (ad_imported_service_price d),
             ad_archived := defined_or (ai_archived ai) (ad_archived d),
             ad_updated_by := set_defined (ai_updated_by ai) (ad_updated_by d),
             ad_attachments := set_defined (ai_attachments ai) (ad_attachments d),
             ad_remarks := set_defined (ai_remarks ai) (ad_remarks d),
             ad_employee_attachments := set_defined (ai_employee_attachments ai) (ad_employee_attachments d),
             ad_employee_remarks := set_defined (ai_employee_remarks ai) (ad_employee_remarks d),
             ad_company_remarks := set_defined (ai_company_remarks ai) (ad_company_remarks d),
             ad_created_by := set_defined (ai_created_by ai) (ad_created_by d),
             ad_ended_at := set_defined (ai_ended_at ai) (ad_ended_at d),
             ad_control_points := set_defined (ai_control_points ai) (ad_control_points d)\<rparr>\<rparr>)"

definition update_appointment ::
  "string \<Rightarrow> appointment_input \<Rightarrow> appointment_record table \<Rightarrow> contact_record table \<Rightarrow>
   appointment_full option \<times> appointment_record table" where
  "update_appointment i ai ap ct =
     (if appointment_input_empty ai then (get_appointment_by_id i ap ct, ap)
      else (let ap' = tbl_update a_id i (apply_appointment_input ai) ap
            in (get_appointment_by_id i ap' ct, ap')))"

text \<open>The appointment is looked up through the join first; only if that finds it is
  the row deleted.\<close>

definition delete_appointment ::
  "string \<Rightarrow> appointment_record table \<Rightarrow> contact_record table \<Rightarrow>
   appointment_full option \<times> appointment_record table" where
  "delete_appointment i ap ct =
     (case get_appointment_by_id i ap ct of
        None \<Rightarrow> (None, ap)
      | Some a \<Rightarrow> (Some a, tbl_delete a_id i ap))"

subsection \<open>Reminders\<close>

text \<open>The proleptic Gregorian date (year, month, day) of a day number counted from
  1970-01-01, by the days-from-civil inverse (eras of 400 years).\<close>

definition civil_from_days :: "int \<Rightarrow> int \<times> int \<times> int" where
  "civil_from_days z0 =
     (let z = z0 + 719468;
          era = z div 146097;
          doe = z - era * 146097;
          yoe = (doe - doe div 1460 + doe div 36524 - doe div 146096) div 365;
          doy = doe - (365 * yoe + yoe div 4 - yoe div 100);
          mp = (5 * doy + 2) div 153;
          d = doy - (153 * mp + 2) div 5 + 1;
          m = (if mp < 10 then mp + 3 else mp - 9);
          y = yoe + era * 400 + (if m \<le> 2 then 1 else 0)
      in (y, m, d))"

text \<open>\<open>YEAR()\<close>, \<open>MONTH()\<close>, \<open>DAY()\<close> of an instant, and moment's \<open>year()\<close>,
  \<open>month() + 1\<close>, \<open>date()\<close> (UTC).\<close>

definition date_parts :: "instant \<Rightarrow> int \<times> int \<times> int" where
  "date_parts t = civil_from_days (t div ms_per_day)"

text \<open>The \<open>WHERE\<close> of \<open>getDueReminderAppointments\<close>: the day and month of
  tomorrow, and a year different from today's.\<close>

definition due_for_reminder :: "instant \<Rightarrow> appointment_record \<Rightarrow> bool" where
  "due_for_reminder now a \<longleftrightarrow>
     (let (y, m, d) = date_parts (a_start_date a);
          (ty, tm, td) = date_parts (now + ms_per_day);
          (y0, m0, d0) = date_parts now
      in d = td \<and> m = tm \<and> y \<noteq> y0)"

definition get_due_reminder_appointments ::
  "instant \<Rightarrow> appointment_record table \<Rightarrow> contact_record table \<Rightarrow> appointment_full list" where
  "get_due_reminder_appointments now ap ct =
     map (\<lambda>(a, c). map_appointment_record a c)
       [(a, c). a \<leftarrow> tbl_rows ap, c \<leftarrow> tbl_rows ct, due_for_reminder now a \<and> a_contact_id a = c_id c]"

subsection \<open>getContactsWithAppointments\<close>

text \<open>The \<open>JSON_OBJECT\<close> of each joined appointment; under the \<open>LEFT JOIN\<close> a
  contact without appointments aggregates one object whose fields are all \<open>NULL\<close>.\<close>

record appointment_summary =
  sum_id :: "string option"
  sum_start_date :: "instant option"
  sum_end_date :: "instant option"
  sum_status :: "string option"

definition summary_of :: "appointment_record \<Rightarrow> appointment_summary" where
  "summary_of a =
     \<lparr>sum_id = Some (a_id a), sum_start_date = Some (a_start_date a), sum_end_date = Some (a_end_date a),
      sum_status = Some (a_status a)\<rparr>"

definition null_summary :: appointment_summary where
  "null_summary = \<lparr>sum_id = None, sum_start_date = None, sum_end_date = None, sum_status = None\<rparr>"

text \<open>mysql2 returns a \<open>JSON\<close> column already parsed (the pool of
  \<open>mysqlClient.ts\<close> sets neither \<open>jsonStrings\<close> nor a \<open>typeCast\<close>), so
  \<open>row.appointments\<close> is an array of objects, never empty and never \<open>NULL\<close> under
  the \<open>LEFT JOIN\<close>.  The array is truthy and \<open>JSON.parse\<close> receives it: it first
  converts its argument with \<open>String\<close>, which joins the elements with commas, each
  plain object giving \<open>[object Object]\<close>.\<close>

fun js_join_objects :: "nat \<Rightarrow> string" where
  "js_join_objects 0 = []"
| "js_join_objects (Suc n) = ''[object Object]'' @ (if n = 0 then [] else CHR '','' # js_join_objects n)"

text \<open>The first tokens \<open>JSON.parse\<close> checks: after white space the text must start a
  value (object, array, string, number, \<open>true\<close>, \<open>false\<close>, \<open>null\<close>), and after an
  opening bracket comes \<open>]\<close> or another value.  A text failing the check raises a
  \<open>SyntaxError\<close>.\<close>

datatype json_error = Json_Syntax_Error

definition json_ws :: "char \<Rightarrow> bool" where
  "json_ws c \<longleftrightarrow> c \<in> {CHR '' '', CHR 0x09, CHR 0x0A, CHR 0x0D}"

definition json_value_start :: "char \<Rightarrow> bool" where
  "json_value_start c \<longleftrightarrow> c \<in> set ''{[-0123456789tfn'' \<or> c = CHR 0x22"

definition json_rejects :: "string \<Rightarrow> bool" where
  "json_rejects s \<longleftrightarrow>
     (case dropWhile json_ws s of
        [] \<Rightarrow> True
      | c # r \<Rightarrow> \<not> json_value_start c \<or>
          (c = CHR ''['' \<and> (case dropWhile json_ws r of
                               [] \<Rightarrow> True
                             | c' # _ \<Rightarrow> c' \<noteq> CHR '']'' \<and> \<not> json_value_start c')))"

text \<open>\<open>JSON.parse(row.appointments)\<close> on the parsed array; a text the check above
  does not reject is taken to parse back to the same array (no array of objects gets
  there, \<open>json_parse_summaries_fails\<close>).\<close>

definition json_parse_summaries :: "appointment_summary list \<Rightarrow> json_error + appointment_summary list" where
  "json_parse_summaries xs =
     (if json_rejects (js_join_objects (length xs)) then Inl Json_Syntax_Error else Inr xs)"

definition aggregated_summaries :: "appointment_record table \<Rightarrow> contact_record \<Rightarrow> appointment_summary list" where
  "aggregated_summaries ap c =
     (let xs = [summary_of a. a \<leftarrow> tbl_rows ap, a_contact_id a = c_id c]
      in if xs = [] then [null_summary] else xs)"

text \<open>\<open>rows.map\<close> with a callback that may throw: the first exception ends the call.\<close>

fun map_throwing :: "('a \<Rightarrow> 'e + 'b) \<Rightarrow> 'a list \<Rightarrow> 'e + 'b list" where
  "map_throwing f [] = Inr []"
| "map_throwing f (x # xs) =
     (case f x of Inl e \<Rightarrow> Inl e | Inr y \<Rightarrow> map_sum id (Cons y) (map_throwing f xs))"

definition get_contacts_with_appointments ::
  "contact_record table \<Rightarrow> appointment_record table \<Rightarrow> json_error + (contact_full \<times> appointment_summary list) list" where
  "get_contacts_with_appointments ct ap =
     map_throwing (\<lambda>c. map_sum id (Pair (map_contact_record c)) (json_parse_summaries (aggregated_summaries ap c)))
       (tbl_rows ct)"

subsection \<open>Scenario data\<close>

text \<open>A booking of calendar 1 for contact 1 (category 2, service 3) from \<open>s\<close> to
  \<open>e\<close>, the row it is stored as.\<close>

abbreviation booking_input :: "instant \<Rightarrow> instant \<Rightarrow> appointment_input" where
  "booking_input s e \<equiv> no_appointment_input\<lparr>ai_category_id := Some ''2'', ai_service_id := Some ''3'',
     ai_calendar_id := Some ''1'', ai_contact_id := Some ''1'', ai_start_date := Some s, ai_end_date := Some e\<rparr>"

abbreviation booked_row :: "string \<Rightarrow> instant \<Rightarrow> instant \<Rightarrow> appointment_record" where
  "booked_row i s e \<equiv> appointment_of_input (booking_input s e) 2 3 1 1 i"


subsection \<open>Properties\<close>

lemma insort_key_map: "insort_key f (g x) (map g ys) = map g (insort_key (\<lambda>y. f (g y)) x ys)"
  by (induction ys) auto

lemma sort_key_map: "sort_key f (map g xs) = map g (sort_key (\<lambda>y. f (g y)) xs)"
  by (induction xs) (simp_all add: insort_key_map)

lemma truncate_map_appointment_record:
  "appointment.truncate (map_appointment_record a c) =
     map_appointment_with_contact (appointment_row.truncate a) (contact_row.truncate c)"
  by (simp add: map_appointment_record_def map_appointment_with_contact_def appointment.truncate_def
      appointment_row.truncate_def contact_row.truncate_def)

lemma pairs_map_inner:
  "[(a', c). a' \<leftarrow> [f a], c \<leftarrow> map g cs, R a' c] =
   map (\<lambda>(a, c). (f a, g c)) [(a', c). a' \<leftarrow> [a], c \<leftarrow> cs, R (f a') (g c)]"
  by (induction cs) auto

lemma pairs_map:
  "[(a, c). a \<leftarrow> map f as, c \<leftarrow> map g cs, R a c] =
   map (\<lambda>(a, c). (f a, g c)) [(a, c). a \<leftarrow> as, c \<leftarrow> cs, R (f a) (g c)]"
proof (induction as)
  case Nil
  then show ?case by simp
next
  case (Cons a as)
  from pairs_map_inner [where f = f and a = a and g = g and cs = cs and R = R] Cons show ?case by simp
qed

lemma pairs_map_truncate:
  "[(a, c). a \<leftarrow> map appointment_row.truncate as, c \<leftarrow> map contact_row.truncate cs, P a \<and> a_contact_id a = c_id c] =
   map (\<lambda>(a, c). (appointment_row.truncate a, contact_row.truncate c))
     [(a, c). a \<leftarrow> as, c \<leftarrow> cs, P (appointment_row.truncate a) \<and> a_contact_id a = c_id c]"
  using pairs_map [where f = appointment_row.truncate and g = contact_row.truncate
      and R = "\<lambda>a c. P a \<and> a_contact_id a = c_id c" and as = as and cs = cs]
  by (simp add: appointment_row.truncate_def contact_row.truncate_def)

text \<open>The joined reads of the DAO refine the engine's view: projecting every
  result of \<open>join_records\<close> (the \<open>INNER JOIN contacts ... ORDER BY start_date\<close> of
  \<open>getAppointments\<close> and its variants) to the fields of \<open>Appointment\<close> gives
  \<open>join_contacts\<close> of the availability model on the projected tables.\<close>
lemma join_records_refines:
  "map appointment.truncate (join_records (P \<circ> appointment_row.truncate) ap ct) =
     join_contacts P (map appointment_row.truncate (tbl_rows ap)) (map contact_row.truncate (tbl_rows ct))"
proof -
  let ?L = "[(a, c). a \<leftarrow> tbl_rows ap, c \<leftarrow> tbl_rows ct, P (appointment_row.truncate a) \<and> a_contact_id a = c_id c]"
  let ?tr = "\<lambda>(a, c). (appointment_row.truncate a, contact_row.truncate c)"
  have key: "(\<lambda>y. (\<lambda>(a, c). a_start_date a) (?tr y)) = (\<lambda>(a :: appointment_record, c :: contact_record). a_start_date a)"
    by (auto simp: appointment_row.truncate_def)
  have "join_contacts P (map appointment_row.truncate (tbl_rows ap)) (map contact_row.truncate (tbl_rows ct)) =
      map (\<lambda>(a, c). map_appointment_with_contact a c) (map ?tr (sort_key (\<lambda>(a, c). a_start_date a) ?L))"
    unfolding join_contacts_def pairs_map_truncate sort_key_map key ..
  also have "\<dots> = map appointment.truncate (join_records (P \<circ> appointment_row.truncate) ap ct)"
    by (simp add: join_records_def truncate_map_appointment_record case_prod_beta)
  finally show ?thesis ..
qed

lemma appointment_of_input_id [simp]: "a_id (appointment_of_input ai cat srv cal con i) = i"
  by (simp add: appointment_of_input_def)

lemma appointment_of_input_contact [simp]: "a_contact_id (appointment_of_input ai cat srv cal con i) = int_str con"
  by (simp add: appointment_of_input_def)

lemma add_appointment_parsed:
  assumes "missing_id_fields ai = []" "missing_date_fields ai = []"
    and "js_parse_int (the (ai_category_id ai)) = Some cat" "js_parse_int (the (ai_service_id ai)) = Some srv"
    and "js_parse_int (the (ai_calendar_id ai)) = Some cal" "js_parse_int (the (ai_contact_id ai)) = Some con"
  shows "add_appointment ai ct ap =
           (case get_appointment_by_id (nat_str (tbl_auto_inc ap)) (snd (tbl_insert (appointment_of_input ai cat srv cal con) ap)) ct of
              None \<Rightarrow> Inl Created_Appointment_Not_Found | Some f \<Rightarrow> Inr f,
            snd (tbl_insert (appointment_of_input ai cat srv cal con) ap))"
  using assms by (simp add: add_appointment_def tbl_insert_def Let_def)

lemma get_appointment_by_id_inserted:
  assumes "tbl_wf a_id ap"
  shows "get_appointment_by_id (nat_str (tbl_auto_inc ap)) (snd (tbl_insert (appointment_of_input ai cat srv cal con) ap)) ct =
           map_option (map_appointment_record (appointment_of_input ai cat srv cal con (nat_str (tbl_auto_inc ap))))
             (tbl_find c_id (int_str con) ct)"
  using tbl_find_insert [OF assms, of "appointment_of_input ai cat srv cal con"]
  by (simp add: get_appointment_by_id_def)

lemma add_appointment_cases:
  "snd (add_appointment ai ct ap) = ap \<or>
   (\<exists>cat srv cal con. snd (add_appointment ai ct ap) = snd (tbl_insert (appointment_of_input ai cat srv cal con) ap))"
  by (auto simp: add_appointment_def tbl_insert_def Let_def split: option.split)

lemma add_appointment_wf: "tbl_wf a_id ap \<Longrightarrow> tbl_wf a_id (snd (add_appointment ai ct ap))"
  using add_appointment_cases [of ai ct ap] by (elim disjE exE) (simp_all add: tbl_insert_wf)

lemma apply_appointment_input_id [simp]: "a_id (apply_appointment_input ai a) = a_id a"
  by (simp add: apply_appointment_input_def Let_def)

lemma update_appointment_wf: "tbl_wf a_id ap \<Longrightarrow> tbl_wf a_id (snd (update_appointment i ai ap ct))"
  by (simp add: update_appointment_def Let_def tbl_update_wf)

lemma delete_appointment_wf: "tbl_wf a_id ap \<Longrightarrow> tbl_wf a_id (snd (delete_appointment i ap ct))"
  by (simp add: delete_appointment_def tbl_delete_wf split: option.split)

lemma concat_map_if_none:
  "\<forall>c \<in> set cs. \<not> R c \<Longrightarrow> concat (map (\<lambda>c. if R c then [f c] else []) cs) = []"
  by (induction cs) auto

lemma add_appointment_Inr:
  assumes wf: "tbl_wf a_id ap" and res: "fst (add_appointment ai ct ap) = Inr f"
  shows "get_appointment_by_id (appt_id f) (snd (add_appointment ai ct ap)) ct = Some f \<and>
         (\<exists>con. js_parse_int (the (ai_contact_id ai)) = Some con \<and> appt_contact_id f = int_str con)"
proof -
  obtain cat srv cal con where v: "missing_id_fields ai = []" "missing_date_fields ai = []"
    "js_parse_int (the (ai_category_id ai)) = Some cat" "js_parse_int (the (ai_service_id ai)) = Some srv"
    "js_parse_int (the (ai_calendar_id ai)) = Some cal" "js_parse_int (the (ai_contact_id ai)) = Some con"
    using res by (auto simp: add_appointment_def Let_def split: if_splits option.splits prod.splits)
  let ?r = "appointment_of_input ai cat srv cal con (nat_str (tbl_auto_inc ap))"
  note add = add_appointment_parsed [OF v, of ct ap]
  note ins = get_appointment_by_id_inserted [OF wf, of ai cat srv cal con ct]
  obtain c where c: "tbl_find c_id (int_str con) ct = Some c" and f: "f = map_appointment_record ?r c"
    using res add ins by (auto split: option.splits)
  have "appt_id f = nat_str (tbl_auto_inc ap)" "appt_contact_id f = int_str con"
    using f tbl_find_Some [OF c] by (simp_all add: map_appointment_record_def appointment_of_input_def)
  then show ?thesis using add ins c f v(6) by simp
qed

lemma add_appointment_accepts:
  assumes "tbl_wf a_id ap" "missing_id_fields ai = []" "missing_date_fields ai = []"
    and "js_parse_int (the (ai_category_id ai)) = Some cat" "js_parse_int (the (ai_service_id ai)) = Some srv"
    and "js_parse_int (the (ai_calendar_id ai)) = Some cal" "js_parse_int (the (ai_contact_id ai)) = Some con"
    and "tbl_find c_id (int_str con) ct \<noteq> None"
  shows "\<exists>f. fst (add_appointment ai ct ap) = Inr f"
  using add_appointment_parsed [OF assms(2-7), of ct ap] get_appointment_by_id_inserted [OF assms(1)] assms(8)
  by (auto split: option.split)

text \<open>C31. \<open>addAppointment\<close> with every required field present, ids that
  \<open>parseInt\<close> accepts and an existing contact returns the created appointment, whose id
  is the next auto-increment value and whose status defaults to \<open>Confirmed\<close>, and
  \<open>getAppointmentById\<close> on that id afterwards returns the same object.\<close>
theorem add_appointment_get:
  assumes "tbl_wf a_id ap" "missing_id_fields ai = []" "missing_date_fields ai = []"
    and "js_parse_int (the (ai_category_id ai)) = Some cat" "js_parse_int (the (ai_service_id ai)) = Some srv"
    and "js_parse_int (the (ai_calendar_id ai)) = Some cal" "js_parse_int (the (ai_contact_id ai)) = Some con"
    and "tbl_find c_id (int_str con) ct = Some c"
  shows "\<exists>f. fst (add_appointment ai ct ap) = Inr f \<and> appt_id f = nat_str (tbl_auto_inc ap) \<and>
             appointment_status f = defined_or (ai_appointment_status ai) status_confirmed \<and>
             get_appointment_by_id (appt_id f) (snd (add_appointment ai ct ap)) ct = Some f"
  using add_appointment_parsed [OF assms(2-7), of ct ap] get_appointment_by_id_inserted [OF assms(1)] assms(8)
  by (simp add: map_appointment_record_def appointment_of_input_def)

text \<open>C32. When the contact id names no contact, \<open>addAppointment\<close> reports that the
  created appointment was not found, but the row has already been inserted (there is no
  transaction) and it stays invisible to every joined read.\<close>
theorem add_appointment_orphan:
  assumes "tbl_wf a_id ap" "missing_id_fields ai = []" "missing_date_fields ai = []"
    and "js_parse_int (the (ai_category_id ai)) = Some cat" "js_parse_int (the (ai_service_id ai)) = Some srv"
    and "js_parse_int (the (ai_calendar_id ai)) = Some cal" "js_parse_int (the (ai_contact_id ai)) = Some con"
    and "tbl_find c_id (int_str con) ct = None"
  shows "fst (add_appointment ai ct ap) = Inl Created_Appointment_Not_Found \<and>
         tbl_rows (snd (add_appointment ai ct ap)) =
           tbl_rows ap @ [appointment_of_input ai cat srv cal con (nat_str (tbl_auto_inc ap))] \<and>
         join_records P (snd (add_appointment ai ct ap)) ct = join_records P ap ct"
proof -
  have add: "add_appointment ai ct ap =
      (Inl Created_Appointment_Not_Found, snd (tbl_insert (appointment_of_input ai cat srv cal con) ap))"
    using add_appointment_parsed [OF assms(2-7), of ct ap] get_appointment_by_id_inserted [OF assms(1)] assms(8)
    by simp
  have none: "c_id c \<noteq> int_str con" if "c \<in> set (tbl_rows ct)" for c
    using assms(8) that by (auto simp: tbl_find_None)
  have empty: "concat (map (\<lambda>c. if Q \<and> int_str con = c_id c then [(r, c)] else []) (tbl_rows ct)) = []"
    for Q and r :: appointment_record
  proof -
    have nr: "\<forall>c \<in> set (tbl_rows ct). \<not> (Q \<and> int_str con = c_id c)" using none by metis
    show ?thesis using concat_map_if_none [OF nr, of "\<lambda>c. (r, c)"] by simp
  qed
  have "join_records P (snd (tbl_insert (appointment_of_input ai cat srv cal con) ap)) ct = join_records P ap ct"
    by (simp add: join_records_def empty)
  with add show ?thesis by simp
qed

lemma int_str_1: "int_str 1 = ''1''"
  by (simp add: int_str_def nat_str_eval)

lemma anna_table_find: "tbl_find c_id (int_str 1) anna_table = Some anna_contact"
  by (simp add: int_str_1 tbl_find_def contact_of_input_def)

lemma booking_input_valid:
  "missing_id_fields (booking_input s e) = [] \<and> missing_date_fields (booking_input s e) = [] \<and>
   js_parse_int (the (ai_category_id (booking_input s e))) = Some 2 \<and>
   js_parse_int (the (ai_service_id (booking_input s e))) = Some 3 \<and>
   js_parse_int (the (ai_calendar_id (booking_input s e))) = Some 1 \<and>
   js_parse_int (the (ai_contact_id (booking_input s e))) = Some 1"
  by (simp add: missing_id_fields_def missing_date_fields_def js_truthy_str_def js_parse_int_eval)

theorem add_appointment_get_witness:
  "(case fst (add_appointment (booking_input 1718445600000 1718449200000) anna_table empty_table) of
      Inr f \<Rightarrow> appointment_status f = ''Confirmed'' \<and>
               get_appointment_by_id (appt_id f) (snd (add_appointment (booking_input 1718445600000 1718449200000)
                 anna_table empty_table)) anna_table = Some f
    | Inl _ \<Rightarrow> False)"
proof -
  from add_appointment_get [OF empty_table_wf, of "booking_input 1718445600000 1718449200000" 2 3 1 1 anna_table]
    booking_input_valid anna_table_find
  obtain f where "fst (add_appointment (booking_input 1718445600000 1718449200000) anna_table empty_table) = Inr f"
    "appointment_status f = defined_or None status_confirmed"
    "get_appointment_by_id (appt_id f) (snd (add_appointment (booking_input 1718445600000 1718449200000)
       anna_table empty_table)) anna_table = Some f"
    by (auto simp: no_appointment_input_def)
  then show ?thesis by (simp add: defined_or_def status_confirmed_def)
qed

theorem add_appointment_orphan_witness:
  "fst (add_appointment (booking_input 1718445600000 1718449200000\<lparr>ai_contact_id := Some ''9''\<rparr>) anna_table empty_table)
     = Inl Created_Appointment_Not_Found \<and>
   length (tbl_rows (snd (add_appointment (booking_input 1718445600000 1718449200000\<lparr>ai_contact_id := Some ''9''\<rparr>)
     anna_table empty_table))) = 1"
proof -
  have v: "missing_id_fields (booking_input 1718445600000 1718449200000\<lparr>ai_contact_id := Some ''9''\<rparr>) = []"
    "missing_date_fields (booking_input 1718445600000 1718449200000\<lparr>ai_contact_id := Some ''9''\<rparr>) = []"
    "js_parse_int ''2'' = Some 2" "js_parse_int ''3'' = Some 3" "js_parse_int ''1'' = Some 1" "js_parse_int ''9'' = Some 9"
    by (simp_all add: missing_id_fields_def missing_date_fields_def js_truthy_str_def js_parse_int_eval)
  have f: "tbl_find c_id (int_str 9) anna_table = None"
    by (simp add: int_str_def nat_str_eval tbl_find_def contact_of_input_def)
  from add_appointment_orphan [OF empty_table_wf, of _ 2 3 1 9 anna_table] v f show ?thesis
    by (simp add: no_appointment_input_def empty_table_def)
qed

lemma reminder_dates:
  "date_parts 1718366400000 = (2024, 6, 14)" "date_parts (1718366400000 + ms_per_day) = (2024, 6, 15)"
  "date_parts 1718445600000 = (2024, 6, 15)" "date_parts 1686823200000 = (2023, 6, 15)"
  by code_simp+

text \<open>On 2024-06-14 an appointment on 2024-06-15 gets no reminder, while one on
  2023-06-15 does.\<close>

lemma reminder_june_scenario:
  "get_due_reminder_appointments 1718366400000
     \<lparr>tbl_rows = [booked_row ''1'' 1718445600000 1718449200000, booked_row ''2'' 1686823200000 1686826800000],
      tbl_auto_inc = 3\<rparr> anna_table =
   [map_appointment_record (booked_row ''2'' 1686823200000 1686826800000) anna_contact]"
proof -
  have "due_for_reminder 1718366400000 (booked_row ''1'' 1718445600000 1718449200000) = False"
    "due_for_reminder 1718366400000 (booked_row ''2'' 1686823200000 1686826800000) = True"
    by (simp_all only: due_for_reminder_def appointment_of_input_def appointment_record.simps
        appointment_row.simps reminder_dates) (simp_all add: reminder_dates)
  then show ?thesis
    by (simp add: get_due_reminder_appointments_def appointment_of_input_def int_str_1 contact_of_input_def)
qed

lemma due_for_reminder_year:
  "due_for_reminder now a \<Longrightarrow> fst (date_parts (a_start_date a)) \<noteq> fst (date_parts now)"
  by (auto simp: due_for_reminder_def Let_def split: prod.splits)

text \<open>C33. \<open>getDueReminderAppointments\<close> compares the day and month with tomorrow's
  but requires the year to differ from this year's.  So whenever tomorrow is in the
  same year as today (every day but 31 December), every appointment it returns comes
  from another year, and no appointment starting tomorrow, the ones the doc comment
  says it returns, is among them.\<close>
theorem reminder_skips_tomorrow:
  assumes "fst (date_parts (now + ms_per_day)) = fst (date_parts now)"
    and "f \<in> set (get_due_reminder_appointments now ap ct)"
  shows "\<exists>a c. a \<in> set (tbl_rows ap) \<and> c \<in> set (tbl_rows ct) \<and> f = map_appointment_record a c \<and>
           fst (date_parts (a_start_date a)) \<noteq> fst (date_parts now) \<and>
           a_start_date a div ms_per_day \<noteq> (now + ms_per_day) div ms_per_day"
proof -
  from assms(2) obtain a c where ac: "a \<in> set (tbl_rows ap)" "c \<in> set (tbl_rows ct)"
    "due_for_reminder now a" "f = map_appointment_record a c"
    by (auto simp: get_due_reminder_appointments_def)
  from due_for_reminder_year [OF ac(3)] have year: "fst (date_parts (a_start_date a)) \<noteq> fst (date_parts now)" .
  have "a_start_date a div ms_per_day \<noteq> (now + ms_per_day) div ms_per_day"
  proof
    assume "a_start_date a div ms_per_day = (now + ms_per_day) div ms_per_day"
    then have "date_parts (a_start_date a) = date_parts (now + ms_per_day)" by (simp add: date_parts_def)
    with year assms(1) show False by simp
  qed
  with ac year show ?thesis by blast
qed

theorem reminder_skips_tomorrow_witness:
  "\<exists>a c. a \<in> set [booked_row ''1'' 1718445600000 1718449200000, booked_row ''2'' 1686823200000 1686826800000] \<and>
     c \<in> set (tbl_rows anna_table) \<and>
     map_appointment_record (booked_row ''2'' 1686823200000 1686826800000) anna_contact = map_appointment_record a c \<and>
     fst (date_parts (a_start_date a)) \<noteq> fst (date_parts 1718366400000) \<and>
     a_start_date a div ms_per_day \<noteq> (1718366400000 + ms_per_day) div ms_per_day"
proof -
  have y: "fst (date_parts (1718366400000 + ms_per_day)) = fst (date_parts 1718366400000)"
    by (simp only: reminder_dates fst_conv)
  have f: "map_appointment_record (booked_row ''2'' 1686823200000 1686826800000) anna_contact \<in>
      set (get_due_reminder_appointments 1718366400000
        \<lparr>tbl_rows = [booked_row ''1'' 1718445600000 1718449200000, booked_row ''2'' 1686823200000 1686826800000],
         tbl_auto_inc = 3\<rparr> anna_table)"
    unfolding reminder_june_scenario by simp
  from reminder_skips_tomorrow [OF y f] show ?thesis by simp
qed

lemma json_rejects_objects: "json_rejects (js_join_objects n)"
  by (cases n) (simp_all add: json_rejects_def json_ws_def json_value_start_def)

lemma json_parse_summaries_fails: "json_parse_summaries xs = Inl Json_Syntax_Error"
  by (simp add: json_parse_summaries_def json_rejects_objects)

text \<open>C34. \<open>getContactsWithAppointments\<close> passes the array mysql2 has already parsed
  to \<open>JSON.parse\<close>, which reads \<open>[object Object]\<close> and throws a \<open>SyntaxError\<close>:
  the call fails on every database with at least one contact, and returns the empty
  list only when there is none.\<close>
theorem contacts_with_appointments_throws:
  "get_contacts_with_appointments ct ap = (if tbl_rows ct = [] then Inr [] else Inl Json_Syntax_Error)"
proof -
  have "map_throwing (\<lambda>c. map_sum id (Pair (map_contact_record c)) (json_parse_summaries (aggregated_summaries ap c))) cs =
        (if cs = [] then Inr [] else Inl Json_Syntax_Error)" for cs
    by (cases cs) (simp_all add: json_parse_summaries_fails)
  then show ?thesis by (simp add: get_contacts_with_appointments_def)
qed

end
