(* ===== verification/Calendar_Dao.thy ===== *)
theory Calendar_Dao
  imports Schedule_Dao
begin

text \<open>
  \<open>CalendarDaoMySql\<close>
  (src/booking-backend-main/src/database-client/src/Calendar/CalendarDaoMySql.ts): the
  \<open>calendars\<close> table of the technicians and the operations \<open>addCalendar\<close>,
  \<open>getCalendarById\<close>, \<open>getCalendarByEmail\<close>, \<open>getCalendarsByIds\<close>,
  \<open>getActiveCalendarsByIds\<close>, \<open>getCalendars\<close>, \<open>getCalendarsCount\<close>,
  \<open>updateCalendar\<close> and \<open>deleteCalendar\<close> over the table of \<open>Sql_Table\<close>.  A full row
  extends the four columns the schedule join reads (\<open>calendar_row\<close>) with the others;
  \<open>mapCalendarRow\<close> copies every column and parses the JSON ones back, so the
  \<open>Calendar\<close> object is the row itself (the JSON columns are kept parsed).
\<close>

subsection \<open>Rows and requests\<close>

text \<open>The columns of \<open>calendars\<close> beyond those of \<open>calendar_row\<close>.  The schema
  module is not part of the sources: \<open>priority_link\<close>, \<open>insert_appointments\<close> and
  \<open>appointment_scheduling\<close> are taken as strings, and \<open>advanced_settings\<close> (a JSON
  object) as its text.\<close>

record calendar_details =
  kd_description :: "string option"
  kd_show_description :: string
  kd_appointment_scheduling :: "string option"
  kd_employee_image :: "string option"
  kd_email :: "string option"
  kd_password :: "string option"
  kd_online_booked :: bool
  kd_advanced_settings :: "string option"
  kd_assignment_of_services :: string
  kd_link_calendar :: bool
  kd_priority_link :: "string option"
  kd_skills :: "string list option"
  kd_paired_calendars :: "string list option"
  kd_insert_appointments :: "string option"
  kd_coupling_on_certain_services :: bool
  kd_certain_services :: "string list option"

record calendar_record = calendar_row +
  cal_details :: calendar_details

text \<open>\<open>Partial<Calendar>\<close>: every field may be \<open>undefined\<close> (\<open>None\<close>).\<close>

record calendar_input =
  ki_employee_name :: "string option"
  ki_description :: "string option"
  ki_show_description :: "string option"
  ki_appointment_scheduling :: "string option"
  ki_employee_image :: "string option"
  ki_email :: "string option"
  ki_password :: "string option"
  ki_online_booked :: "bool option"
  ki_advanced_settings :: "string option"
  ki_assignment_of_services :: "string option"
  ki_assignments_services :: "string list option"
  ki_link_calendar :: "bool option"
  ki_priority_link :: "string option"
  ki_skills :: "string list option"
  ki_paired_calendars :: "string list option"
  ki_insert_appointments :: "string option"
  ki_coupling_on_certain_services :: "bool option"
  ki_certain_services :: "string list option"
  ki_active :: "bool option"

definition no_calendar_input :: calendar_input where
  "no_calendar_input =
     \<lparr>ki_employee_name = None, ki_description = None, ki_show_description = None,
      ki_appointment_scheduling = None, ki_employee_image = None, ki_email = None, ki_password = None,
      ki_online_booked = None, ki_advanced_settings = None, ki_assignment_of_services = None,
      ki_assignments_services = None, ki_link_calendar = None, ki_priority_link = None, ki_skills = None,
      ki_paired_calendars = None, ki_insert_appointments = None, ki_coupling_on_certain_services = None,
      ki_certain_services = None, ki_active = None\<rparr>"

subsection \<open>Operations\<close>

text \<open>The values of the \<open>INSERT\<close> of \<open>addCalendar\<close> with their defaults
  (\<open>x || null\<close>, \<open>x || 'None'\<close>, \<open>x || false\<close>, \<open>x || 'All'\<close>, and \<open>active\<close>
  true unless given); a JSON value is stored when given, since an object or an array is
  truthy.\<close>

definition calendar_of_input :: "calendar_input \<Rightarrow> string \<Rightarrow> string \<Rightarrow> calendar_record" where
  "calendar_of_input ki name i =
     \<lparr>cal_id = i, cal_employee_name = name, cal_active = defined_or (ki_active ki) True,
      cal_assignments_services = ki_assignments_services ki,
      cal_details = \<lparr>kd_description = or_null (ki_description ki),
        kd_show_description = or_default (ki_show_description ki) ''None'',
        kd_appointment_scheduling = or_null (ki_appointment_scheduling ki),
        kd_employee_image = or_null (ki_employee_image ki), kd_email = or_null (ki_email ki),
        kd_password = or_null (ki_password ki), kd_online_booked = or_false (ki_online_booked ki),
        kd_advanced_settings = ki_advanced_settings ki,
        kd_assignment_of_services = or_default (ki_assignment_of_services ki) ''All'',
        kd_link_calendar = or_false (ki_link_calendar ki), kd_priority_link = or_null (ki_priority_link ki),
        kd_skills = ki_skills ki, kd_paired_calendars = ki_paired_calendars ki,
        kd_insert_appointments = or_null (ki_insert_appointments ki),
        kd_coupling_on_certain_services = or_false (ki_coupling_on_certain_services ki),
        kd_certain_services = ki_certain_services ki\<rparr>\<rparr>"

text \<open>\<open>employee_name\<close> is bound without a default, so a request without it is
  refused by \<open>mysql2\<close> before anything is written.\<close>

definition add_calendar ::
  "calendar_input \<Rightarrow> calendar_record table \<Rightarrow> dao_error + calendar_record \<times> calendar_record table" where
  "add_calendar ki t =
     (case ki_employee_name ki of
        None \<Rightarrow> Inl Undefined_Bind_Parameter
      | Some name \<Rightarrow> Inr (tbl_insert (calendar_of_input ki name) t))"

definition get_calendar_by_id :: "string \<Rightarrow> calendar_record table \<Rightarrow> calendar_record option" where
  "get_calendar_by_id i t = tbl_find cal_id i t"

definition get_calendar_by_email ::
  "string option \<Rightarrow> calendar_record table \<Rightarrow> dao_error + calendar_record option" where
  "get_calendar_by_email e t =
     (case e of
        None \<Rightarrow> Inl Undefined_Bind_Parameter
      | Some x \<Rightarrow> Inr (find (\<lambda>r. sql_str_eq (kd_email (cal_details r)) x) (tbl_rows t)))"

text \<open>\<open>WHERE id IN (?, ...)\<close> in table order; an empty list returns \<open>[]\<close> without a
  query (\<open>IN ()\<close> is not valid SQL).\<close>

definition get_calendars_by_ids :: "string list \<Rightarrow> calendar_record table \<Rightarrow> calendar_record list" where
  "get_calendars_by_ids ids t = (if ids = [] then [] else tbl_where (\<lambda>r. cal_id r \<in> set ids) t)"

definition get_active_calendars_by_ids :: "string list \<Rightarrow> calendar_record table \<Rightarrow> calendar_record list" where
  "get_active_calendars_by_ids ids t =
     (if ids = [] then [] else tbl_where (\<lambda>r. cal_id r \<in> set ids \<and> cal_active r) t)"

text \<open>\<open>WHERE (employee_name LIKE ? OR email LIKE ? OR description LIKE ?)\<close>.\<close>

definition calendar_search_fields :: "calendar_record \<Rightarrow> string option list" where
  "calendar_search_fields r = [Some (cal_employee_name r), kd_email (cal_details r), kd_description (cal_details r)]"

definition get_calendars ::
  "int \<Rightarrow> int \<Rightarrow> string option \<Rightarrow> calendar_record table \<Rightarrow> dao_error + calendar_record list" where
  "get_calendars page limit search t =
     sql_page page limit (newest_first (tbl_where (\<lambda>r. search_matches search (calendar_search_fields r)) t))"

definition get_calendars_count :: "string option \<Rightarrow> calendar_record table \<Rightarrow> nat" where
  "get_calendars_count search t = length (tbl_where (\<lambda>r. search_matches search (calendar_search_fields r)) t)"

definition calendar_input_empty :: "calendar_input \<Rightarrow> bool" where
  "calendar_input_empty ki \<longleftrightarrow> ki = no_calendar_input"

text \<open>The \<open>SET\<close> list of \<open>updateCalendar\<close>: each field that is not \<open>undefined\<close> is
  written as given, without the defaults of the insert.\<close>

definition apply_calendar_input :: "calendar_input \<Rightarrow> calendar_record \<Rightarrow> calendar_record" where
  "apply_calendar_input ki r =
     (let d = cal_details r
      in r\<lparr>cal_employee_name := defined_or (ki_employee_name ki) (cal_employee_name r),
           cal_active := defined_or (ki_active ki) (cal_active r),
           cal_assignments_services := set_defined (ki_assignments_services ki) (cal_assignments_services r),
           cal_details := d\<lparr>kd_description := set_defined (ki_description ki) (kd_description d),
             kd_show_description := defined_or (ki_show_description ki) (kd_show_description d),
             kd_appointment_scheduling := set_defined (ki_appointment_scheduling ki) (kd_appointment_scheduling d),
             kd_employee_image := set_defined (ki_employee_image ki) (kd_employee_image d),
             kd_email := set_defined (ki_email ki) (kd_email d),
             kd_password := set_defined (ki_password ki) (kd_password d),
             kd_online_booked := defined_or (ki_online_booked ki) (kd_online_booked d),
             kd_advanced_settings := set_defined (ki_advanced_settings ki) (kd_advanced_settings d),
             kd_assignment_of_services := defined_or (ki_assignment_of_services ki) (kd_assignment_of_services d),
             kd_link_calendar := defined_or (ki_link_calendar ki) (kd_link_calendar d),
             kd_priority_link := set_defined (ki_priority_link ki) (kd_priority_link d),
             kd_skills := set_defined (ki_skills ki) (kd_skills d),
             kd_paired_calendars := set_defined (ki_paired_calendars ki) (kd_paired_calendars d),
             kd_insert_appointments := set_defined (ki_insert_appointments ki) (kd_insert_appointments d),
             kd_coupling_on_certain_services :=
               defined_or (ki_coupling_on_certain_services ki) (kd_coupling_on_certain_services d),
             kd_certain_services := set_defined (ki_certain_services ki) (kd_certain_services d)\<rparr>\<rparr>)"

definition update_calendar ::
  "string \<Rightarrow> calendar_input \<Rightarrow> calendar_record table \<Rightarrow> calendar_record option \<times> calendar_record table" where
  "update_calendar i ki t =
     (if calendar_input_empty ki then (get_calendar_by_id i t, t)
      else (let t' = tbl_update cal_id i (apply_calendar_input ki) t in (get_calendar_by_id i t', t')))"

definition delete_calendar :: "string \<Rightarrow> calendar_record table \<Rightarrow> calendar_record option \<times> calendar_record table" where
  "delete_calendar i t =
     (case get_calendar_by_id i t of
        None \<Rightarrow> (None, t)
      | Some c \<Rightarrow> (Some c, tbl_delete cal_id i t))"

subsection \<open>Properties\<close>

lemma calendar_of_input_id [simp]: "cal_id (calendar_of_input ki name i) = i"
  by (simp add: calendar_of_input_def)

lemma apply_calendar_input_id [simp]: "cal_id (apply_calendar_input ki r) = cal_id r"
  by (simp add: apply_calendar_input_def Let_def)

lemma add_calendar_wf:
  assumes "tbl_wf cal_id t" "add_calendar ki t = Inr (r, t')"
  shows "tbl_wf cal_id t'"
proof (cases "ki_employee_name ki")
  case (Some name)
  then have "t' = snd (tbl_insert (calendar_of_input ki name) t)"
    using assms(2) by (simp add: add_calendar_def)
  then show ?thesis using tbl_insert_wf [OF assms(1)] by simp
qed (use assms(2) in \<open>simp add: add_calendar_def\<close>)

lemma update_calendar_wf: "tbl_wf cal_id t \<Longrightarrow> tbl_wf cal_id (snd (update_calendar i ki t))"
  by (simp add: update_calendar_def Let_def tbl_update_wf)

lemma delete_calendar_wf: "tbl_wf cal_id t \<Longrightarrow> tbl_wf cal_id (snd (delete_calendar i t))"
  by (simp add: delete_calendar_def tbl_delete_wf split: option.split)

lemma add_calendar_get:
  assumes "tbl_wf cal_id t" "ki_employee_name ki = Some name"
  shows "\<exists>t'. add_calendar ki t = Inr (calendar_of_input ki name (nat_str (tbl_auto_inc t)), t') \<and>
           get_calendar_by_id (nat_str (tbl_auto_inc t)) t' = Some (calendar_of_input ki name (nat_str (tbl_auto_inc t)))"
  using assms tbl_find_insert [OF assms(1), of "calendar_of_input ki name"]
  by (simp add: add_calendar_def get_calendar_by_id_def tbl_insert_def Let_def)

lemma get_active_calendars_by_ids_set:
  "set (get_active_calendars_by_ids ids t) = {r \<in> set (tbl_rows t). cal_id r \<in> set ids \<and> cal_active r}"
  by (auto simp: get_active_calendars_by_ids_def tbl_where_def)

lemma get_active_calendars_by_ids_subset:
  "get_active_calendars_by_ids ids t = filter cal_active (get_calendars_by_ids ids t)"
  by (simp add: get_active_calendars_by_ids_def get_calendars_by_ids_def tbl_where_def conj_commute)

end
