(* ===== verification/Email_Dao.thy ===== *)
theory Email_Dao
  imports Sql_Table
begin

text \<open>
  The e-mail layer: \<open>EmailTemplateDaoMySql\<close>
  (src/booking-backend-main/src/database-client/src/EmailTemplates/EmailTemplateDaoMySql.ts)
  over the \<open>email_templates\<close> table, \<open>EmailConfigDaoMySql\<close>
  (src/booking-backend-main/src/database-client/src/Mailer/MailerDaoMySql.ts) over the
  \<open>email_configs\<close> table, and \<open>EmailService\<close>
  (src/booking-backend-main/src/server/app/email/EmailService.ts), whose \<open>sendMail\<close>
  is modelled as appending a message to an outbox.  SMTP delivery, the decryption of
  the stored password and the transport options are not modelled.
\<close>

subsection \<open>Email templates\<close>

record email_template =
  et_id :: string
  et_type :: string
  et_subject :: string
  et_template :: string
  et_service_id :: "string option"

record template_input =
  ti_type :: "string option"
  ti_subject :: "string option"
  ti_template :: "string option"
  ti_service_id :: "string option"

text \<open>\<open>getEmailTemplates(type)\<close>: \<open>WHERE type = ? ORDER BY created_at DESC\<close>.\<close>

definition get_email_templates :: "string \<Rightarrow> email_template table \<Rightarrow> email_template list" where
  "get_email_templates ty t = newest_first (tbl_where (\<lambda>r. sql_str_eq (Some (et_type r)) ty) t)"

definition get_email_template_by_service_id :: "string \<Rightarrow> email_template table \<Rightarrow> email_template option" where
  "get_email_template_by_service_id sid t = find (\<lambda>r. et_service_id r = Some sid) (tbl_rows t)"

text \<open>\<open>addEmailTemplate\<close>: type, subject and template are bound without a default;
  \<open>service_id || null\<close>.\<close>

definition add_email_template ::
  "template_input \<Rightarrow> email_template table \<Rightarrow> dao_error + email_template \<times> email_template table" where
  "add_email_template ti t =
     (case (ti_type ti, ti_subject ti, ti_template ti) of
        (Some ty, Some su, Some tp) \<Rightarrow>
          Inr (tbl_insert (\<lambda>i. \<lparr>et_id = i, et_type = ty, et_subject = su, et_template = tp,
                                et_service_id = or_null (ti_service_id ti)\<rparr>) t)
      | _ \<Rightarrow> Inl Undefined_Bind_Parameter)"

definition apply_template_input :: "template_input \<Rightarrow> email_template \<Rightarrow> email_template" where
  "apply_template_input ti r =
     r\<lparr>et_type := defined_or (ti_type ti) (et_type r), et_subject := defined_or (ti_subject ti) (et_subject r),
       et_template := defined_or (ti_template ti) (et_template r),
       et_service_id := set_defined (ti_service_id ti) (et_service_id r)\<rparr>"

text \<open>\<open>updateEmailTemplate\<close> reads the row back with \<open>rows[0]\<close> in both branches, so
  an unknown id ends in a \<open>TypeError\<close> rather than \<open>null\<close>.\<close>

definition update_email_template ::
  "string \<Rightarrow> template_input \<Rightarrow> email_template table \<Rightarrow> (dao_error + email_template) \<times> email_template table" where
  "update_email_template i ti t =
     (let t' = (if ti = \<lparr>ti_type = None, ti_subject = None, ti_template = None, ti_service_id = None\<rparr> then t
                else tbl_update et_id i (apply_template_input ti) t)
      in (case tbl_find et_id i t' of None \<Rightarrow> Inl Missing_Row | Some r \<Rightarrow> Inr r, t'))"

definition delete_email_template ::
  "string \<Rightarrow> email_template table \<Rightarrow> email_template option \<times> email_template table" where
  "delete_email_template i t =
     (case tbl_find et_id i t of None \<Rightarrow> (None, t) | Some r \<Rightarrow> (Some r, tbl_delete et_id i t))"

subsection \<open>Email configurations\<close>

record email_config =
  ec_id :: string
  ec_sender :: string
  ec_server :: string
  ec_username :: string
  ec_password :: string
  ec_port :: int
  ec_ssl_enabled :: bool

text \<open>The port of a request: a JSON string (read with \<open>parseInt\<close>) or a number.\<close>

datatype port_value = Port_Str string | Port_Num int

record config_input =
  cfi_sender :: "string option"
  cfi_server :: "string option"
  cfi_username :: "string option"
  cfi_password :: "string option"
  cfi_port :: "port_value option"
  cfi_ssl_enabled :: "bool option"

datatype config_error = Missing_Config_Fields | Invalid_Port

text \<open>\<open>typeof port === 'string' ? parseInt(port, 10) : port\<close>; \<open>None\<close> is \<open>NaN\<close>.\<close>

definition port_number :: "port_value \<Rightarrow> js_num" where
  "port_number p = (case p of Port_Str s \<Rightarrow> js_parse_int s | Port_Num n \<Rightarrow> Some n)"

definition valid_port :: "js_num \<Rightarrow> bool" where
  "valid_port p \<longleftrightarrow> (case p of Some n \<Rightarrow> 1 \<le> n \<and> n \<le> 65535 | None \<Rightarrow> False)"

definition get_email_config :: "email_config table \<Rightarrow> email_config list" where
  "get_email_config t = newest_first (tbl_rows t)"

text \<open>\<open>addEmailConfig\<close>: the four strings must be truthy and the port truthy (not
  \<open>0\<close> nor \<open>NaN\<close>), then within 1--65535.\<close>

definition add_email_config ::
  "config_input \<Rightarrow> email_config table \<Rightarrow> config_error + email_config \<times> email_config table" where
  "add_email_config ci t =
     (let port = (case cfi_port ci of Some p \<Rightarrow> port_number p | None \<Rightarrow> None)
      in if \<not> js_truthy_str (cfi_sender ci) \<or> \<not> js_truthy_str (cfi_server ci) \<or>
            \<not> js_truthy_str (cfi_username ci) \<or> \<not> js_truthy_str (cfi_password ci) \<or>
            port = None \<or> port = Some 0
         then Inl Missing_Config_Fields
         else if \<not> valid_port port then Inl Invalid_Port
         else Inr (tbl_insert (\<lambda>i. \<lparr>ec_id = i, ec_sender = the (cfi_sender ci), ec_server = the (cfi_server ci),
                                  ec_username = the (cfi_username ci), ec_password = the (cfi_password ci),
                                  ec_port = the port, ec_ssl_enabled = or_false (cfi_ssl_enabled ci)\<rparr>) t))"

definition no_config_input :: config_input where
  "no_config_input = \<lparr>cfi_sender = None, cfi_server = None, cfi_username = None, cfi_password = None,
     cfi_port = None, cfi_ssl_enabled = None\<rparr>"

text \<open>The port check of \<open>updateEmailConfig\<close>, run only when a port is given.\<close>

definition port_update :: "port_value option \<Rightarrow> config_error + int option" where
  "port_update p =
     (case p of
        None \<Rightarrow> Inr None
      | Some v \<Rightarrow> if valid_port (port_number v) then Inr (port_number v) else Inl Invalid_Port)"

definition apply_config_input :: "config_input \<Rightarrow> int option \<Rightarrow> email_config \<Rightarrow> email_config" where
  "apply_config_input ci port r =
     r\<lparr>ec_sender := defined_or (cfi_sender ci) (ec_sender r), ec_server := defined_or (cfi_server ci) (ec_server r),
       ec_username := defined_or (cfi_username ci) (ec_username r),
       ec_password := defined_or (cfi_password ci) (ec_password r),
       ec_port := defined_or port (ec_port r),
       ec_ssl_enabled := defined_or (cfi_ssl_enabled ci) (ec_ssl_enabled r)\<rparr>"

text \<open>\<open>updateEmailConfig\<close>: a given port is validated before anything is written;
  the row is read back with \<open>rows[0]\<close>, so an unknown id ends in a \<open>TypeError\<close>.\<close>

definition update_email_config ::
  "string \<Rightarrow> config_input \<Rightarrow> email_config table \<Rightarrow> (config_error + dao_error + email_config) \<times> email_config table" where
  "update_email_config i ci t =
     (case port_update (cfi_port ci) of
        Inl e \<Rightarrow> (Inl e, t)
      | Inr port \<Rightarrow>
          (let t' = (if ci = no_config_input then t else tbl_update ec_id i (apply_config_input ci port) t)
           in (case tbl_find ec_id i t' of None \<Rightarrow> Inr (Inl Missing_Row) | Some r \<Rightarrow> Inr (Inr r), t')))"

definition delete_email_config :: "string \<Rightarrow> email_config table \<Rightarrow> email_config option \<times> email_config table" where
  "delete_email_config i t =
     (case tbl_find ec_id i t of None \<Rightarrow> (None, t) | Some r \<Rightarrow> (Some r, tbl_delete ec_id i t))"

subsection \<open>EmailService.sendMail\<close>

text \<open>A message handed to the SMTP transport, with the \<open>from\<close> address of the newest
  configuration.  Without a configuration nothing is sent; a transport failure is
  caught and logged, and is not modelled.  The body is a parameter: the controllers
  describe their HTML bodies by a datatype.\<close>

record 'b mail =
  mail_from :: string
  mail_to :: string
  mail_subject :: string
  mail_html :: 'b

definition send_mail :: "email_config table \<Rightarrow> string \<Rightarrow> string \<Rightarrow> 'b \<Rightarrow> 'b mail list \<Rightarrow> 'b mail list" where
  "send_mail cfg to subj html out =
     (case get_email_config cfg of
        [] \<Rightarrow> out
      | c # _ \<Rightarrow> out @ [\<lparr>mail_from = ec_sender c, mail_to = to, mail_subject = subj, mail_html = html\<rparr>])"

subsection \<open>Properties\<close>

lemma tbl_insert_pairD: "tbl_insert mk t = (r, t') \<Longrightarrow> r = mk (nat_str (tbl_auto_inc t)) \<and> t' = snd (tbl_insert mk t)"
  by (metis snd_conv tbl_insert_fst fst_conv)

text \<open>Every write keeps the template and configuration tables well formed.\<close>

lemma add_email_template_wf:
  "tbl_wf et_id t \<Longrightarrow> add_email_template ti t = Inr (r, t') \<Longrightarrow> tbl_wf et_id t'"
  by (auto simp: add_email_template_def tbl_insert_wf split: option.splits dest!: tbl_insert_pairD)

lemma update_email_template_wf: "tbl_wf et_id t \<Longrightarrow> tbl_wf et_id (snd (update_email_template i ti t))"
  by (simp add: update_email_template_def apply_template_input_def Let_def tbl_update_wf)

lemma delete_email_template_wf: "tbl_wf et_id t \<Longrightarrow> tbl_wf et_id (snd (delete_email_template i t))"
  by (simp add: delete_email_template_def tbl_delete_wf split: option.split)

lemma add_email_config_wf:
  "tbl_wf ec_id t \<Longrightarrow> add_email_config ci t = Inr (r, t') \<Longrightarrow> tbl_wf ec_id t'"
  by (auto simp: add_email_config_def Let_def tbl_insert_wf split: if_splits dest!: tbl_insert_pairD)

lemma update_email_config_wf: "tbl_wf ec_id t \<Longrightarrow> tbl_wf ec_id (snd (update_email_config i ci t))"
  by (simp add: update_email_config_def apply_config_input_def Let_def tbl_update_wf split: sum.split)

lemma delete_email_config_wf: "tbl_wf ec_id t \<Longrightarrow> tbl_wf ec_id (snd (delete_email_config i t))"
  by (simp add: delete_email_config_def tbl_delete_wf split: option.split)

text \<open>A stored configuration has a port in 1--65535, whichever way it was written.\<close>

lemma add_email_config_port:
  "add_email_config ci t = Inr (r, t') \<Longrightarrow> 1 \<le> ec_port r \<and> ec_port r \<le> 65535"
  by (auto simp: add_email_config_def Let_def valid_port_def split: if_splits option.splits dest!: tbl_insert_pairD)

lemma port_update_valid: "port_update p = Inr (Some n) \<Longrightarrow> 1 \<le> n \<and> n \<le> 65535"
  by (auto simp: port_update_def valid_port_def split: option.splits if_splits)

lemma update_email_config_port:
  assumes "\<forall>r \<in> set (tbl_rows t). 1 \<le> ec_port r \<and> ec_port r \<le> 65535"
  shows "\<forall>r \<in> set (tbl_rows (snd (update_email_config i ci t))). 1 \<le> ec_port r \<and> ec_port r \<le> 65535"
  using assms port_update_valid [of "cfi_port ci"]
  by (auto simp: update_email_config_def tbl_update_def apply_config_input_def defined_or_def Let_def
      split: sum.splits option.splits)

text \<open>An unknown id is not answered \<open>null\<close>: the update fails on \<open>rows[0]\<close>.\<close>

lemma update_email_template_unknown:
  "tbl_find et_id i t = None \<Longrightarrow> fst (update_email_template i ti t) = Inl Missing_Row"
  by (simp add: update_email_template_def apply_template_input_def Let_def tbl_find_update)

lemma update_email_config_unknown:
  "tbl_find ec_id i t = None \<Longrightarrow> fst (update_email_config i ci t) \<in> {Inl Invalid_Port, Inr (Inl Missing_Row)}"
  by (auto simp: update_email_config_def apply_config_input_def Let_def tbl_find_update
      port_update_def split: sum.split option.split)

text \<open>\<open>parseInt\<close> lets a port with trailing text through.\<close>

lemma port_number_trailing: "port_number (Port_Str ''587abc'') = Some 587"
  by (simp add: port_number_def js_parse_int_eval)

text \<open>\<open>sendMail\<close> sends one message exactly when a configuration exists, from the
  sender of the newest one.\<close>

lemma send_mail_cases:
  "send_mail cfg to subj html out =
     (if tbl_rows cfg = [] then out
      else out @ [\<lparr>mail_from = ec_sender (hd (get_email_config cfg)), mail_to = to, mail_subject = subj,
                   mail_html = html\<rparr>])"
  by (auto simp: send_mail_def get_email_config_def newest_first_def split: list.split)

end
