(* ===== verification/Appointment_Service.thy ===== *)
theory Appointment_Service
  imports Appointment_Dao Calendar_Dao Availability Email_Dao
begin

text \<open>
  The service layer between the HTTP controllers and the DAOs:
  \<open>AppointmentsService\<close>
  (src/booking-backend-main/src/server/app/appointment/AppointmentsService.ts) over one
  store holding every table, and the contact service the controllers call.  Each
  method calls its DAO and either rethrows a failure as \<open>ClientError(err, 500)\<close> or
  turns it into \<open>null\<close>; \<open>getAppointmentsWithService\<close> attaches to each appointment
  the service it names.  The availability query of \<open>Availability\<close> runs on the
  projection \<open>db_of_store\<close> of the store.
\<close>

subsection \<open>The store\<close>

record store =
  st_contacts :: "contact_record table"
  st_appointments :: "appointment_record table"
  st_catalogue :: category_db
  st_calendars :: "calendar_record table"
  st_schedules :: "schedule_row table"
  st_templates :: "email_template table"
  st_configs :: "email_config table"

text \<open>The columns the availability engine reads, as its record \<open>db\<close>.\<close>

definition db_of_store :: "store \<Rightarrow> db" where
  "db_of_store s =
     \<lparr>schedules = tbl_rows (st_schedules s), calendars = map calendar_row.truncate (tbl_rows (st_calendars s)),
      appointments = map appointment_row.truncate (tbl_rows (st_appointments s)),
      contacts = map contact_row.truncate (tbl_rows (st_contacts s)),
      services = map service_row.truncate (tbl_rows (svc_table (st_catalogue s)))\<rparr>"

text \<open>\<open>ClientError(err, status)\<close> of utils/exceptions, a module that is not part of
  the sources: an error carrying the HTTP status the error handler answers with.\<close>

datatype client_error = Client_Error int

subsection \<open>The contact service\<close>

text \<open>\<open>ContactsService\<close> is not part of the sources.  It is taken to follow its
  sibling services (\<open>AppointmentsService\<close>, \<open>EmailService\<close>): a read turns a DAO
  failure into \<open>null\<close>, a write rethrows it as \<open>ClientError(err, 500)\<close>.\<close>

definition svc_get_contact_by_email :: "string option \<Rightarrow> store \<Rightarrow> contact_full option" where
  "svc_get_contact_by_email e s =
     (case get_contact_by_email e (st_contacts s) of Inl _ \<Rightarrow> None | Inr r \<Rightarrow> r)"

definition svc_get_contact_by_id :: "string option \<Rightarrow> store \<Rightarrow> contact_full option" where
  "svc_get_contact_by_id i s = (case i of None \<Rightarrow> None | Some k \<Rightarrow> get_contact_by_id k (st_contacts s))"

definition svc_add_contact :: "contact_input \<Rightarrow> store \<Rightarrow> contact_full \<times> store" where
  "svc_add_contact ci s = (let (c, t) = add_contact ci (st_contacts s) in (c, s\<lparr>st_contacts := t\<rparr>))"

definition svc_update_contact :: "string \<Rightarrow> contact_input \<Rightarrow> store \<Rightarrow> contact_full option \<times> store" where
  "svc_update_contact i ci s = (let (c, t) = update_contact i ci (st_contacts s) in (c, s\<lparr>st_contacts := t\<rparr>))"

subsection \<open>AppointmentsService\<close>

definition svc_add_appointment ::
  "appointment_input \<Rightarrow> store \<Rightarrow> (client_error + appointment_full) \<times> store" where
  "svc_add_appointment ai s =
     (let (r, ap) = add_appointment ai (st_contacts s) (st_appointments s)
      in (case r of Inl _ \<Rightarrow> Inl (Client_Error 500) | Inr a \<Rightarrow> Inr a, s\<lparr>st_appointments := ap\<rparr>))"

definition svc_get_appointment_by_id :: "string \<Rightarrow> store \<Rightarrow> appointment_full option" where
  "svc_get_appointment_by_id i s = get_appointment_by_id i (st_appointments s) (st_contacts s)"

definition svc_update_appointment :: "string \<Rightarrow> appointment_input \<Rightarrow> store \<Rightarrow> appointment_full option \<times> store" where
  "svc_update_appointment i ai s =
     (let (r, ap) = update_appointment i ai (st_appointments s) (st_contacts s) in (r, s\<lparr>st_appointments := ap\<rparr>))"

definition svc_delete_appointment :: "string \<Rightarrow> store \<Rightarrow> appointment_full option \<times> store" where
  "svc_delete_appointment i s =
     (let (r, ap) = delete_appointment i (st_appointments s) (st_contacts s) in (r, s\<lparr>st_appointments := ap\<rparr>))"

text \<open>\<open>CategoryDaoMySql.getServiceByCategoryIdAndServiceId\<close> returning the whole
  \<open>Service\<close> of \<open>mapServiceRow\<close>.\<close>

definition get_service_full :: "string \<Rightarrow> string \<Rightarrow> store \<Rightarrow> service_full option" where
  "get_service_full cat sid s =
     map_option map_service_record
       (find (\<lambda>r. sv_category_id r = cat \<and> sv_id r = sid) (tbl_rows (svc_table (st_catalogue s))))"

text \<open>\<open>ExtendedAppointment\<close>: \<open>{...appointment, service}\<close>.\<close>

record extended_appointment = appointment_full +
  ea_service :: "service_full option"

definition get_appointments_with_service :: "appointment_full list \<Rightarrow> store \<Rightarrow> extended_appointment list" where
  "get_appointments_with_service as s =
     map (\<lambda>a. appointment_full.extend a
               (extended_appointment.fields (get_service_full (af_category_id a) (af_service_id a) s))) as"

definition svc_get_appointments :: "instant \<Rightarrow> instant \<Rightarrow> store \<Rightarrow> extended_appointment list" where
  "svc_get_appointments st en s =
     get_appointments_with_service (get_appointments_full st en (st_appointments s) (st_contacts s)) s"

definition svc_get_appointments_by_contact_id :: "string \<Rightarrow> store \<Rightarrow> extended_appointment list" where
  "svc_get_appointments_by_contact_id cid s =
     get_appointments_with_service (get_appointments_by_contact_id cid (st_appointments s) (st_contacts s)) s"

definition svc_get_appointments_by_calendar_id :: "string \<Rightarrow> store \<Rightarrow> extended_appointment list" where
  "svc_get_appointments_by_calendar_id cal s =
     get_appointments_with_service (get_appointments_by_calendar_id cal (st_appointments s) (st_contacts s)) s"

definition svc_get_due_reminder_appointments :: "instant \<Rightarrow> store \<Rightarrow> extended_appointment list" where
  "svc_get_due_reminder_appointments now s =
     get_appointments_with_service (get_due_reminder_appointments now (st_appointments s) (st_contacts s)) s"

text \<open>\<open>getAppointmentsByDateAndCalendarIdId\<close>: each appointment with its service and,
  when the service exists, its category.\<close>

record appointment_detail =
  dt_appointment :: appointment_full
  dt_service :: "service_full option"
  dt_category :: "category_full option"

definition svc_get_appointments_by_date_and_calendar_id ::
  "string \<Rightarrow> instant \<Rightarrow> instant \<Rightarrow> store \<Rightarrow> appointment_detail list" where
  "svc_get_appointments_by_date_and_calendar_id cal st en s =
     map (\<lambda>a. case get_service_full (af_category_id a) (af_service_id a) s of
                Some sv \<Rightarrow> \<lparr>dt_appointment = a, dt_service = Some sv,
                             dt_category = get_category_by_id (af_category_id a) (st_catalogue s)\<rparr>
              | None \<Rightarrow> \<lparr>dt_appointment = a, dt_service = None, dt_category = None\<rparr>)
       (get_appointments_by_date_calendar_full cal st en (st_appointments s) (st_contacts s))"

text \<open>\<open>data?.services?.[0]?.name\<close> on the \<open>Service\<close> the DAO returns.  A
  \<open>Service\<close> object has no \<open>services\<close> property (\<open>mapServiceRow\<close> builds none), so
  the optional chain stops at \<open>undefined\<close>.\<close>

definition service_services_prop :: "service_full \<Rightarrow> service_full list option" where
  "service_services_prop sv = None"

definition get_service_name_by_category :: "string \<Rightarrow> string \<Rightarrow> store \<Rightarrow> string option" where
  "get_service_name_by_category cat sid s =
     (case get_service_full cat sid s of
        None \<Rightarrow> None
      | Some sv \<Rightarrow> (case service_services_prop sv of
                     Some (x # _) \<Rightarrow> Some (service_name x)
                   | _ \<Rightarrow> None))"

text \<open>\<open>getTimeSlots\<close> on the store.\<close>

definition svc_get_time_slots ::
  "instant \<Rightarrow> string option \<Rightarrow> string option \<Rightarrow> instant \<Rightarrow> store \<Rightarrow> time_slot list option" where
  "svc_get_time_slots date cat sid now s = get_time_slots (db_of_store s) date cat sid now"

subsection \<open>EmailService\<close>

text \<open>\<open>EmailService\<close> (server/app/email/EmailService.ts) over the store: the writes
  rethrow a DAO failure as \<open>ClientError(err, 500)\<close>, the reads cannot fail.  A write
  that fails after its statement ran (the \<open>rows[0]\<close> read-back) keeps the table it
  left.\<close>

definition esvc_add_email_config :: "config_input \<Rightarrow> store \<Rightarrow> (client_error + email_config) \<times> store" where
  "esvc_add_email_config ci s =
     (case add_email_config ci (st_configs s) of
        Inl _ \<Rightarrow> (Inl (Client_Error 500), s)
      | Inr (c, t) \<Rightarrow> (Inr c, s\<lparr>st_configs := t\<rparr>))"

definition esvc_get_email_config :: "store \<Rightarrow> email_config list" where
  "esvc_get_email_config s = get_email_config (st_configs s)"

definition esvc_update_email_config ::
  "string \<Rightarrow> config_input \<Rightarrow> store \<Rightarrow> (client_error + email_config) \<times> store" where
  "esvc_update_email_config i ci s =
     (let (r, t) = update_email_config i ci (st_configs s)
      in (case r of Inr (Inr c) \<Rightarrow> Inr c | _ \<Rightarrow> Inl (Client_Error 500), s\<lparr>st_configs := t\<rparr>))"

definition esvc_delete_email_config :: "string \<Rightarrow> store \<Rightarrow> email_config option \<times> store" where
  "esvc_delete_email_config i s = (let (r, t) = delete_email_config i (st_configs s) in (r, s\<lparr>st_configs := t\<rparr>))"

definition esvc_add_email_template ::
  "template_input \<Rightarrow> store \<Rightarrow> (client_error + email_template) \<times> store" where
  "esvc_add_email_template ti s =
     (case add_email_template ti (st_templates s) of
        Inl _ \<Rightarrow> (Inl (Client_Error 500), s)
      | Inr (e, t) \<Rightarrow> (Inr e, s\<lparr>st_templates := t\<rparr>))"

definition esvc_get_email_templates :: "string \<Rightarrow> store \<Rightarrow> email_template list" where
  "esvc_get_email_templates ty s = get_email_templates ty (st_templates s)"

definition esvc_update_email_template ::
  "string \<Rightarrow> template_input \<Rightarrow> store \<Rightarrow> (client_error + email_template) \<times> store" where
  "esvc_update_email_template i ti s =
     (let (r, t) = update_email_template i ti (st_templates s)
      in (case r of Inr e \<Rightarrow> Inr e | Inl _ \<Rightarrow> Inl (Client_Error 500), s\<lparr>st_templates := t\<rparr>))"

definition esvc_delete_email_template :: "string \<Rightarrow> store \<Rightarrow> email_template option \<times> store" where
  "esvc_delete_email_template i s =
     (let (r, t) = delete_email_template i (st_templates s) in (r, s\<lparr>st_templates := t\<rparr>))"

definition esvc_get_email_templates_by_service_id :: "string \<Rightarrow> store \<Rightarrow> email_template option" where
  "esvc_get_email_templates_by_service_id sid s = get_email_template_by_service_id sid (st_templates s)"

subsection \<open>Properties\<close>

lemma svc_get_contact_by_email_Some:
  "svc_get_contact_by_email e s = Some ex \<Longrightarrow> \<exists>r \<in> set (tbl_rows (st_contacts s)). ex = map_contact_record r"
  by (auto simp: svc_get_contact_by_email_def get_contact_by_email_def find_Some_iff
      split: option.splits sum.splits)


text \<open>A configuration stored through the service has a port in 1--65535.\<close>

lemma esvc_add_email_config_port:
  "esvc_add_email_config ci s = (Inr c, s') \<Longrightarrow> 1 \<le> ec_port c \<and> ec_port c \<le> 65535"
  using add_email_config_port [of ci "st_configs s" c]
  by (auto simp: esvc_add_email_config_def split: sum.splits prod.splits)

text \<open>Updating an unknown configuration or template is answered 500, not \<open>null\<close>.\<close>

lemma esvc_update_email_template_unknown:
  "tbl_find et_id i (st_templates s) = None \<Longrightarrow> fst (esvc_update_email_template i ti s) = Inl (Client_Error 500)"
  using update_email_template_unknown [of i "st_templates s" ti]
  by (simp add: esvc_update_email_template_def split_def)

lemma esvc_update_email_config_unknown:
  "tbl_find ec_id i (st_configs s) = None \<Longrightarrow> fst (esvc_update_email_config i ci s) = Inl (Client_Error 500)"
  using update_email_config_unknown [of i "st_configs s" ci]
  by (auto simp: esvc_update_email_config_def split_def split: sum.splits)

end
