(* ===== verification/Appointment_Controller.thy ===== *)
theory Appointment_Controller
  imports Appointment_Service
begin

text \<open>
  \<open>AppointmentsControllers\<close>
  (src/booking-backend-main/src/server/app/appointment/controller.ts): each handler as a
  function of the request, the store and the outbox of sent mail, returning the HTTP
  response or the error the \<open>tryCatchErrorDecorator\<close> passes to \<open>next\<close>, with the
  store and the outbox afterwards.  The contract upload, password hashing, the
  \<open>de-DE\<close> date format and the frontend URL are parameters (\<open>ctl_env\<close>); mail bodies
  whose text is fixed HTML are described by the datatype \<open>mail_text\<close>.
\<close>

subsection \<open>Requests, responses and mail\<close>

text \<open>The \<open>Appointment\<close> form of a booking, with its embedded contact.\<close>

record booking_form =
  bf_contact :: "contact_input option"
  bf_category_id :: "string option"
  bf_service_id :: "string option"
  bf_calendar_id :: "string option"
  bf_start_date :: "instant option"
  bf_end_date :: "instant option"
  bf_brand_of_device :: "string option"
  bf_model :: "string option"
  bf_selected_devices :: "string option"
  bf_exhaust_gas_measurement :: "bool option"
  bf_has_maintenance_agreement :: "bool option"
  bf_has_bgas_before :: "bool option"
  bf_year :: "string option"
  bf_invoice_number :: "string option"
  bf_contract_number :: "string option"
  bf_imported_service_name :: "string option"
  bf_imported_service_duration :: "int option"
  bf_imported_service_price :: "string option"
  bf_attachments :: "string list option"
  bf_remarks :: "string option"
  bf_employee_attachments :: "string list option"
  bf_appointment_status :: "string option"
  bf_archived :: "bool option"
  bf_updated_by :: "string option"
  bf_employee_remarks :: "string option"
  bf_company_remarks :: "string option"
  bf_created_by :: "string option"
  bf_ended_at :: "instant option"
  bf_control_points :: "string list option"

text \<open>The mail bodies: a rendered template, or one of the fixed HTML texts of the
  controller with the values it interpolates.\<close>

datatype mail_text =
    Html string
  | Default_Confirmation
  | Credentials_Html string string string
  | Company_Html contact_full appointment_full
  | Cancelled_By_Contact "instant option" "instant option" string
  | Default_Cancellation

text \<open>The JSON bodies of the answers.\<close>

datatype appt_body =
    Message string
  | Error_Message string
  | Appointment_With_Contact appointment_full contact_full
  | Updated_With_Contact "appointment_full option" contact_full
  | Appointment_List "extended_appointment list"
  | Status_Body string
  | Slot_List "time_slot list"
  | Spreadsheet "export_row list"

and export_row = Export_Row "service_full option" "contact_full option"

datatype 'b http_response = Http int 'b

text \<open>What a handler passes to \<open>next\<close>: a \<open>ClientError\<close> with its status, or a
  runtime error (\<open>TypeError\<close>, \<open>Error\<close>), which the error handler answers with 500.\<close>

datatype next_error = Client_Err client_error | Runtime_Error string

text \<open>\<open>@tryCatchErrorDecorator\<close> (server/utils/tryCatchErrorDecorator.ts), on every
  handler of the two controllers: a handler body either completes or throws, and the
  decorator logs a thrown error and passes it to \<open>next\<close>.  The handlers below are
  written already decorated: their \<open>Inl\<close> is the error passed to \<open>next\<close>.\<close>

datatype 'a completion = Completed 'a | Thrown next_error

definition try_catch_error_decorator :: "('q \<Rightarrow> 'a completion) \<Rightarrow> 'q \<Rightarrow> next_error + 'a" where
  "try_catch_error_decorator body q = (case body q of Completed r \<Rightarrow> Inr r | Thrown e \<Rightarrow> Inl e)"

type_synonym ctl_result = "(next_error + appt_body http_response) \<times> store \<times> mail_text mail list"

record ctl_env =
  env_upload_contract :: "contact_input \<Rightarrow> booking_form \<Rightarrow> string option option"
  env_hash_password :: "string \<Rightarrow> string"
  env_format_date :: "instant \<Rightarrow> string"
  env_frontend_url :: string

subsection \<open>String helpers\<close>

text \<open>\<open>String.prototype.replace\<close> with a string pattern: the first occurrence is
  replaced (the \<open>$\<close> patterns of the replacement are not modelled).\<close>

fun js_replace_first :: "string \<Rightarrow> string \<Rightarrow> string \<Rightarrow> string" where
  "js_replace_first pat rep s =
     (if take (length pat) s = pat then rep @ drop (length pat) s
      else (case s of [] \<Rightarrow> [] | c # cs \<Rightarrow> c # js_replace_first pat rep cs))"

text \<open>\<open>n.toString().padStart(2, '0')\<close> and \<open>formatTime\<close> (UTC hours and minutes).\<close>

definition pad2 :: "int \<Rightarrow> string" where
  "pad2 n = (if 0 \<le> n \<and> n < 10 then ''0'' @ int_str n else int_str n)"

definition format_time :: "instant \<Rightarrow> string" where
  "format_time t = pad2 (the (utc_hours (Some t))) @ '':'' @ pad2 (the (utc_minutes (Some t)))"

text \<open>\<open>x || undefined\<close> on a number.\<close>

definition or_undef_int :: "int option \<Rightarrow> int option" where
  "or_undef_int x = (if x = Some 0 then None else x)"

subsection \<open>addAppointment\<close>

text \<open>The existing contact as the object spread into the update: every column is
  present, so every non-null one is written back.\<close>

definition contact_input_of_full :: "contact_full \<Rightarrow> contact_input" where
  "contact_input_of_full c =
     (let d = cf_details c
      in \<lparr>ci_salutation = cd_salutation d, ci_first_name = cd_first_name d, ci_last_name = cd_last_name d,
          ci_address = address c, ci_zip_code = cd_zip_code d, ci_location = cd_location d,
          ci_telephone = cd_telephone d, ci_phone_numbber_2 = cd_phone_numbber_2 d,
          ci_phone_numbber_3 = cd_phone_numbber_3 d, ci_email = cd_email d, ci_password = cd_password d,
          ci_archived = Some (cd_archived d), ci_contract_link = cd_contract_link d, ci_title = cd_title d,
          ci_sign_url = cd_sign_url d, ci_note_on_address = cd_note_on_address d,
          ci_newsletter = Some (cd_newsletter d), ci_categories_permission = cd_categories_permission d,
          ci_remarks = cd_remarks d, ci_district = district c, ci_lat = lat c, ci_lng = lng c,
          ci_imported = Some (cd_imported d)\<rparr>)"

text \<open>\<open>{...base, ...req}\<close>: a field of the request that is present wins.\<close>

definition merge_contact_input :: "contact_input \<Rightarrow> contact_input \<Rightarrow> contact_input" where
  "merge_contact_input base req =
     \<lparr>ci_salutation = set_defined (ci_salutation req) (ci_salutation base),
      ci_first_name = set_defined (ci_first_name req) (ci_first_name base),
      ci_last_name = set_defined (ci_last_name req) (ci_last_name base),
      ci_address = set_defined (ci_address req) (ci_address base),
      ci_zip_code = set_defined (ci_zip_code req) (ci_zip_code base),
      ci_location = set_defined (ci_location req) (ci_location base),
      ci_telephone = set_defined (ci_telephone req) (ci_telephone base),
      ci_phone_numbber_2 = set_defined (ci_phone_numbber_2 req) (ci_phone_numbber_2 base),
      ci_phone_numbber_3 = set_defined (ci_phone_numbber_3 req) (ci_phone_numbber_3 base),
      ci_email = set_defined (ci_email req) (ci_email base),
      ci_password = set_defined (ci_password req) (ci_password base),
      ci_archived = set_defined (ci_archived req) (ci_archived base),
      ci_contract_link = set_defined (ci_contract_link req) (ci_contract_link base),
      ci_title = set_defined (ci_title req) (ci_title base),
      ci_sign_url = set_defined (ci_sign_url req) (ci_sign_url base),
      ci_note_on_address = set_defined (ci_note_on_address req) (ci_note_on_address base),
      ci_newsletter = set_defined (ci_newsletter req) (ci_newsletter base),
      ci_categories_permission = set_defined (ci_categories_permission req) (ci_categories_permission base),
      ci_remarks = set_defined (ci_remarks req) (ci_remarks base),
      ci_district = set_defined (ci_district req) (ci_district base),
      ci_lat = set_defined (ci_lat req) (ci_lat base),
      ci_lng = set_defined (ci_lng req) (ci_lng base),
      ci_imported = set_defined (ci_imported req) (ci_imported base)\<rparr>"

text \<open>The \<open>AddAppointmentRequest\<close> the controller builds from the form.\<close>

definition booking_request :: "booking_form \<Rightarrow> string \<Rightarrow> appointment_input" where
  "booking_request f cid =
     \<lparr>ai_category_id = bf_category_id f, ai_service_id = bf_service_id f,
      ai_calendar_id = bf_calendar_id f, ai_contact_id = Some cid, ai_new_user = Some False,
      ai_start_date = bf_start_date f, ai_end_date = bf_end_date f,
      ai_brand_of_device = or_null (bf_brand_of_device f), ai_model = or_null (bf_model f),
      ai_selected_devices = or_null (bf_selected_devices f),
      ai_exhaust_gas_measurement = Some (or_false (bf_exhaust_gas_measurement f)),
      ai_has_maintenance_agreement = Some (or_false (bf_has_maintenance_agreement f)),
      ai_has_bgas_before = Some (or_false (bf_has_bgas_before f)),
      ai_year = or_null (bf_year f),
      ai_invoice_number = (if js_truthy_str (bf_invoice_number f) then js_number (the (bf_invoice_number f)) else None),
      ai_contract_number = (if js_truthy_str (bf_contract_number f) then js_number (the (bf_contract_number f)) else None),
      ai_imported_service_name = or_null (bf_imported_service_name f),
      ai_imported_service_duration = or_undef_int (bf_imported_service_duration f),
      ai_imported_service_price = or_null (bf_imported_service_price f),
      ai_appointment_status = Some (or_default (bf_appointment_status f) status_confirmed),
      ai_archived = Some (or_false (bf_archived f)), ai_updated_by = or_null (bf_updated_by f),
      ai_attachments = bf_attachments f, ai_remarks = or_null (bf_remarks f),
      ai_employee_attachments = bf_employee_attachments f,
      ai_employee_remarks = or_null (bf_employee_remarks f),
      ai_company_remarks = or_null (bf_company_remarks f), ai_created_by = or_null (bf_created_by f),
      ai_ended_at = bf_ended_at f, ai_control_points = bf_control_points f\<rparr>"

text \<open>\<open>!form.category_id || !form.service_id || !form.calendar_id || !form.start_date
  || !form.end_date\<close>.\<close>

definition booking_fields_missing :: "booking_form \<Rightarrow> bool" where
  "booking_fields_missing f \<longleftrightarrow>
     \<not> js_truthy_str (bf_category_id f) \<or> \<not> js_truthy_str (bf_service_id f) \<or>
     \<not> js_truthy_str (bf_calendar_id f) \<or> bf_start_date f = None \<or> bf_end_date f = None"

text \<open>The customer's confirmation: the template with its placeholders replaced in
  order, each by \<open>value || ''\<close>.\<close>

definition confirmation_html ::
  "ctl_env \<Rightarrow> string \<Rightarrow> string option \<Rightarrow> contact_full \<Rightarrow> appointment_full \<Rightarrow> string" where
  "confirmation_html env tpl sname c a =
     (let d = cf_details c; x = af_details a
      in foldl (\<lambda>acc (pat, v). js_replace_first pat v acc) tpl
           [(''B_Performance'', or_default sname ''''), (''B_Salutation'', or_default (cd_salutation d) ''''),
            (''B_First_Name'', or_default (cd_first_name d) ''''), (''B_Last_Name'', or_default (cd_last_name d) ''''),
            (''B_Date'', env_format_date env (start_date a)), (''B_Start_Time'', format_time (start_date a)),
            (''B_End_Time'', format_time (end_date a)), (''B_Address'', or_default (address c) ''''),
            (''B_ZIP'', or_default (cd_zip_code d) ''''), (''B_Location'', or_default (cd_location d) ''''),
            (''B_Telephone'', or_default (cd_telephone d) ''''), (''B_Email'', or_default (cd_email d) ''''),
            (''B_Brand'', or_default (ad_brand_of_device x) ''''), (''B_Model'', or_default (ad_model x) ''''),
            (''B_Year'', or_default (ad_year x) ''''), (''B_Notes'', or_default (ad_remarks x) '''')])"

definition confirmation_subject :: string where
  "confirmation_subject = ''B-Gas Dienstleistungen - Terminbest'' @ [char_of (228::nat)] @ ''tigung''"

text \<open>The three mails after a booking: the confirmation to the customer, the login
  data to a new customer who gave a password, and the notice to the company.\<close>

definition booking_mails ::
  "ctl_env \<Rightarrow> booking_form \<Rightarrow> bool \<Rightarrow> string option \<Rightarrow> appointment_full \<Rightarrow> contact_full \<Rightarrow> store \<Rightarrow>
   mail_text mail list \<Rightarrow> mail_text mail list" where
  "booking_mails env f is_new pw a c s out =
     (let cfg = st_configs s;
          tmpl = (case bf_service_id f of
                    Some sid \<Rightarrow> get_email_template_by_service_id sid (st_templates s) | None \<Rightarrow> None);
          (body, subj) =
            (case tmpl of
               Some t \<Rightarrow> if et_template t \<noteq> []
                         then (Html (confirmation_html env (et_template t)
                                       (get_service_name_by_category (the (bf_category_id f)) (the (bf_service_id f)) s) c a),
                               if et_subject t \<noteq> [] then et_subject t else confirmation_subject)
                         else (Default_Confirmation, confirmation_subject)
             | None \<Rightarrow> (Default_Confirmation, confirmation_subject));
          email = cd_email (cf_details c);
          out1 = (if js_truthy_str email then send_mail cfg (the email) subj body out else out);
          out2 = (if is_new \<and> js_truthy_str email \<and> js_truthy_str pw
                  then send_mail cfg (the email) ''B-Gas Kontoerstellung - Ihre Anmeldeinformationen''
                         (Credentials_Html (env_frontend_url env @ ''/login'') (the email) (the pw)) out1
                  else out1)
      in (case get_email_config cfg of
            [] \<Rightarrow> out2
          | k # _ \<Rightarrow> send_mail cfg (ec_sender k)
                       (''Neue Terminbuchung - '' @ or_default (cd_first_name (cf_details c)) ''null'' @ '' '' @
                          or_default (cd_last_name (cf_details c)) ''null'')
                       (Company_Html c a) out2))"

text \<open>The contact of a booking: an existing contact (found by e-mail) is updated with
  the form's fields, keeping its password and taking the new contract link; otherwise a
  new contact is added with the hashed password.  The result is the contact id, the
  contact object and the store.\<close>

definition upsert_booking_contact ::
  "ctl_env \<Rightarrow> contact_input \<Rightarrow> string option \<Rightarrow> contact_full option \<Rightarrow> store \<Rightarrow>
   string \<times> contact_full option \<times> store" where
  "upsert_booking_contact env ct link existing s =
     (case existing of
        Some ex \<Rightarrow>
          (let (c', s') = svc_update_contact (contact_key ex)
                 ((merge_contact_input (contact_input_of_full ex) ct)
                    \<lparr>ci_password := cd_password (cf_details ex), ci_contract_link := link\<rparr>) s
           in (contact_key ex, c', s'))
      | None \<Rightarrow>
          (let pw = (if js_truthy_str (ci_password ct) then Some (env_hash_password env (the (ci_password ct)))
                     else None);
               (c', s') = svc_add_contact (ct\<lparr>ci_password := pw, ci_contract_link := link\<rparr>) s
           in (contact_key c', Some c', s')))"

text \<open>The answer to a form without one of the required fields.\<close>

definition missing_fields_message :: string where
  "missing_fields_message = ''Missing required fields: category_id, service_id, calendar_id, start_date, or end_date''"

text \<open>The handler.  The contact is created or updated before the form is checked,
  and the appointment is inserted before the mails are sent.\<close>

definition add_appointment_ctl :: "ctl_env \<Rightarrow> booking_form \<Rightarrow> store \<Rightarrow> mail_text mail list \<Rightarrow> ctl_result" where
  "add_appointment_ctl env f s out =
     (case bf_contact f of
        None \<Rightarrow> (Inl (Runtime_Error ''TypeError''), s, out)
      | Some ct \<Rightarrow>
          (let up = (if js_truthy_str (ci_sign_url ct) then Some (env_upload_contract env ct f) else None)
           in if up = Some (Some None) \<or> up = Some (Some (Some ''''))
              then (Inr (Http 409 (Message ''Something went wrong while saving the contract file'')), s, out)
              else
                (let link = (case up of Some (Some l) \<Rightarrow> l | _ \<Rightarrow> None);
                     existing = svc_get_contact_by_email (ci_email ct) s;
                     (cid, cobj, s1) = upsert_booking_contact env ct link existing s
                 in if cid = [] then
                      (Inr (Http 409 (Message ''Something went wrong while adding the conatct details'')), s1, out)
                    else if booking_fields_missing f then
                      (Inr (Http 400 (Message missing_fields_message)), s1, out)
                    else
                      (case svc_add_appointment (booking_request f cid) s1 of
                         (Inl e, s2) \<Rightarrow> (Inl (Client_Err e), s2, out)
                       | (Inr a, s2) \<Rightarrow>
                           (case cobj of
                              None \<Rightarrow> (Inl (Runtime_Error ''Contact object is null''), s2, out)
                            | Some c \<Rightarrow>
                                (Inr (Http 200 (Appointment_With_Contact a c)), s2,
                                 booking_mails env f (existing = None) (ci_password ct) a c s2 out))))))"

subsection \<open>The read handlers\<close>

text \<open>\<open>getAppointments\<close>: \<open>start\<close> and \<open>end\<close> of the query string (\<open>None\<close>
  when missing or empty).\<close>

definition get_appointments_ctl :: "instant option \<Rightarrow> instant option \<Rightarrow> store \<Rightarrow> appt_body http_response" where
  "get_appointments_ctl st en s =
     (case (st, en) of
        (Some a, Some b) \<Rightarrow> Http 200 (Appointment_List (svc_get_appointments a b s))
      | _ \<Rightarrow> Http 400 (Error_Message ''Missing start or end parameter''))"

definition get_appointments_by_contact_id_ctl :: "string \<Rightarrow> store \<Rightarrow> appt_body http_response" where
  "get_appointments_by_contact_id_ctl cid s = Http 200 (Appointment_List (svc_get_appointments_by_contact_id cid s))"

definition get_appointments_by_calendar_id_ctl :: "string \<Rightarrow> store \<Rightarrow> appt_body http_response" where
  "get_appointments_by_calendar_id_ctl cal s = Http 200 (Appointment_List (svc_get_appointments_by_calendar_id cal s))"

text \<open>\<open>getTimeSlots\<close>: an array is truthy even when empty, so the answer is the
  service's list; \<open>None\<close> when the slot generation does not return (no answer).\<close>

definition get_time_slots_ctl ::
  "instant \<Rightarrow> string option \<Rightarrow> string option \<Rightarrow> instant \<Rightarrow> store \<Rightarrow> appt_body http_response option" where
  "get_time_slots_ctl date cat sid now s =
     map_option (\<lambda>xs. Http 200 (Slot_List xs)) (svc_get_time_slots date cat sid now s)"

text \<open>One row of the spreadsheet of \<open>getAppointmentsByDateAndCalenderId\<close>: the
  handler reads \<open>service.services[0]\<close>, which raises a \<open>TypeError\<close> on \<open>null\<close>
  and on a \<open>Service\<close> (whose \<open>services\<close> is \<open>undefined\<close>).\<close>

definition export_row_of :: "appointment_detail \<Rightarrow> store \<Rightarrow> next_error + export_row" where
  "export_row_of dt s =
     (let contact = get_contact_by_id (appt_contact_id (dt_appointment dt)) (st_contacts s)
      in case dt_service dt of
           None \<Rightarrow> Inl (Runtime_Error ''TypeError'')
         | Some sv \<Rightarrow> (case service_services_prop sv of
                        None \<Rightarrow> Inl (Runtime_Error ''TypeError'')
                      | Some [] \<Rightarrow> Inr (Export_Row None contact)
                      | Some (x # _) \<Rightarrow> Inr (Export_Row (Some x) contact)))"

text \<open>\<open>Promise.all\<close> over the rows: the first failure fails the handler.  The rows
  are pushed as their promises settle; the model keeps the order of the data.\<close>

fun collect_rows :: "(next_error + export_row) list \<Rightarrow> next_error + export_row list" where
  "collect_rows [] = Inr []"
| "collect_rows (Inl e # _) = Inl e"
| "collect_rows (Inr r # rs) = (case collect_rows rs of Inl e \<Rightarrow> Inl e | Inr xs \<Rightarrow> Inr (r # xs))"

text \<open>The body's \<open>calendar_id\<close>, \<open>start_date\<close> and \<open>end_date\<close> are bound by the
  DAO, which refuses an \<open>undefined\<close> one; the service rethrows.\<close>

definition export_appointments_ctl ::
  "string option \<Rightarrow> instant option \<Rightarrow> instant option \<Rightarrow> store \<Rightarrow> next_error + appt_body http_response" where
  "export_appointments_ctl cal st en s =
     (case (cal, st, en) of
        (Some c, Some a, Some b) \<Rightarrow>
          (case collect_rows (map (\<lambda>dt. export_row_of dt s) (svc_get_appointments_by_date_and_calendar_id c a b s)) of
             Inl e \<Rightarrow> Inl e
           | Inr rows \<Rightarrow> Inr (Http 200 (Spreadsheet rows)))
      | _ \<Rightarrow> Inl (Runtime_Error ''Bind parameters must not contain undefined''))"

subsection \<open>updateAppointment and deleteAppointment\<close>

text \<open>A flag of the update form as sent: a boolean, a number or a string.\<close>

datatype json_flag = JBool bool | JNum int | JStr string

definition flag_value :: "json_flag \<Rightarrow> bool" where
  "flag_value v = (case v of JBool b \<Rightarrow> b | JNum n \<Rightarrow> n = 1 | JStr x \<Rightarrow> x = ''1'' \<or> x = ''true'')"

record update_form =
  uf_request :: appointment_input
  uf_exhaust_gas_measurement :: "json_flag option"
  uf_has_maintenance_agreement :: "json_flag option"
  uf_has_bgas_before :: "json_flag option"
  uf_archived :: "json_flag option"

text \<open>\<open>normalizedForm\<close> without \<open>updated_by\<close> (the \<open>rest\<close> of the handler).\<close>

definition normalized_request :: "update_form \<Rightarrow> appointment_input" where
  "normalized_request u =
     (uf_request u)\<lparr>ai_exhaust_gas_measurement := map_option flag_value (uf_exhaust_gas_measurement u),
       ai_has_maintenance_agreement := map_option flag_value (uf_has_maintenance_agreement u),
       ai_has_bgas_before := map_option flag_value (uf_has_bgas_before u),
       ai_archived := map_option flag_value (uf_archived u), ai_updated_by := None\<rparr>"

definition status_cancelled :: string where
  "status_cancelled = ''Cancelled''"

definition template_type_cancellation :: string where
  "template_type_cancellation = ''cancellation''"

definition cancellation_subject :: string where
  "cancellation_subject = ''Absage eines B-Gas-Termins''"

text \<open>The cancellation mails: to the company when the customer cancelled, otherwise
  the cancellation template (or the default text) to the customer and the company.\<close>

definition cancellation_mails ::
  "appointment_input \<Rightarrow> string option \<Rightarrow> string option \<Rightarrow> store \<Rightarrow> mail_text mail list \<Rightarrow> mail_text mail list" where
  "cancellation_mails rest updated_by contact_email s out =
     (let cfg = st_configs s
      in if updated_by = Some ''contact'' then
           (case get_email_config cfg of
              [] \<Rightarrow> out
            | k # _ \<Rightarrow> send_mail cfg (ec_sender k) cancellation_subject
                         (Cancelled_By_Contact (ai_start_date rest) (ai_end_date rest) (or_default contact_email ''''))
                         out)
         else
           (let (body, subj) =
                  (case get_email_templates template_type_cancellation (st_templates s) of
                     t # _ \<Rightarrow> if et_template t \<noteq> [] then (Html (et_template t), et_subject t)
                             else (Default_Cancellation, cancellation_subject)
                   | [] \<Rightarrow> (Default_Cancellation, cancellation_subject));
                out1 = (if js_truthy_str contact_email then send_mail cfg (the contact_email) subj body out else out)
            in (case get_email_config cfg of [] \<Rightarrow> out1 | k # _ \<Rightarrow> send_mail cfg (ec_sender k) subj body out1)))"

text \<open>The handler: the contact of the form is read, the appointment updated and the
  cancellation mails sent before the handler looks at whether the contact exists.\<close>

definition update_appointment_ctl :: "string \<Rightarrow> update_form \<Rightarrow> store \<Rightarrow> mail_text mail list \<Rightarrow> ctl_result" where
  "update_appointment_ctl i u s out =
     (let rest = normalized_request u;
          contact = svc_get_contact_by_id (ai_contact_id rest) s;
          (data, s1) = svc_update_appointment i rest s;
          contact_email = (case contact of Some c \<Rightarrow> cd_email (cf_details c) | None \<Rightarrow> None);
          out1 = (if ai_appointment_status rest = Some status_cancelled
                  then cancellation_mails rest (ai_updated_by (uf_request u)) contact_email s1 out else out)
      in (case contact of
            None \<Rightarrow> (Inr (Http 404 (Message ''Contact not found'')), s1, out1)
          | Some c \<Rightarrow> (Inr (Http 200 (Updated_With_Contact data c)), s1, out1)))"

definition delete_appointment_ctl :: "string \<Rightarrow> store \<Rightarrow> appt_body http_response \<times> store" where
  "delete_appointment_ctl i s =
     (let (r, s') = svc_delete_appointment i s
      in (Http 200 (Status_Body (if r \<noteq> None then ''success'' else ''faild'')), s'))"

subsection \<open>A booking scenario\<close>

text \<open>An empty form, an empty database, an environment whose upload and hashing are
  stubs, and a walk-in booking of service 3 of category 2 in calendar 1 on
  2024-06-15 10:00-11:00 UTC by a customer who has no contact yet.\<close>

definition no_booking_form :: booking_form where
  "no_booking_form =
     \<lparr>bf_contact = None, bf_category_id = None, bf_service_id = None, bf_calendar_id = None,
      bf_start_date = None, bf_end_date = None, bf_brand_of_device = None, bf_model = None,
      bf_selected_devices = None, bf_exhaust_gas_measurement = None, bf_has_maintenance_agreement = None,
      bf_has_bgas_before = None, bf_year = None, bf_invoice_number = None, bf_contract_number = None,
      bf_imported_service_name = None, bf_imported_service_duration = None,
      bf_imported_service_price = None, bf_attachments = None, bf_remarks = None,
      bf_employee_attachments = None, bf_appointment_status = None, bf_archived = None,
      bf_updated_by = None, bf_employee_remarks = None, bf_company_remarks = None, bf_created_by = None,
      bf_ended_at = None, bf_control_points = None\<rparr>"

abbreviation empty_store :: store where
  "empty_store \<equiv> \<lparr>st_contacts = empty_table, st_appointments = empty_table,
     st_catalogue = \<lparr>cat_table = empty_table, svc_table = empty_table\<rparr>, st_calendars = empty_table,
     st_schedules = empty_table, st_templates = empty_table, st_configs = empty_table\<rparr>"

abbreviation test_env :: ctl_env where
  "test_env \<equiv> \<lparr>env_upload_contract = (\<lambda>_ _. None), env_hash_password = (\<lambda>p. ''hash:'' @ p),
     env_format_date = (\<lambda>_. ''''), env_frontend_url = ''http://localhost:3000''\<rparr>"

abbreviation max_contact :: contact_input where
  "max_contact \<equiv> no_contact_input\<lparr>ci_email := Some ''max@example.at'', ci_password := Some ''pw''\<rparr>"

abbreviation walk_in :: booking_form where
  "walk_in \<equiv> no_booking_form\<lparr>bf_contact := Some max_contact, bf_category_id := Some ''2'',
     bf_service_id := Some ''3'', bf_calendar_id := Some ''1'', bf_start_date := Some 1718445600000,
     bf_end_date := Some 1718449200000\<rparr>"

subsection \<open>Properties\<close>

lemma upsert_booking_contact_ok:
  assumes wf: "tbl_wf c_id (st_contacts s)" and ex: "existing = svc_get_contact_by_email e s"
    and up: "upsert_booking_contact env ct link existing s = (cid, cobj, s1)"
  shows "\<exists>c n. cobj = Some c \<and> contact_key c = cid \<and> cid = nat_str n \<and> tbl_wf c_id (st_contacts s1) \<and>
           tbl_find c_id cid (st_contacts s1) \<noteq> None \<and> s1 = s\<lparr>st_contacts := st_contacts s1\<rparr>"
proof (cases existing)
  case None
  define I where "I = ct\<lparr>ci_password := (if js_truthy_str (ci_password ct)
                                   then Some (env_hash_password env (the (ci_password ct))) else None),
                          ci_contract_link := link\<rparr>"
  have "upsert_booking_contact env ct link existing s =
          (contact_key (fst (add_contact I (st_contacts s))), Some (fst (add_contact I (st_contacts s))),
           s\<lparr>st_contacts := snd (add_contact I (st_contacts s))\<rparr>)"
    using None by (simp add: upsert_booking_contact_def svc_add_contact_def I_def split_def Let_def)
  moreover have "contact_key (fst (add_contact I (st_contacts s))) = nat_str (tbl_auto_inc (st_contacts s))"
    by (simp add: add_contact_eq contact_of_input_def)
  ultimately show ?thesis
    using up add_contact_wf [OF wf, of I] add_contact_get [OF wf, of I]
    by (auto simp: get_contact_by_id_def)
next
  case (Some x)
  then obtain r where r: "r \<in> set (tbl_rows (st_contacts s))" "x = map_contact_record r"
    using svc_get_contact_by_email_Some ex by metis
  then obtain n where n: "c_id r = nat_str n" using tbl_wf_key_nat_str [OF wf] by blast
  obtain y where y: "tbl_find c_id (c_id r) (st_contacts s) = Some y"
    using r(1) by (cases "tbl_find c_id (c_id r) (st_contacts s)") (auto simp: tbl_find_None)
  have ky: "c_id y = c_id r" using tbl_find_Some [OF y] by simp
  define I where "I = (merge_contact_input (contact_input_of_full x) ct)
                       \<lparr>ci_password := cd_password (cf_details x), ci_contract_link := link\<rparr>"
  have "upsert_booking_contact env ct link existing s =
          (c_id r, fst (update_contact (c_id r) I (st_contacts s)),
           s\<lparr>st_contacts := snd (update_contact (c_id r) I (st_contacts s))\<rparr>)"
    using Some r by (simp add: upsert_booking_contact_def svc_update_contact_def I_def split_def Let_def)
  moreover have "fst (update_contact (c_id r) I (st_contacts s)) = Some (map_contact_record (apply_contact_input I y))"
    using y by (simp add: update_contact_result)
  ultimately show ?thesis
    using up n ky y update_contact_wf [OF wf, of "c_id r" I]
      update_contact_keeps_row [of "c_id r" "st_contacts s" I] by auto
qed

lemma booking_request_valid:
  assumes "\<not> booking_fields_missing f"
  shows "missing_id_fields (booking_request f (nat_str n)) = [] \<and> missing_date_fields (booking_request f (nat_str n)) = []"
  using assms by (auto simp: booking_fields_missing_def booking_request_def missing_id_fields_def
      missing_date_fields_def js_truthy_str_def)

lemma export_row_of_fails: "export_row_of dt s = Inl (Runtime_Error ''TypeError'')"
  by (simp add: export_row_of_def service_services_prop_def Let_def split: option.split)

lemma walk_in_200:
  "\<exists>b s' out'. add_appointment_ctl test_env walk_in empty_store [] = (Inr (Http 200 b), s', out')"
  by (simp add: add_appointment_ctl_def no_booking_form_def no_contact_input_def
      svc_get_contact_by_email_def get_contact_by_email_def empty_table_def
      js_truthy_str_def upsert_booking_contact_def svc_add_contact_def add_contact_eq Let_def
      booking_fields_missing_def svc_add_appointment_def add_appointment_def booking_request_def
      missing_id_fields_def missing_date_fields_def js_parse_int_eval tbl_insert_def
      get_appointment_by_id_def tbl_find_def nat_str_eval contact_of_input_def appointment_of_input_def
      int_str_def split: prod.split)

text \<open>C8. The Excel export (\<open>exportAppointments\<close>) fails with a TypeError on
  every day that has an appointment: it reads \<open>service.services[0]\<close> on the
  \<open>Service\<close> object, which has no \<open>services\<close> property, or on \<open>null\<close> when the
  service is missing.  Only a day without appointments yields a spreadsheet, an empty one.\<close>
theorem export_fails_on_any_appointment:
  "export_appointments_ctl (Some c) (Some a) (Some b) s =
     (if svc_get_appointments_by_date_and_calendar_id c a b s = [] then Inr (Http 200 (Spreadsheet []))
      else Inl (Runtime_Error ''TypeError''))"
  by (cases "svc_get_appointments_by_date_and_calendar_id c a b s")
     (simp_all add: export_appointments_ctl_def export_row_of_fails)

text \<open>C9. Progress of the booking endpoint (\<open>addAppointment\<close> of the controller): on
  well-formed tables, a form with a contact, no contract to upload, every required field
  present and ids that \<open>parseInt\<close> accepts is always answered 200 with the created
  appointment and a contact, whether the customer is new or known by e-mail.\<close>
theorem complete_booking_accepted:
  assumes wf: "tbl_wf c_id (st_contacts s)" "tbl_wf a_id (st_appointments s)"
    and f: "bf_contact f = Some ct" "\<not> js_truthy_str (ci_sign_url ct)" "\<not> booking_fields_missing f"
    and ids: "js_parse_int (the (bf_category_id f)) = Some cat" "js_parse_int (the (bf_service_id f)) = Some srv"
      "js_parse_int (the (bf_calendar_id f)) = Some cal"
  shows "\<exists>a c s' out'. add_appointment_ctl env f s out = (Inr (Http 200 (Appointment_With_Contact a c)), s', out')"
proof -
  obtain cid cobj s1 where u: "upsert_booking_contact env ct None (svc_get_contact_by_email (ci_email ct) s) s = (cid, cobj, s1)"
    by (metis prod_cases3)
  obtain c n where c: "cobj = Some c" "cid = nat_str n" "tbl_find c_id cid (st_contacts s1) \<noteq> None"
    and s1: "s1 = s\<lparr>st_contacts := st_contacts s1\<rparr>"
    using upsert_booking_contact_ok [OF wf(1) refl u] by blast
  have wfa: "tbl_wf a_id (st_appointments s1)" using wf(2) s1 by (metis store.select_convs(2) store.surjective store.update_convs(1))
  obtain a where a: "fst (add_appointment (booking_request f cid) (st_contacts s1) (st_appointments s1)) = Inr a"
    using add_appointment_accepts [OF wfa, of "booking_request f cid" cat srv cal "int n" "st_contacts s1"]
      booking_request_valid [OF f(3), of n] ids c js_parse_int_nat_str [of n] int_str_nat [of n]
    by (auto simp: booking_request_def)
  then show ?thesis
    using f u c
    by (auto simp: add_appointment_ctl_def svc_add_appointment_def Let_def split: prod.splits sum.splits)
qed

theorem complete_booking_accepted_witness:
  "\<exists>a c s' out'. add_appointment_ctl test_env walk_in empty_store [] =
     (Inr (Http 200 (Appointment_With_Contact a c)), s', out')"
  using complete_booking_accepted [where s = empty_store and f = walk_in and ct = max_contact
      and cat = 2 and srv = 3 and cal = 1 and env = test_env and out = "[]"]
  by (simp add: empty_table_wf no_booking_form_def no_contact_input_def js_truthy_str_def
      booking_fields_missing_def js_parse_int_eval)

text \<open>C10. The booking endpoint writes the contact before it validates the form: a new
  customer's form that lacks a required field is answered 400, yet the customer's
  contact, with the hashed password, has already been inserted; no mail is sent.\<close>
theorem booking_validated_after_contact_insert:
  assumes "bf_contact f = Some ct" "\<not> js_truthy_str (ci_sign_url ct)"
    and "svc_get_contact_by_email (ci_email ct) s = None" "booking_fields_missing f"
  shows "add_appointment_ctl env f s out =
           (Inr (Http 400 (Message missing_fields_message)),
            s\<lparr>st_contacts := snd (add_contact
                  (ct\<lparr>ci_password := (if js_truthy_str (ci_password ct)
                                         then Some (env_hash_password env (the (ci_password ct))) else None),
                       ci_contract_link := None\<rparr>) (st_contacts s))\<rparr>, out)"
  using assms
  by (simp add: add_appointment_ctl_def upsert_booking_contact_def svc_add_contact_def add_contact_eq
      Let_def)

theorem booking_validated_after_contact_insert_witness:
  "fst (add_appointment_ctl test_env (walk_in\<lparr>bf_service_id := None\<rparr>) empty_store []) =
     Inr (Http 400 (Message missing_fields_message)) \<and>
   length (tbl_rows (st_contacts (fst (snd (add_appointment_ctl test_env (walk_in\<lparr>bf_service_id := None\<rparr>) empty_store []))))) = 1"
proof -
  have none: "svc_get_contact_by_email (ci_email max_contact) empty_store = None"
    by (simp add: svc_get_contact_by_email_def get_contact_by_email_def empty_table_def no_contact_input_def)
  show ?thesis
    using booking_validated_after_contact_insert [OF _ _ none, of "walk_in\<lparr>bf_service_id := None\<rparr>" test_env "[]"]
    by (simp add: no_booking_form_def no_contact_input_def booking_fields_missing_def
        js_truthy_str_def add_contact_eq empty_table_def)
qed

text \<open>C16. Whenever the booking endpoint answers 200, the body is the created appointment
  together with a contact whose id is the appointment's \<open>contact_id\<close>, and reading the
  appointment back by its id from the resulting store returns the same appointment.\<close>
theorem booking_response_consistent:
  assumes wf: "tbl_wf c_id (st_contacts s)" "tbl_wf a_id (st_appointments s)"
    and res: "add_appointment_ctl env f s out = (Inr (Http 200 b), s', out')"
  shows "\<exists>a c. b = Appointment_With_Contact a c \<and> appt_contact_id a = contact_key c \<and>
           svc_get_appointment_by_id (appt_id a) s' = Some a"
proof (cases "bf_contact f")
  case None
  with res show ?thesis by (simp add: add_appointment_ctl_def)
next
  case (Some ct)
  define link where "link = (case (if js_truthy_str (ci_sign_url ct) then Some (env_upload_contract env ct f) else None) of
                               Some (Some l) \<Rightarrow> l | _ \<Rightarrow> None)"
  obtain cid cobj s1 where u: "upsert_booking_contact env ct link (svc_get_contact_by_email (ci_email ct) s) s = (cid, cobj, s1)"
    by (metis prod_cases3)
  obtain c n where c: "cobj = Some c" "contact_key c = cid" "cid = nat_str n" and s1: "s1 = s\<lparr>st_contacts := st_contacts s1\<rparr>"
    using upsert_booking_contact_ok [OF wf(1) refl u] by blast
  obtain a ap2 where add: "add_appointment (booking_request f cid) (st_contacts s1) (st_appointments s1) = (Inr a, ap2)"
    and b: "b = Appointment_With_Contact a c" and s': "s' = s1\<lparr>st_appointments := ap2\<rparr>"
    using res Some u c
    by (auto simp: add_appointment_ctl_def svc_add_appointment_def link_def Let_def
        split: if_splits prod.splits sum.splits option.splits)
  have wfa: "tbl_wf a_id (st_appointments s1)" using wf(2) s1 by (metis store.select_convs(2) store.surjective store.update_convs(1))
  from add_appointment_Inr [OF wfa, of "booking_request f cid" "st_contacts s1" a] add
  obtain con where "get_appointment_by_id (appt_id a) ap2 (st_contacts s1) = Some a"
    "js_parse_int cid = Some con" "appt_contact_id a = int_str con"
    by (auto simp: booking_request_def)
  then show ?thesis
    using b s' c js_parse_int_nat_str [of n] int_str_nat [of n]
    by (simp add: svc_get_appointment_by_id_def)
qed

theorem booking_response_consistent_witness:
  "\<exists>b s' out'. add_appointment_ctl test_env walk_in empty_store [] = (Inr (Http 200 b), s', out') \<and>
     (\<exists>a c. b = Appointment_With_Contact a c \<and> appt_contact_id a = contact_key c \<and>
            svc_get_appointment_by_id (appt_id a) s' = Some a)"
proof -
  obtain b s' out' where r: "add_appointment_ctl test_env walk_in empty_store [] = (Inr (Http 200 b), s', out')"
    using walk_in_200 by blast
  have wf: "tbl_wf c_id (st_contacts empty_store)" "tbl_wf a_id (st_appointments empty_store)"
    by (simp_all add: empty_table_wf)
  from booking_response_consistent [OF wf r] r show ?thesis by blast
qed

end
