(* ===== verification/Contact_Controller.thy ===== *)
theory Contact_Controller
  imports Appointment_Controller "HOL-Library.Multiset"
begin

text \<open>
  \<open>ContactsControllers\<close> (src/booking-backend-main/src/server/app/contact/controller.ts)
  over the store of \<open>Appointment_Service\<close>.  Updating a contact first rewrites every
  appointment of the contact with the form's \<open>archived\<close> flag; deleting a contact
  first deletes its appointments one by one; sending credentials stores a new password
  hash and mails the plaintext password.  \<open>syncContacts\<close> only runs a database backup
  (I/O) and is not modelled.
\<close>

subsection \<open>Responses and the contact service\<close>

text \<open>\<open>PaginatedResponse\<close> of category/dto, a module that is not part of the sources:
  the page of data with its page number, limit and total count.\<close>

record contact_page =
  pg_data :: "contact_full list"
  pg_page :: int
  pg_limit :: int
  pg_total :: nat

datatype contact_body =
    Contact_Data "contact_full option"
  | Contact_Page contact_page
  | Contact_Message string
  | Delete_Status string nat
  | Delete_Failed string
  | Credentials_Sent "contact_full option"

text \<open>The body of the credentials mail: the login URL, the contact's e-mail and the
  plaintext password.\<close>

datatype contact_mail = Credentials_Updated string "string option" string

text \<open>The \<open>ContactsService\<close> calls of this controller that \<open>Appointment_Service\<close> does
  not already model; like its sibling services, a DAO failure is rethrown as
  \<open>ClientError(err, 500)\<close>.\<close>

definition svc_get_contacts ::
  "int \<Rightarrow> int \<Rightarrow> string option \<Rightarrow> store \<Rightarrow> client_error + contact_full list \<times> nat" where
  "svc_get_contacts page limit search s =
     (case get_contacts page limit search (st_contacts s) of
        Inl _ \<Rightarrow> Inl (Client_Error 500)
      | Inr d \<Rightarrow> Inr (d, get_contacts_count search (st_contacts s)))"

definition svc_delete_contact :: "string \<Rightarrow> store \<Rightarrow> contact_full option \<times> store" where
  "svc_delete_contact i s = (let (c, t) = delete_contact i (st_contacts s) in (c, s\<lparr>st_contacts := t\<rparr>))"

subsection \<open>addContact, getContacts, getContactById\<close>

definition add_contact_ctl :: "contact_input \<Rightarrow> store \<Rightarrow> contact_body http_response \<times> store" where
  "add_contact_ctl form s = (let (c, s') = svc_add_contact form s in (Http 200 (Contact_Data (Some c)), s'))"

text \<open>\<open>page = 1\<close> and \<open>limit = 10\<close> when the query leaves them out.\<close>

definition get_contacts_ctl ::
  "int option \<Rightarrow> int option \<Rightarrow> string option \<Rightarrow> store \<Rightarrow> next_error + contact_body http_response" where
  "get_contacts_ctl page limit search s =
     (let p = defined_or page 1; l = defined_or limit 10
      in case svc_get_contacts p l search s of
           Inl e \<Rightarrow> Inl (Client_Err e)
         | Inr (d, n) \<Rightarrow> Inr (Http 200 (Contact_Page \<lparr>pg_data = d, pg_page = p, pg_limit = l, pg_total = n\<rparr>)))"

definition get_contact_by_id_ctl :: "string \<Rightarrow> store \<Rightarrow> contact_body http_response" where
  "get_contact_by_id_ctl i s = Http 200 (Contact_Data (svc_get_contact_by_id (Some i) s))"

subsection \<open>updateContact\<close>

text \<open>\<open>{...appointment}\<close> as an update request: every column the object carries.  A
  \<open>NULL\<close> column is \<open>null\<close> in the object and is written back as \<open>NULL\<close>; the model's
  \<open>None\<close> (not written) leaves the same value.\<close>

definition appointment_input_of_full :: "'x appointment_full_scheme \<Rightarrow> appointment_input" where
  "appointment_input_of_full a =
     (let d = af_details a
      in \<lparr>ai_category_id = Some (af_category_id a), ai_service_id = Some (af_service_id a),
          ai_calendar_id = Some (appt_calendar_id a), ai_contact_id = Some (appt_contact_id a),
          ai_new_user = Some (ad_new_user d), ai_start_date = Some (start_date a),
          ai_end_date = Some (end_date a), ai_brand_of_device = ad_brand_of_device d,
          ai_model = ad_model d, ai_selected_devices = ad_selected_devices d,
          ai_exhaust_gas_measurement = Some (ad_exhaust_gas_measurement d),
          ai_has_maintenance_agreement = Some (ad_has_maintenance_agreement d),
          ai_has_bgas_before = Some (ad_has_bgas_before d), ai_year = ad_year d,
          ai_invoice_number = ad_invoice_number d, ai_contract_number = ad_contract_number d,
          ai_imported_service_name = ad_imported_service_name d,
          ai_imported_service_duration = ad_imported_service_duration d,
          ai_imported_service_price = ad_imported_service_price d,
          ai_appointment_status = Some (appointment_status a), ai_archived = Some (ad_archived d),
          ai_updated_by = ad_updated_by d, ai_attachments = ad_attachments d, ai_remarks = ad_remarks d,
          ai_employee_attachments = ad_employee_attachments d, ai_employee_remarks = ad_employee_remarks d,
          ai_company_remarks = ad_company_remarks d, ai_created_by = ad_created_by d,
          ai_ended_at = ad_ended_at d, ai_control_points = ad_control_points d\<rparr>)"

text \<open>\<open>{ ...appointment, contact_id: contactId, archived: form.archived }\<close>.\<close>

definition archive_request :: "'x appointment_full_scheme \<Rightarrow> string \<Rightarrow> bool option \<Rightarrow> appointment_input" where
  "archive_request a cid b = (appointment_input_of_full a)\<lparr>ai_contact_id := Some cid, ai_archived := b\<rparr>"

text \<open>The \<open>for\<close> loop of \<open>updateContact\<close>, one \<open>updateAppointment\<close> per appointment.\<close>

fun archive_appointments :: "string \<Rightarrow> bool option \<Rightarrow> 'x appointment_full_scheme list \<Rightarrow> store \<Rightarrow> store" where
  "archive_appointments cid b [] s = s"
| "archive_appointments cid b (a # as) s =
     archive_appointments cid b as (snd (svc_update_appointment (appt_id a) (archive_request a cid b) s))"

definition update_contact_ctl :: "string \<Rightarrow> contact_input \<Rightarrow> store \<Rightarrow> contact_body http_response \<times> store" where
  "update_contact_ctl cid form s =
     (case svc_get_contact_by_id (Some cid) s of
        None \<Rightarrow> (Http 404 (Contact_Message ''User not found''), s)
      | Some _ \<Rightarrow>
          (let s1 = archive_appointments cid (ci_archived form) (svc_get_appointments_by_contact_id cid s) s;
               (c, s2) = svc_update_contact cid form s1
           in (Http 200 (Contact_Data c), s2)))"

subsection \<open>deleteContact\<close>

text \<open>The \<open>for\<close> loop of \<open>deleteContact\<close>, one \<open>deleteAppointment\<close> per appointment.\<close>

fun delete_appointments :: "'x appointment_full_scheme list \<Rightarrow> store \<Rightarrow> store" where
  "delete_appointments [] s = s"
| "delete_appointments (a # as) s = delete_appointments as (snd (svc_delete_appointment (appt_id a) s))"

text \<open>The appointments are deleted before the contact is looked up, so an unknown id
  is answered 404 only after the loop (which then finds nothing to delete).\<close>

definition delete_contact_ctl :: "string \<Rightarrow> store \<Rightarrow> contact_body http_response \<times> store" where
  "delete_contact_ctl cid s =
     (let as = svc_get_appointments_by_contact_id cid s;
          s1 = delete_appointments as s;
          (r, s2) = svc_delete_contact cid s1
      in (if r \<noteq> None then Http 200 (Delete_Status ''success'' (length as))
          else Http 404 (Delete_Failed ''Contact not found''), s2))"

subsection \<open>sendContactCredentials\<close>

text \<open>The contact is rewritten with the hash of the new password, and the plaintext
  password is mailed to the contact's address (a missing address makes the transport
  fail, which the handler catches).\<close>

definition credentials_subject :: string where
  "credentials_subject = ''B-Gas Kontoaktualisierung''"

definition send_contact_credentials_ctl ::
  "ctl_env \<Rightarrow> string \<Rightarrow> string \<Rightarrow> store \<Rightarrow> contact_mail mail list \<Rightarrow>
   contact_body http_response \<times> store \<times> contact_mail mail list" where
  "send_contact_credentials_ctl env cid pw s out =
     (case svc_get_contact_by_id (Some cid) s of
        None \<Rightarrow> (Http 404 (Contact_Message ''Contact not found''), s, out)
      | Some ex \<Rightarrow>
          (let (c, s1) = svc_update_contact cid
                 ((contact_input_of_full ex)\<lparr>ci_password := Some (env_hash_password env pw)\<rparr>) s;
               e = cd_email (cf_details ex);
               out' = (case e of
                         None \<Rightarrow> out
                       | Some t \<Rightarrow> send_mail (st_configs s1) t credentials_subject
                                    (Credentials_Updated (env_frontend_url env @ ''/login'') e pw) out)
           in (Http 200 (Credentials_Sent c), s1, out')))"

subsection \<open>The effect on one row\<close>

text \<open>What the rewrite of \<open>updateContact\<close> does to an appointment row: only
  \<open>archived\<close> changes, to the form's value when it is given.\<close>

definition set_archived :: "bool option \<Rightarrow> appointment_record \<Rightarrow> appointment_record" where
  "set_archived b r = r\<lparr>ar_details := (ar_details r)\<lparr>ad_archived := defined_or b (ad_archived (ar_details r))\<rparr>\<rparr>"

subsection \<open>An example store\<close>

text \<open>Contact 1 (Anna) with one appointment, and an appointment of contact 7.\<close>

abbreviation demo_appointments :: "appointment_record table" where
  "demo_appointments \<equiv> \<lparr>tbl_rows = [booked_row ''1'' 1718445600000 1718449200000,
     (booked_row ''2'' 1718452800000 1718456400000)\<lparr>a_contact_id := ''7''\<rparr>], tbl_auto_inc = 3\<rparr>"

abbreviation demo_store :: store where
  "demo_store \<equiv> empty_store\<lparr>st_contacts := anna_table, st_appointments := demo_appointments\<rparr>"

subsection \<open>Properties\<close>

lemma set_archived_id [simp]: "a_id (set_archived b r) = a_id r"
  by (simp add: set_archived_def)

lemma set_archived_contact [simp]: "a_contact_id (set_archived b r) = a_contact_id r"
  by (simp add: set_archived_def)

lemma apply_archive_request:
  assumes "a_contact_id r = cid" "c_id c = cid"
  shows "apply_appointment_input (archive_request (appointment_full.extend (map_appointment_record r c) x) cid b) r =
           set_archived b r"
  using assms
  by (simp add: apply_appointment_input_def archive_request_def appointment_input_of_full_def
      map_appointment_record_def set_archived_def appointment_full.defs appointment.defs
      set_defined_def defined_or_def Let_def split: option.split)

lemma archive_request_nonempty: "\<not> appointment_input_empty (archive_request a cid b)"
  by (simp add: appointment_input_empty_def no_appointment_input_def archive_request_def
      appointment_input_of_full_def Let_def)

lemma svc_update_archive:
  assumes wf: "tbl_wf a_id (st_appointments s)" and r0: "r0 \<in> set (tbl_rows (st_appointments s))"
    and k: "a_id r0 = appt_id a" and f: "apply_appointment_input (archive_request a cid b) r0 = set_archived b r0"
  shows "snd (svc_update_appointment (appt_id a) (archive_request a cid b) s) =
           s\<lparr>st_appointments := tbl_update a_id (appt_id a) (set_archived b) (st_appointments s)\<rparr>"
proof -
  have "\<And>r. r \<in> set (tbl_rows (st_appointments s)) \<Longrightarrow> a_id r = appt_id a \<Longrightarrow>
          apply_appointment_input (archive_request a cid b) r = set_archived b r"
    using distinct_key_eq [of a_id _ r0] wf r0 k f by (metis tbl_wf_def)
  then have "tbl_update a_id (appt_id a) (apply_appointment_input (archive_request a cid b)) (st_appointments s) =
             tbl_update a_id (appt_id a) (set_archived b) (st_appointments s)"
    by (simp add: tbl_update_def)
  then show ?thesis
    by (simp add: svc_update_appointment_def update_appointment_def archive_request_nonempty Let_def)
qed

lemma archive_appointments_eq:
  assumes "tbl_wf a_id (st_appointments s)" "distinct (map appt_id xs)"
    and "\<forall>a \<in> set xs. \<exists>r \<in> set (tbl_rows (st_appointments s)). a_id r = appt_id a \<and>
           apply_appointment_input (archive_request a cid b) r = set_archived b r"
  shows "archive_appointments cid b xs s =
           s\<lparr>st_appointments := (st_appointments s)\<lparr>tbl_rows :=
              map (\<lambda>r. if a_id r \<in> appt_id ` set xs then set_archived b r else r) (tbl_rows (st_appointments s))\<rparr>\<rparr>"
  using assms
proof (induction xs arbitrary: s)
  case Nil
  then show ?case by simp
next
  case (Cons a xs)
  obtain r0 where r0: "r0 \<in> set (tbl_rows (st_appointments s))" "a_id r0 = appt_id a"
    "apply_appointment_input (archive_request a cid b) r0 = set_archived b r0"
    using Cons.prems(3) by auto
  let ?s' = "s\<lparr>st_appointments := tbl_update a_id (appt_id a) (set_archived b) (st_appointments s)\<rparr>"
  have step: "snd (svc_update_appointment (appt_id a) (archive_request a cid b) s) = ?s'"
    using svc_update_archive [OF Cons.prems(1) r0] .
  have wf': "tbl_wf a_id (st_appointments ?s')"
    using tbl_update_wf [OF Cons.prems(1), of "set_archived b"] by simp
  have rows': "\<forall>a' \<in> set xs. \<exists>r \<in> set (tbl_rows (st_appointments ?s')). a_id r = appt_id a' \<and>
                 apply_appointment_input (archive_request a' cid b) r = set_archived b r"
  proof
    fix a' assume a': "a' \<in> set xs"
    then obtain r where r: "r \<in> set (tbl_rows (st_appointments s))" "a_id r = appt_id a'"
      "apply_appointment_input (archive_request a' cid b) r = set_archived b r"
      using Cons.prems(3) by auto
    have "appt_id a' \<noteq> appt_id a" using Cons.prems(2) a' by (metis distinct.simps(2) image_eqI list.simps(9) set_map)
    then have "r \<in> set (tbl_rows (st_appointments ?s'))"
      using r by (force simp: tbl_update_def)
    then show "\<exists>r \<in> set (tbl_rows (st_appointments ?s')). a_id r = appt_id a' \<and>
                 apply_appointment_input (archive_request a' cid b) r = set_archived b r"
      using r by blast
  qed
  have "appt_id a \<notin> appt_id ` set xs" using Cons.prems(2) by auto
  then show ?case
    using Cons.IH [OF wf' _ rows'] Cons.prems(2) step
    by (auto simp: tbl_update_def)
qed

lemma svc_delete_found:
  assumes wf: "tbl_wf a_id (st_appointments s)" and r0: "r0 \<in> set (tbl_rows (st_appointments s))"
    and k: "a_id r0 = k" and c: "tbl_find c_id (a_contact_id r0) (st_contacts s) \<noteq> None"
  shows "snd (svc_delete_appointment k s) = s\<lparr>st_appointments := tbl_delete a_id k (st_appointments s)\<rparr>"
proof -
  obtain r where r: "tbl_find a_id k (st_appointments s) = Some r"
    using r0 k by (cases "tbl_find a_id k (st_appointments s)") (auto simp: tbl_find_None)
  have "r = r0"
    using tbl_find_Some [OF r] r0 k wf distinct_key_eq [of a_id] by (metis tbl_wf_def)
  then show ?thesis
    using r c by (auto simp: svc_delete_appointment_def delete_appointment_def get_appointment_by_id_def
        split: option.split)
qed

lemma delete_appointments_eq:
  assumes "tbl_wf a_id (st_appointments s)" "distinct (map appt_id xs)"
    and "\<forall>a \<in> set xs. \<exists>r \<in> set (tbl_rows (st_appointments s)). a_id r = appt_id a \<and>
           tbl_find c_id (a_contact_id r) (st_contacts s) \<noteq> None"
  shows "delete_appointments xs s =
           s\<lparr>st_appointments := (st_appointments s)\<lparr>tbl_rows :=
              filter (\<lambda>r. a_id r \<notin> appt_id ` set xs) (tbl_rows (st_appointments s))\<rparr>\<rparr>"
  using assms
proof (induction xs arbitrary: s)
  case Nil
  then show ?case by simp
next
  case (Cons a xs)
  obtain r0 where r0: "r0 \<in> set (tbl_rows (st_appointments s))" "a_id r0 = appt_id a"
    "tbl_find c_id (a_contact_id r0) (st_contacts s) \<noteq> None"
    using Cons.prems(3) by auto
  let ?s' = "s\<lparr>st_appointments := tbl_delete a_id (appt_id a) (st_appointments s)\<rparr>"
  have step: "snd (svc_delete_appointment (appt_id a) s) = ?s'"
    using svc_delete_found [OF Cons.prems(1) r0] .
  have wf': "tbl_wf a_id (st_appointments ?s')"
    using tbl_delete_wf [OF Cons.prems(1)] by simp
  have rows': "\<forall>a' \<in> set xs. \<exists>r \<in> set (tbl_rows (st_appointments ?s')). a_id r = appt_id a' \<and>
                 tbl_find c_id (a_contact_id r) (st_contacts ?s') \<noteq> None"
  proof
    fix a' assume a': "a' \<in> set xs"
    then obtain r where r: "r \<in> set (tbl_rows (st_appointments s))" "a_id r = appt_id a'"
      "tbl_find c_id (a_contact_id r) (st_contacts s) \<noteq> None"
      using Cons.prems(3) by auto
    have "appt_id a' \<noteq> appt_id a" using Cons.prems(2) a' by (metis distinct.simps(2) image_eqI list.simps(9) set_map)
    then show "\<exists>r \<in> set (tbl_rows (st_appointments ?s')). a_id r = appt_id a' \<and>
                 tbl_find c_id (a_contact_id r) (st_contacts ?s') \<noteq> None"
      using r by (auto simp: tbl_delete_def)
  qed
  have "appt_id a \<notin> appt_id ` set xs" using Cons.prems(2) by auto
  then show ?case
    using Cons.IH [OF wf' _ rows'] Cons.prems(2) step
    by (auto simp: tbl_delete_def intro: filter_cong)
qed

lemma join_records_one_contact:
  assumes wf: "tbl_wf c_id ct" and c: "tbl_find c_id cid ct = Some c"
  shows "mset (join_records (\<lambda>a. a_contact_id a = cid) ap ct) =
           mset (map (\<lambda>r. map_appointment_record r c) (filter (\<lambda>r. a_contact_id r = cid) (tbl_rows ap)))"
proof -
  have one: "filter (\<lambda>x. c_id x = cid) (tbl_rows ct) = [c]"
    using filter_one_key [of c_id "tbl_rows ct" c cid] wf tbl_find_Some [OF c] by (simp add: tbl_wf_def)
  have "[(a, x). a \<leftarrow> rs, x \<leftarrow> tbl_rows ct, a_contact_id a = cid \<and> a_contact_id a = c_id x] =
          map (\<lambda>a. (a, c)) (filter (\<lambda>r. a_contact_id r = cid) rs)" for rs
  proof (induction rs)
    case (Cons a rs)
    have "[(a, x). x \<leftarrow> tbl_rows ct, a_contact_id a = cid \<and> a_contact_id a = c_id x] =
            (if a_contact_id a = cid then [(a, c)] else [])"
      using one by (auto simp: concat_map_if_singleton eq_commute [of "a_contact_id a"])
    then show ?case using Cons by simp
  qed simp
  note eq = this
  show ?thesis
    unfolding join_records_def eq by (simp add: mset_map multiset.map_comp comp_def)
qed

lemma by_contact_mset:
  assumes "tbl_wf c_id (st_contacts s)" "tbl_find c_id cid (st_contacts s) = Some c"
  shows "mset (svc_get_appointments_by_contact_id cid s) =
           mset (map (\<lambda>r. appointment_full.extend (map_appointment_record r c)
                          (extended_appointment.fields (get_service_full (ar_category_id r) (ar_service_id r) s)))
                   (filter (\<lambda>r. a_contact_id r = cid) (tbl_rows (st_appointments s))))"
  using join_records_one_contact [OF assms, of "st_appointments s"]
  by (simp add: svc_get_appointments_by_contact_id_def get_appointments_with_service_def
      get_appointments_by_contact_id_def mset_map multiset.map_comp comp_def map_appointment_record_def)

lemma appt_id_extend_record [simp]: "appt_id (appointment_full.extend (map_appointment_record r c) x) = a_id r"
  by (simp add: map_appointment_record_def appointment_full.defs appointment.defs)

lemma by_contact_facts:
  assumes wf: "tbl_wf c_id (st_contacts s)" "tbl_wf a_id (st_appointments s)"
    and c: "tbl_find c_id cid (st_contacts s) = Some c"
  defines "xs \<equiv> svc_get_appointments_by_contact_id cid s"
  shows "length xs = length (filter (\<lambda>r. a_contact_id r = cid) (tbl_rows (st_appointments s)))"
    and "distinct (map appt_id xs)"
    and "appt_id ` set xs = a_id ` {r \<in> set (tbl_rows (st_appointments s)). a_contact_id r = cid}"
    and "\<forall>a \<in> set xs. \<exists>r \<in> set (tbl_rows (st_appointments s)). a_contact_id r = cid \<and> a_id r = appt_id a \<and>
           (\<exists>x. a = appointment_full.extend (map_appointment_record r c) x)"
proof -
  define g where "g r = appointment_full.extend (map_appointment_record r c)
                          (extended_appointment.fields (get_service_full (ar_category_id r) (ar_service_id r) s))" for r
  define rs where "rs = filter (\<lambda>r. a_contact_id r = cid) (tbl_rows (st_appointments s))"
  have m: "mset xs = mset (map g rs)"
    using by_contact_mset [OF wf(1) c] unfolding xs_def g_def rs_def .
  show "length xs = length (filter (\<lambda>r. a_contact_id r = cid) (tbl_rows (st_appointments s)))"
    using arg_cong [OF m, of size] unfolding rs_def by (simp only: size_mset length_map)
  have ids: "map appt_id (map g rs) = map a_id rs" by (simp add: g_def)
  have "mset (map appt_id xs) = mset (map appt_id (map g rs))" by (simp only: mset_map m)
  then have "mset (map appt_id xs) = mset (map a_id rs)" by (simp only: ids)
  moreover have "distinct (map a_id rs)"
    using wf(2) by (simp add: rs_def tbl_wf_def distinct_map_filter)
  ultimately show "distinct (map appt_id xs)"
    by (metis mset_eq_imp_distinct_iff)
  have set_xs: "set xs = g ` set rs"
    using arg_cong [OF m, of set_mset] by (simp only: set_mset_mset set_map)
  show "appt_id ` set xs = a_id ` {r \<in> set (tbl_rows (st_appointments s)). a_contact_id r = cid}"
    unfolding set_xs image_image by (simp add: g_def rs_def)
  show "\<forall>a \<in> set xs. \<exists>r \<in> set (tbl_rows (st_appointments s)). a_contact_id r = cid \<and> a_id r = appt_id a \<and>
           (\<exists>x. a = appointment_full.extend (map_appointment_record r c) x)"
    unfolding set_xs by (auto simp: g_def rs_def)
qed

lemma demo_store_wf: "tbl_wf c_id (st_contacts demo_store) \<and> tbl_wf a_id (st_appointments demo_store)"
proof -
  have "nat_str 1 = ''1''" "nat_str 2 = ''2''" by (simp_all add: nat_str_eval)
  then have "\<exists>n < 2. ''1'' = nat_str n" "\<exists>n < 3. ''1'' = nat_str n" "\<exists>n < 3. ''2'' = nat_str n"
    by (metis one_less_numeral_iff semiring_norm(76) numeral_less_iff semiring_norm(77) lessI numeral_2_eq_2
        less_trans_Suc zero_less_Suc Suc_1 numeral_3_eq_3 lessI)+
  then show ?thesis by (simp add: tbl_wf_def contact_of_input_def appointment_of_input_def)
qed

lemma demo_store_find: "tbl_find c_id ''1'' (st_contacts demo_store) = Some anna_contact"
  by (simp add: tbl_find_def contact_of_input_def)

text \<open>C17. \<open>deleteContact\<close> of a contact that exists deletes exactly the contact's
  appointments, one by one, then the contact, and answers 200 with their number; every
  other appointment and contact is kept.\<close>
theorem delete_contact_cascade:
  assumes wf: "tbl_wf c_id (st_contacts s)" "tbl_wf a_id (st_appointments s)"
    and c: "tbl_find c_id cid (st_contacts s) = Some c"
  shows "delete_contact_ctl cid s =
           (Http 200 (Delete_Status ''success'' (length (filter (\<lambda>r. a_contact_id r = cid) (tbl_rows (st_appointments s))))),
            s\<lparr>st_contacts := tbl_delete c_id cid (st_contacts s),
              st_appointments := (st_appointments s)\<lparr>tbl_rows :=
                 filter (\<lambda>r. a_contact_id r \<noteq> cid) (tbl_rows (st_appointments s))\<rparr>\<rparr>)"
proof -
  let ?xs = "svc_get_appointments_by_contact_id cid s"
  note f = by_contact_facts [OF wf c]
  have "\<forall>a \<in> set ?xs. \<exists>r \<in> set (tbl_rows (st_appointments s)). a_id r = appt_id a \<and>
          tbl_find c_id (a_contact_id r) (st_contacts s) \<noteq> None"
    using f(4) c by fastforce
  note d = delete_appointments_eq [OF wf(2) f(2) this, unfolded f(3)]
  have "filter (\<lambda>r. a_id r \<notin> a_id ` {r \<in> set (tbl_rows (st_appointments s)). a_contact_id r = cid})
          (tbl_rows (st_appointments s)) = filter (\<lambda>r. a_contact_id r \<noteq> cid) (tbl_rows (st_appointments s))"
    by (rule filter_ids_eq) (use wf(2) in \<open>simp add: tbl_wf_def\<close>)
  note del = d [unfolded this]
  show ?thesis
    using c by (simp add: delete_contact_ctl_def Let_def del f(1) svc_delete_contact_def delete_contact_def
        get_contact_by_id_def)
qed

theorem delete_contact_cascade_witness:
  "fst (delete_contact_ctl ''1'' demo_store) = Http 200 (Delete_Status ''success'' 1) \<and>
   tbl_rows (st_appointments (snd (delete_contact_ctl ''1'' demo_store))) =
     [(booked_row ''2'' 1718452800000 1718456400000)\<lparr>a_contact_id := ''7''\<rparr>] \<and>
   tbl_rows (st_contacts (snd (delete_contact_ctl ''1'' demo_store))) = []"
  using delete_contact_cascade [OF conjunct1 [OF demo_store_wf] conjunct2 [OF demo_store_wf] demo_store_find]
  by (simp add: appointment_of_input_def int_str_1 tbl_delete_def contact_of_input_def)

text \<open>The \<open>for\<close> loop of \<open>updateContact\<close> over the appointments of an existing
  contact sets the flag on exactly that contact's rows.\<close>

lemma archive_loop_eq:
  assumes wf: "tbl_wf c_id (st_contacts s)" "tbl_wf a_id (st_appointments s)"
    and c: "tbl_find c_id cid (st_contacts s) = Some c"
  shows "archive_appointments cid b (svc_get_appointments_by_contact_id cid s) s =
           s\<lparr>st_appointments := (st_appointments s)\<lparr>tbl_rows :=
              map (\<lambda>r. if a_contact_id r = cid then set_archived b r else r) (tbl_rows (st_appointments s))\<rparr>\<rparr>"
proof -
  let ?xs = "svc_get_appointments_by_contact_id cid s"
  note f = by_contact_facts [OF wf c]
  have cc: "c_id c = cid" using tbl_find_Some [OF c] by simp
  have "\<forall>a \<in> set ?xs. \<exists>r \<in> set (tbl_rows (st_appointments s)). a_id r = appt_id a \<and>
          apply_appointment_input (archive_request a cid b) r = set_archived b r"
    using f(4) apply_archive_request [OF _ cc] by fastforce
  note a = archive_appointments_eq [OF wf(2) f(2) this, unfolded f(3)]
  have "map (\<lambda>r. if a_id r \<in> a_id ` {r \<in> set (tbl_rows (st_appointments s)). a_contact_id r = cid}
                 then set_archived b r else r) (tbl_rows (st_appointments s)) =
        map (\<lambda>r. if a_contact_id r = cid then set_archived b r else r) (tbl_rows (st_appointments s))"
    by (rule map_ids_eq) (use wf(2) in \<open>simp add: tbl_wf_def\<close>)
  then show ?thesis using a by simp
qed

text \<open>C27. \<open>updateContact\<close> of a contact that exists rewrites each of the contact's
  appointments with its own columns and the form's \<open>archived\<close>, so exactly the
  contact's appointments take the form's \<open>archived\<close> flag (when the form gives one)
  and nothing else in them changes; then the contact is updated with the form.\<close>
theorem update_contact_archives:
  assumes wf: "tbl_wf c_id (st_contacts s)" "tbl_wf a_id (st_appointments s)"
    and c: "tbl_find c_id cid (st_contacts s) = Some c"
  shows "update_contact_ctl cid form s =
           (Http 200 (Contact_Data (fst (update_contact cid form (st_contacts s)))),
            s\<lparr>st_contacts := snd (update_contact cid form (st_contacts s)),
              st_appointments := (st_appointments s)\<lparr>tbl_rows :=
                 map (\<lambda>r. if a_contact_id r = cid then set_archived (ci_archived form) r else r)
                   (tbl_rows (st_appointments s))\<rparr>\<rparr>)"
  using c by (simp add: update_contact_ctl_def Let_def archive_loop_eq [OF wf c] svc_update_contact_def
      svc_get_contact_by_id_def get_contact_by_id_def split_def)

theorem update_contact_archives_witness:
  "tbl_rows (st_appointments (snd (update_contact_ctl ''1'' (no_contact_input\<lparr>ci_archived := Some True\<rparr>) demo_store))) =
     [set_archived (Some True) (booked_row ''1'' 1718445600000 1718449200000),
      (booked_row ''2'' 1718452800000 1718456400000)\<lparr>a_contact_id := ''7''\<rparr>]"
  using update_contact_archives [OF conjunct1 [OF demo_store_wf] conjunct2 [OF demo_store_wf] demo_store_find,
      of "no_contact_input\<lparr>ci_archived := Some True\<rparr>"]
  by (simp add: appointment_of_input_def int_str_1)

end
