(* ===== verification/Frontend_Pages.thy ===== *)
theory Frontend_Pages
  imports Contact_Controller
begin

text \<open>
  The logic of the two React pages of src/booking-frontend-main that talk to the
  backend modelled here: the appointment calendar (pages/Appointment/index.tsx), which
  lists the time slots of the selected day and draws the appointments as calendar
  events, and the contact list (pages/Contact/index.tsx), which pages through
  \<open>GET /contacts\<close> and archives a contact through \<open>updateContact\<close>.  Rendering is
  not modelled; the browser's time zone is a fixed offset \<open>tz\<close> in minutes with the sign
  of \<open>Date.getTimezoneOffset\<close> (UTC minus local time, e.g. -120 for UTC+2), daylight
  saving is not modelled.
\<close>

subsection \<open>Local time\<close>

type_synonym tz_offset = int

text \<open>The wall-clock reading of an instant in the browser's zone, written as the
  instant that reads the same in UTC.\<close>

definition local_wall :: "tz_offset \<Rightarrow> instant \<Rightarrow> instant" where
  "local_wall tz t = t - tz * 60000"

text \<open>\<open>dayjs(t).endOf('day')\<close>: the last millisecond of the local day of \<open>t\<close>.\<close>

definition local_end_of_day :: "tz_offset \<Rightarrow> instant \<Rightarrow> instant" where
  "local_end_of_day tz t = utc_day_start (local_wall tz t) + ms_per_day - 1 + tz * 60000"

subsection \<open>The appointment calendar\<close>

text \<open>\<open>onSelectDate\<close>: a date picked in the month calendar becomes the end of its local
  day; \<open>fetchTimeslots\<close> then asks \<open>GET /timeslots\<close> for that instant.\<close>

definition on_select_date :: "tz_offset \<Rightarrow> instant \<Rightarrow> bool \<Rightarrow> instant \<Rightarrow> instant" where
  "on_select_date tz v from_date cur = (if from_date then local_end_of_day tz v else cur)"

definition timeslots_query :: "instant \<Rightarrow> instant" where
  "timeslots_query cur = cur"

text \<open>The slot list of the selected day: the slots sorted by start (the ISO strings
  compare as the instants), then one entry per label \<open>HH:MM - HH:MM\<close> (UTC), the first
  slot with that label giving the calendar and employee.\<close>

record slot_option =
  so_label :: string
  so_calendar_id :: string
  so_employee_name :: string

definition slot_label :: "time_slot \<Rightarrow> string" where
  "slot_label sl = format_time (slot_start sl) @ '' - '' @ format_time (slot_end sl)"

definition add_slot_option :: "slot_option list \<Rightarrow> time_slot \<Rightarrow> slot_option list" where
  "add_slot_option res sl =
     (if list_ex (\<lambda>r. so_label r = slot_label sl) res then res
      else res @ [\<lparr>so_label = slot_label sl, so_calendar_id = slot_calendar_id sl,
                   so_employee_name = slot_employee_name sl\<rparr>])"

definition formatted_slots :: "time_slot list \<Rightarrow> slot_option list" where
  "formatted_slots ts = foldl add_slot_option [] (sort_key slot_start ts)"

text \<open>A calendar event for an appointment: its times moved by the zone offset (the
  "fix" of the page), its resource the calendar id (\<open>''\<close> when there is none), and its
  title the service name or the imported service name.\<close>

record calendar_event =
  ev_title :: string
  ev_start :: instant
  ev_end :: instant
  ev_resource :: string

definition event_of_appointment :: "tz_offset \<Rightarrow> extended_appointment \<Rightarrow> calendar_event" where
  "event_of_appointment tz a =
     \<lparr>ev_title = (case ea_service a of
                    Some sv \<Rightarrow> or_default (Some (service_name sv)) (or_default (ad_imported_service_name (af_details a)) '''')
                  | None \<Rightarrow> or_default (ad_imported_service_name (af_details a)) ''''),
      ev_start = start_date a - tz * 60000, ev_end = end_date a - tz * 60000,
      ev_resource = appt_calendar_id a\<rparr>"

text \<open>The resources of the day view: one per calendar (\<open>String(_id || '')\<close>) and the
  column "other" with the id \<open>--\<close>.\<close>

definition other_resource :: string where
  "other_resource = ''--''"

definition resource_map :: "calendar_record list \<Rightarrow> (string \<times> string) list" where
  "resource_map cs = map (\<lambda>c. (cal_id c, cal_employee_name c)) cs @ [(other_resource, ''other'')]"

subsection \<open>The contact list\<close>

text \<open>The paging state of the page: \<open>pageNum\<close>, \<open>totalCount\<close>, \<open>pageCount\<close>,
  \<open>currentPage\<close> and the search term.\<close>

record contact_list_state =
  cl_page_num :: int
  cl_total :: nat
  cl_page_count :: int
  cl_current :: int
  cl_search :: string

definition contact_list_start :: contact_list_state where
  "contact_list_start = \<lparr>cl_page_num = 1, cl_total = 0, cl_page_count = 10, cl_current = 1, cl_search = ''''\<rparr>"

text \<open>\<open>fetchData\<close>: the request it sends, and how the answer's \<open>metaData\<close> updates the
  state: only when \<open>totalItems\<close> is truthy, that is not \<open>0\<close>.\<close>

definition fetch_contacts :: "contact_list_state \<Rightarrow> store \<Rightarrow> next_error + contact_body http_response" where
  "fetch_contacts st s =
     get_contacts_ctl (Some (cl_page_num st)) (Some (cl_page_count st)) (Some (cl_search st)) s"

definition apply_contacts_answer :: "contact_list_state \<Rightarrow> contact_page \<Rightarrow> contact_list_state" where
  "apply_contacts_answer st pg =
     (if pg_total pg \<noteq> 0
      then st\<lparr>cl_total := pg_total pg, cl_page_num := pg_page pg, cl_page_count := pg_limit pg,
              cl_current := pg_page pg\<rparr>
      else st)"

text \<open>One round: fetch, and apply a successful answer; a failed request leaves the
  state.  \<open>componentDidUpdate\<close> fetches again whenever the total, the page or the page
  size changed.\<close>

definition contacts_round :: "store \<Rightarrow> contact_list_state \<Rightarrow> contact_list_state" where
  "contacts_round s st =
     (case fetch_contacts st s of
        Inr (Http _ (Contact_Page pg)) \<Rightarrow> apply_contacts_answer st pg
      | _ \<Rightarrow> st)"

definition refetch_needed :: "contact_list_state \<Rightarrow> contact_list_state \<Rightarrow> bool" where
  "refetch_needed prev st \<longleftrightarrow>
     cl_total prev \<noteq> cl_total st \<or> cl_page_num prev \<noteq> cl_page_num st \<or> cl_page_count prev \<noteq> cl_page_count st"

text \<open>\<open>onSearch\<close>, \<open>handlePageChange\<close>, \<open>handlePageSizeChange\<close>.\<close>

definition on_search :: "string \<Rightarrow> contact_list_state \<Rightarrow> contact_list_state" where
  "on_search q st = st\<lparr>cl_page_num := 1, cl_search := q\<rparr>"

definition handle_page_change :: "int \<Rightarrow> contact_list_state \<Rightarrow> contact_list_state" where
  "handle_page_change p st = st\<lparr>cl_page_num := p\<rparr>"

definition handle_page_size_change :: "int \<Rightarrow> contact_list_state \<Rightarrow> contact_list_state" where
  "handle_page_size_change n st = st\<lparr>cl_page_num := 1, cl_page_count := n\<rparr>"

text \<open>\<open>onArchiveContact\<close>: the contact without its id and timestamps, with
  \<open>archived\<close> negated, sent to \<open>updateContact\<close>.\<close>

definition archive_toggle_request :: "contact_full \<Rightarrow> contact_input" where
  "archive_toggle_request c =
     (contact_input_of_full c)\<lparr>ci_archived := Some (\<not> cd_archived (cf_details c))\<rparr>"

definition on_archive_contact :: "contact_full \<Rightarrow> store \<Rightarrow> contact_body http_response \<times> store" where
  "on_archive_contact c s = update_contact_ctl (contact_key c) (archive_toggle_request c) s"


subsection \<open>Properties\<close>

lemma utc_day_start_within:
  "day_aligned D \<Longrightarrow> 0 \<le> r \<Longrightarrow> r < ms_per_day \<Longrightarrow> utc_day_start (D + r) = D"
  by (simp add: utc_day_start_def day_aligned_def mod_add_left_eq [symmetric])

lemma day_aligned_add_day: "day_aligned D \<Longrightarrow> day_aligned (D + ms_per_day)"
  by (simp add: day_aligned_def)

text \<open>C21. West of UTC (a positive \<open>getTimezoneOffset\<close> below a day) a day picked
  in the month calendar asks \<open>GET /timeslots\<close> for an instant of the next UTC day:
  the end of the local day is already past UTC midnight, and the backend builds the
  slots of the UTC day of the date it is given.\<close>
theorem select_date_west:
  assumes "0 < tz" "tz < 1440"
  shows "utc_day_start (on_select_date tz v True cur) = utc_day_start (local_wall tz v) + ms_per_day"
proof -
  let ?D = "utc_day_start (local_wall tz v)"
  have eq: "on_select_date tz v True cur = (?D + ms_per_day) + (tz * 60000 - 1)"
    by (simp add: on_select_date_def local_end_of_day_def)
  show ?thesis unfolding eq
    by (rule utc_day_start_within) (use assms in \<open>simp_all add: day_aligned_add_day\<close>)
qed

text \<open>East of UTC (or in UTC) the query stays in the UTC day of the picked date's
  local midnight.\<close>

lemma select_date_east:
  assumes "- 1440 < tz" "tz \<le> 0"
  shows "utc_day_start (on_select_date tz v True cur) = utc_day_start (local_wall tz v)"
proof -
  let ?D = "utc_day_start (local_wall tz v)"
  have eq: "on_select_date tz v True cur = ?D + (ms_per_day - 1 + tz * 60000)"
    by (simp add: on_select_date_def local_end_of_day_def)
  show ?thesis unfolding eq
    by (rule utc_day_start_within) (use assms in simp_all)
qed

text \<open>The calendar draws an appointment at the browser's wall-clock reading of
  \<open>start_date - getTimezoneOffset\<close>: the UTC instant moved by twice the offset, not
  the local time the comment at index.tsx:194 expects.\<close>

lemma event_wall_start:
  "local_wall tz (ev_start (event_of_appointment tz a)) = start_date a - 2 * tz * ms_per_minute"
  by (simp add: local_wall_def event_of_appointment_def)

lemma add_slot_option_label_set:
  "so_label ` set (add_slot_option res sl) = insert (slot_label sl) (so_label ` set res)"
  by (auto simp: add_slot_option_def list_ex_iff intro: rev_image_eqI)

lemma add_slot_option_distinct:
  "distinct (map so_label res) \<Longrightarrow> distinct (map so_label (add_slot_option res sl))"
  by (auto simp: add_slot_option_def list_ex_iff)

lemma foldl_slot_options:
  "distinct (map so_label res) \<Longrightarrow>
     distinct (map so_label (foldl add_slot_option res ts)) \<and>
     so_label ` set (foldl add_slot_option res ts) = so_label ` set res \<union> slot_label ` set ts"
  by (induction ts arbitrary: res) (auto simp: add_slot_option_label_set add_slot_option_distinct)

lemma formatted_slots_labels:
  "distinct (map so_label (formatted_slots ts)) \<and> so_label ` set (formatted_slots ts) = slot_label ` set ts"
  using foldl_slot_options [of "[]" "sort_key slot_start ts"] by (simp add: formatted_slots_def)

lemma contacts_round_eq:
  "contacts_round s st =
     (case get_contacts (cl_page_num st) (cl_page_count st) (Some (cl_search st)) (st_contacts s) of
        Inl _ \<Rightarrow> st
      | Inr _ \<Rightarrow> (if get_contacts_count (Some (cl_search st)) (st_contacts s) \<noteq> 0
                 then st\<lparr>cl_total := get_contacts_count (Some (cl_search st)) (st_contacts s),
                         cl_current := cl_page_num st\<rparr>
                 else st))"
  by (cases "get_contacts (cl_page_num st) (cl_page_count st) (Some (cl_search st)) (st_contacts s)")
    (simp_all add: contacts_round_def fetch_contacts_def get_contacts_ctl_def svc_get_contacts_def
      apply_contacts_answer_def defined_or_def)

text \<open>C22. The contact list's refetch loop settles: \<open>componentDidUpdate\<close> fetches
  again after an answer changed the total, page or page size, and the second answer
  leaves the state as the first one did, so no third request follows.\<close>
theorem contacts_round_settles: "contacts_round s (contacts_round s st) = contacts_round s st"
  by (simp add: contacts_round_eq split: sum.split)

lemma contacts_refetch_stops:
  "\<not> refetch_needed (contacts_round s st) (contacts_round s (contacts_round s st))"
  by (simp add: contacts_round_eq refetch_needed_def split: sum.split)

text \<open>A search that matches nothing leaves the paging state as it was: the answer's
  \<open>totalItems\<close> is \<open>0\<close>, which the page treats as absent, so the paginator keeps the
  total of the previous list.\<close>

lemma search_no_match_stale_total:
  assumes "get_contacts_count (Some q) (st_contacts s) = 0"
  shows "contacts_round s (on_search q st) = on_search q st"
  using assms by (simp add: contacts_round_eq on_search_def split: sum.split)

lemma set_defined_same [simp]: "set_defined x x = x"
  by (simp add: set_defined_def split: option.split)

text \<open>Writing back the contact the page read changes only the flag it toggles.\<close>

lemma archive_toggle_row:
  "map_contact_record (apply_contact_input (archive_toggle_request (map_contact_record r)) r) =
     (map_contact_record r)\<lparr>cf_details := (cf_details (map_contact_record r))\<lparr>cd_archived := \<not> cd_archived (cr_details r)\<rparr>\<rparr>"
  by (simp add: map_contact_record_def apply_contact_input_def archive_toggle_request_def contact_input_of_full_def
      defined_or_def set_defined_def Let_def split: option.split)

text \<open>C20. Archiving from the contact list: the page sends the contact it shows,
  without id and timestamps and with \<open>archived\<close> negated, to \<open>updateContact\<close>.  For a
  contact of the table the answer is the contact with the flag flipped and nothing else
  changed, and every appointment of the contact takes the new flag, while the other
  appointments stay as they were.\<close>
theorem archive_contact_toggles:
  assumes wf: "tbl_wf c_id (st_contacts s)" "tbl_wf a_id (st_appointments s)"
    and r: "tbl_find c_id cid (st_contacts s) = Some r"
  shows "on_archive_contact (map_contact_record r) s =
           (Http 200 (Contact_Data (Some ((map_contact_record r)\<lparr>cf_details :=
               (cf_details (map_contact_record r))\<lparr>cd_archived := \<not> cd_archived (cr_details r)\<rparr>\<rparr>))),
            s\<lparr>st_contacts := snd (update_contact cid (archive_toggle_request (map_contact_record r)) (st_contacts s)),
              st_appointments := (st_appointments s)\<lparr>tbl_rows :=
                 map (\<lambda>a. if a_contact_id a = cid then set_archived (Some (\<not> cd_archived (cr_details r))) a else a)
                   (tbl_rows (st_appointments s))\<rparr>\<rparr>)"
proof -
  have k: "contact_key (map_contact_record r) = cid" using tbl_find_Some [OF r] by simp
  have res: "fst (update_contact cid (archive_toggle_request (map_contact_record r)) (st_contacts s)) =
      Some ((map_contact_record r)\<lparr>cf_details :=
               (cf_details (map_contact_record r))\<lparr>cd_archived := \<not> cd_archived (cr_details r)\<rparr>\<rparr>)"
    using r by (simp add: update_contact_result archive_toggle_row)
  have arch: "ci_archived (archive_toggle_request (map_contact_record r)) = Some (\<not> cd_archived (cr_details r))"
    by (simp add: archive_toggle_request_def map_contact_record_def)
  show ?thesis
    unfolding on_archive_contact_def k
    using r by (simp add: update_contact_ctl_def Let_def archive_loop_eq [OF wf r] svc_update_contact_def
      svc_get_contact_by_id_def get_contact_by_id_def split_def res arch)
qed

subsection \<open>Instances\<close>

theorem select_date_west_witness:
  "0 < (60::int) \<and> (60::int) < 1440 \<and>
   utc_day_start (on_select_date 60 1718366400000 True 0) =
     utc_day_start (local_wall 60 1718366400000) + ms_per_day"
  using select_date_west [of 60 1718366400000 0] by simp

lemma search_no_match_demo:
  "contacts_round demo_store (on_search ''zz'' (contact_list_start\<lparr>cl_total := 1\<rparr>)) =
     contact_list_start\<lparr>cl_total := 1, cl_search := ''zz''\<rparr>"
proof -
  have "get_contacts_count (Some ''zz'') (st_contacts demo_store) = 0"
    by (simp add: get_contacts_count_def tbl_where_def contact_matches_def js_truthy_str_def sql_like_def
        contains_pattern_def contact_search_fields_def contact_of_input_def no_contact_input_def ascii_lower_def)
  from search_no_match_stale_total [OF this, of "contact_list_start\<lparr>cl_total := 1\<rparr>"] show ?thesis
    by (simp add: on_search_def contact_list_start_def)
qed

theorem archive_contact_toggles_witness:
  "fst (on_archive_contact (map_contact_record anna_contact) demo_store) =
     Http 200 (Contact_Data (Some ((map_contact_record anna_contact)\<lparr>cf_details :=
        (cf_details (map_contact_record anna_contact))\<lparr>cd_archived := True\<rparr>\<rparr>)))"
  using archive_contact_toggles [OF conjunct1 [OF demo_store_wf] conjunct2 [OF demo_store_wf] demo_store_find]
  by (simp add: contact_of_input_def no_contact_input_def defined_or_def)

end
