(* ===== verification/Appointment_Page.thy ===== *)
theory Appointment_Page
  imports Frontend_Pages
begin

text \<open>
  The appointment calendar page (src/booking-frontend-main/src/pages/Appointment/index.tsx)
  as a state machine: the component state, the user events it handles, and the
  requests its \<open>componentDidUpdate\<close> sends.  A step takes the browser's zone offset
  and the current time \<open>now\<close>.  The two ways to open the booking form are modelled:
  a click on an entry of the slot list, which rebuilds the slot's times from its
  label as a local date-time string, and a selection in the day grid, which refuses a
  start in the past.  The modals themselves (\<open>CreateAppointmentModal\<close>,
  \<open>AppointmentDetailsModal\<close>) are not part of the sources.
\<close>

subsection \<open>Local date-time strings\<close>

text \<open>\<open>el.slot.split(' - ')\<close>.\<close>

fun split_dash :: "string \<Rightarrow> string list" where
  "split_dash [] = [[]]"
| "split_dash (c # rest) =
     (if c = CHR '' '' \<and> take 2 rest = ''- '' then [] # split_dash (drop 2 rest)
      else (case split_dash rest of w # ws \<Rightarrow> (c # w) # ws | [] \<Rightarrow> [[c]]))"

text \<open>The time part \<open>HH:mm\<close> of an ECMAScript date-time string: two digits each,
  hours below 24 and minutes below 60; anything else makes an Invalid Date.\<close>

definition parse_hh_mm :: "string \<Rightarrow> (int \<times> int) option" where
  "parse_hh_mm s =
     (case split_on (CHR '':'') s of
        [h, m] \<Rightarrow> if length h = 2 \<and> length m = 2 \<and> list_all is_digit h \<and> list_all is_digit m \<and>
                     digits_value h < 24 \<and> digits_value m < 60
                  then Some (digits_value h, digits_value m) else None
      | _ \<Rightarrow> None)"

text \<open>\<open>new Date(`${dayjs(currentDate).format('YYYY-MM-DD')}T${time}`)\<close>: a date-time
  string without offset is local time, on the local date of \<open>currentDate\<close>.  A
  missing part (\<open>undefined\<close>) is an Invalid Date, \<open>None\<close>.\<close>

definition local_date_time :: "tz_offset \<Rightarrow> instant \<Rightarrow> string option \<Rightarrow> instant option" where
  "local_date_time tz cur time =
     (case time of
        None \<Rightarrow> None
      | Some s \<Rightarrow> map_option (\<lambda>(h, m). utc_day_start (local_wall tz cur) + h * ms_per_hour + m * ms_per_minute + tz * ms_per_minute)
                    (parse_hh_mm s))"

text \<open>Array indexing that yields \<open>undefined\<close> past the end.\<close>

definition js_index :: "'a list \<Rightarrow> nat \<Rightarrow> 'a option" where
  "js_index xs i = (if i < length xs then Some (xs ! i) else None)"

subsection \<open>The page state\<close>

text \<open>\<open>selectedSlot\<close>: start, end and resource of the booking form.\<close>

record selected_slot =
  sel_start :: "instant option"
  sel_end :: "instant option"
  sel_resource :: string

text \<open>\<open>IAppointmentState\<close>; \<open>views\<close> never changes and is left out.\<close>

record appointment_page =
  ap_current :: instant
  ap_selected_event :: "calendar_event option"
  ap_modal :: bool
  ap_new_modal :: bool
  ap_selected_slot :: "selected_slot option"

definition appointment_page_start :: "instant \<Rightarrow> appointment_page" where
  "appointment_page_start now =
     \<lparr>ap_current = now, ap_selected_event = None, ap_modal = False, ap_new_modal = False,
      ap_selected_slot = None\<rparr>"

text \<open>The requests the page sends: \<open>fetchTimeSlots\<close> for an instant, and
  \<open>fetchAppointments\<close> for the local month (year and month) of the current date, whose
  window is \<open>startOf('month')\<close> to \<open>endOf('month')\<close>.\<close>

datatype page_request = Fetch_Timeslots instant | Fetch_Month_Appointments int int

definition local_month :: "tz_offset \<Rightarrow> instant \<Rightarrow> int \<times> int" where
  "local_month tz t = (let (y, m, d) = date_parts (local_wall tz t) in (y, m))"

text \<open>The user's actions: a date picked in the month calendar (with whether
  \<open>selectInfo.source\<close> is \<open>'date'\<close>), a change of the month calendar, navigation of
  the day grid, a click on a slot of the list, a selection in the day grid, an event
  clicked, and closing or saving either modal.\<close>

datatype page_event =
    Select_Date instant bool
  | Change_Date instant
  | Navigate instant
  | Click_Slot slot_option
  | Select_Grid instant instant string
  | Select_Event calendar_event
  | Close_Event_Modal
  | Save_Event_Modal
  | Close_New_Modal
  | Save_New_Modal

datatype page_message = Past_Slot_Error

subsection \<open>The handlers\<close>

text \<open>The slot list's \<open>onClick\<close>: the label split at \<open>' - '\<close>, each side read as local
  time on the current date, and the slot's calendar as resource.\<close>

definition click_slot :: "tz_offset \<Rightarrow> instant \<Rightarrow> slot_option \<Rightarrow> selected_slot" where
  "click_slot tz cur el =
     (let parts = split_dash (so_label el)
      in \<lparr>sel_start = local_date_time tz cur (js_index parts 0),
          sel_end = local_date_time tz cur (js_index parts 1),
          sel_resource = so_calendar_id el\<rparr>)"

text \<open>The state change of one event, with the message it shows.\<close>

definition page_handle ::
  "tz_offset \<Rightarrow> instant \<Rightarrow> page_event \<Rightarrow> appointment_page \<Rightarrow> appointment_page \<times> page_message list" where
  "page_handle tz now ev st =
     (case ev of
        Select_Date v from_date \<Rightarrow>
          (if from_date then st\<lparr>ap_current := local_end_of_day tz v\<rparr> else st, [])
      | Change_Date v \<Rightarrow> (st\<lparr>ap_current := v\<rparr>, [])
      | Navigate v \<Rightarrow> (st\<lparr>ap_current := v\<rparr>, [])
      | Click_Slot el \<Rightarrow>
          (st\<lparr>ap_selected_slot := Some (click_slot tz (ap_current st) el), ap_new_modal := True\<rparr>, [])
      | Select_Grid s e r \<Rightarrow>
          (if s < now then (st, [Past_Slot_Error])
           else (st\<lparr>ap_selected_slot := Some \<lparr>sel_start = Some s, sel_end = Some e, sel_resource = r\<rparr>,
                    ap_new_modal := True\<rparr>, []))
      | Select_Event e \<Rightarrow> (st\<lparr>ap_selected_event := Some e, ap_modal := True\<rparr>, [])
      | Close_Event_Modal \<Rightarrow> (st\<lparr>ap_modal := False, ap_selected_event := None\<rparr>, [])
      | Save_Event_Modal \<Rightarrow> (st\<lparr>ap_modal := False, ap_selected_event := None\<rparr>, [])
      | Close_New_Modal \<Rightarrow> (st\<lparr>ap_new_modal := False, ap_selected_slot := None\<rparr>, [])
      | Save_New_Modal \<Rightarrow> (st\<lparr>ap_new_modal := False, ap_selected_slot := None\<rparr>, []))"

text \<open>Whether a handler stores a new \<open>dayjs\<close> object as \<open>currentDate\<close>:
  \<open>componentDidUpdate\<close> compares the objects with \<open>!==\<close>, so a new object counts as a
  change even when it denotes the same instant.\<close>

definition sets_current :: "page_event \<Rightarrow> bool" where
  "sets_current ev =
     (case ev of Select_Date _ from_date \<Rightarrow> from_date | Change_Date _ \<Rightarrow> True | Navigate _ \<Rightarrow> True
      | _ \<Rightarrow> False)"

text \<open>The requests of one event: the modals' \<open>onSave\<close> refetches the month, then
  \<open>componentDidUpdate\<close> fetches the slots when \<open>currentDate\<close> was set and the month's
  appointments when the local month or year changed.\<close>

definition page_requests ::
  "tz_offset \<Rightarrow> page_event \<Rightarrow> appointment_page \<Rightarrow> appointment_page \<Rightarrow> page_request list" where
  "page_requests tz ev prev st =
     (if ev = Save_Event_Modal \<or> ev = Save_New_Modal
      then [case_prod Fetch_Month_Appointments (local_month tz (ap_current prev))] else []) @
     (if sets_current ev then [Fetch_Timeslots (ap_current st)] else []) @
     (if local_month tz (ap_current prev) \<noteq> local_month tz (ap_current st)
      then [case_prod Fetch_Month_Appointments (local_month tz (ap_current st))] else [])"

definition page_step ::
  "tz_offset \<Rightarrow> instant \<Rightarrow> page_event \<Rightarrow> appointment_page \<Rightarrow>
     appointment_page \<times> page_request list \<times> page_message list" where
  "page_step tz now ev st =
     (let (st', msgs) = page_handle tz now ev st in (st', page_requests tz ev st st', msgs))"

text \<open>The states the page reaches from its first render, by any sequence of events
  at any times.\<close>

inductive page_reachable :: "tz_offset \<Rightarrow> appointment_page \<Rightarrow> bool" where
  start: "page_reachable tz (appointment_page_start t)"
| step: "page_reachable tz st \<Longrightarrow> page_reachable tz (fst (page_step tz now ev st))"

text \<open>The invariant of the page: the booking form is open exactly when a slot is
  selected, and the details modal exactly when an event is selected.\<close>

definition page_wf :: "appointment_page \<Rightarrow> bool" where
  "page_wf st \<longleftrightarrow>
     (ap_new_modal st \<longleftrightarrow> ap_selected_slot st \<noteq> None) \<and> (ap_modal st \<longleftrightarrow> ap_selected_event st \<noteq> None)"

text \<open>The requests of the first render (\<open>componentDidMount\<close>): the month and the
  slots of the current date (and the employees, not modelled).\<close>

definition page_mount_requests :: "tz_offset \<Rightarrow> appointment_page \<Rightarrow> page_request list" where
  "page_mount_requests tz st =
     [case_prod Fetch_Month_Appointments (local_month tz (ap_current st)), Fetch_Timeslots (ap_current st)]"

subsection \<open>Properties\<close>

text \<open>\<open>padStart(2, '0')\<close> of an hour or minute gives two digits that read back as
  the number.\<close>

lemma length_nat_str_small: "n < 10 \<Longrightarrow> length (nat_str n) = 1"
  by (subst nat_str.simps) simp

lemma length_nat_str_two: "10 \<le> n \<Longrightarrow> n < 100 \<Longrightarrow> length (nat_str n) = 2"
  by (subst nat_str.simps) (simp add: length_nat_str_small)

lemma digits_value_zero_prefix: "digits_value (CHR ''0'' # s) = digits_value s"
  by (simp add: digits_value_def digit_value_def)

lemma pad2_digits:
  assumes "0 \<le> n" "n < 100"
  shows "length (pad2 n) = 2 \<and> list_all is_digit (pad2 n) \<and> digits_value (pad2 n) = n"
proof (cases "n < 10")
  case True
  then show ?thesis using assms nat_str_digits [of "nat n"] digits_value_nat_str [of "nat n"]
    by (simp add: pad2_def int_str_def length_nat_str_small digits_value_zero_prefix is_digit_def)
next
  case False
  then show ?thesis using assms nat_str_digits [of "nat n"] digits_value_nat_str [of "nat n"]
    by (simp add: pad2_def int_str_def length_nat_str_two)
qed

lemma digit_not_colon: "is_digit c \<Longrightarrow> c \<noteq> CHR '':''"
  by (auto simp: is_digit_def)

lemma digit_not_blank: "is_digit c \<Longrightarrow> c \<noteq> CHR '' ''"
  by (auto simp: is_digit_def)

lemma parse_hh_mm_pad2:
  assumes "0 \<le> h" "h < 24" "0 \<le> m" "m < 60"
  shows "parse_hh_mm (pad2 h @ CHR '':'' # pad2 m) = Some (h, m)"
proof -
  have ph: "length (pad2 h) = 2 \<and> list_all is_digit (pad2 h) \<and> digits_value (pad2 h) = h"
    using assms by (simp add: pad2_digits)
  have pm: "length (pad2 m) = 2 \<and> list_all is_digit (pad2 m) \<and> digits_value (pad2 m) = m"
    using assms by (simp add: pad2_digits)
  have "CHR '':'' \<notin> set (pad2 h)" "CHR '':'' \<notin> set (pad2 m)"
    using ph pm digit_not_colon by (auto simp: list_all_iff)
  then show ?thesis using ph pm assms
    by (simp add: parse_hh_mm_def split_on_sep split_on_no_sep)
qed

lemma split_dash_no_blank: "CHR '' '' \<notin> set b \<Longrightarrow> split_dash b = [b]"
  by (induction b rule: split_dash.induct) auto

lemma split_dash_sep: "CHR '' '' \<notin> set a \<Longrightarrow> split_dash (a @ '' - '' @ b) = a # split_dash b"
  by (induction a) auto

lemma format_time_at:
  assumes "day_aligned D" "0 \<le> x" "x < 1440"
  shows "format_time (D + x * ms_per_minute) = pad2 (x div 60) @ CHR '':'' # pad2 (x mod 60)"
  using assms by (simp add: format_time_def utc_hours_minutes_at utc_minutes_minutes_at)

lemma format_time_no_blank:
  assumes "day_aligned D" "0 \<le> x" "x < 1440"
  shows "CHR '' '' \<notin> set (format_time (D + x * ms_per_minute))"
proof -
  have "list_all is_digit (pad2 (x div 60))" "list_all is_digit (pad2 (x mod 60))"
    using assms pad2_digits by simp_all
  then show ?thesis
    using assms digit_not_blank by (auto simp: format_time_at list_all_iff)
qed

lemma local_date_time_label:
  assumes "0 \<le> x" "x < 1440"
  shows "local_date_time tz cur (Some (format_time (utc_day_start (local_wall tz cur) + x * ms_per_minute))) =
           Some (utc_day_start (local_wall tz cur) + x * ms_per_minute + tz * ms_per_minute)"
proof -
  have "x div 60 < 24" "x mod 60 < 60" "0 \<le> x div 60" using assms by simp_all
  moreover have "x div 60 * ms_per_hour + x mod 60 * ms_per_minute = x * ms_per_minute"
    using div_mult_mod_eq [of x 60] by linarith
  ultimately show ?thesis using assms
    by (simp add: format_time_at local_date_time_def parse_hh_mm_pad2)
qed

text \<open>C24. The slot list shows each slot's UTC hours and minutes, and a click rebuilds
  the booking form's times by reading that label as local time on the local date of
  \<open>currentDate\<close>.  For a slot of that date's UTC day the form starts and ends
  \<open>getTimezoneOffset\<close> minutes away from the slot: one or two hours before it in
  Central Europe.\<close>
theorem click_slot_shifted:
  assumes l: "so_label el = slot_label sl"
    and s: "slot_start sl = utc_day_start (local_wall tz cur) + x * ms_per_minute" "0 \<le> x" "x < 1440"
    and e: "slot_end sl = utc_day_start (local_wall tz cur) + y * ms_per_minute" "0 \<le> y" "y < 1440"
  shows "sel_start (click_slot tz cur el) = Some (slot_start sl + tz * ms_per_minute) \<and>
         sel_end (click_slot tz cur el) = Some (slot_end sl + tz * ms_per_minute)"
proof -
  let ?D = "utc_day_start (local_wall tz cur)"
  have nb: "CHR '' '' \<notin> set (format_time (slot_start sl))" "CHR '' '' \<notin> set (format_time (slot_end sl))"
    using format_time_no_blank [OF day_aligned_day_start s(2,3)] format_time_no_blank [OF day_aligned_day_start e(2,3)]
      s(1) e(1) by simp_all
  have "split_dash (so_label el) = [format_time (slot_start sl), format_time (slot_end sl)]"
    using l split_dash_sep [OF nb(1)] split_dash_no_blank [OF nb(2)] by (simp add: slot_label_def)
  then show ?thesis using s e
    by (simp add: click_slot_def js_index_def local_date_time_label)
qed

lemma page_handle_wf: "page_wf st \<Longrightarrow> page_wf (fst (page_handle tz now ev st))"
  by (cases ev) (auto simp: page_handle_def page_wf_def)

text \<open>C28. In every state the page reaches, the booking form is open exactly when a
  slot is selected and the details modal exactly when an event is selected.\<close>
theorem page_reachable_wf: "page_reachable tz st \<Longrightarrow> page_wf st"
proof (induction rule: page_reachable.induct)
  case start
  then show ?case by (simp add: appointment_page_start_def page_wf_def)
next
  case step
  then show ?case by (simp add: page_step_def Let_def split_def page_handle_wf)
qed

text \<open>The day grid refuses a start in the past with a message and sends nothing; the
  slot list has no such check, and sends nothing either.\<close>

lemma grid_select_step:
  "page_step tz now (Select_Grid s e r) st =
     (if s < now then (st, [], [Past_Slot_Error])
      else (st\<lparr>ap_selected_slot := Some \<lparr>sel_start = Some s, sel_end = Some e, sel_resource = r\<rparr>,
               ap_new_modal := True\<rparr>, [], []))"
  by (simp add: page_step_def page_handle_def page_requests_def sets_current_def)

lemma select_date_requests:
  assumes "local_month tz (local_end_of_day tz v) = local_month tz (ap_current st)"
  shows "fst (snd (page_step tz now (Select_Date v True) st)) = [Fetch_Timeslots (local_end_of_day tz v)]"
  using assms by (simp add: page_step_def page_handle_def page_requests_def sets_current_def)

lemma click_slot_step:
  "page_step tz now (Click_Slot el) st =
     (st\<lparr>ap_selected_slot := Some (click_slot tz (ap_current st) el), ap_new_modal := True\<rparr>, [], [])"
  by (simp add: page_step_def page_handle_def page_requests_def sets_current_def)

subsection \<open>Instances\<close>

theorem click_slot_shifted_witness:
  "so_label (\<lparr>so_label = slot_label (mk_slot ''3'' ''Max'' 1718355600000 1718359200000), so_calendar_id = ''3'',
       so_employee_name = ''Max''\<rparr>) = slot_label (mk_slot ''3'' ''Max'' 1718355600000 1718359200000) \<and>
   slot_start (mk_slot ''3'' ''Max'' 1718355600000 1718359200000) =
     utc_day_start (local_wall (-120) 1718366400000) + 540 * ms_per_minute \<and> 0 \<le> (540::int) \<and> (540::int) < 1440 \<and>
   slot_end (mk_slot ''3'' ''Max'' 1718355600000 1718359200000) =
     utc_day_start (local_wall (-120) 1718366400000) + 600 * ms_per_minute \<and> 0 \<le> (600::int) \<and> (600::int) < 1440 \<and>
   sel_start (click_slot (-120) 1718366400000 \<lparr>so_label = slot_label (mk_slot ''3'' ''Max'' 1718355600000 1718359200000),
       so_calendar_id = ''3'', so_employee_name = ''Max''\<rparr>) = Some 1718348400000"
proof -
  have d: "utc_day_start (local_wall (-120) 1718366400000) = 1718323200000"
    by (simp add: utc_day_start_def local_wall_def)
  show ?thesis
    using click_slot_shifted [of "\<lparr>so_label = slot_label (mk_slot ''3'' ''Max'' 1718355600000 1718359200000),
       so_calendar_id = ''3'', so_employee_name = ''Max''\<rparr>" "mk_slot ''3'' ''Max'' 1718355600000 1718359200000"
       "-120" 1718366400000 540 600]
    by (simp add: d mk_slot_def)
qed

theorem page_reachable_wf_witness:
  "page_reachable 0 (fst (page_step 0 0 (Select_Event \<lparr>ev_title = ''Wartung'', ev_start = 0, ev_end = 1, ev_resource = ''3''\<rparr>)
      (appointment_page_start 0))) \<and>
   page_wf (fst (page_step 0 0 (Select_Event \<lparr>ev_title = ''Wartung'', ev_start = 0, ev_end = 1, ev_resource = ''3''\<rparr>)
      (appointment_page_start 0)))"
proof -
  have r: "page_reachable 0 (fst (page_step 0 0 (Select_Event \<lparr>ev_title = ''Wartung'', ev_start = 0, ev_end = 1, ev_resource = ''3''\<rparr>)
      (appointment_page_start 0)))"
    by (rule page_reachable.step [OF page_reachable.start])
  from r page_reachable_wf [OF r] show ?thesis by simp
qed

end
