(* ===== verification/Contact_Page.thy ===== *)
theory Contact_Page
  imports Frontend_Pages
begin

text \<open>
  The modals and row actions of the contact list page
  (src/booking-frontend-main/src/pages/Contact/index.tsx) together with the backend they
  call: one step takes a user action, the page state and the store, runs the
  controller of \<open>Contact_Controller\<close> the action calls, and returns the new page
  state, the new store and the messages shown.  The Redux actions between the page and
  the server are not in the sources; they are taken to resolve with the response body.
  The password reset calls \<open>sendContactCredentials\<close>, the only password endpoint of
  the contact controller.  Export and synchronisation only open a URL or start a
  backup and are not modelled; the import posts a file to an endpoint outside the
  sources, and its answer is an input of the step.
\<close>

subsection \<open>Page state, actions and messages\<close>

text \<open>The rest of \<open>IContactState\<close>, on top of the paging state of \<open>Frontend_Pages\<close>;
  \<open>cp_file\<close> records whether a file is selected for the import.\<close>

record contact_page_state = contact_list_state +
  cp_visible :: bool
  cp_reset_visible :: bool
  cp_editing :: "string option"
  cp_new_password :: string
  cp_import_visible :: bool
  cp_import_loading :: bool
  cp_file :: bool

definition contact_page_start :: contact_page_state where
  "contact_page_start =
     \<lparr>cl_page_num = 1, cl_total = 0, cl_page_count = 10, cl_current = 1, cl_search = '''',
      cp_visible = False, cp_reset_visible = False, cp_editing = None, cp_new_password = '''',
      cp_import_visible = False, cp_import_loading = False, cp_file = False\<rparr>"

datatype ui_message = Msg_Success string | Msg_Error string

text \<open>The user's actions: open the contact form (to create, or to edit a contact), open
  the reset and import modals, delete a contact, submit or close the contact form,
  type and submit a new password, close the reset modal, pick a file, run the import
  (with the answer of the import endpoint), close the import modal.\<close>

datatype contact_page_event =
    Open_Contact "string option"
  | Open_Reset string
  | Open_Import
  | Delete_Contact string
  | Finish_Contact contact_input
  | Close_Contact
  | Type_Password string
  | Finish_Reset
  | Close_Reset
  | Pick_File
  | Run_Import bool
  | Close_Import

text \<open>The page reads \<open>data._id\<close> and \<open>data.status\<close> of an answer.\<close>

definition body_has_id :: "contact_body http_response \<Rightarrow> bool" where
  "body_has_id r = (case r of Http _ (Contact_Data (Some _)) \<Rightarrow> True | _ \<Rightarrow> False)"

definition body_status_success :: "contact_body http_response \<Rightarrow> bool" where
  "body_status_success r = (case r of Http _ (Delete_Status st _) \<Rightarrow> st = ''success'' | _ \<Rightarrow> False)"

subsection \<open>The handlers\<close>

text \<open>\<open>onDeleteContact\<close>.\<close>

definition on_delete_contact :: "string \<Rightarrow> contact_page_state \<Rightarrow> store \<Rightarrow> contact_page_state \<times> store \<times> ui_message list" where
  "on_delete_contact i st s =
     (let (r, s') = delete_contact_ctl i s
      in (st, s', [if body_status_success r then Msg_Success ''successfully_deleted_the_contact''
                   else Msg_Error ''something_went_wrong_please_try_again'']))"

text \<open>\<open>onFinish\<close> of the contact form: an edit when a contact is being edited, a
  creation otherwise.  A successful edit closes the form and forgets the contact, a
  successful creation only closes the form.\<close>

definition on_finish_contact ::
  "contact_input \<Rightarrow> contact_page_state \<Rightarrow> store \<Rightarrow> contact_page_state \<times> store \<times> ui_message list" where
  "on_finish_contact form st s =
     (case cp_editing st of
        Some i \<Rightarrow>
          if i \<noteq> [] then
            (let (r, s') = update_contact_ctl i form s
             in if body_has_id r
                then (st\<lparr>cp_visible := False, cp_editing := None\<rparr>, s', [Msg_Success ''successfully_updated_the_contact''])
                else (st, s', [Msg_Error ''something_went_wrong_please_try_again'']))
          else (let (r, s') = add_contact_ctl form s
                in if body_has_id r then (st\<lparr>cp_visible := False\<rparr>, s', [Msg_Success ''successfully_created_the_contact''])
                   else (st, s', [Msg_Error ''something_went_wrong_please_try_again'']))
      | None \<Rightarrow>
          (let (r, s') = add_contact_ctl form s
           in if body_has_id r then (st\<lparr>cp_visible := False\<rparr>, s', [Msg_Success ''successfully_created_the_contact''])
              else (st, s', [Msg_Error ''something_went_wrong_please_try_again''])))"

text \<open>\<open>onFinish\<close> of the reset modal: only with a contact and a non-empty password;
  the credentials mail goes to the outbox.\<close>

definition on_finish_reset ::
  "ctl_env \<Rightarrow> contact_page_state \<Rightarrow> store \<Rightarrow> contact_mail mail list \<Rightarrow>
     contact_page_state \<times> store \<times> contact_mail mail list \<times> ui_message list" where
  "on_finish_reset env st s out =
     (case cp_editing st of
        Some i \<Rightarrow>
          if i \<noteq> [] \<and> cp_new_password st \<noteq> [] then
            (let (r, s', out') = send_contact_credentials_ctl env i (cp_new_password st) s out
             in if body_status_success r
                then (st\<lparr>cp_reset_visible := False, cp_editing := None, cp_new_password := ''''\<rparr>, s', out',
                      [Msg_Success ''successfully_reset_the_password''])
                else (st, s', out', [Msg_Error ''something_went_wrong_please_try_again'']))
          else (st, s, out, [])
      | None \<Rightarrow> (st, s, out, []))"

text \<open>\<open>onImport\<close>: only with a selected file; the answer's success refetches the
  list, and the modal closes either way.\<close>

definition on_import :: "bool \<Rightarrow> contact_page_state \<Rightarrow> store \<Rightarrow> contact_page_state \<times> ui_message list" where
  "on_import ok st s =
     (if cp_file st
      then (let st1 = (if ok then contact_list_state.extend (contacts_round s (contact_list_state.truncate st))
                                   (contact_list_state.more st)
                       else st)
            in (st1\<lparr>cp_import_loading := False, cp_import_visible := False\<rparr>,
                [if ok then Msg_Success ''successfully_imported_the_contacts''
                 else Msg_Error ''something_went_wrong_please_try_again'']))
      else (st, []))"

subsection \<open>generatePassword\<close>

text \<open>\<open>generatePassword\<close> of src/booking-frontend-main/src/utils.ts: one lower-case
  letter, one capital, one special character and one digit, then six characters of any
  class.  The \<open>i\<close>-th call of \<open>Math.random()\<close> is \<open>rnd i\<close>.\<close>

definition lower_case_chars :: string where "lower_case_chars = ''abcdefghijklmnopqrstuvwxyz''"
definition upper_case_chars :: string where "upper_case_chars = ''ABCDEFGHIJKLMNOPQRSTUVWXYZ''"
definition special_chars :: string where "special_chars = ''!@#$%^&*()_-+=<>?''"
definition numeric_chars :: string where "numeric_chars = ''0123456789''"

definition get_random_char :: "string \<Rightarrow> real \<Rightarrow> char" where
  "get_random_char cs r = cs ! nat \<lfloor>r * real (length cs)\<rfloor>"

definition generate_password :: "(nat \<Rightarrow> real) \<Rightarrow> string" where
  "generate_password rnd =
     [get_random_char lower_case_chars (rnd 0), get_random_char upper_case_chars (rnd 1),
      get_random_char special_chars (rnd 2), get_random_char numeric_chars (rnd 3)] @
     map (\<lambda>i. get_random_char (lower_case_chars @ upper_case_chars @ special_chars @ numeric_chars) (rnd i)) [4..<10]"

text \<open>An environment for the examples: a stand-in hash and no contract upload.\<close>

definition demo_env :: ctl_env where
  "demo_env = \<lparr>env_upload_contract = (\<lambda>c f. None), env_hash_password = (\<lambda>p. ''$2b$'' @ p),
     env_format_date = (\<lambda>t. ''''), env_frontend_url = ''https://example.at''\<rparr>"

text \<open>One action of the user.\<close>

definition contact_page_step ::
  "ctl_env \<Rightarrow> contact_page_event \<Rightarrow> contact_page_state \<times> store \<times> contact_mail mail list \<Rightarrow>
     (contact_page_state \<times> store \<times> contact_mail mail list) \<times> ui_message list" where
  "contact_page_step env ev c =
     (let (st, s, out) = c
      in case ev of
           Open_Contact i \<Rightarrow> ((st\<lparr>cp_visible := True, cp_editing := i\<rparr>, s, out), [])
         | Open_Reset i \<Rightarrow> ((st\<lparr>cp_reset_visible := True, cp_editing := Some i\<rparr>, s, out), [])
         | Open_Import \<Rightarrow> ((st\<lparr>cp_import_visible := True\<rparr>, s, out), [])
         | Delete_Contact i \<Rightarrow> (let (st', s', m) = on_delete_contact i st s in ((st', s', out), m))
         | Finish_Contact form \<Rightarrow> (let (st', s', m) = on_finish_contact form st s in ((st', s', out), m))
         | Close_Contact \<Rightarrow> ((st\<lparr>cp_visible := False\<rparr>, s, out), [])
         | Type_Password p \<Rightarrow> ((st\<lparr>cp_new_password := p\<rparr>, s, out), [])
         | Finish_Reset \<Rightarrow> (let (st', s', out', m) = on_finish_reset env st s out in ((st', s', out'), m))
         | Close_Reset \<Rightarrow> ((st\<lparr>cp_reset_visible := False\<rparr>, s, out), [])
         | Pick_File \<Rightarrow> ((st\<lparr>cp_file := True\<rparr>, s, out), [])
         | Run_Import ok \<Rightarrow> (let (st', m) = on_import ok st s in ((st', s, out), m))
         | Close_Import \<Rightarrow> ((st\<lparr>cp_import_visible := False\<rparr>, s, out), []))"

subsection \<open>Properties\<close>

lemma delete_appointments_contacts [simp]: "st_contacts (delete_appointments xs s) = st_contacts s"
  by (induction xs arbitrary: s) (simp_all add: svc_delete_appointment_def split_def Let_def)

lemma delete_contact_ctl_success:
  "body_status_success (fst (delete_contact_ctl i s)) \<longleftrightarrow> tbl_find c_id i (st_contacts s) \<noteq> None"
  by (simp add: delete_contact_ctl_def svc_delete_contact_def delete_contact_def get_contact_by_id_def
      body_status_success_def Let_def split_def split: option.split)

text \<open>Deleting from the page reports success exactly when the contact exists: the
  appointment loop of \<open>deleteContact\<close> leaves the contacts table alone.\<close>

lemma delete_message_iff_found:
  "snd (snd (on_delete_contact i st s)) =
     [if tbl_find c_id i (st_contacts s) \<noteq> None then Msg_Success ''successfully_deleted_the_contact''
      else Msg_Error ''something_went_wrong_please_try_again'']"
  by (simp add: on_delete_contact_def split_def delete_contact_ctl_success)

lemma credentials_never_success: "\<not> body_status_success (fst (send_contact_credentials_ctl env i pw s out))"
  by (simp add: send_contact_credentials_ctl_def body_status_success_def Let_def split_def split: option.split)

text \<open>The reset modal checks \<open>data.status === 'success'\<close>, but
  \<open>sendContactCredentials\<close> answers \<open>{messege, data}\<close> without a status.  So for any
  contact and non-empty password the page reports an error and keeps the modal open,
  whatever the request did to the store and the outbox.\<close>
lemma reset_reports_error:
  assumes "cp_editing st = Some i" "i \<noteq> []" "cp_new_password st \<noteq> []"
  shows "on_finish_reset env st s out =
           (st, fst (snd (send_contact_credentials_ctl env i (cp_new_password st) s out)),
            snd (snd (send_contact_credentials_ctl env i (cp_new_password st) s out)),
            [Msg_Error ''something_went_wrong_please_try_again''])"
  using assms credentials_never_success [of env i "cp_new_password st" s out]
  by (simp add: on_finish_reset_def split_def Let_def)

text \<open>\<open>Math.floor(Math.random() * n)\<close> is an index of a string of length \<open>n\<close>.\<close>

lemma random_index_bound:
  assumes "0 \<le> r" "r < 1" "cs \<noteq> []"
  shows "nat \<lfloor>r * real (length cs)\<rfloor> < length cs"
proof -
  have "r * real (length cs) < real (length cs)" using assms by simp
  then have "\<lfloor>r * real (length cs)\<rfloor> < int (length cs)" by linarith
  moreover have "0 \<le> \<lfloor>r * real (length cs)\<rfloor>" using assms by simp
  ultimately show ?thesis by (simp add: nat_less_iff)
qed

lemma get_random_char_mem: "0 \<le> r \<Longrightarrow> r < 1 \<Longrightarrow> cs \<noteq> [] \<Longrightarrow> get_random_char cs r \<in> set cs"
  by (simp add: get_random_char_def random_index_bound)

text \<open>C36. \<open>generatePassword\<close> (utils.ts) meets the password policy: the password
  has ten characters, its first four are a lower-case letter, a capital, a special
  character and a digit, and every character is of one of the four classes, whatever
  the random draws in \<open>[0, 1)\<close>; \<open>Math.floor(Math.random() * n)\<close> never reads past a
  character string.\<close>

theorem generate_password_policy:
  assumes "\<And>i. 0 \<le> rnd i \<and> rnd i < 1"
  shows "length (generate_password rnd) = 10 \<and>
         generate_password rnd ! 0 \<in> set lower_case_chars \<and> generate_password rnd ! 1 \<in> set upper_case_chars \<and>
         generate_password rnd ! 2 \<in> set special_chars \<and> generate_password rnd ! 3 \<in> set numeric_chars \<and>
         set (generate_password rnd) \<subseteq> set (lower_case_chars @ upper_case_chars @ special_chars @ numeric_chars)"
proof -
  have ne: "lower_case_chars \<noteq> []" "upper_case_chars \<noteq> []" "special_chars \<noteq> []" "numeric_chars \<noteq> []"
    by (simp_all add: lower_case_chars_def upper_case_chars_def special_chars_def numeric_chars_def)
  have m: "\<And>cs i. cs \<noteq> [] \<Longrightarrow> get_random_char cs (rnd i) \<in> set cs"
    using assms get_random_char_mem by blast
  have a: "get_random_char lower_case_chars (rnd 0) \<in> set lower_case_chars"
    "get_random_char upper_case_chars (rnd 1) \<in> set upper_case_chars"
    "get_random_char special_chars (rnd 2) \<in> set special_chars"
    "get_random_char numeric_chars (rnd 3) \<in> set numeric_chars"
    using m ne by blast+
  have b: "\<And>i. get_random_char (lower_case_chars @ upper_case_chars @ special_chars @ numeric_chars) (rnd i) \<in>
             set (lower_case_chars @ upper_case_chars @ special_chars @ numeric_chars)"
    using m [of "lower_case_chars @ upper_case_chars @ special_chars @ numeric_chars"] ne by blast
  show ?thesis using a b by (auto simp: generate_password_def)
qed

theorem generate_password_policy_witness:
  "length (generate_password (\<lambda>_. 0)) = 10 \<and> generate_password (\<lambda>_. 0) ! 3 \<in> set numeric_chars"
proof -
  have "\<And>i. 0 \<le> (\<lambda>_. 0 :: real) i \<and> (\<lambda>_. 0 :: real) i < 1" by simp
  from generate_password_policy [OF this] show ?thesis by blast
qed

subsection \<open>Instances\<close>

lemma reset_reports_error_scenario:
  "snd (snd (snd (on_finish_reset demo_env (contact_page_start\<lparr>cp_editing := Some ''1'', cp_new_password := ''neu''\<rparr>)
      demo_store []))) = [Msg_Error ''something_went_wrong_please_try_again''] \<and>
   tbl_find c_id ''1'' (st_contacts (fst (snd (on_finish_reset demo_env
      (contact_page_start\<lparr>cp_editing := Some ''1'', cp_new_password := ''neu''\<rparr>) demo_store [])))) \<noteq> None"
proof -
  note r = reset_reports_error [of "contact_page_start\<lparr>cp_editing := Some ''1'', cp_new_password := ''neu''\<rparr>" "''1''"
      demo_env demo_store "[]"]
  have "tbl_find c_id ''1'' (st_contacts (fst (snd (send_contact_credentials_ctl demo_env ''1'' ''neu'' demo_store [])))) \<noteq> None"
  proof -
    have f: "tbl_find c_id ''1'' anna_table = Some anna_contact" using demo_store_find by simp
    then show ?thesis
      by (simp add: send_contact_credentials_ctl_def svc_get_contact_by_id_def get_contact_by_id_def
          svc_update_contact_def update_contact_keeps_row split_def Let_def)
  qed
  with r show ?thesis by (simp add: contact_page_start_def)
qed

end
