(* ===== verification/User_Dao.thy ===== *)
theory User_Dao
  imports Sql_Table
begin

text \<open>
  \<open>UserDaoMySql\<close> (src/booking-backend-main/src/database-client/src/User/UserDaoMySql.ts):
  the \<open>users\<close> table with \<open>addUser\<close> and \<open>getUserByEmail\<close>, and the \<open>reset_tokens\<close>
  table with \<open>addToken\<close>, \<open>getToken\<close> and \<open>deleteToken\<close>.  The JSON columns
  \<open>channels\<close> and \<open>internal\<close> are kept as their JSON text (\<open>JSON.parse\<close> of
  \<open>JSON.stringify\<close> gives the object back); an absent one reads as \<open>{}\<close>.  Emails and
  tokens are compared under the case-insensitive collation, as every string comparison
  of the model.
\<close>

subsection \<open>Users\<close>

record user_row =
  u_id :: string
  u_name :: string
  u_email :: string
  u_password :: string
  u_phone_number :: string
  u_remarks :: "string option"
  u_role :: string
  u_channels :: "string option"
  u_internal :: "string option"
  u_token :: "string option"
  u_refresh_token :: "string option"

text \<open>The \<open>User\<close> object of \<open>mapUserRow\<close>.\<close>

record user =
  user_key :: string
  user_name :: string
  user_email :: string
  user_password :: string
  user_phone_number :: string
  user_remarks :: "string option"
  user_role :: string
  user_channels :: string
  user_internal :: string
  user_token :: "string option"
  user_refresh_token :: "string option"

text \<open>\<open>Partial<User>\<close>: every field may be \<open>undefined\<close>.\<close>

record user_input =
  ui_name :: "string option"
  ui_email :: "string option"
  ui_password :: "string option"
  ui_phone_number :: "string option"
  ui_remarks :: "string option"
  ui_role :: "string option"
  ui_channels :: "string option"
  ui_internal :: "string option"
  ui_token :: "string option"
  ui_refresh_token :: "string option"

definition empty_json :: string where
  "empty_json = ''{}''"

definition user_role_default :: string where
  "user_role_default = ''user''"

definition map_user_row :: "user_row \<Rightarrow> user" where
  "map_user_row r =
     \<lparr>user_key = u_id r, user_name = u_name r, user_email = u_email r, user_password = u_password r,
      user_phone_number = u_phone_number r, user_remarks = u_remarks r, user_role = u_role r,
      user_channels = defined_or (u_channels r) empty_json,
      user_internal = defined_or (u_internal r) empty_json,
      user_token = u_token r, user_refresh_token = u_refresh_token r\<rparr>"

text \<open>\<open>addUser\<close>: \<open>name\<close>, \<open>email\<close>, \<open>password\<close> and \<open>phone_number\<close> are bound as
  given, so an \<open>undefined\<close> one is refused by \<open>mysql2\<close>; the others default to
  \<open>null\<close> or \<open>'user'\<close>.  The row is read back by its \<open>insertId\<close>.\<close>

definition user_row_of ::
  "user_input \<Rightarrow> string \<Rightarrow> string \<Rightarrow> string \<Rightarrow> string \<Rightarrow> string \<Rightarrow> user_row" where
  "user_row_of ui n e p ph i =
     \<lparr>u_id = i, u_name = n, u_email = e, u_password = p, u_phone_number = ph,
      u_remarks = or_null (ui_remarks ui), u_role = or_default (ui_role ui) user_role_default,
      u_channels = ui_channels ui, u_internal = ui_internal ui,
      u_token = or_null (ui_token ui), u_refresh_token = or_null (ui_refresh_token ui)\<rparr>"

definition add_user :: "user_input \<Rightarrow> user_row table \<Rightarrow> dao_error + user \<times> user_row table" where
  "add_user ui t =
     (case (ui_name ui, ui_email ui, ui_password ui, ui_phone_number ui) of
        (Some n, Some e, Some p, Some ph) \<Rightarrow>
          (let (r, t') = tbl_insert (user_row_of ui n e p ph) t in Inr (map_user_row r, t'))
      | _ \<Rightarrow> Inl Undefined_Bind_Parameter)"

text \<open>\<open>SELECT * FROM users WHERE email = ? LIMIT 1\<close>.\<close>

definition get_user_by_email :: "string \<Rightarrow> user_row table \<Rightarrow> user option" where
  "get_user_by_email e t = map_option map_user_row (find (\<lambda>r. sql_str_eq (Some (u_email r)) e) (tbl_rows t))"

subsection \<open>Password reset tokens\<close>

record reset_token_row =
  rt_id :: string
  rt_token :: string
  rt_email :: string

record reset_token =
  reset_key :: string
  reset_token_value :: string
  reset_email :: string

definition map_reset_token_row :: "reset_token_row \<Rightarrow> reset_token" where
  "map_reset_token_row r = \<lparr>reset_key = rt_id r, reset_token_value = rt_token r, reset_email = rt_email r\<rparr>"

definition add_token :: "string \<Rightarrow> string \<Rightarrow> reset_token_row table \<Rightarrow> reset_token_row table" where
  "add_token tok e t = snd (tbl_insert (\<lambda>i. \<lparr>rt_id = i, rt_token = tok, rt_email = e\<rparr>) t)"

definition token_matches :: "string \<Rightarrow> reset_token_row \<Rightarrow> bool" where
  "token_matches tok r \<longleftrightarrow> sql_str_eq (Some (rt_token r)) tok"

definition get_token :: "string \<Rightarrow> reset_token_row table \<Rightarrow> reset_token option" where
  "get_token tok t = map_option map_reset_token_row (find (token_matches tok) (tbl_rows t))"

text \<open>\<open>DELETE FROM reset_tokens WHERE token = ?\<close>: every matching row.\<close>

definition delete_token :: "string \<Rightarrow> reset_token_row table \<Rightarrow> reset_token_row table" where
  "delete_token tok t = t\<lparr>tbl_rows := filter (\<lambda>r. \<not> token_matches tok r) (tbl_rows t)\<rparr>"


subsection \<open>Properties\<close>

lemma sql_str_eq_refl [simp]: "sql_str_eq (Some x) x"
  by (simp add: sql_str_eq_def)

lemma find_append_cases:
  "find P (xs @ ys) = (case find P xs of None \<Rightarrow> find P ys | Some x \<Rightarrow> Some x)"
  by (induction xs) auto

lemma add_user_error:
  "(\<exists>e. add_user ui t = Inl e) \<longleftrightarrow>
     ui_name ui = None \<or> ui_email ui = None \<or> ui_password ui = None \<or> ui_phone_number ui = None"
  by (auto simp: add_user_def Let_def split: option.splits prod.splits)

lemma add_user_Inr:
  "add_user ui t = Inr (u, t') \<longleftrightarrow>
     (\<exists>n e p ph. ui_name ui = Some n \<and> ui_email ui = Some e \<and> ui_password ui = Some p \<and>
        ui_phone_number ui = Some ph \<and> u = map_user_row (user_row_of ui n e p ph (nat_str (tbl_auto_inc t))) \<and>
        t' = snd (tbl_insert (user_row_of ui n e p ph) t))"
  by (auto simp: add_user_def tbl_insert_def Let_def split: option.splits)

lemma add_user_wf: "tbl_wf u_id t \<Longrightarrow> add_user ui t = Inr (u, t') \<Longrightarrow> tbl_wf u_id t'"
  by (auto simp: add_user_Inr tbl_insert_wf user_row_of_def)

text \<open>A new user reads back by its email when no earlier user has that email (up to
  case); the DAO itself does not check this.\<close>

lemma add_user_get:
  assumes add: "add_user ui t = Inr (u, t')"
    and fresh: "\<forall>r \<in> set (tbl_rows t). \<not> sql_str_eq (Some (u_email r)) (user_email u)"
  shows "get_user_by_email (user_email u) t' = Some u"
proof -
  obtain n e p ph where v: "ui_email ui = Some e" "u = map_user_row (user_row_of ui n e p ph (nat_str (tbl_auto_inc t)))"
    "t' = snd (tbl_insert (user_row_of ui n e p ph) t)"
    using add by (auto simp: add_user_Inr)
  have "find (\<lambda>r. sql_str_eq (Some (u_email r)) (user_email u)) (tbl_rows t) = None"
    using fresh by (simp add: find_None_iff)
  then show ?thesis
    using v by (simp add: get_user_by_email_def find_append_cases user_row_of_def map_user_row_def)
qed

lemma add_token_wf: "tbl_wf rt_id t \<Longrightarrow> tbl_wf rt_id (add_token tok e t)"
  by (simp add: add_token_def tbl_insert_wf)

lemma get_token_added:
  "get_token tok (add_token tok e t) \<noteq> None"
  by (simp add: get_token_def add_token_def token_matches_def find_append_cases split: option.split)

text \<open>A deleted token is gone, and the other tokens stay.\<close>

lemma get_token_deleted: "get_token tok (delete_token tok t) = None"
  by (simp add: get_token_def delete_token_def find_None_iff)

lemma find_filter_weaker:
  "(\<And>x. P x \<Longrightarrow> Q x) \<Longrightarrow> find P (filter Q xs) = find P xs"
  by (induction xs) auto

lemma get_token_delete_other:
  assumes "map ascii_lower tok \<noteq> map ascii_lower tok'"
  shows "get_token tok' (delete_token tok t) = get_token tok' t"
proof -
  have "\<And>r. token_matches tok' r \<Longrightarrow> \<not> token_matches tok r"
    using assms by (auto simp: token_matches_def sql_str_eq_def)
  then show ?thesis by (simp add: get_token_def delete_token_def find_filter_weaker)
qed

text \<open>Tokens are matched up to ASCII case.\<close>

lemma get_token_case: "get_token ''ABC'' (add_token ''abc'' e empty_table) \<noteq> None"
  by (simp add: get_token_def add_token_def token_matches_def sql_str_eq_def empty_table_def ascii_lower_def char_of_def bit_0)

end
