(* ===== verification/Db_Pool.thy ===== *)
theory Db_Pool
  imports Sql_Table
begin

text \<open>
  The connection layer: \<open>getMySQLConfig\<close>, the module-level pool singleton of
  src/booking-backend-main/src/database-client/src/mysqlClient.ts (\<open>getMySQLPool\<close>,
  \<open>closeMySQLPool\<close>, \<open>checkMySQLHealth\<close>), and the service containers of
  src/booking-backend-main/src/server/app/clients/index.ts, which take a pool when the
  module is loaded.  The pool singleton is a state machine: \<open>getMySQLPool\<close> creates a
  pool whenever there is none or the current one is not yet known to work, and the
  asynchronous check of a pool (\<open>pool.getConnection()\<close>) settles later as the events
  \<open>Init_Ok k\<close> or \<open>Init_Fail k\<close>, in any interleaving with the other calls.  Pools are
  numbered in creation order; a pool is open until \<open>closeMySQLPool\<close> ends it.
\<close>

subsection \<open>Configuration\<close>

record mysql_config =
  cfg_host :: string
  cfg_port :: js_num
  cfg_user :: string
  cfg_password :: string
  cfg_database :: string

text \<open>The \<open>mysql*\<close> entries of env.json and the \<open>MYSQL_*\<close> variables of the process
  (\<open>None\<close>: absent).  An env.json that cannot be loaded, or is \<open>null\<close>, is \<open>None\<close>.\<close>

record env_file =
  ef_host :: "string option"
  ef_port :: "string option"
  ef_user :: "string option"
  ef_password :: "string option"
  ef_database :: "string option"

record proc_env =
  pe_host :: "string option"
  pe_port :: "string option"
  pe_user :: "string option"
  pe_password :: "string option"
  pe_database :: "string option"

definition default_config :: "proc_env \<Rightarrow> mysql_config" where
  "default_config pe =
     \<lparr>cfg_host = or_default (pe_host pe) ''localhost'',
      cfg_port = js_parse_int (or_default (pe_port pe) ''3306''),
      cfg_user = or_default (pe_user pe) ''root'',
      cfg_password = or_default (pe_password pe) '''',
      cfg_database = or_default (pe_database pe) ''booking_db''\<rparr>"

text \<open>env.json is used when it names a host, a user or a database; each of its entries
  falls back to the process variable and then to the default.\<close>

definition get_mysql_config :: "env_file option \<Rightarrow> proc_env \<Rightarrow> mysql_config" where
  "get_mysql_config ef pe =
     (case ef of
        Some e \<Rightarrow>
          if js_truthy_str (ef_host e) \<or> js_truthy_str (ef_user e) \<or> js_truthy_str (ef_database e) then
            \<lparr>cfg_host = or_default (ef_host e) (or_default (pe_host pe) ''localhost''),
             cfg_port = js_parse_int (or_default (ef_port e) (or_default (pe_port pe) ''3306'')),
             cfg_user = or_default (ef_user e) (or_default (pe_user pe) ''root''),
             cfg_password = or_default (ef_password e) (or_default (pe_password pe) ''''),
             cfg_database = or_default (ef_database e) (or_default (pe_database pe) ''booking_db'')\<rparr>
          else default_config pe
      | None \<Rightarrow> default_config pe)"

subsection \<open>The pool singleton\<close>

text \<open>\<open>pool\<close> and \<open>poolInitialized\<close> of the module, the number of pools created so far
  (the number of the next one), the pools whose check has not settled, and the pools
  ended by \<open>closeMySQLPool\<close>.\<close>

record pool_state =
  ps_pool :: "nat option"
  ps_initialized :: bool
  ps_created :: nat
  ps_pending :: "nat list"
  ps_ended :: "nat list"

definition pool_start :: pool_state where
  "pool_start = \<lparr>ps_pool = None, ps_initialized = False, ps_created = 0, ps_pending = [], ps_ended = []\<rparr>"

text \<open>\<open>getMySQLPool\<close>: the pool it returns and the new state.\<close>

definition get_mysql_pool :: "pool_state \<Rightarrow> nat \<times> pool_state" where
  "get_mysql_pool s =
     (if ps_pool s = None \<or> \<not> ps_initialized s then
        (let k = ps_created s
         in (k, s\<lparr>ps_pool := Some k, ps_created := Suc k, ps_pending := ps_pending s @ [k]\<rparr>))
      else (the (ps_pool s), s))"

text \<open>The check of pool \<open>k\<close> settles: on success \<open>poolInitialized = true\<close>; on failure
  \<open>pool = null; poolInitialized = false\<close>.  Neither looks at which pool is current.
  The error rethrown in the failure branch is an unhandled rejection and is not
  modelled.\<close>

definition pool_init_ok :: "nat \<Rightarrow> pool_state \<Rightarrow> pool_state option" where
  "pool_init_ok k s =
     (if k \<in> set (ps_pending s) then Some (s\<lparr>ps_pending := removeAll k (ps_pending s), ps_initialized := True\<rparr>)
      else None)"

definition pool_init_fail :: "nat \<Rightarrow> pool_state \<Rightarrow> pool_state option" where
  "pool_init_fail k s =
     (if k \<in> set (ps_pending s)
      then Some (s\<lparr>ps_pending := removeAll k (ps_pending s), ps_pool := None, ps_initialized := False\<rparr>)
      else None)"

text \<open>\<open>closeMySQLPool\<close>: the current pool is ended (a failing \<open>end()\<close> resets the
  state the same way).  The call is taken to be atomic.\<close>

definition close_mysql_pool :: "pool_state \<Rightarrow> pool_state" where
  "close_mysql_pool s =
     (case ps_pool s of
        None \<Rightarrow> s
      | Some k \<Rightarrow> s\<lparr>ps_pool := None, ps_initialized := False, ps_ended := ps_ended s @ [k]\<rparr>)"

text \<open>\<open>checkMySQLHealth\<close>: it takes the pool (creating one if needed) and reports
  whether a connection answered the ping, which the model receives as \<open>up\<close>.\<close>

definition check_mysql_health :: "bool \<Rightarrow> pool_state \<Rightarrow> bool \<times> pool_state" where
  "check_mysql_health up s = (up, snd (get_mysql_pool s))"

datatype pool_event = Get_Pool | Init_Ok nat | Init_Fail nat | Close_Pool

text \<open>One event; \<open>None\<close> when it cannot happen (a check settles once).\<close>

fun pool_step :: "pool_event \<Rightarrow> pool_state \<Rightarrow> pool_state option" where
  "pool_step Get_Pool s = Some (snd (get_mysql_pool s))"
| "pool_step (Init_Ok k) s = pool_init_ok k s"
| "pool_step (Init_Fail k) s = pool_init_fail k s"
| "pool_step Close_Pool s = Some (close_mysql_pool s)"

fun pool_run :: "pool_event list \<Rightarrow> pool_state \<Rightarrow> pool_state option" where
  "pool_run [] s = Some s"
| "pool_run (e # es) s = (case pool_step e s of None \<Rightarrow> None | Some s' \<Rightarrow> pool_run es s')"

inductive pool_reachable :: "pool_state \<Rightarrow> bool" where
  start: "pool_reachable pool_start"
| step: "pool_reachable s \<Longrightarrow> pool_step e s = Some s' \<Longrightarrow> pool_reachable s'"

definition open_pools :: "pool_state \<Rightarrow> nat list" where
  "open_pools s = filter (\<lambda>k. k \<notin> set (ps_ended s)) [0..<ps_created s]"

text \<open>What every reachable state satisfies: the current pool and the pending ones were
  created, the current pool is not ended, and a pool is pending or ended at most once.\<close>

definition pool_wf :: "pool_state \<Rightarrow> bool" where
  "pool_wf s \<longleftrightarrow>
     (case ps_pool s of None \<Rightarrow> True | Some k \<Rightarrow> k < ps_created s \<and> k \<notin> set (ps_ended s)) \<and>
     (\<forall>k \<in> set (ps_pending s). k < ps_created s) \<and> distinct (ps_pending s) \<and>
     (\<forall>k \<in> set (ps_ended s). k < ps_created s) \<and> distinct (ps_ended s)"

subsection \<open>The service containers\<close>

text \<open>\<open>createContainer\<close>: every DAO of the container is built on the one pool it
  takes.  Loading clients/index.ts builds \<open>service\<close> and then \<open>serviceKalender\<close>.\<close>

record container =
  ct_pool :: nat

text \<open>\<open>getMySQL\<close> of server/app/clients/mysql/mysql.ts hands out the singleton.\<close>

definition get_mysql :: "pool_state \<Rightarrow> nat \<times> pool_state" where
  "get_mysql s = get_mysql_pool s"

definition create_container :: "pool_state \<Rightarrow> container \<times> pool_state" where
  "create_container s = (let (k, s') = get_mysql s in (\<lparr>ct_pool = k\<rparr>, s'))"

definition load_clients :: "pool_state \<Rightarrow> container \<times> container \<times> pool_state" where
  "load_clients s =
     (let (c1, s1) = create_container s; (c2, s2) = create_container s1 in (c1, c2, s2))"

text \<open>\<open>getService\<close> and \<open>getServiceKalender\<close>: the two containers built when the
  module is loaded.\<close>

definition get_service :: "container \<times> container \<times> pool_state \<Rightarrow> container" where
  "get_service cl = fst cl"

definition get_service_kalender :: "container \<times> container \<times> pool_state \<Rightarrow> container" where
  "get_service_kalender cl = fst (snd cl)"

text \<open>\<open>injectService\<close> (server/app/middlewares/serviceMiddleware.ts): a request whose
  \<open>x-user-role\<close> header is \<open>user\<close> is served by the second container, every other
  request, with or without the header, by the first.\<close>

definition inject_service :: "string option \<Rightarrow> container \<times> container \<times> pool_state \<Rightarrow> container" where
  "inject_service role cl =
     (if js_truthy_str role \<and> role = Some ''user'' then get_service_kalender cl else get_service cl)"

subsection \<open>Properties\<close>

lemma get_mysql_pool_wf: "pool_wf s \<Longrightarrow> pool_wf (snd (get_mysql_pool s))"
  by (auto simp: pool_wf_def get_mysql_pool_def Let_def less_Suc_eq split: option.splits)

lemma pool_init_ok_wf: "pool_wf s \<Longrightarrow> pool_init_ok k s = Some s' \<Longrightarrow> pool_wf s'"
  by (auto simp: pool_wf_def pool_init_ok_def distinct_removeAll split: if_splits option.splits)

lemma pool_init_fail_wf: "pool_wf s \<Longrightarrow> pool_init_fail k s = Some s' \<Longrightarrow> pool_wf s'"
  by (auto simp: pool_wf_def pool_init_fail_def distinct_removeAll split: if_splits option.splits)

lemma close_mysql_pool_wf: "pool_wf s \<Longrightarrow> pool_wf (close_mysql_pool s)"
  by (auto simp: pool_wf_def close_mysql_pool_def split: option.splits)

lemma pool_step_wf: "pool_wf s \<Longrightarrow> pool_step e s = Some s' \<Longrightarrow> pool_wf s'"
  by (cases e) (auto intro: get_mysql_pool_wf pool_init_ok_wf pool_init_fail_wf close_mysql_pool_wf)

lemma pool_reachable_wf: "pool_reachable s \<Longrightarrow> pool_wf s"
proof (induction rule: pool_reachable.induct)
  case start
  then show ?case by (simp add: pool_wf_def pool_start_def)
next
  case (step s e s')
  from step.IH step.hyps(2) show ?case by (rule pool_step_wf)
qed

lemma get_mysql_pool_initialized:
  "ps_initialized s \<Longrightarrow> ps_pool s = Some k \<Longrightarrow> get_mysql_pool s = (k, s)"
  by (simp add: get_mysql_pool_def)

lemma open_pools_get:
  assumes "pool_wf s" "\<not> ps_initialized s"
  shows "open_pools (snd (get_mysql_pool s)) = open_pools s @ [ps_created s]"
  using assms by (auto simp: open_pools_def get_mysql_pool_def pool_wf_def Let_def)

lemma get_mysql_pool_uninitialized:
  "\<not> ps_initialized s \<Longrightarrow> \<not> ps_initialized (snd (get_mysql_pool s)) \<and>
     ps_created (snd (get_mysql_pool s)) = Suc (ps_created s)"
  by (simp add: get_mysql_pool_def Let_def)

lemma open_pools_gets:
  assumes "pool_wf s" "\<not> ps_initialized s" "pool_run (replicate n Get_Pool) s = Some s'"
  shows "length (open_pools s') = length (open_pools s) + n"
  using assms
proof (induction n arbitrary: s)
  case 0
  then show ?case by simp
next
  case (Suc n)
  let ?s1 = "snd (get_mysql_pool s)"
  have "pool_wf ?s1" using pool_step_wf [OF Suc.prems(1), of Get_Pool] by simp
  moreover have "\<not> ps_initialized ?s1" using get_mysql_pool_uninitialized [OF Suc.prems(2)] by simp
  moreover have "pool_run (replicate n Get_Pool) ?s1 = Some s'" using Suc.prems(3) by simp
  ultimately have "length (open_pools s') = length (open_pools ?s1) + n" by (rule Suc.IH)
  then show ?case using open_pools_get [OF Suc.prems(1,2)] by simp
qed

lemma load_clients_start:
  "load_clients pool_start =
     (\<lparr>ct_pool = 0\<rparr>, \<lparr>ct_pool = 1\<rparr>,
      \<lparr>ps_pool = Some 1, ps_initialized = False, ps_created = 2, ps_pending = [0, 1], ps_ended = []\<rparr>)"
  by (simp add: load_clients_def create_container_def get_mysql_def get_mysql_pool_def pool_start_def Let_def)

lemma clients_pool_survives_close:
  "open_pools (close_mysql_pool (snd (snd (load_clients pool_start)))) = [0]"
  by (simp add: load_clients_start close_mysql_pool_def open_pools_def upt_rec)

text \<open>Customers (role \<open>user\<close>) and staff are served through different pools, both
  opened when the module is loaded.\<close>

lemma roles_use_different_pools:
  "role \<noteq> Some ''user'' \<Longrightarrow>
     ct_pool (inject_service (Some ''user'') (load_clients pool_start)) \<noteq>
     ct_pool (inject_service role (load_clients pool_start))"
  by (simp add: inject_service_def get_service_def get_service_kalender_def load_clients_start js_truthy_str_def)

lemma init_fail_of_old_pool:
  "pool_run [Get_Pool, Get_Pool, Init_Fail 0, Init_Ok 1] pool_start =
     Some \<lparr>ps_pool = None, ps_initialized = True, ps_created = 2, ps_pending = [], ps_ended = []\<rparr>"
  by (simp add: get_mysql_pool_def pool_start_def pool_init_ok_def pool_init_fail_def Let_def)

lemma get_mysql_config_defaults:
  "get_mysql_config None \<lparr>pe_host = None, pe_port = None, pe_user = None, pe_password = None, pe_database = None\<rparr> =
     \<lparr>cfg_host = ''localhost'', cfg_port = Some 3306, cfg_user = ''root'', cfg_password = '''',
      cfg_database = ''booking_db''\<rparr>"
  by (simp add: get_mysql_config_def default_config_def or_default_def js_truthy_str_def js_parse_int_eval)

lemma get_mysql_config_env_wins:
  "js_truthy_str (ef_host e) \<Longrightarrow> cfg_host (get_mysql_config (Some e) pe) = the (ef_host e)"
  by (simp add: get_mysql_config_def or_default_def)

text \<open>C26. Until a pool's connection check has succeeded, every \<open>getMySQLPool\<close> call
  creates another pool and drops the reference to the previous one without ending it:
  from any reachable state whose pool is not initialised, \<open>n\<close> calls leave \<open>n\<close> more
  pools open.  Loading clients/index.ts makes two such calls, so the two service
  containers run on two different pools.\<close>

theorem pool_leak:
  assumes "pool_reachable s" "\<not> ps_initialized s" "pool_run (replicate n Get_Pool) s = Some s'"
  shows "length (open_pools s') = length (open_pools s) + n"
  using open_pools_gets [OF pool_reachable_wf [OF assms(1)] assms(2,3)] .

theorem pool_leak_witness:
  "pool_run [Get_Pool, Get_Pool] pool_start = Some (snd (snd (load_clients pool_start))) \<and>
   ct_pool (fst (load_clients pool_start)) \<noteq> ct_pool (fst (snd (load_clients pool_start))) \<and>
   length (open_pools (snd (snd (load_clients pool_start)))) = 2"
proof -
  have r: "pool_run (replicate 2 Get_Pool) pool_start = Some (snd (snd (load_clients pool_start)))"
    unfolding load_clients_start by (simp add: get_mysql_pool_def pool_start_def Let_def numeral_2_eq_2)
  have "\<not> ps_initialized pool_start" by (simp add: pool_start_def)
  from pool_leak [OF pool_reachable.start this r] r show ?thesis
    unfolding load_clients_start by (simp add: open_pools_def pool_start_def numeral_2_eq_2)
qed

end
