(* ===== verification/Encryption.thy ===== *)
theory Encryption
  imports Time_Parse "HOL-Library.Word"
begin

text \<open>
  \<open>encrypt\<close> and \<open>decrypt\<close> of src/booking-backend-main/src/server/utils/encryption.ts:
  AES-256 in counter mode with a random 16-byte IV, the result written as
  \<open>hex(iv) ':' hex(ciphertext)\<close>, and the key of the configuration (64 hexadecimal digits
  taken as they are, any other string hashed with SHA-256).  The block cipher and the hash
  are parameters (\<open>aes\<close>, \<open>sha\<close>): the properties proved here hold for every block cipher,
  so nothing about AES itself is assumed.  Node's \<open>Buffer\<close> conversions are modelled as
  they behave: \<open>toString('hex')\<close> writes two lower-case digits per byte, and
  \<open>Buffer.from(s, 'hex')\<close> reads digit pairs up to the first pair that is not hexadecimal
  and ignores a trailing odd digit.  A string is identified with its UTF-8 bytes, one
  \<open>char\<close> per byte.
\<close>

unbundle bit_operations_syntax

type_synonym byte = "8 word"

subsection \<open>Hexadecimal encoding of buffers\<close>

definition hex_digit :: "nat \<Rightarrow> char" where
  "hex_digit n = char_of (if n < 10 then 48 + n else 87 + n)"

definition hex_byte :: "byte \<Rightarrow> string" where
  "hex_byte b = [hex_digit (unat b div 16), hex_digit (unat b mod 16)]"

text \<open>\<open>buf.toString('hex')\<close>.\<close>

definition hex_encode :: "byte list \<Rightarrow> string" where
  "hex_encode bs = concat (map hex_byte bs)"

text \<open>The value of one hexadecimal digit, either case.\<close>

definition unhex :: "char \<Rightarrow> nat option" where
  "unhex c =
     (let n = of_char c :: nat
      in if 48 \<le> n \<and> n \<le> 57 then Some (n - 48)
         else if 97 \<le> n \<and> n \<le> 102 then Some (n - 87)
         else if 65 \<le> n \<and> n \<le> 70 then Some (n - 55)
         else None)"

text \<open>\<open>Buffer.from(s, 'hex')\<close>: decoding stops at the first pair with a non-digit.\<close>

fun hex_decode :: "string \<Rightarrow> byte list" where
  "hex_decode (a # b # rest) =
     (case (unhex a, unhex b) of
        (Some x, Some y) \<Rightarrow> of_nat (16 * x + y) # hex_decode rest
      | _ \<Rightarrow> [])"
| "hex_decode _ = []"

text \<open>A string as its bytes and back (\<open>'utf8'\<close> on one-byte characters).\<close>

definition bytes_of_string :: "string \<Rightarrow> byte list" where
  "bytes_of_string s = map (\<lambda>c. of_nat (of_char c)) s"

definition string_of_bytes :: "byte list \<Rightarrow> string" where
  "string_of_bytes bs = map (\<lambda>b. char_of (unat b)) bs"

subsection \<open>AES-256-CTR\<close>

text \<open>Big-endian conversion between byte strings and numbers: the IV read as the
  initial 128-bit counter, and a 128-bit block written as 16 bytes.\<close>

definition be_nat :: "byte list \<Rightarrow> nat" where
  "be_nat bs = foldl (\<lambda>n b. 256 * n + unat b) 0 bs"

fun nat_be :: "nat \<Rightarrow> nat \<Rightarrow> byte list" where
  "nat_be 0 n = []"
| "nat_be (Suc k) n = nat_be k (n div 256) @ [of_nat (n mod 256)]"

text \<open>Counter block \<open>i\<close> is the IV plus \<open>i\<close>, modulo \<open>2^128\<close> (the whole block is the
  counter in OpenSSL's CTR mode); its encryption is 16 bytes of key stream.\<close>

type_synonym block_cipher = "byte list \<Rightarrow> 128 word \<Rightarrow> 128 word"

definition ctr_block :: "block_cipher \<Rightarrow> byte list \<Rightarrow> byte list \<Rightarrow> nat \<Rightarrow> byte list" where
  "ctr_block aes key iv i = nat_be 16 (unat (aes key (of_nat (be_nat iv) + of_nat i)))"

definition ctr_keystream :: "block_cipher \<Rightarrow> byte list \<Rightarrow> byte list \<Rightarrow> nat \<Rightarrow> byte list" where
  "ctr_keystream aes key iv n = concat (map (ctr_block aes key iv) [0..<(n + 15) div 16])"

text \<open>\<open>cipher.update(data)\<close> followed by \<open>cipher.final()\<close>: the data XOR the key stream
  (\<open>final\<close> adds nothing in a stream mode).  Encryption and decryption are the same
  operation.\<close>

definition crypt_ctr :: "block_cipher \<Rightarrow> byte list \<Rightarrow> byte list \<Rightarrow> byte list \<Rightarrow> byte list" where
  "crypt_ctr aes key iv d = map2 (XOR) d (ctr_keystream aes key iv (length d))"

subsection \<open>The key\<close>

datatype crypto_error = Key_Not_Configured | Encrypt_Failed | Decrypt_Failed

text \<open>\<open>/^[0-9a-fA-F]{64}$/\<close>.\<close>

definition is_hex_key :: "string \<Rightarrow> bool" where
  "is_hex_key s \<longleftrightarrow> length s = 64 \<and> list_all (\<lambda>c. unhex c \<noteq> None) s"

text \<open>\<open>getEncryptionKey\<close>, run once when the module is loaded: an absent or empty
  \<open>encryption_key\<close> throws, 64 hexadecimal digits are the key, any other string is
  hashed.\<close>

definition get_encryption_key :: "(string \<Rightarrow> byte list) \<Rightarrow> string option \<Rightarrow> crypto_error + byte list" where
  "get_encryption_key sha raw =
     (case raw of
        None \<Rightarrow> Inl Key_Not_Configured
      | Some s \<Rightarrow> if s = [] then Inl Key_Not_Configured
                  else if is_hex_key s then Inr (hex_decode s) else Inr (sha s))"

text \<open>\<open>createCipheriv\<close>/\<open>createDecipheriv\<close> refuse a key that is not 32 bytes or an
  IV that is not 16 bytes.\<close>

definition cipher_params_ok :: "byte list \<Rightarrow> byte list \<Rightarrow> bool" where
  "cipher_params_ok key iv \<longleftrightarrow> length key = 32 \<and> length iv = 16"

subsection \<open>encrypt and decrypt\<close>

text \<open>\<open>encrypt(text)\<close> with the IV \<open>crypto.randomBytes(16)\<close> given as an argument: an
  empty text is returned as it is; an exception of the cipher becomes
  \<open>Failed to encrypt data\<close>.\<close>

definition encrypt :: "block_cipher \<Rightarrow> byte list \<Rightarrow> byte list \<Rightarrow> string \<Rightarrow> crypto_error + string" where
  "encrypt aes key iv text =
     (if text = [] then Inr text
      else if \<not> cipher_params_ok key iv then Inl Encrypt_Failed
      else Inr (hex_encode iv @ '':'' @ hex_encode (crypt_ctr aes key iv (bytes_of_string text))))"

text \<open>\<open>decrypt(text)\<close>: an empty text is returned as it is; a text that does not split
  into exactly two parts at \<open>:\<close>, or whose IV does not decode to 16 bytes, throws, and
  every exception becomes \<open>Failed to decrypt data\<close>.\<close>

definition decrypt :: "block_cipher \<Rightarrow> byte list \<Rightarrow> string \<Rightarrow> crypto_error + string" where
  "decrypt aes key text =
     (if text = [] then Inr text
      else (let parts = split_on (CHR '':'') text
            in if length parts \<noteq> 2 then Inl Decrypt_Failed
               else (let iv = hex_decode (parts ! 0); ct = hex_decode (parts ! 1)
                     in if \<not> cipher_params_ok key iv then Inl Decrypt_Failed
                        else Inr (string_of_bytes (crypt_ctr aes key iv ct)))))"

subsection \<open>Properties\<close>

lemma unhex_hex_digit [simp]: "n < 16 \<Longrightarrow> unhex (hex_digit n) = Some n"
  by (simp add: unhex_def hex_digit_def Let_def)

lemma hex_digit_not_colon [simp]: "n < 16 \<Longrightarrow> hex_digit n \<noteq> CHR '':''"
proof
  assume "n < 16" "hex_digit n = CHR '':''"
  then have "of_char (hex_digit n) = (58::nat)" by simp
  with \<open>n < 16\<close> show False by (simp add: hex_digit_def split: if_splits)
qed

lemma unat_byte_bound: "unat (b :: byte) < 256"
  using unsigned_less [of b] by simp

lemma byte_nibbles_bound [simp]: "unat (b :: byte) div 16 < 16" "unat b mod 16 < 16"
  using unat_byte_bound [of b] by simp_all

lemma byte_of_hex_pair [simp]: "(of_nat (16 * (unat b div 16) + unat b mod 16) :: byte) = b"
  by simp

lemma hex_decode_hex_byte: "hex_decode (hex_byte b @ rest) = b # hex_decode rest"
  by (simp add: hex_byte_def)

lemma hex_decode_encode: "hex_decode (hex_encode bs) = bs"
  by (induction bs) (simp_all add: hex_encode_def hex_decode_hex_byte [simplified append_Cons append_Nil])

lemma length_hex_encode: "length (hex_encode bs) = 2 * length bs"
  by (induction bs) (simp_all add: hex_encode_def hex_byte_def)

lemma colon_not_in_hex_encode: "CHR '':'' \<notin> set (hex_encode bs)"
  by (auto simp: hex_encode_def hex_byte_def dest: sym)

lemma length_nat_be [simp]: "length (nat_be k n) = k"
  by (induction k arbitrary: n) auto

lemma length_ctr_keystream: "length (ctr_keystream aes key iv n) = 16 * ((n + 15) div 16)"
proof -
  have "length (ctr_keystream aes key iv n) = sum_list (map (\<lambda>i. 16) [0..<(n + 15) div 16])"
    by (simp add: ctr_keystream_def length_concat ctr_block_def comp_def)
  then show ?thesis by (simp add: sum_list_triv)
qed

lemma ctr_keystream_long: "n \<le> length (ctr_keystream aes key iv n)"
  unfolding length_ctr_keystream by linarith

lemma xor_twice: "length d \<le> length ks \<Longrightarrow> map2 (XOR) (map2 (XOR) d ks) ks = (d :: byte list)"
  by (induction d arbitrary: ks) (auto simp: Suc_le_length_iff word_bw_assocs)

lemma length_crypt_ctr [simp]: "length (crypt_ctr aes key iv d) = length d"
  using ctr_keystream_long [of "length d" aes key iv] by (simp add: crypt_ctr_def)

lemma crypt_ctr_twice: "crypt_ctr aes key iv (crypt_ctr aes key iv d) = d"
  using xor_twice [OF ctr_keystream_long] ctr_keystream_long [of "length d" aes key iv]
  by (simp add: crypt_ctr_def min_absorb1)

lemma string_of_bytes_of_string: "string_of_bytes (bytes_of_string s) = s"
proof -
  have "char_of (unat (of_nat (of_char c) :: byte)) = c" for c
    using of_char_mod_256 [of c] by (simp add: unat_of_nat)
  then show ?thesis by (simp add: string_of_bytes_def bytes_of_string_def comp_def map_idI)
qed

text \<open>C4. Round trip: with a 32-byte key and a 16-byte IV, \<open>encrypt\<close> succeeds and
  \<open>decrypt\<close> of its result gives the text back, for every block cipher and every text
  (the empty text included, which both return unchanged).\<close>
theorem decrypt_encrypt:
  assumes "cipher_params_ok key iv"
  shows "\<exists>c. encrypt aes key iv t = Inr c \<and> decrypt aes key c = Inr t"
proof (cases "t = []")
  case True then show ?thesis by (simp add: encrypt_def decrypt_def)
next
  case False
  let ?c = "crypt_ctr aes key iv (bytes_of_string t)"
  have split: "split_on (CHR '':'') (hex_encode iv @ CHR '':'' # hex_encode ?c) = [hex_encode iv, hex_encode ?c]"
    by (simp add: split_on_sep split_on_no_sep colon_not_in_hex_encode)
  have "hex_encode iv @ '':'' @ hex_encode ?c \<noteq> []" by simp
  with False assms show ?thesis
    by (simp add: encrypt_def decrypt_def split hex_decode_encode crypt_ctr_twice string_of_bytes_of_string)
qed

text \<open>Errors: a non-empty text without a colon is refused; a ciphertext part that is
  not hexadecimal decodes to nothing and is decrypted to the empty string.\<close>

lemma decrypt_no_colon:
  assumes "t \<noteq> []" "CHR '':'' \<notin> set t"
  shows "decrypt aes key t = Inl Decrypt_Failed"
  using assms by (simp add: decrypt_def split_on_no_sep)

lemma decrypt_non_hex_ciphertext:
  assumes "cipher_params_ok key iv" "CHR '':'' \<notin> set s" "hex_decode s = []"
  shows "decrypt aes key (hex_encode iv @ CHR '':'' # s) = Inr []"
  using assms by (simp add: decrypt_def split_on_sep split_on_no_sep colon_not_in_hex_encode
      hex_decode_encode crypt_ctr_def string_of_bytes_def)

lemma length_hex_decode_digits:
  "list_all (\<lambda>c. unhex c \<noteq> None) s \<Longrightarrow> length (hex_decode s) = length s div 2"
  by (induction s rule: hex_decode.induct) auto

lemma get_encryption_key_hex:
  assumes "is_hex_key s"
  shows "get_encryption_key sha (Some s) = Inr (hex_decode s) \<and> length (hex_decode s) = 32"
  using assms length_hex_decode_digits [of s] by (auto simp: get_encryption_key_def is_hex_key_def)

lemma length_encrypt:
  "cipher_params_ok key iv \<Longrightarrow> t \<noteq> [] \<Longrightarrow> encrypt aes key iv t = Inr c \<Longrightarrow> length c = 33 + 2 * length t"
  by (auto simp: encrypt_def cipher_params_ok_def length_hex_encode bytes_of_string_def)

subsection \<open>Instances\<close>

theorem decrypt_encrypt_witness:
  "cipher_params_ok (replicate 32 7) (replicate 16 1) \<and>
   (\<exists>c. encrypt (\<lambda>k b. b XOR 0x5A) (replicate 32 7) (replicate 16 1) ''smtp-pass'' = Inr c \<and>
        decrypt (\<lambda>k b. b XOR 0x5A) (replicate 32 7) c = Inr ''smtp-pass'')"
  using decrypt_encrypt [of "replicate 32 7" "replicate 16 1" "\<lambda>k b. b XOR 0x5A" "''smtp-pass''"]
  by (simp add: cipher_params_ok_def)

end
