(* ===== verification/Email_Transport.thy ===== *)
theory Email_Transport
  imports Encryption Email_Dao
begin

text \<open>
  \<open>EmailService.sendMail\<close> (src/booking-backend-main/src/server/app/email/EmailService.ts)
  down to the transport: the newest e-mail configuration, its stored password
  decrypted with \<open>decrypt\<close> of \<open>Encryption\<close>, the \<open>nodemailer\<close> options built from
  it, and the delivery.  The transport is a parameter that accepts or rejects a message
  (SMTP itself is not modelled).  Every failure is caught and logged and the call
  answers \<open>null\<close>.  \<open>Email_Dao.send_mail\<close>, which the controllers use, is the
  abstraction that assumes decryption and delivery succeed; the lemmas below relate
  the two.
\<close>

text \<open>The \<open>createTransport\<close> options that depend on the configuration.\<close>

record smtp_options =
  smtp_host :: string
  smtp_port :: int
  smtp_secure :: bool
  smtp_user :: string
  smtp_pass :: string

definition smtp_options_of :: "email_config \<Rightarrow> string \<Rightarrow> smtp_options" where
  "smtp_options_of c pw =
     \<lparr>smtp_host = ec_server c, smtp_port = ec_port c, smtp_secure = ec_ssl_enabled c,
      smtp_user = ec_username c, smtp_pass = pw\<rparr>"

text \<open>\<open>transporter.sendMail\<close>: the message id of a delivered message, or \<open>None\<close>
  when the transport rejects it.\<close>

text \<open>A configuration as the settings page submits it.\<close>

definition demo_config_input :: config_input where
  "demo_config_input =
     \<lparr>cfi_sender = Some ''info@example.at'', cfi_server = Some ''smtp.example.at'', cfi_username = Some ''info'',
      cfi_password = Some ''secret'', cfi_port = Some (Port_Num 587), cfi_ssl_enabled = Some False\<rparr>"

type_synonym 'b transport = "smtp_options \<Rightarrow> 'b mail \<Rightarrow> string option"

definition send_mail_smtp ::
  "block_cipher \<Rightarrow> byte list \<Rightarrow> 'b transport \<Rightarrow> email_config table \<Rightarrow> string \<Rightarrow> string \<Rightarrow> 'b \<Rightarrow>
     'b mail list \<Rightarrow> string option \<times> 'b mail list" where
  "send_mail_smtp aes key deliver cfg to subj html out =
     (case get_email_config cfg of
        [] \<Rightarrow> (None, out)
      | c # _ \<Rightarrow>
          (case decrypt aes key (ec_password c) of
             Inl _ \<Rightarrow> (None, out)
           | Inr pw \<Rightarrow>
               (let m = \<lparr>mail_from = ec_sender c, mail_to = to, mail_subject = subj, mail_html = html\<rparr>
                in case deliver (smtp_options_of c pw) m of
                     None \<Rightarrow> (None, out)
                   | Some info \<Rightarrow> (Some info, out @ [m]))))"

subsection \<open>Properties\<close>

text \<open>Refinement of the outbox model: the full \<open>sendMail\<close> either sends nothing or
  exactly the message \<open>send_mail\<close> appends, and it sends it when the password
  decrypts and the transport accepts the message.\<close>

lemma send_mail_smtp_outbox:
  "snd (send_mail_smtp aes key deliver cfg to subj html out) = out \<or>
   snd (send_mail_smtp aes key deliver cfg to subj html out) = send_mail cfg to subj html out"
  by (auto simp: send_mail_smtp_def send_mail_def Let_def split: list.split sum.split option.split)

lemma send_mail_smtp_delivered:
  assumes "get_email_config cfg = c # cs" "decrypt aes key (ec_password c) = Inr pw"
    and "deliver (smtp_options_of c pw) \<lparr>mail_from = ec_sender c, mail_to = to, mail_subject = subj, mail_html = html\<rparr> = Some info"
  shows "send_mail_smtp aes key deliver cfg to subj html out = (Some info, send_mail cfg to subj html out)"
  using assms by (simp add: send_mail_smtp_def send_mail_def)

lemma get_email_config_added:
  "add_email_config ci t = Inr (c, t') \<Longrightarrow> get_email_config t' = c # get_email_config t"
  by (auto simp: add_email_config_def get_email_config_def newest_first_def tbl_insert_def Let_def
      split: if_splits)

text \<open>C14. No code path calls \<open>encrypt\<close>: \<open>addEmailConfig\<close> stores the password
  as it is given, while \<open>sendMail\<close> decrypts it.  After a configuration with a
  password without a colon is added, every \<open>sendMail\<close> fails in \<open>decrypt\<close>, is caught,
  answers \<open>null\<close> and sends nothing, whatever the transport.\<close>
theorem plain_password_never_sends:
  assumes "add_email_config ci t = Inr (c, t')" "CHR '':'' \<notin> set (ec_password c)"
  shows "send_mail_smtp aes key deliver t' to subj html out = (None, out)"
proof -
  have "ec_password c \<noteq> []"
    using assms(1) by (auto simp: add_email_config_def js_truthy_str_def tbl_insert_def Let_def split: if_splits option.splits)
  with assms show ?thesis
    by (simp add: send_mail_smtp_def get_email_config_added decrypt_no_colon)
qed

subsection \<open>Instances\<close>

theorem plain_password_never_sends_witness:
  "(case add_email_config demo_config_input empty_table of
      Inr (c, t') \<Rightarrow> CHR '':'' \<notin> set (ec_password c) \<and>
         send_mail_smtp (\<lambda>k b. b) (replicate 32 0) (\<lambda>opts m. Some ''250 OK'') t' ''anna@example.at'' ''Termin'' ''x'' [] =
           (None, [])
    | Inl _ \<Rightarrow> False)"
proof -
  obtain c t' where a: "add_email_config demo_config_input empty_table = Inr (c, t')"
    by (simp add: add_email_config_def demo_config_input_def js_truthy_str_def port_number_def valid_port_def
        Let_def tbl_insert_def)
  have p: "ec_password c = ''secret''"
    using a by (auto simp: add_email_config_def demo_config_input_def js_truthy_str_def port_number_def
        valid_port_def Let_def tbl_insert_def)
  have "CHR '':'' \<notin> set (ec_password c)" unfolding p by simp
  with plain_password_never_sends [OF a this] show ?thesis
    by (simp add: a p)
qed

end
