(* ===== verification/Express_App.thy ===== *)
theory Express_App
  imports Calendar_Prelude
begin

text \<open>
  The Express application of src/booking-backend-main/src/server/app/app.ts: the
  middleware stack in the order \<open>app.use\<close> installs it, the port setting, the
  optional Firebase initialisation, and the route of
  server/app/schedule/locationAwareResource.ts, the only resource module in the
  sources.  A request passes the stack front to back; what the other resource modules
  register is not known here, so their routes are left abstract.
\<close>

subsection \<open>The stack\<close>

datatype api_module =
    Auth_Api | Category_Api | Appointment_Api | Contact_Api | Calendar_Api | Schedule_Api
  | Location_Aware_Api | Email_Api | File_Api

datatype middleware =
    Helmet_Frameguard_Deny
  | Cors_Any_Origin
  | Cookie_Parser
  | File_Upload nat
  | Json_Body
  | Urlencoded_Body
  | Rate_Limiter
  | Swagger_Docs string
  | Status_Up
  | Api_Router string "api_module list"
  | Error_Handler

text \<open>\<open>limits: { fileSize: 50 * 1024 * 1024 * 100000 }\<close>, in bytes.\<close>

definition upload_size_limit :: nat where
  "upload_size_limit = 50 * 1024 * 1024 * 100000"

definition api_modules :: "api_module list" where
  "api_modules = [Auth_Api, Category_Api, Appointment_Api, Contact_Api, Calendar_Api, Schedule_Api,
                  Location_Aware_Api, Email_Api, File_Api]"

text \<open>The stack for the configured \<open>env\<close>: the documentation only in development.\<close>

definition app_stack :: "string \<Rightarrow> middleware list" where
  "app_stack env =
     [Helmet_Frameguard_Deny, Cors_Any_Origin, Cookie_Parser, File_Upload upload_size_limit,
      Json_Body, Urlencoded_Body, Rate_Limiter] @
     (if env = ''development'' then [Swagger_Docs ''/app/docs-yuop!''] else []) @
     [Status_Up, Api_Router ''/api'' api_modules, Error_Handler]"

text \<open>\<open>process.env.PORT || 11700\<close>.\<close>

definition app_port :: "string option \<Rightarrow> string" where
  "app_port p = (if js_truthy_str p then the p else ''11700'')"

text \<open>Firebase is initialised only when the three credentials are truthy.\<close>

definition firebase_enabled :: "string option \<Rightarrow> string option \<Rightarrow> string option \<Rightarrow> bool" where
  "firebase_enabled project email key \<longleftrightarrow> js_truthy_str project \<and> js_truthy_str email \<and> js_truthy_str key"

text \<open>\<open>locationAwareResource.configure\<close>.\<close>

definition location_aware_route :: "string \<times> string" where
  "location_aware_route = (''GET'', ''/appointments/suggest_location_timeslots'')"

text \<open>The middleware that answers a request for a path: the first in the stack whose
  mount path is a prefix of the request path and that ends the request (the parsers,
  the limiter and the headers pass it on).  \<open>None\<close>: no route answers, Express
  answers 404.\<close>

text \<open>\<open>app.use(p, ...)\<close> matches the path \<open>p\<close> and every path below it.\<close>

definition mount_matches :: "string \<Rightarrow> string \<Rightarrow> bool" where
  "mount_matches p path \<longleftrightarrow> path = p \<or> take (length p + 1) path = p @ ''/''"

definition answers :: "string \<Rightarrow> middleware \<Rightarrow> bool" where
  "answers path m =
     (case m of
        Swagger_Docs p \<Rightarrow> mount_matches p path
      | Status_Up \<Rightarrow> path = ''/''
      | Api_Router p _ \<Rightarrow> mount_matches p path
      | _ \<Rightarrow> False)"

definition first_answer :: "string \<Rightarrow> middleware list \<Rightarrow> middleware option" where
  "first_answer path ms = find (answers path) ms"

subsection \<open>Properties\<close>

text \<open>The upload limit is about 4.8 TiB: in effect there is none.\<close>

lemma upload_size_limit_value: "upload_size_limit = 5242880000000 \<and> upload_size_limit > 2 ^ 42"
  by (simp add: upload_size_limit_def)



text \<open>The error handler is the last middleware of the stack.\<close>

lemma error_handler_last: "last (app_stack env) = Error_Handler"
  by (simp add: app_stack_def)

text \<open>The location-aware endpoint is reached under \<open>/api\<close>, in every environment.\<close>

lemma location_route_answered:
  "first_answer (''/api'' @ snd location_aware_route) (app_stack env) = Some (Api_Router ''/api'' api_modules)"
  by (simp add: first_answer_def app_stack_def answers_def location_aware_route_def mount_matches_def)

end
