(* ===== verification/Spec2Isabelle.thy ===== *)
theory Spec2Isabelle
  imports Location_Scoring Appointment_Page Contact_Page User_Dao Db_Pool Email_Transport Express_App
begin

text \<open>
  \<^bold>\<open>Services-Calendar-Mysql: availability engine, backend and booking pages.\<close>

  \<^emph>\<open>The program.\<close>  A booking backend (src/booking-backend-main) computes the free
  appointment slots of field technicians ("calendars").  The request
  \<open>GET /timeslots\<close> reaches \<open>AppointmentsService.getTimeSlots\<close>
  (server/app/appointment/AppointmentsService.ts), which reads the working-hours rules
  of the day through \<open>ScheduleDaoMySql.getScheduleByDate\<close>, generates fixed-length
  slots per rule in \<open>calculateTimeSlots\<close> (parsing wall-clock strings with
  \<open>parseTime\<close>), reads the day's appointments through
  \<open>AppointmentDaoMySql.getAppointments\<close>, removes slots that overlap a Confirmed
  appointment in \<open>filterBookedAppointments\<close>, and removes slots that started more
  than five minutes ago.  Around this engine, MySQL DAOs (database-client/src) keep the
  tables, services and controllers (server/app) answer the HTTP requests and send
  mail, a connection layer hands out the pool, and two React pages of the frontend
  (src/booking-frontend-main) show the slots and appointments and manage the contacts.

  \<^emph>\<open>Library layout.\<close>
  \<^item> \<open>Calendar_Prelude\<close>: instants as JavaScript time values (ms since the epoch),
    \<open>NaN\<close>-aware numbers (\<open>int option\<close>) and dates (\<open>instant option\<close>), the UTC
    getters and setters of \<open>Date\<close>, weekday names, and the arithmetic of instants
    written as a day-aligned instant plus minutes (collection \<open>date_simps\<close>).
  \<^item> \<open>Time_Parse\<close>: \<open>parseTime\<close> with the runtime's \<open>split\<close>, \<open>Number\<close> and
    \<open>toLowerCase\<close>.
  \<^item> \<open>Slot_Generator\<close>: \<open>ExtendedSchedule\<close> as the record \<open>ext_schedule\<close>, a slot as
    \<open>time_slot\<close>, the \<open>while\<close> loop of \<open>calculateTimeSlots\<close> as
    \<^theory_text>\<open>partial_function (option)\<close> \<open>slot_loop\<close> (\<open>None\<close>: the loop never exits),
    one rule as \<open>rule_slots\<close>, the weekly/certain selection and the two \<open>for\<close> loops
    as \<open>calculate_time_slots\<close>; the abstract specification \<open>fixed_windows\<close> of one
    rule's slots.
  \<^item> \<open>Appointment_Model\<close>: contacts, appointments, their table rows, and the
    appointment queries as a join over the tables (\<open>get_appointments\<close>).
  \<^item> \<open>Booking_Filter\<close>: \<open>filterBookedAppointments\<close> (\<open>is_booked\<close> with its
    \<open>break\<close>, \<open>filter_booked_appointments\<close>) and the past-time filter.
  \<^item> \<open>Sql_Table\<close>: a MySQL table with an \<open>AUTO_INCREMENT\<close> id as the record
    \<open>'r table\<close> (rows in insertion order and the counter), its \<open>INSERT\<close>,
    \<open>SELECT ... WHERE id = ?\<close>, \<open>UPDATE\<close>, \<open>DELETE\<close>, \<open>ORDER BY created_at DESC\<close>
    and \<open>LIMIT/OFFSET\<close>; the invariant \<open>tbl_wf\<close> (distinct ids, each the decimal
    string of a value the counter handed out); ids as \<open>toString()\<close>
    (\<open>nat_str\<close>, with its round trip through \<open>digits_value\<close>); the JavaScript
    defaults \<open>x || null\<close>, \<open>x ?? d\<close>, \<open>x !== undefined\<close>; MySQL \<open>LIKE\<close> under the
    case-insensitive collation (\<open>like_match\<close>) and the search pattern
    \<open>%term%\<close>; the DAO errors as the datatype \<open>dao_error\<close>.
  \<^item> \<open>Schedule_Dao\<close>: ScheduleDaoMySql, the rule query \<open>getScheduleByDate\<close> joining
    schedules and calendars, and the CRUD operations with the step function
    \<open>schedule_step\<close>.
  \<^item> \<open>Category_Dao\<close>: CategoryDaoMySql, the services lookup of the engine and the full
    catalogue: \<open>addCategory\<close> and \<open>updateCategory\<close> in a transaction
    (\<open>insert_services\<close> stops at the first failing insert, \<open>rollback\<close> restores the
    rows but not the counters), the search over the \<open>LEFT JOIN\<close> of services, the
    cascading \<open>deleteCategory\<close>, \<open>getServices\<close>; the invariant
    \<open>category_db_wf\<close>, preserved by every write.
  \<^item> \<open>Calendar_Dao\<close>: CalendarDaoMySql, the full \<open>calendars\<close> row extending the
    columns the schedule join reads, and every method of the DAO.
  \<^item> \<open>Contact_Dao\<close>: ContactDaoMySql over the full \<open>contacts\<close> row: insert, the
    reads by id and by email, the paginated search and its count, update and delete.
  \<^item> \<open>Appointment_Dao\<close>: AppointmentDaoMySql over the full rows: \<open>addAppointment\<close>
    with its validation (\<open>appointment_error\<close>) and its insert-then-read, the joined
    reads, update, delete, \<open>getDueReminderAppointments\<close> (dates through the
    days-to-civil conversion \<open>civil_from_days\<close>), and
    \<open>ContactDaoMySql.getContactsWithAppointments\<close>.
  \<^item> \<open>Availability\<close>: the database as a record of tables (\<open>db\<close>) and
    \<open>getTimeSlots\<close> as \<open>get_time_slots\<close>, composed of the queries and filters above.
  \<^item> \<open>Geo\<close>: utils/geospatial.ts, the Haversine \<open>calculateDistance\<close> over the
    reals, the district table and \<open>geocodeAddress\<close> with the HTTP call as a parameter.
  \<^item> \<open>Location_Scoring\<close>: LocationAwareService (\<open>resolveCoordinates\<close>,
    \<open>getAvailableSlotsWithLocationScore\<close>) with the geocoder as a parameter, and
    the endpoint \<open>LocationAwareController.getSuggestedLocationTimeSlots\<close> with its
    400/200/500 answers as the datatype \<open>suggest_response\<close>.
  \<^item> \<open>Email_Dao\<close>: EmailTemplateDaoMySql and EmailConfigDaoMySql (MailerDaoMySql.ts)
    over tables, with the port validation of the configuration and the \<open>rows[0]\<close>
    read-back that fails on an unknown id (\<open>Missing_Row\<close>); \<open>EmailService.sendMail\<close>
    as an append to an outbox of \<open>'b mail\<close>, from the newest configuration.
  \<^item> \<open>Appointment_Service\<close>: the store of every table (\<open>store\<close>), AppointmentsService
    (server/app/appointment/AppointmentsService.ts) method by method, DAO failures as
    \<open>ClientError 500\<close> or \<open>null\<close>, the ContactsService calls the controllers make, and the
    EmailService wrappers of the e-mail DAOs.
  \<^item> \<open>Appointment_Controller\<close>: AppointmentsControllers (appointment/controller.ts)
    handler by handler.  A handler maps a request and the store to a result
    \<open>ctl_result\<close>: the response (\<open>Http status body\<close>) or the error passed to
    \<open>next\<close> (\<open>next_error\<close>), the new store, and the outbox.  The mail bodies are
    the datatype \<open>mail_text\<close>; file upload, password hashing, date formatting and the
    frontend URL are the parameters \<open>ctl_env\<close>.  \<open>try_catch_error_decorator\<close> is
    \<open>@tryCatchErrorDecorator\<close>, which turns a thrown error into the \<open>Inl\<close> passed to
    \<open>next\<close>.
  \<^item> \<open>User_Dao\<close>: UserDaoMySql, the \<open>users\<close> table (\<open>addUser\<close>,
    \<open>getUserByEmail\<close>) and the \<open>reset_tokens\<close> table (\<open>addToken\<close>, \<open>getToken\<close>,
    \<open>deleteToken\<close>).
  \<^item> \<open>Db_Pool\<close>: the connection layer, \<open>getMySQLConfig\<close> and the pool singleton of
    database-client/src/mysqlClient.ts as a state machine (\<open>pool_step\<close> over the
    events \<open>Get_Pool\<close>, \<open>Init_Ok\<close>, \<open>Init_Fail\<close>, \<open>Close_Pool\<close>; the inductive
    \<open>pool_reachable\<close> with the invariant \<open>pool_wf\<close> proved by rule induction), and the
    service containers built when server/app/clients/index.ts is loaded (through
    \<open>getMySQL\<close>), \<open>getService\<close>/\<open>getServiceKalender\<close>, and \<open>injectService\<close>, which picks
    the container by the \<open>x-user-role\<close> header.
  \<^item> \<open>Contact_Controller\<close>: ContactsControllers (contact/controller.ts) on the same
    store: the \<open>for\<close> loops of \<open>updateContact\<close> and \<open>deleteContact\<close> over the
    contact's appointments as the recursive functions \<open>archive_appointments\<close> and
    \<open>delete_appointments\<close>, and \<open>sendContactCredentials\<close> with its mail.
  \<^item> \<open>Frontend_Pages\<close>: the two React pages of src/booking-frontend-main that call
    the backend: the appointment calendar (pages/Appointment/index.tsx: \<open>onSelectDate\<close>,
    the slot list \<open>formattedSlots\<close>, the calendar events and resources) with the
    browser's time zone as a fixed offset, and the contact list
    (pages/Contact/index.tsx: its paging state, \<open>fetchData\<close> over
    \<open>Contact_Controller.get_contacts_ctl\<close>, \<open>componentDidUpdate\<close>, search, paging and
    \<open>onArchiveContact\<close>).
  \<^item> \<open>Appointment_Page\<close>: the appointment calendar page as a state machine: the
    record \<open>appointment_page\<close> of its state, the user actions as the datatype
    \<open>page_event\<close>, the handlers (\<open>page_handle\<close>, with the slot list's \<open>click_slot\<close>
    that reads a label back as a local date-time string), the requests of
    \<open>componentDidUpdate\<close> (\<open>page_requests\<close>), and the inductive \<open>page_reachable\<close>
    with the invariant \<open>page_wf\<close> proved by rule induction.
  \<^item> \<open>Contact_Page\<close>: the modals and row actions of the contact list
    (\<open>onDeleteContact\<close>, the contact form's \<open>onFinish\<close>, the password reset and the
    import) composed with the contact controller on the store, and
    \<open>generatePassword\<close> of src/booking-frontend-main/src/utils.ts with the random draws
    as a parameter.
  \<^item> \<open>Express_App\<close>: the middleware stack of server/app/app.ts in installation
    order, the port and Firebase settings, the location-aware route, and the
    dispatch of a request to the first middleware that answers it.
  \<^item> \<open>Encryption\<close>: server/utils/encryption.ts, AES-256-CTR over \<open>8 word\<close> bytes with
    the block cipher and the hash as parameters, Node's hexadecimal \<open>Buffer\<close>
    conversions, \<open>getEncryptionKey\<close>, \<open>encrypt\<close> and \<open>decrypt\<close> with their errors.
  \<^item> \<open>Email_Transport\<close>: \<open>EmailService.sendMail\<close> down to the transport (a parameter):
    the stored password is decrypted before the message is handed over; it refines the
    outbox model \<open>send_mail\<close> of \<open>Email_Dao\<close>.

  \<^emph>\<open>What is proved.\<close>  The slot loop refines the abstract windows when the rule
  ends before midnight can be crossed (C1) and then returns correct slots (C2); when
  the loop's hour-and-minute guard wraps past midnight it may never return (C3).  The
  conflict filter leaves no slot that overlaps a Confirmed appointment (C5), keeps
  every slot that none overlaps (C6), and lets unconfirmed appointments through (C7).
  The whole query \<open>get_time_slots\<close> returns only slots of the requested day's rules
  that last the service duration and overlap no fetched Confirmed booking (C11), and
  returns whenever the rules cannot wrap (C12); on a database without weekly rules it
  returns no slot whatever date ranges the certain rules cover (C13).  The Excel
  export fails on every day that has an appointment (C8).  The booking endpoint
  answers every complete form with 200 (C9, a progress property), but writes the
  contact before it validates the form (C10); every 200 answer carries the created
  appointment with the contact it names, and the appointment reads back from the new
  store (C16).  \<open>decrypt\<close> inverts \<open>encrypt\<close> for every block cipher (C4); because
  no code path encrypts the stored SMTP password while \<open>sendMail\<close> decrypts it, a
  configuration with a plain password sends no mail at all (C14).  The distance is
  symmetric (C15).  Location scoring never scores without a geocoder (C18); when the
  customer resolves, a slot is optimal exactly when some booked contact of the day
  lies within 5 km (C19).  Deleting a contact deletes exactly its appointments first
  and reports their number (C17); updating a contact sets the form's \<open>archived\<close> flag
  on exactly that contact's appointments and changes nothing else in them (C27).  In
  the frontend archiving a contact from the list flips its flag and gives all its
  appointments the new flag (C20), a day picked west of UTC asks for the next UTC
  day's slots (C21), the contact list's refetch loop settles after one extra request
  (C22), a click on the slot list opens the booking form shifted by the zone offset
  (C24), in every reachable state of the calendar page the booking form is open
  exactly when a slot is selected (C28), and \<open>generatePassword\<close> meets its policy
  for every sequence of random draws (C36).  The schedule DAO returns what it stores
  (C23) and keeps its table well formed under every sequence of writes (C25).  Each
  call of \<open>getMySQLPool\<close> made before a pool's connection check succeeds opens another
  pool, so loading the service containers opens two (C26).  The contact search counts
  exactly the contacts one of whose columns contains the term up to case (C29), and a
  term of \<open>n\<close> underscores counts the contacts with a column of at least \<open>n\<close>
  characters (C30).  \<open>addAppointment\<close> returns what \<open>getAppointmentById\<close> then reads
  (C31), but for an unknown contact fails after inserting an orphan row (C32); on every
  day but 31 December the reminder query returns only appointments of other years,
  never tomorrow's (C33); \<open>getContactsWithAppointments\<close> throws on every database
  with a contact, because it hands the array mysql2 has parsed to \<open>JSON.parse\<close> (C34).
  \<open>addCategory\<close> is atomic and keeps the catalogue well formed (C35).  Every request
  answered by the Express application has passed the rate limiter and the JSON body
  parser (C37).

  Kept as lemmas of their theories: a rule whose slots run past midnight
  (\<open>late_rule_overruns\<close>), a booking past midnight that blocks nothing
  (\<open>overnight_booking_not_blocking\<close>), the flag computed from the unrounded
  distance, the district \<open>7km\<close> read as 7, the unresolvable out-of-range district, the
  unresolved customer left unscored and the refusal of districts outside 1--23; the
  refusal of a schedule with a missing field and the paging of \<open>getSchedules\<close>;
  spec examples 6, 7 and 10, the zero distance of a point to itself, the bounds of
  the distance over the reals (which do not hold in double precision), the arc length
  on the equator and the results of \<open>updateSchedule\<close> and \<open>deleteSchedule\<close>; the
  e-mail DAOs keep their tables well formed and store only ports in 1--65535, and the
  full \<open>sendMail\<close> refines the outbox model; a new user reads back by its e-mail, and
  a deleted reset token can no longer be read while the other tokens stay; customers
  and staff are served through different pools; the stale total of the contact list
  after a search without matches, the delete message that reports success exactly for
  an existing contact, the reset modal that reports an error for every answer of
  \<open>sendContactCredentials\<close>, and the calendar's event position twice the zone offset
  away from UTC; the empty plaintext that \<open>decrypt\<close> makes of a non-hexadecimal
  ciphertext; the joined appointment reads of the DAO projected to the availability
  model's join (\<open>join_records_refines\<close>); the reminder scenario of June 2024; the
  error handler last in the Express stack and the upload limit of about 4.8 TiB.

  \<^emph>\<open>Modelling choices.\<close>  Instants are integers (ms, UTC); the server's local time
  zone is taken to be UTC (the code mixes \<open>toLocaleDateString\<close> and UTC getters).
  \<open>Date\<close> values beyond the ECMAScript range are not modelled.  \<open>Number\<close> is
  modelled on blank and decimal-digit strings; other numeric syntaxes (signs,
  fractions, exponents, hexadecimal) are read as \<open>NaN\<close> by the model.  Slot
  boundaries, stored by the code as ISO strings and parsed back, are kept as instants.
  The service duration is an integer number of minutes.  Distances are real numbers
  (IEEE rounding is not modelled, so only properties that also hold in double
  precision, such as symmetry, are claimed); \<open>Math.atan2\<close> is given by its quadrant
  definition and \<open>toFixed(2)\<close> rounds halves away from zero.  The slot loop needs no
  fuel: it is a partial function whose \<open>None\<close> is non-termination, and C12 proves it
  returns under the stated hypothesis.  Every other loop of the DAOs is structural
  recursion over a list.  A table is its rows in insertion order with the
  \<open>AUTO_INCREMENT\<close> counter; \<open>ORDER BY created_at DESC\<close> is the reverse insertion
  order, \<open>ORDER BY id\<close> the insertion order, and a query without \<open>ORDER BY\<close> returns
  table order (one of the orders MySQL may choose).  Ids are canonical decimal strings,
  compared as strings (MySQL's numeric conversion of, say, \<open>'01'\<close> is not modelled).
  String comparison and \<open>LIKE\<close> fold ASCII case only.  A request field is
  \<open>None\<close> when it is \<open>undefined\<close>; an explicit \<open>null\<close> in a request is not
  modelled.  JSON columns arrive parsed, as mysql2 delivers them; where the code
  passes such a value to \<open>JSON.parse\<close> (\<open>getContactsWithAppointments\<close>), the model
  converts it to a string as JavaScript does and applies the first-token check of the
  JSON grammar.  Timestamps \<open>created_at\<close>/\<open>updated_at\<close>
  are not modelled.  The controllers' \<open>await\<close>s run one after the other, so a
  handler is a sequence of store updates; the mails are appended in the order the code
  sends them, and a failing transport (caught and logged by the code) is not modelled.
  \<open>ContactsService\<close> and \<open>ClientError\<close> are not in the sources and are modelled
  after the sibling services.

  The frontend's browser zone is a fixed offset in minutes (daylight saving is not
  modelled); a JavaScript string is identified with its UTF-8 bytes, one \<open>char\<close> per
  byte, where \<open>encrypt\<close> and \<open>decrypt\<close> convert between the two.

  \<^emph>\<open>Not modelled.\<close>  The routers and the remaining controllers and services
  (category, calendar, schedule, email, user), which are not part of the sources (only
  the location-aware route, server/app/schedule/locationAwareResource.ts, is, and it
  only registers the modelled endpoint); \<open>syncContacts\<close>, which only runs a
  database backup; the rendering, the modal components, export and synchronisation of
  the React frontend and its other pages, and the Redux actions between the pages and
  the server (taken to resolve with the response body); the seed script
  (scripts/reset-and-seed-db.ts), which is I/O over non-ASCII literal data; the
  diagnostic scripts (scripts/check-*.ts, test-query.ts), which only print query
  results; server/index.ts, which starts the listener, and server/app/dbbackup.ts, which runs a scheduled mysqldump; the
  options passed to \<open>mysql2\<close> and
  the unused helpers \<open>mapRowToDocument\<close> and \<open>parseJSON\<close> of mysqlClient.ts; the XLSX
  encoding of the export, the SMTP protocol, the AES and SHA-256 primitives and \<open>LocationAwareService\<close>'s geocoder,
  which are libraries or network calls.
\<close>

section \<open>Properties of the whole availability query\<close>

text \<open>C11. End-to-end soundness of \<open>getTimeSlots\<close>: every slot it returns lasts the
  service duration, starts no earlier than five minutes before now, belongs to the
  calendar of a weekly rule of an active calendar for the date's weekday, and overlaps
  no Confirmed appointment that lies within the day and has a contact row.\<close>

theorem get_time_slots_sound:
  assumes ret: "get_time_slots d date cat sid now = Some slots" and sl: "sl \<in> set slots"
  shows "slot_end sl = slot_start sl + service_duration_for (services d) cat sid * ms_per_minute \<and>
         now - past_tolerance_ms \<le> slot_start sl \<and>
         (\<exists>s \<in> set (schedules d). \<exists>c \<in> set (calendars d). cal_active c \<and> sr_calendar_id s = cal_id c \<and>
            sr_working_hours_type s = ''weekly'' \<and> sr_weekday s = Some (weekday_name date) \<and>
            slot_calendar_id sl = sr_calendar_id s) \<and>
         (\<forall>a \<in> set (appointments d). \<forall>c \<in> set (contacts d).
            a_status a = status_confirmed \<and> a_contact_id a = c_id c \<and>
            utc_day_start date \<le> a_start_date a \<and> a_end_date a \<le> day_end date \<longrightarrow>
            slot_end sl \<le> a_start_date a \<or> a_end_date a \<le> slot_start sl)"
proof -
  let ?dur = "service_duration_for (services d) cat sid"
  let ?rules = "get_schedule_by_date (schedules d) (calendars d) date"
  let ?sel = "if js_truthy_str cat \<and> js_truthy_str sid then filter (allows_service (the sid)) ?rules else ?rules"
  let ?booked = "get_appointments (appointments d) (contacts d) (utc_day_start date) (day_end date)"
  from ret sl obtain gen where gen: "calculate_time_slots ?sel date ?dur = Some gen"
    and kept: "sl \<in> set (filter_booked_appointments gen ?booked)"
    and future: "now - past_tolerance_ms \<le> slot_start sl"
    by (auto simp: get_time_slots_def Let_def filter_future_def split: if_splits Option.bind_splits)
  from kept have in_gen: "sl \<in> set gen" using filter_booked_subset by blast
  from calculate_time_slots_result [OF gen in_gen] obtain s' where
    s': "s' \<in> set ?sel" "is_weekly_on (weekday_name date) s' \<or> is_certain_on date s'"
    and dur: "slot_end sl = slot_start sl + ?dur * ms_per_minute" and cal: "slot_calendar_id sl = calendar_id s'"
    by blast
  from s'(1) have "s' \<in> set ?rules" by (auto split: if_splits)
  from weekly_rule_of_schedule_query [OF this s'(2)] cal
  have rule: "\<exists>s \<in> set (schedules d). \<exists>c \<in> set (calendars d). cal_active c \<and> sr_calendar_id s = cal_id c \<and>
            sr_working_hours_type s = ''weekly'' \<and> sr_weekday s = Some (weekday_name date) \<and>
            slot_calendar_id sl = sr_calendar_id s" by auto
  have "slot_end sl \<le> a_start_date a \<or> a_end_date a \<le> slot_start sl"
    if "a \<in> set (appointments d)" "c \<in> set (contacts d)" "a_status a = status_confirmed"
       "a_contact_id a = c_id c" "utc_day_start date \<le> a_start_date a" "a_end_date a \<le> day_end date" for a c
  proof -
    have "map_appointment_with_contact a c \<in> set ?booked"
      using booked_of_day that by blast
    with kept that show ?thesis
      by (auto simp: filter_booked_mem_iff blocks_def map_appointment_with_contact_def)
  qed
  with dur future rule show ?thesis by blast
qed

theorem get_time_slots_sound_witness:
  "get_time_slots (example_db [rule_row ''weekly'' ''16:00'' ''17:00'' (Some ''Monday'') None None] [])
     1704067200000 None None 1704067200000 =
     Some [mk_slot ''1'' ''Anna'' (1704067200000 + 960 * ms_per_minute) (1704067200000 + 1020 * ms_per_minute)] \<and>
   slot_end (mk_slot ''1'' ''Anna'' (1704067200000 + 960 * ms_per_minute) (1704067200000 + 1020 * ms_per_minute)) =
     slot_start (mk_slot ''1'' ''Anna'' (1704067200000 + 960 * ms_per_minute) (1704067200000 + 1020 * ms_per_minute))
       + service_duration_for [] None None * ms_per_minute"
proof -
  have ret: "get_time_slots (example_db [rule_row ''weekly'' ''16:00'' ''17:00'' (Some ''Monday'') None None] [])
     1704067200000 None None 1704067200000 =
     Some [mk_slot ''1'' ''Anna'' (1704067200000 + 960 * ms_per_minute) (1704067200000 + 1020 * ms_per_minute)]"
    by (simp add: get_time_slots_eval)
  from get_time_slots_sound [OF ret, of "mk_slot ''1'' ''Anna'' (1704067200000 + 960 * ms_per_minute) (1704067200000 + 1020 * ms_per_minute)"]
  have "slot_end (mk_slot ''1'' ''Anna'' (1704067200000 + 960 * ms_per_minute) (1704067200000 + 1020 * ms_per_minute)) =
     slot_start (mk_slot ''1'' ''Anna'' (1704067200000 + 960 * ms_per_minute) (1704067200000 + 1020 * ms_per_minute))
       + service_duration_for [] None None * ms_per_minute"
    by simp
  with ret show ?thesis by simp
qed

text \<open>C12. \<open>getTimeSlots\<close> returns whenever the service duration is positive and every
  weekly rule row for the date's weekday satisfies the no-wrap condition of C1; the
  rows of other types never reach the loop (see C13).\<close>

theorem get_time_slots_returns:
  assumes "0 < service_duration_for (services d) cat sid"
    and "\<forall>s \<in> set (schedules d). sr_working_hours_type s = schedule_type_weekly \<and>
        sr_weekday s = Some (weekday_name date) \<longrightarrow>
        rule_no_wrap (service_duration_for (services d) cat sid) (sr_time_from s) (sr_time_to s)"
  shows "\<exists>slots. get_time_slots d date cat sid now = Some slots"
proof (cases "get_schedule_by_date (schedules d) (calendars d) date = []")
  case True
  then show ?thesis by (simp add: get_time_slots_def Let_def)
next
  case False
  let ?rules = "get_schedule_by_date (schedules d) (calendars d) date"
  let ?sel = "if js_truthy_str cat \<and> js_truthy_str sid then filter (allows_service (the sid)) ?rules else ?rules"
  have "set ?sel \<subseteq> set ?rules" by auto
  from calculate_on_schedule_query_returns [OF assms this] obtain r
    where "calculate_time_slots ?sel date (service_duration_for (services d) cat sid) = Some r"
    by blast
  with False show ?thesis by (simp add: get_time_slots_def Let_def)
qed

theorem get_time_slots_returns_witness:
  "\<exists>slots. get_time_slots (example_db [rule_row ''weekly'' ''16:00'' ''17:00'' (Some ''Monday'') None None] [])
     1704067200000 None None 1704067200000 = Some slots"
proof -
  have dur: "0 < service_duration_for (services (example_db [rule_row ''weekly'' ''16:00'' ''17:00'' (Some ''Monday'') None None] [])) None None"
    by (simp add: service_duration_for_def js_truthy_str_def default_service_duration_def)
  have rows: "\<forall>s \<in> set (schedules (example_db [rule_row ''weekly'' ''16:00'' ''17:00'' (Some ''Monday'') None None] [])).
      sr_working_hours_type s = schedule_type_weekly \<and> sr_weekday s = Some (weekday_name 1704067200000) \<longrightarrow>
      rule_no_wrap (service_duration_for (services (example_db [rule_row ''weekly'' ''16:00'' ''17:00'' (Some ''Monday'') None None] [])) None None)
        (sr_time_from s) (sr_time_to s)"
    by (simp add: rule_no_wrap_def parse_time_eval stop_minute_def service_duration_for_def
        js_truthy_str_def default_service_duration_def)
  show ?thesis using get_time_slots_returns [OF dur rows] .
qed

text \<open>C13. Certain (date-range) rules never produce slots: the schedule query does not
  select \<open>date_from\<close>/\<open>date_to\<close>, and \<open>calculateTimeSlots\<close> requires both.  So
  on a database without weekly rules \<open>getTimeSlots\<close> returns the empty list for
  every date, category and service, whatever date ranges the certain rules cover,
  where the spec (section 4.1) says a certain rule applies on the days of its range.\<close>

theorem certain_rule_never_offered:
  assumes "\<forall>s \<in> set (schedules d). sr_working_hours_type s \<noteq> schedule_type_weekly"
  shows "get_time_slots d date cat sid now = Some []"
proof -
  let ?rules = "get_schedule_by_date (schedules d) (calendars d) date"
  let ?sel = "if js_truthy_str cat \<and> js_truthy_str sid then filter (allows_service (the sid)) ?rules else ?rules"
  have "set ?sel \<subseteq> set ?rules" by auto
  from calculate_on_schedule_query_empty [OF assms this]
  show ?thesis by (simp add: get_time_slots_def Let_def filter_future_def)
qed

theorem certain_rule_never_offered_witness:
  "get_time_slots (example_db [rule_row ''certain'' ''08:00'' ''17:00'' None (Some 1703980800000) (Some 1704153600000)] [])
     1704067200000 None None 1704067200000 = Some []"
  by (rule certain_rule_never_offered) (simp add: schedule_type_weekly_def)

text \<open>An appointment that starts on the day but ends after midnight is not fetched
  (the query asks \<open>end_date <= 23:59:59.999\<close>), so it blocks nothing: with a rule
  20:00--23:00 and a Confirmed appointment of the same calendar from 22:00 to 00:30,
  the slot 22:00--23:00 is still offered although it overlaps the appointment.\<close>

theorem overnight_booking_not_blocking:
  "get_time_slots (example_db [rule_row ''weekly'' ''20:00'' ''23:00'' (Some ''Monday'') None None]
     [\<lparr>a_id = ''9'', a_calendar_id = ''1'', a_contact_id = ''5'', a_start_date = 1704067200000 + 1320 * ms_per_minute,
       a_end_date = 1704067200000 + 1470 * ms_per_minute, a_status = ''Confirmed''\<rparr>])
     1704067200000 None None 1704067200000 =
   Some [mk_slot ''1'' ''Anna'' (1704067200000 + 1200 * ms_per_minute) (1704067200000 + 1260 * ms_per_minute),
         mk_slot ''1'' ''Anna'' (1704067200000 + 1260 * ms_per_minute) (1704067200000 + 1320 * ms_per_minute),
         mk_slot ''1'' ''Anna'' (1704067200000 + 1320 * ms_per_minute) (1704067200000 + 1380 * ms_per_minute)]"
  by (simp add: get_time_slots_eval)

end
